(* ===== verification/Prelude.thy ===== *)
theory Prelude
  imports Main "HOL-Library.Word" "HOL-Library.State_Monad"
begin

text \<open>
  Shared vocabulary of the development: the machine integers of the code as words, C's
  truncating division, memory buffers with an out-of-bounds monitor, and the state-monad
  combinators in which every effectful operation of the code is written.  The collection
  \<open>run_simps\<close> gathers the symbolic-execution lemmas: one equation
  \<open>run_state (op \<dots>) s = (result, new state)\<close> per operation.
\<close>

unbundle bit_operations_syntax

named_theorems run_simps \<open>symbolic execution of the modelled operations\<close>
named_theorems trace_simps \<open>what the events of an operation contribute to an abstraction\<close>

type_synonym u8 = "8 word"
type_synonym u16 = "16 word"
type_synonym u32 = "32 word"
type_synonym u64 = "64 word"

section \<open>Integers\<close>

text \<open>C's integer division and remainder, which truncate towards zero.\<close>

definition c_div :: "int \<Rightarrow> int \<Rightarrow> int" where
  "c_div a b = sgn a * sgn b * (\<bar>a\<bar> div \<bar>b\<bar>)"

definition c_mod :: "int \<Rightarrow> int \<Rightarrow> int" where
  "c_mod a b = a - c_div a b * b"

lemma c_div_nonneg [simp]: "0 \<le> a \<Longrightarrow> 0 < b \<Longrightarrow> c_div a b = a div b"
  by (cases "a = 0") (simp_all add: c_div_def)

lemma c_mod_nonneg [simp]: "0 \<le> a \<Longrightarrow> 0 < b \<Longrightarrow> c_mod a b = a mod b"
  by (simp add: c_mod_def minus_div_mult_eq_mod)

lemma c_div_mod: "c_div a b * b + c_mod a b = a"
  by (simp add: c_mod_def)

lemma c_mod_eq_sgn: "c_mod a b = sgn a * (\<bar>a\<bar> mod \<bar>b\<bar>)"
proof -
  have "sgn a * (\<bar>a\<bar> mod \<bar>b\<bar>) = sgn a * \<bar>a\<bar> - sgn a * ((\<bar>a\<bar> div \<bar>b\<bar>) * \<bar>b\<bar>)"
    by (simp add: minus_div_mult_eq_mod [symmetric] right_diff_distrib)
  also have "\<dots> = a - sgn a * (\<bar>a\<bar> div \<bar>b\<bar>) * (sgn b * b)"
    by (simp add: mult.assoc mult_sgn_abs) (simp add: abs_sgn [of b])
  finally show ?thesis by (simp add: c_mod_def c_div_def mult.assoc mult.left_commute)
qed

lemma abs_c_mod_less: "b \<noteq> 0 \<Longrightarrow> \<bar>c_mod a b\<bar> < \<bar>b\<bar>"
  by (simp add: c_mod_eq_sgn abs_mult abs_sgn_eq)

lemma int_less_uint [simp]: "int n < uint w \<longleftrightarrow> n < unat w"
  and uint_less_int [simp]: "uint w < int n \<longleftrightarrow> unat w < n"
  unfolding uint_nat by (rule of_nat_less_iff)+

section \<open>Text\<close>

text \<open>A number in decimal, as \<open>%d\<close> and a stringified \<open>__LINE__\<close> print it.\<close>

fun decimal :: "nat \<Rightarrow> string" where
  "decimal n = (if n < 10 then [char_of (48 + n)] else decimal (n div 10) @ [char_of (48 + n mod 10)])"

declare decimal.simps [simp del]

section \<open>Lists as memory\<close>

text \<open>\<open>patch buf xs\<close> is the buffer \<open>buf\<close> after the bytes \<open>xs\<close> were stored at its start.\<close>

definition patch :: "'a list \<Rightarrow> 'a list \<Rightarrow> 'a list" where
  "patch buf xs = take (length buf) xs @ drop (length xs) buf"

lemma length_patch [simp]: "length (patch buf xs) = length buf"
  by (simp add: patch_def)

lemma patch_Nil [simp]: "patch buf [] = buf"
  by (simp add: patch_def)

lemma nth_patch: "i < length buf \<Longrightarrow> patch buf xs ! i = (if i < length xs then xs ! i else buf ! i)"
  by (auto simp: patch_def nth_append min_def)

lemma patch_snoc:
  "length xs < length buf \<Longrightarrow> (patch buf xs)[length xs := x] = patch buf (xs @ [x])"
  by (rule nth_equalityI) (auto simp: nth_patch nth_list_update nth_append)

lemma patch_full: "length xs = length buf \<Longrightarrow> patch buf xs = xs"
  by (simp add: patch_def)

section \<open>State monad\<close>

abbreviation return :: "'a \<Rightarrow> ('s, 'a) state" where
  "return \<equiv> State_Monad.return"

abbreviation skip :: "('s, unit) state" where
  "skip \<equiv> State_Monad.return ()"

definition gets :: "('s \<Rightarrow> 'a) \<Rightarrow> ('s, 'a) state" where
  "gets f = State (\<lambda>s. (f s, s))"

definition modify :: "('s \<Rightarrow> 's) \<Rightarrow> ('s, unit) state" where
  "modify f = State (\<lambda>s. ((), f s))"

definition when_do :: "bool \<Rightarrow> ('s, unit) state \<Rightarrow> ('s, unit) state" where
  "when_do b m = (if b then m else skip)"

text \<open>The final state of a run, for operations whose result is not looked at.\<close>

definition exec :: "('s, 'a) state \<Rightarrow> 's \<Rightarrow> 's" where
  "exec m s = snd (run_state m s)"

definition result :: "('s, 'a) state \<Rightarrow> 's \<Rightarrow> 'a" where
  "result m s = fst (run_state m s)"

lemma run_gets [simp, run_simps]: "run_state (gets f) s = (f s, s)"
  by (simp add: gets_def)

lemma run_modify [simp, run_simps]: "run_state (modify f) s = ((), f s)"
  by (simp add: modify_def)

lemma run_when_do [run_simps]: "run_state (when_do b m) s = (if b then run_state m s else ((), s))"
  by (simp add: when_do_def)

lemma when_do_True [simp]: "when_do True m = m" and when_do_False [simp]: "when_do False m = skip"
  by (simp_all add: when_do_def)

lemma exec_bind [simp]: "exec (State_Monad.bind m f) s = exec (f (result m s)) (exec m s)"
  by (simp add: exec_def result_def split_beta)

lemma result_bind [simp]: "result (State_Monad.bind m f) s = result (f (result m s)) (exec m s)"
  by (simp add: exec_def result_def split_beta)

lemma exec_return [simp]: "exec (return x) s = s" and result_return [simp]: "result (return x) s = x"
  by (simp_all add: exec_def result_def)

lemma exec_gets [simp]: "exec (gets f) s = s" and result_gets [simp]: "result (gets f) s = f s"
  by (simp_all add: exec_def result_def)

lemma exec_modify [simp]: "exec (modify f) s = f s"
  by (simp add: exec_def)

text \<open>A \<open>for\<close> loop over a list of indices, run for its effect.\<close>

fun for_each :: "'i list \<Rightarrow> ('i \<Rightarrow> ('s, unit) state) \<Rightarrow> ('s, unit) state" where
  "for_each [] body = skip"
| "for_each (i # is) body = do { body i; for_each is body }"

lemma for_each_append: "for_each (xs @ ys) body = do { for_each xs body; for_each ys body }"
  by (induction xs) simp_all

text \<open>Loop invariant rule: what every iteration keeps, the loop keeps.\<close>

lemma for_each_invariant:
  assumes "P s" and "\<And>i t. i \<in> set is \<Longrightarrow> P t \<Longrightarrow> P (exec (body i) t)"
  shows "P (exec (for_each is body) s)"
  using assms by (induction "is" arbitrary: s) simp_all

lemma for_each_skip:
  assumes "\<And>i t. i \<in> set is \<Longrightarrow> body i = skip"
  shows "for_each is body = skip"
  using assms by (induction "is") simp_all

end
