(* ===== verification/Platform.thy ===== *)
theory Platform
  imports Prelude
begin

text \<open>
  The boundary between the modelled code and what it calls but does not contain: the Pico SDK,
  FreeRTOS, lwIP sockets and the hardware behind them.  Every such call is an \<open>event\<close> with
  its arguments, appended to the \<open>trace\<close> of the program state; whatever the environment
  answers is a component of the record \<open>env\<close>, a function of the whole history of calls.  No
  definition is made up for external code: a theorem holds for every environment, or names what
  it needs of it (documented behaviour) as a hypothesis.

  Pointers to byte buffers are \<open>u8 list option\<close> (\<open>None\<close> for \<open>nullptr\<close>), handles and
  addresses are \<open>nat\<close> with 0 for null.  The flag \<open>ub\<close> of the state is raised by an
  access of the modelled code outside a buffer.
\<close>

section \<open>Calls leaving the program\<close>

type_synonym bytes_ptr = "u8 list option"

datatype gpio_function = GPIO_FUNC_SIO | GPIO_FUNC_SPI

datatype irq_line = DMA_IRQ_0 | DMA_IRQ_1 | IO_IRQ_BANK0

datatype isr = Dma_handler0 | Dma_handler1

datatype dma_size = DMA_SIZE_8 | DMA_SIZE_16

text \<open>The settings the code applies to a \<open>dma_channel_config\<close>, in order.\<close>

datatype dma_setting =
    Default_config u32
  | Transfer_data_size dma_size
  | Dreq u32
  | Read_increment bool
  | Write_increment bool

datatype dma_addr = Null_addr | Spi_data_register nat

datatype gpio_call =
    Gpio_init u32
  | Gpio_set_function u32 gpio_function
  | Gpio_set_dir u32 bool
  | Gpio_put u32 bool
  | Gpio_set_pulls u32 bool bool
  | Gpio_get u32
  | Gpio_set_irq_callback
  | Gpio_set_irq_enabled u32 u32 bool
  | Irq_set_enabled irq_line bool
  | Irq_set_exclusive_handler irq_line isr

datatype dma_call =
    Dma_claim_unused_channel bool
  | Dma_get_irq0_status u8
  | Dma_acknowledge_irq0 u8
  | Dma_set_irq0_enabled int bool
  | Dma_set_irq1_enabled int bool
  | Dma_channel_configure u32 "dma_setting list" dma_addr dma_addr u32 bool
  | Dma_set_read_addr u32 bytes_ptr bool
  | Dma_set_write_addr u32 bytes_ptr bool
  | Dma_set_transfer_count u32 u16 bool
  | Dma_start_channel_mask u32

datatype spi_call =
    Spi_init nat u32
  | Spi_set_format nat nat nat nat nat
  | Spi_write_read_blocking nat bytes_ptr bytes_ptr u16
  | Spi_write16_read16_blocking nat bytes_ptr bytes_ptr u16

datatype rtos_call =
    XSemaphoreCreateRecursiveMutex
  | XSemaphoreCreateBinary
  | XSemaphoreCreateCounting u32 u32
  | XSemaphoreTake nat u32
  | XSemaphoreTakeRecursive nat u32
  | XSemaphoreGive nat
  | XSemaphoreGiveRecursive nat
  | XSemaphoreGiveFromISR nat
  | PortYIELD_FROM_ISR bool
  | ConfigASSERT bool
  | VTaskDelay u32
  | XTaskCreate "u8 list" u32 u32
  | VTaskDelete nat
  | VQueueDelete nat
  | VSemaphoreDelete nat
  | UxTaskGetStackHighWaterMark nat
  | PvPortMalloc nat
  | VPortFree nat

datatype time_call =
    Time_us_64
  | Get_absolute_time
  | To_us_since_boot u64
  | Sleep_us u64

text \<open>The lwIP socket calls; addresses are family, port and address, in network byte order.\<close>

type_synonym sockaddr_in = "nat \<times> u16 \<times> u32"

datatype sock_call =
    Socket
  | Bind int sockaddr_in
  | Close int
  | Sendto int "u8 list" nat sockaddr_in
  | Setsockopt_rcvtimeo int int int
  | Recv int nat

datatype event =
    Gpio gpio_call
  | Dma dma_call
  | Spi spi_call
  | Rtos rtos_call
  | Time time_call
  | Sock sock_call

section \<open>The environment\<close>

text \<open>
  The answers of the external code.  Each takes the trace up to and including the call that is
  answered.  \<open>NUM_DMA_CHANNELS\<close>, \<open>portMAX_DELAY\<close>, \<open>configMAX_TASK_NAME_LEN\<close> and the
  size of \<open>StackType_t\<close> are configuration of the SDK and of FreeRTOS;
  \<open>pdMS_TO_TICKS\<close> and \<open>spi_get_dreq\<close> are a macro and a function of theirs.
\<close>

record env =
  NUM_DMA_CHANNELS :: nat
  portMAX_DELAY :: u32
  configMAX_TASK_NAME_LEN :: nat
  sizeof_StackType :: nat
  pdMS_TO_TICKS :: "u32 \<Rightarrow> u32"
  spi_get_dreq :: "nat \<Rightarrow> bool \<Rightarrow> u32"
  dma_claim_answer :: "event list \<Rightarrow> int"
  irq0_status_answer :: "event list \<Rightarrow> u8 \<Rightarrow> bool"
  gpio_get_answer :: "event list \<Rightarrow> bool"
  handle_answer :: "event list \<Rightarrow> nat"
  woken_answer :: "event list \<Rightarrow> bool \<Rightarrow> bool"
  GPIO_IRQ_EDGE_FALL :: u32
  uninit_answer :: "event list \<Rightarrow> bool"
  spi_answer :: "event list \<Rightarrow> u16"
  miso :: "event list \<Rightarrow> nat \<Rightarrow> u8"
  task_create_answer :: "event list \<Rightarrow> bool \<times> nat"
  high_water_answer :: "event list \<Rightarrow> u32"
  clock_answer :: "event list \<Rightarrow> u64"

section \<open>The program state every component extends\<close>

record world =
  trace :: "event list"
  ub :: bool

definition emit :: "event \<Rightarrow> ('a world_scheme, unit) state" where
  "emit e = State (\<lambda>s. ((), s\<lparr>trace := trace s @ [e]\<rparr>))"

definition ask :: "(event list \<Rightarrow> 'r) \<Rightarrow> ('a world_scheme, 'r) state" where
  "ask f = State (\<lambda>s. (f (trace s), s))"

definition raise_ub :: "bool \<Rightarrow> ('a world_scheme, unit) state" where
  "raise_ub b = State (\<lambda>s. ((), s\<lparr>ub := ub s \<or> b\<rparr>))"

definition call :: "event \<Rightarrow> (event list \<Rightarrow> 'r) \<Rightarrow> ('a world_scheme, 'r) state" where
  "call e f = do { emit e; ask f }"

lemma run_emit [simp, run_simps]: "run_state (emit e) s = ((), s\<lparr>trace := trace s @ [e]\<rparr>)"
  by (simp add: emit_def)

lemma run_ask [simp, run_simps]: "run_state (ask f) s = (f (trace s), s)"
  by (simp add: ask_def)

lemma run_raise_ub [simp, run_simps]: "run_state (raise_ub b) s = ((), s\<lparr>ub := ub s \<or> b\<rparr>)"
  by (simp add: raise_ub_def)

lemma run_call [simp, run_simps]:
  "run_state (call e f) s = (f (trace s @ [e]), s\<lparr>trace := trace s @ [e]\<rparr>)"
  by (simp add: call_def)

lemma exec_emit [simp]: "exec (emit e) s = s\<lparr>trace := trace s @ [e]\<rparr>"
  and exec_ask [simp]: "exec (ask f) s = s"
  and exec_raise_ub [simp]: "exec (raise_ub b) s = s\<lparr>ub := ub s \<or> b\<rparr>"
  and exec_call [simp]: "exec (call e f) s = s\<lparr>trace := trace s @ [e]\<rparr>"
  by (simp_all add: exec_def)

lemma result_ask [simp]: "result (ask f) s = f (trace s)"
  and result_call [simp]: "result (call e f) s = f (trace s @ [e])"
  by (simp_all add: result_def)

text \<open>
  What a run appends to the trace.  \<open>appends m s\<close> is meaningful because no operation removes
  events; \<open>grows\<close> states that and is closed under the combinators.
\<close>

definition appends :: "('a world_scheme, 'r) state \<Rightarrow> 'a world_scheme \<Rightarrow> event list" where
  "appends m s = drop (length (trace s)) (trace (exec m s))"

definition grows :: "('a world_scheme, 'r) state \<Rightarrow> bool" where
  "grows m \<longleftrightarrow> (\<forall>s. \<exists>es. trace (exec m s) = trace s @ es)"

lemma grows_trace: "grows m \<Longrightarrow> trace (exec m s) = trace s @ appends m s"
  unfolding grows_def appends_def by (metis append_eq_conv_conj)

lemma grows_return [simp, intro]: "grows (return x)"
  by (simp add: grows_def)

lemma grows_emit [simp, intro]: "grows (emit e)"
  by (simp add: grows_def exec_def)

lemma grows_call [simp, intro]: "grows (call e f)"
  by (simp add: grows_def exec_def)

lemma grows_gets [simp, intro]: "grows (gets f)"
  by (simp add: grows_def)

lemma grows_bind [intro]:
  assumes "grows m" and "\<And>x. grows (f x)"
  shows "grows (State_Monad.bind m f)"
  unfolding grows_def
proof
  fix s
  obtain es where "trace (exec m s) = trace s @ es"
    using assms(1) unfolding grows_def by blast
  moreover obtain es' where "trace (exec (f (result m s)) (exec m s)) = trace (exec m s) @ es'"
    using assms(2) unfolding grows_def by blast
  ultimately show "\<exists>es. trace (exec (State_Monad.bind m f) s) = trace s @ es"
    by simp
qed

section \<open>Memory accesses of the modelled code\<close>

text \<open>
  \<open>buf[i]\<close> read and written.  Out of range the C code has undefined behaviour: the monitor is
  raised and the value read is arbitrary (0 here, never relied on).
\<close>

definition mem_load :: "u8 list \<Rightarrow> nat \<Rightarrow> ('a world_scheme, u8) state" where
  "mem_load buf i = do { raise_ub (length buf \<le> i); return (if i < length buf then buf ! i else 0) }"

definition mem_store :: "u8 list \<Rightarrow> nat \<Rightarrow> u8 \<Rightarrow> ('a world_scheme, u8 list) state" where
  "mem_store buf i v = do { raise_ub (length buf \<le> i); return (buf[i := v]) }"

lemma run_mem_load [run_simps]:
  "run_state (mem_load buf i) s =
     (if i < length buf then buf ! i else 0, s\<lparr>ub := ub s \<or> length buf \<le> i\<rparr>)"
  by (simp add: mem_load_def)

lemma run_mem_store [run_simps]:
  "run_state (mem_store buf i v) s = (buf[i := v], s\<lparr>ub := ub s \<or> length buf \<le> i\<rparr>)"
  by (simp add: mem_store_def)

end
