(* ===== verification/Callbacks.thy ===== *)
theory Callbacks
  imports Prelude
begin

text \<open>
  The interface shared by the two interrupt callback tables of the program, the per-pin table of
  \<open>source/gpio.cpp\<close> and the per-channel table of \<open>source/dma.cpp\<close>: a table of slots, an
  operation that registers a callback in a slot and a dispatcher that an interrupt runs.  The
  components that provide it interpret the locale on their own definitions.
\<close>

locale callback_table =
  fixes wf :: "'s \<Rightarrow> bool"
    and cap :: nat
    and slot :: "'s \<Rightarrow> nat \<Rightarrow> 'c option"
    and register :: "nat \<Rightarrow> 'c \<Rightarrow> 's \<Rightarrow> 's"
  assumes wf_register: "wf s \<Longrightarrow> i < cap \<Longrightarrow> wf (register i c s)"
    and slot_register: "wf s \<Longrightarrow> i < cap \<Longrightarrow> j < cap \<Longrightarrow>
          slot (register i c s) j = (if j = i then Some c else slot s j)"
begin

lemma slot_register_same: "wf s \<Longrightarrow> i < cap \<Longrightarrow> slot (register i c s) i = Some c"
  by (simp add: slot_register)

lemma register_twice:
  "wf s \<Longrightarrow> i < cap \<Longrightarrow> j < cap \<Longrightarrow>
     slot (register i c (register i d s)) j = slot (register i c s) j"
  by (simp add: slot_register wf_register)

lemma register_commute:
  "wf s \<Longrightarrow> i < cap \<Longrightarrow> j < cap \<Longrightarrow> i \<noteq> j \<Longrightarrow> k < cap \<Longrightarrow>
     slot (register i c (register j d s)) k = slot (register j d (register i c s)) k"
  by (simp add: slot_register wf_register)

text \<open>Registering a list of callbacks: the table answers with the last one of each slot.\<close>

lemma fold_register_wf:
  "wf s \<Longrightarrow> (\<And>i c. (i, c) \<in> set rs \<Longrightarrow> i < cap) \<Longrightarrow> wf (fold (\<lambda>(i, c). register i c) rs s)"
  by (induction rs arbitrary: s) (auto intro: wf_register split: prod.splits)

lemma slot_fold_register:
  assumes "wf s" and "\<And>i c. (i, c) \<in> set rs \<Longrightarrow> i < cap" and "j < cap"
  shows "slot (fold (\<lambda>(i, c). register i c) rs s) j =
           (case map_of (rev rs) j of Some c \<Rightarrow> Some c | None \<Rightarrow> slot s j)"
  using assms
proof (induction rs arbitrary: s)
  case Nil
  then show ?case by simp
next
  case (Cons r rs)
  obtain i c where r: "r = (i, c)" by (cases r)
  from Cons.prems have i: "i < cap" by (auto simp: r)
  have "slot (fold (\<lambda>(i, c). register i c) rs (register i c s)) j =
          (case map_of (rev rs) j of Some c \<Rightarrow> Some c | None \<Rightarrow> slot (register i c s) j)"
    by (rule Cons.IH) (use Cons.prems i in \<open>auto intro: wf_register\<close>)
  then show ?case
    using Cons.prems i by (auto simp: r slot_register map_add_def split: option.splits)
qed

end

text \<open>
  A table with a dispatcher: an interrupt on slot \<open>i\<close> runs what the slot holds, if anything.
\<close>

locale callback_dispatch = callback_table wf cap slot register
  for wf :: "'s \<Rightarrow> bool" and cap :: nat and slot :: "'s \<Rightarrow> nat \<Rightarrow> 'c option"
    and register :: "nat \<Rightarrow> 'c \<Rightarrow> 's \<Rightarrow> 's" +
  fixes dispatch :: "nat \<Rightarrow> 's \<Rightarrow> 's"
    and run :: "'c \<Rightarrow> nat \<Rightarrow> 's \<Rightarrow> 's"
  assumes dispatch_slot: "wf s \<Longrightarrow> i < cap \<Longrightarrow>
      dispatch i s = (case slot s i of Some c \<Rightarrow> run c i s | None \<Rightarrow> s)"
begin

lemma dispatch_registered:
  "wf s \<Longrightarrow> i < cap \<Longrightarrow> dispatch i (register i c s) = run c i (register i c s)"
  by (simp add: dispatch_slot slot_register wf_register)

lemma dispatch_other:
  "wf s \<Longrightarrow> i < cap \<Longrightarrow> j < cap \<Longrightarrow> i \<noteq> j \<Longrightarrow> slot s i = None \<Longrightarrow>
     dispatch i (register j c s) = register j c s"
  by (simp add: dispatch_slot slot_register wf_register)

end

end
