(* ===== verification/Gpio.thy ===== *)
theory Gpio
  imports Platform Callbacks
begin

text \<open>
  \<open>source/gpio.cpp\<close>: the per-pin interrupt callbacks and the single dispatcher installed in the
  SDK.  A \<open>std::function\<close> is a value of a type \<open>'g\<close> (\<open>None\<close> when empty); calling it is
  the parameter \<open>invoke\<close> of the dispatcher, which may change the whole program state.
\<close>

definition kNumGpios :: u32 where
  "kNumGpios = 30"

record 'g gpio_st = world +
  pinCallbacks :: "'g option list"

text \<open>The static array has one entry per pin.\<close>

definition gpio_wf :: "('g, 'a) gpio_st_scheme \<Rightarrow> bool" where
  "gpio_wf s \<longleftrightarrow> length (pinCallbacks s) = unat kNumGpios"

definition irqDispatcher ::
  "('g \<Rightarrow> u32 \<Rightarrow> u32 \<Rightarrow> (('g, 'a) gpio_st_scheme, unit) state) \<Rightarrow> u32 \<Rightarrow> u32
     \<Rightarrow> (('g, 'a) gpio_st_scheme, unit) state" where
  "irqDispatcher invoke gpio events = do {
     cbs \<leftarrow> gets pinCallbacks;
     (if gpio < kNumGpios
      then (case cbs ! unat gpio of
              Some cb \<Rightarrow> invoke cb gpio events
            | None \<Rightarrow> skip)
      else skip)
   }"

definition gpioRegisterIrqCallback ::
  "u32 \<Rightarrow> u32 \<Rightarrow> 'g option \<Rightarrow> (('g, 'a) gpio_st_scheme, unit) state" where
  "gpioRegisterIrqCallback pin events callback =
     (if kNumGpios \<le> pin then skip
      else do {
        modify (\<lambda>s. s\<lparr>pinCallbacks := (pinCallbacks s)[unat pin := callback]\<rparr>);
        emit (Gpio Gpio_set_irq_callback);
        emit (Gpio (Irq_set_enabled IO_IRQ_BANK0 True));
        emit (Gpio (Gpio_set_irq_enabled pin events True))
      })"

definition gpioUnregisterIrqCallback :: "u32 \<Rightarrow> (('g, 'a) gpio_st_scheme, unit) state" where
  "gpioUnregisterIrqCallback pin =
     (if kNumGpios \<le> pin then skip
      else modify (\<lambda>s. s\<lparr>pinCallbacks := (pinCallbacks s)[unat pin := None]\<rparr>))"

section \<open>The registry as a callback table\<close>

lemma unat_kNumGpios [simp]: "unat kNumGpios = 30"
  by (simp add: kNumGpios_def)

lemma pin_bound: "pin < kNumGpios \<longleftrightarrow> unat pin < 30"
  by (simp add: word_less_nat_alt)

lemma run_register [run_simps]:
  "run_state (gpioRegisterIrqCallback pin events cb) s =
     ((), if kNumGpios \<le> pin then s
          else s\<lparr>pinCallbacks := (pinCallbacks s)[unat pin := cb],
                 trace := trace s @ [Gpio Gpio_set_irq_callback,
                   Gpio (Irq_set_enabled IO_IRQ_BANK0 True),
                   Gpio (Gpio_set_irq_enabled pin events True)]\<rparr>)"
  by (simp add: gpioRegisterIrqCallback_def)

lemma run_unregister [run_simps]:
  "run_state (gpioUnregisterIrqCallback pin) s =
     ((), if kNumGpios \<le> pin then s
          else s\<lparr>pinCallbacks := (pinCallbacks s)[unat pin := None]\<rparr>)"
  by (simp add: gpioUnregisterIrqCallback_def)

definition gpio_slot :: "('g, 'a) gpio_st_scheme \<Rightarrow> nat \<Rightarrow> 'g option" where
  "gpio_slot s i = pinCallbacks s ! i"

definition gpio_register :: "u32 \<Rightarrow> nat \<Rightarrow> 'g \<Rightarrow> ('g, 'a) gpio_st_scheme \<Rightarrow> ('g, 'a) gpio_st_scheme" where
  "gpio_register events i cb = exec (gpioRegisterIrqCallback (of_nat i) events (Some cb))"

lemma unat_pin [simp]: "i < 30 \<Longrightarrow> unat (of_nat i :: u32) = i"
  by (simp add: unat_of_nat)

lemma gpio_register_simps:
  "i < 30 \<Longrightarrow> pinCallbacks (gpio_register events i cb s) = (pinCallbacks s)[i := Some cb]"
  by (simp add: gpio_register_def exec_def run_register word_le_nat_alt)

interpretation pins: callback_dispatch
  gpio_wf 30 gpio_slot "gpio_register events"
  "\<lambda>i. exec (irqDispatcher invoke (of_nat i) ev)" "\<lambda>c i. exec (invoke c (of_nat i) ev)"
  for events :: u32 and ev :: u32 and invoke
proof (unfold_locales, goal_cases)
  case (1 s i c)
  then show ?case by (simp add: gpio_wf_def gpio_register_simps)
next
  case (2 s i j c)
  then show ?case by (simp add: gpio_slot_def gpio_wf_def gpio_register_simps)
next
  case (3 s i)
  then have "(of_nat i :: u32) < kNumGpios" by (simp add: pin_bound)
  with 3 show ?case
    by (simp add: irqDispatcher_def gpio_slot_def exec_def split: option.splits)
qed

text \<open>Keeping the table well formed.\<close>

lemma register_wf: "gpio_wf s \<Longrightarrow> gpio_wf (exec (gpioRegisterIrqCallback pin events cb) s)"
  by (simp add: exec_def run_register gpio_wf_def)

lemma unregister_wf: "gpio_wf s \<Longrightarrow> gpio_wf (exec (gpioUnregisterIrqCallback pin) s)"
  by (simp add: exec_def run_unregister gpio_wf_def)

section \<open>Properties\<close>

text \<open>
  C20: After a sequence of registrations on valid pins, an interrupt on a pin runs exactly the
  callback registered last for that pin, with the pin and the event mask of the interrupt; a pin
  nobody registered keeps the callback it had.
\<close>

theorem irq_runs_last_registered:
  assumes "gpio_wf s" and "\<And>i cb. (i, cb) \<in> set regs \<Longrightarrow> i < 30" and "j < 30"
  shows "exec (irqDispatcher invoke (of_nat j) ev)
           (fold (\<lambda>(i, cb). gpio_register events i cb) regs s) =
         (let t = fold (\<lambda>(i, cb). gpio_register events i cb) regs s
          in case map_of (rev regs) j of
               Some cb \<Rightarrow> exec (invoke cb (of_nat j) ev) t
             | None \<Rightarrow> (case pinCallbacks s ! j of
                          Some cb \<Rightarrow> exec (invoke cb (of_nat j) ev) t
                        | None \<Rightarrow> t))"
  using assms
  by (simp add: pins.dispatch_slot pins.fold_register_wf pins.slot_fold_register Let_def
      split: option.splits) (simp add: gpio_slot_def)

text \<open>A closed instance: three registrations, two of them on pin 3, and callbacks that record themselves.\<close>

definition demo_gpio :: "nat gpio_st" where
  "demo_gpio = \<lparr>trace = [], ub = False, pinCallbacks = replicate 30 None\<rparr>"

definition demo_invoke :: "nat \<Rightarrow> u32 \<Rightarrow> u32 \<Rightarrow> (nat gpio_st, unit) state" where
  "demo_invoke cb pin ev = emit (Gpio (Gpio_set_pulls (of_nat cb) (pin = 3) (ev = 4)))"

theorem irq_runs_last_registered_witness:
  "exec (irqDispatcher demo_invoke 3 4)
     (fold (\<lambda>(i, cb). gpio_register 4 i cb) [(3, 7), (5, 8), (3, 9)] demo_gpio) =
   (fold (\<lambda>(i, cb). gpio_register 4 i cb) [(3, 7), (5, 8), (3, 9)] demo_gpio)
     \<lparr>trace := trace (fold (\<lambda>(i, cb). gpio_register 4 i cb) [(3, 7), (5, 8), (3, 9)] demo_gpio)
        @ [Gpio (Gpio_set_pulls 9 True True)]\<rparr>"
  using irq_runs_last_registered
    [of demo_gpio "[(3, 7), (5, 8), (3, 9)]" 3 demo_invoke 4 4]
  by (force simp: demo_gpio_def gpio_wf_def demo_invoke_def exec_def Let_def)

text \<open>
  Unregistering a pin makes every later interrupt on it a no-op and leaves the other pins as
  they were; it calls nothing in the SDK, so the hardware interrupt itself stays enabled.
\<close>

theorem unregister_silences_pin:
  assumes "gpio_wf s" and "pin < kNumGpios"
  shows "exec (irqDispatcher invoke pin ev) (exec (gpioUnregisterIrqCallback pin) s)
           = exec (gpioUnregisterIrqCallback pin) s
       \<and> trace (exec (gpioUnregisterIrqCallback pin) s) = trace s
       \<and> (\<forall>j. j \<noteq> unat pin \<longrightarrow>
            pinCallbacks (exec (gpioUnregisterIrqCallback pin) s) ! j = pinCallbacks s ! j)"
  using assms
  by (auto simp: exec_def run_unregister irqDispatcher_def gpio_wf_def pin_bound word_le_nat_alt)

theorem unregister_silences_pin_witness:
  "exec (irqDispatcher demo_invoke 3 4)
      (exec (gpioUnregisterIrqCallback 3) (demo_gpio\<lparr>pinCallbacks := replicate 30 (Some 1)\<rparr>))
   = exec (gpioUnregisterIrqCallback 3) (demo_gpio\<lparr>pinCallbacks := replicate 30 (Some 1)\<rparr>)"
  using unregister_silences_pin
    [of "demo_gpio\<lparr>pinCallbacks := replicate 30 (Some 1)\<rparr>" 3 demo_invoke 4]
  by (simp add: demo_gpio_def gpio_wf_def kNumGpios_def)

end
