(* ===== verification/Dma.thy ===== *)
theory Dma
  imports Gpio
begin

text \<open>
  \<open>include/dma.h\<close> and \<open>source/dma.cpp\<close>: claiming DMA channels, the per-channel callback list
  and the two interrupt handlers.  A function pointer is a value of a type \<open>'d\<close>; calling it is
  the parameter \<open>invoke\<close>.  The state extends that of \<open>Gpio\<close>: the static data of the translation
  units of the program is collected in one record, one extension per unit.
\<close>

record 'd Callback_t =
  callback :: "'d option"
  param :: nat

record ('g, 'd) dma_st = "'g gpio_st" +
  callbackList :: "'d Callback_t list"

definition dmaIrq1channelStart :: "env \<Rightarrow> u8" where
  "dmaIrq1channelStart E = of_nat (NUM_DMA_CHANNELS E div 2)"

definition dma_wf :: "env \<Rightarrow> ('g, 'd, 'a) dma_st_scheme \<Rightarrow> bool" where
  "dma_wf E s \<longleftrightarrow> length (callbackList s) = NUM_DMA_CHANNELS E"

text \<open>The body of the loop in both handlers.\<close>

definition serve_channel ::
  "env \<Rightarrow> ('d \<Rightarrow> nat \<Rightarrow> (('g, 'd, 'a) dma_st_scheme, unit) state) \<Rightarrow> nat
     \<Rightarrow> (('g, 'd, 'a) dma_st_scheme, unit) state" where
  "serve_channel E invoke c = do {
     pending \<leftarrow> call (Dma (Dma_get_irq0_status (of_nat c))) (\<lambda>t. irq0_status_answer E t (of_nat c));
     e \<leftarrow> gets (\<lambda>s. callbackList s ! c);
     (if pending
      then (case callback e of
              Some f \<Rightarrow> do { invoke f (param e); emit (Dma (Dma_acknowledge_irq0 (of_nat c))) }
            | None \<Rightarrow> skip)
      else skip)
   }"

definition dma_handler0 ::
  "env \<Rightarrow> ('d \<Rightarrow> nat \<Rightarrow> (('g, 'd, 'a) dma_st_scheme, unit) state)
     \<Rightarrow> (('g, 'd, 'a) dma_st_scheme, unit) state" where
  "dma_handler0 E invoke = for_each [0..<unat (dmaIrq1channelStart E)] (serve_channel E invoke)"

definition dma_handler1 ::
  "env \<Rightarrow> ('d \<Rightarrow> nat \<Rightarrow> (('g, 'd, 'a) dma_st_scheme, unit) state)
     \<Rightarrow> (('g, 'd, 'a) dma_st_scheme, unit) state" where
  "dma_handler1 E invoke =
     for_each [unat (dmaIrq1channelStart E)..<NUM_DMA_CHANNELS E] (serve_channel E invoke)"

definition resetCallbackList :: "env \<Rightarrow> (('g, 'd, 'a) dma_st_scheme, unit) state" where
  "resetCallbackList E =
     modify (\<lambda>s. s\<lparr>callbackList := replicate (NUM_DMA_CHANNELS E) \<lparr>callback = None, param = 0\<rparr>\<rparr>)"

text \<open>
  \<open>dma_claim_unused_channel(true)\<close> panics when no channel is free, so what it returns is a
  channel; the store \<open>callbackList[channel]\<close> raises the monitor otherwise.
\<close>

definition enableDma ::
  "env \<Rightarrow> 'd option \<Rightarrow> nat \<Rightarrow> (('g, 'd, 'a) dma_st_scheme, int) state" where
  "enableDma E cb p = do {
     channel \<leftarrow> call (Dma (Dma_claim_unused_channel True)) (dma_claim_answer E);
     (if cb \<noteq> None
      then do {
        n \<leftarrow> gets (\<lambda>s. length (callbackList s));
        raise_ub (channel < 0 \<or> int n \<le> channel);
        modify (\<lambda>s. s\<lparr>callbackList :=
          (callbackList s)[nat channel := \<lparr>callback = cb, param = p\<rparr>]\<rparr>);
        (if channel < int (unat (dmaIrq1channelStart E))
         then do {
           emit (Dma (Dma_set_irq0_enabled channel True));
           emit (Gpio (Irq_set_exclusive_handler DMA_IRQ_0 Dma_handler0));
           emit (Gpio (Irq_set_enabled DMA_IRQ_0 True))
         }
         else do {
           emit (Dma (Dma_set_irq1_enabled channel True));
           emit (Gpio (Irq_set_exclusive_handler DMA_IRQ_1 Dma_handler1));
           emit (Gpio (Irq_set_enabled DMA_IRQ_1 True))
         })
      }
      else skip);
     return channel
   }"

definition DMA_operator_new :: "env \<Rightarrow> nat \<Rightarrow> ('a world_scheme, nat) state" where
  "DMA_operator_new E sz = call (Rtos (PvPortMalloc sz)) (handle_answer E)"

definition DMA_operator_delete :: "nat \<Rightarrow> ('a world_scheme, unit) state" where
  "DMA_operator_delete ptr = emit (Rtos (VPortFree ptr))"

section \<open>Symbolic execution\<close>

definition irq_setup :: "env \<Rightarrow> int \<Rightarrow> event list" where
  "irq_setup E ch =
     (if ch < int (unat (dmaIrq1channelStart E))
      then [Dma (Dma_set_irq0_enabled ch True),
            Gpio (Irq_set_exclusive_handler DMA_IRQ_0 Dma_handler0),
            Gpio (Irq_set_enabled DMA_IRQ_0 True)]
      else [Dma (Dma_set_irq1_enabled ch True),
            Gpio (Irq_set_exclusive_handler DMA_IRQ_1 Dma_handler1),
            Gpio (Irq_set_enabled DMA_IRQ_1 True)])"

abbreviation claim_event :: event where
  "claim_event \<equiv> Dma (Dma_claim_unused_channel True)"

lemma run_enableDma_Some [run_simps]:
  "run_state (enableDma E (Some f) p) s =
     (let ch = dma_claim_answer E (trace s @ [claim_event])
      in (ch, s\<lparr>trace := trace s @ claim_event # irq_setup E ch,
                 ub := ub s \<or> ch < 0 \<or> int (length (callbackList s)) \<le> ch,
                 callbackList := (callbackList s)[nat ch := \<lparr>callback = Some f, param = p\<rparr>]\<rparr>))"
  by (simp add: enableDma_def irq_setup_def Let_def)

lemma run_enableDma_claimed:
  assumes "dma_claim_answer E (trace s @ [claim_event]) = ch"
  shows "run_state (enableDma E (Some f) p) s =
     (ch, s\<lparr>trace := trace s @ claim_event # irq_setup E ch,
             ub := ub s \<or> ch < 0 \<or> int (length (callbackList s)) \<le> ch,
             callbackList := (callbackList s)[nat ch := \<lparr>callback = Some f, param = p\<rparr>]\<rparr>)"
  by (simp add: run_enableDma_Some assms Let_def)

lemma run_enableDma_None [run_simps]:
  "run_state (enableDma E None p) s =
     (dma_claim_answer E (trace s @ [claim_event]), s\<lparr>trace := trace s @ [claim_event]\<rparr>)"
  by (simp add: enableDma_def)

lemma exec_serve_channel:
  "exec (serve_channel E invoke c) s =
     (let s' = s\<lparr>trace := trace s @ [Dma (Dma_get_irq0_status (of_nat c))]\<rparr>
      in if irq0_status_answer E (trace s') (of_nat c)
         then (case callback (callbackList s ! c) of
                 Some f \<Rightarrow>
                   (let t = exec (invoke f (param (callbackList s ! c))) s'
                    in t\<lparr>trace := trace t @ [Dma (Dma_acknowledge_irq0 (of_nat c))]\<rparr>)
               | None \<Rightarrow> s')
         else s')"
  by (simp add: serve_channel_def exec_def Let_def split: option.splits prod.splits)

lemma reset_wf: "dma_wf E (exec (resetCallbackList E) s)"
  by (simp add: resetCallbackList_def dma_wf_def)

lemma enableDma_wf: "dma_wf E s \<Longrightarrow> dma_wf E (exec (enableDma E cb p) s)"
  by (cases cb) (simp_all add: exec_def run_simps dma_wf_def Let_def)

section \<open>The callback list as a callback table\<close>

text \<open>
  A registration in slot \<open>i\<close> is \<open>enableDma\<close> in an environment that hands out channel \<open>i\<close>.
\<close>

definition dma_slot :: "('g, 'd, 'a) dma_st_scheme \<Rightarrow> nat \<Rightarrow> 'd option" where
  "dma_slot s i = callback (callbackList s ! i)"

definition dma_register ::
  "env \<Rightarrow> nat \<Rightarrow> nat \<Rightarrow> 'd \<Rightarrow> ('g, 'd, 'a) dma_st_scheme \<Rightarrow> ('g, 'd, 'a) dma_st_scheme" where
  "dma_register E p i cb = exec (enableDma (E\<lparr>dma_claim_answer := \<lambda>t. int i\<rparr>) (Some cb) p)"

interpretation channels: callback_table "dma_wf E" "NUM_DMA_CHANNELS E" dma_slot "dma_register E p"
  for E :: env and p :: nat
  by unfold_locales
    (simp_all add: dma_wf_def dma_slot_def dma_register_def exec_def run_simps Let_def
      nth_list_update)

section \<open>Properties\<close>

abbreviation poll :: "nat \<Rightarrow> event" where
  "poll c \<equiv> Dma (Dma_get_irq0_status (of_nat c))"

text \<open>
  \<open>enableDma\<close> with a callback returns the claimed channel, stores callback and parameter in
  that channel's slot only, and enables exactly one interrupt line for it: line 0 for the lower half
  of the channels, line 1 for the upper half, each with its own handler.
\<close>

theorem enableDma_registers:
  assumes "dma_wf E s" and "dma_claim_answer E (trace s @ [claim_event]) = int ch"
    and "ch < NUM_DMA_CHANNELS E"
  shows "result (enableDma E (Some f) p) s = int ch
       \<and> callbackList (exec (enableDma E (Some f) p) s) ! ch = \<lparr>callback = Some f, param = p\<rparr>
       \<and> (\<forall>j. j \<noteq> ch \<longrightarrow> callbackList (exec (enableDma E (Some f) p) s) ! j = callbackList s ! j)
       \<and> (ub (exec (enableDma E (Some f) p) s) \<longleftrightarrow> ub s)
       \<and> trace (exec (enableDma E (Some f) p) s) = trace s @ claim_event #
           (if ch < unat (dmaIrq1channelStart E)
            then [Dma (Dma_set_irq0_enabled (int ch) True),
                  Gpio (Irq_set_exclusive_handler DMA_IRQ_0 Dma_handler0),
                  Gpio (Irq_set_enabled DMA_IRQ_0 True)]
            else [Dma (Dma_set_irq1_enabled (int ch) True),
                  Gpio (Irq_set_exclusive_handler DMA_IRQ_1 Dma_handler1),
                  Gpio (Irq_set_enabled DMA_IRQ_1 True)])"
  using assms by (simp add: result_def exec_def run_simps Let_def dma_wf_def irq_setup_def)

text \<open>What a handler does when the pending bits do not change while it runs.\<close>

definition serve_events :: "(u8 \<Rightarrow> bool) \<Rightarrow> ('d \<Rightarrow> nat \<Rightarrow> event) \<Rightarrow> 'd Callback_t list \<Rightarrow> nat \<Rightarrow> event list" where
  "serve_events pend ev cl c =
     poll c # (if pend (of_nat c)
               then (case callback (cl ! c) of
                       Some f \<Rightarrow> [ev f (param (cl ! c)), Dma (Dma_acknowledge_irq0 (of_nat c))]
                     | None \<Rightarrow> [])
               else [])"

lemma exec_serve_events:
  assumes "\<And>t c. irq0_status_answer E t c = pend c"
  shows "exec (serve_channel E (\<lambda>f p. emit (ev f p)) c) s =
           s\<lparr>trace := trace s @ serve_events pend ev (callbackList s) c\<rparr>"
  using assms
  by (simp add: exec_serve_channel serve_events_def Let_def split: option.splits)

lemma exec_serve_list:
  assumes "\<And>t c. irq0_status_answer E t c = pend c"
  shows "exec (for_each cs (serve_channel E (\<lambda>f p. emit (ev f p)))) s =
           s\<lparr>trace := trace s @ concat (map (serve_events pend ev (callbackList s)) cs)\<rparr>"
  by (induction cs arbitrary: s) (simp_all add: exec_serve_events [OF assms])

text \<open>
  With the pending bits held still, the handler of line 0 polls the channels of the lower half
  in order; for each pending one that has a callback it calls it with its registered parameter and
  then acknowledges the channel.  A pending channel without a callback is left unacknowledged.
\<close>

theorem dma_handler0_serves_pending:
  assumes "\<And>t c. irq0_status_answer E t c = pend c"
  shows "exec (dma_handler0 E (\<lambda>f p. emit (ev f p))) s =
           s\<lparr>trace := trace s @ concat (map (\<lambda>c. poll c #
               (if pend (of_nat c)
                then (case callback (callbackList s ! c) of
                        Some f \<Rightarrow> [ev f (param (callbackList s ! c)), Dma (Dma_acknowledge_irq0 (of_nat c))]
                      | None \<Rightarrow> [])
                else [])) [0..<unat (dmaIrq1channelStart E)])\<rparr>"
  unfolding dma_handler0_def exec_serve_list [OF assms]
  by (simp add: serve_events_def [abs_def])

section \<open>The second handler looks at the wrong interrupt line\<close>

text \<open>
  Documented behaviour of the DMA block: the status of line 0 is the raw status masked with the
  enable register of line 0, so a channel shows there only after it was enabled for line 0.
\<close>

definition irq0_masked :: "env \<Rightarrow> bool" where
  "irq0_masked E \<longleftrightarrow> (\<forall>t c. irq0_status_answer E t c \<longrightarrow>
     Dma (Dma_set_irq0_enabled (int (unat c)) True) \<in> set t)"

definition irq0_low :: "env \<Rightarrow> event list \<Rightarrow> bool" where
  "irq0_low E t \<longleftrightarrow> (\<forall>c. Dma (Dma_set_irq0_enabled c True) \<in> set t \<longrightarrow>
     c < int (unat (dmaIrq1channelStart E)))"

lemma enableDma_irq0_low:
  "irq0_low E (trace s) \<Longrightarrow> irq0_low E (trace (exec (enableDma E cb p) s))"
  by (cases cb) (auto simp: exec_def run_simps Let_def irq0_low_def irq_setup_def)

lemma fold_enableDma_irq0_low:
  "irq0_low E (trace s) \<Longrightarrow>
     irq0_low E (trace (fold (\<lambda>(cb, p). exec (enableDma E cb p)) reqs s))"
  by (induction reqs arbitrary: s) (auto intro: enableDma_irq0_low split: prod.splits)

lemma serve_channel_idle:
  assumes "irq0_masked E" and "irq0_low E (trace s)"
    and "unat (dmaIrq1channelStart E) \<le> c" and "c < 256"
  shows "exec (serve_channel E invoke c) s = s\<lparr>trace := trace s @ [poll c]\<rparr>"
proof -
  have c: "unat (of_nat c :: u8) = c" using assms(4) by (simp add: unat_of_nat)
  have "\<not> irq0_status_answer E (trace s @ [poll c]) (of_nat c)"
  proof
    assume "irq0_status_answer E (trace s @ [poll c]) (of_nat c)"
    with assms(1) have "Dma (Dma_set_irq0_enabled (int (unat (of_nat c :: u8))) True) \<in> set (trace s @ [poll c])"
      unfolding irq0_masked_def by blast
    with assms(2,3) show False by (fastforce simp: irq0_low_def c)
  qed
  then show ?thesis by (simp add: exec_serve_channel Let_def)
qed

lemma serve_list_idle:
  assumes "irq0_masked E" and "irq0_low E (trace s)"
    and "\<And>c. c \<in> set cs \<Longrightarrow> unat (dmaIrq1channelStart E) \<le> c \<and> c < 256"
  shows "exec (for_each cs (serve_channel E invoke)) s = s\<lparr>trace := trace s @ map poll cs\<rparr>"
  using assms(2,3)
proof (induction cs arbitrary: s)
  case Nil
  then show ?case by simp
next
  case (Cons c cs)
  let ?s = "s\<lparr>trace := trace s @ [poll c]\<rparr>"
  have "exec (serve_channel E invoke c) s = ?s"
    using assms(1) Cons.prems by (intro serve_channel_idle) auto
  moreover have "irq0_low E (trace ?s)"
    using Cons.prems(1) by (auto simp: irq0_low_def)
  ultimately show ?case
    using Cons.IH [of ?s] Cons.prems(2) by simp
qed

text \<open>
  The handler of line 1 asks for the status of line 0.  A channel of the upper half is only ever
  enabled for line 1, so after any registrations the handler runs no callback and acknowledges no
  channel: a transfer finished on an upper channel is never reported.
\<close>

theorem dma_handler1_never_dispatches:
  assumes "irq0_masked E" and "irq0_low E (trace s)" and "NUM_DMA_CHANNELS E \<le> 256"
    and "t = fold (\<lambda>(cb, p). exec (enableDma E cb p)) reqs s"
  shows "exec (dma_handler1 E invoke) t =
           t\<lparr>trace := trace t @ map poll [unat (dmaIrq1channelStart E)..<NUM_DMA_CHANNELS E]\<rparr>"
  unfolding dma_handler1_def
  using assms by (intro serve_list_idle) (auto intro!: fold_enableDma_irq0_low)

section \<open>Closed instances\<close>

text \<open>
  An environment with twelve channels that hands out channel 7 and whose line-0 status is the
  documented mask; the other answers play no role here.
\<close>

definition demo_env :: env where
  "demo_env = \<lparr>NUM_DMA_CHANNELS = 12, portMAX_DELAY = 0xFFFFFFFF, configMAX_TASK_NAME_LEN = 16,
     sizeof_StackType = 4, pdMS_TO_TICKS = (\<lambda>ms. ms), spi_get_dreq = (\<lambda>i tx. if tx then 16 else 17),
     dma_claim_answer = (\<lambda>t. 7),
     irq0_status_answer = (\<lambda>t c. Dma (Dma_set_irq0_enabled (int (unat c)) True) \<in> set t),
     gpio_get_answer = (\<lambda>t. True), handle_answer = (\<lambda>t. Suc (length t)),
     woken_answer = (\<lambda>t b. b), GPIO_IRQ_EDGE_FALL = 4,
     uninit_answer = (\<lambda>t. False), spi_answer = (\<lambda>t. 0), miso = (\<lambda>t i. 0),
     task_create_answer = (\<lambda>t. (True, 1)), high_water_answer = (\<lambda>t. 0), clock_answer = (\<lambda>t. 0)\<rparr>"

definition demo_dma :: "(nat, nat) dma_st" where
  "demo_dma = \<lparr>trace = [], ub = False, pinCallbacks = replicate 30 None,
     callbackList = replicate 12 \<lparr>callback = None, param = 0\<rparr>\<rparr>"

theorem enableDma_registers_witness:
  "callbackList (exec (enableDma demo_env (Some 5) 9) demo_dma) ! 7 = \<lparr>callback = Some 5, param = 9\<rparr>"
  using enableDma_registers [of demo_env demo_dma 7 5 9]
  by (simp add: demo_env_def demo_dma_def dma_wf_def)

theorem dma_handler0_serves_pending_witness:
  "exec (dma_handler0 (demo_env\<lparr>irq0_status_answer := \<lambda>t c. c = 2\<rparr>) (\<lambda>f p. emit (Rtos (VTaskDelete p))))
     (demo_dma\<lparr>callbackList := (replicate 12 \<lparr>callback = None, param = 0\<rparr>)[2 := \<lparr>callback = Some 5, param = 9\<rparr>]\<rparr>)
   = demo_dma\<lparr>callbackList := (replicate 12 \<lparr>callback = None, param = 0\<rparr>)[2 := \<lparr>callback = Some 5, param = 9\<rparr>],
       trace := [poll 0, poll 1, poll 2, Rtos (VTaskDelete 9), Dma (Dma_acknowledge_irq0 2),
         poll 3, poll 4, poll 5]\<rparr>"
  using dma_handler0_serves_pending
    [of "demo_env\<lparr>irq0_status_answer := \<lambda>t c. c = 2\<rparr>" "\<lambda>c. c = 2" "\<lambda>f p. Rtos (VTaskDelete p)"
      "demo_dma\<lparr>callbackList := (replicate 12 \<lparr>callback = None, param = 0\<rparr>)[2 := \<lparr>callback = Some 5, param = 9\<rparr>]\<rparr>"]
  by (simp add: demo_env_def demo_dma_def dmaIrq1channelStart_def upt_rec nth_list_update)

theorem dma_handler1_never_dispatches_witness:
  "let t = exec (enableDma demo_env (Some 5) 9) demo_dma
   in callback (callbackList t ! 7) = Some 5
    \<and> exec (dma_handler1 demo_env (\<lambda>f p. emit (Rtos (VTaskDelete p)))) t =
        t\<lparr>trace := trace t @ map poll [6..<12]\<rparr>"
proof -
  have "irq0_masked demo_env" by (simp add: irq0_masked_def demo_env_def)
  moreover have "irq0_low demo_env (trace demo_dma)" by (simp add: irq0_low_def demo_dma_def)
  ultimately show ?thesis
    using dma_handler1_never_dispatches
      [of demo_env demo_dma _ "[(Some 5, 9)]" "\<lambda>f p. emit (Rtos (VTaskDelete p))"]
    by (simp add: demo_env_def dmaIrq1channelStart_def Let_def exec_def run_enableDma_Some demo_dma_def)
qed

end
