(* ===== verification/Spi.thy ===== *)
theory Spi
  imports Dma
begin

text \<open>
  \<open>include/spi.h\<close> and \<open>source/spi.cpp\<close>: one SPI master, with the chip-select line, the bus
  mutex and transfers by DMA or by the blocking SDK calls.  The state carries the members of one
  \<open>SPI\<close> object; the member names get the prefix \<open>SPI_\<close>.
\<close>

datatype interrupt_callback = SPI_damCallback

record 'g spi_st = "('g, interrupt_callback) dma_st" +
  SPI_spi :: nat
  SPI_cs :: u32
  SPI_enableDma :: bool
  SPI_dmaTx :: u32
  SPI_dmaTxConfig :: "dma_setting list"
  SPI_dmaRx :: u32
  SPI_dmaRxConfig :: "dma_setting list"
  SPI_data16Bits :: bool
  SPI_busMutex :: nat
  SPI_csActive :: bool
  SPI_dmaRxSemaphore :: nat
  SPI_dmaTxSemaphore :: nat

section \<open>Chip select and bus lock\<close>

definition csSelect :: "env \<Rightarrow> (('g, 'a) spi_st_scheme, unit) state" where
  "csSelect E = do {
     m \<leftarrow> gets SPI_busMutex;
     when_do (m \<noteq> 0) (emit (Rtos (XSemaphoreTakeRecursive m (portMAX_DELAY E))));
     active \<leftarrow> gets SPI_csActive;
     emit (Rtos (ConfigASSERT (\<not> active)));
     modify (\<lambda>s. s\<lparr>SPI_csActive := True\<rparr>);
     cs \<leftarrow> gets SPI_cs;
     emit (Gpio (Gpio_put cs False))
   }"

definition csDeselect :: "(('g, 'a) spi_st_scheme, unit) state" where
  "csDeselect = do {
     active \<leftarrow> gets SPI_csActive;
     emit (Rtos (ConfigASSERT active));
     modify (\<lambda>s. s\<lparr>SPI_csActive := False\<rparr>);
     cs \<leftarrow> gets SPI_cs;
     emit (Gpio (Gpio_put cs True));
     m \<leftarrow> gets SPI_busMutex;
     when_do (m \<noteq> 0) (emit (Rtos (XSemaphoreGiveRecursive m)))
   }"

definition lock :: "env \<Rightarrow> (('g, 'a) spi_st_scheme, unit) state" where
  "lock E = do {
     m \<leftarrow> gets SPI_busMutex;
     when_do (m \<noteq> 0) (emit (Rtos (XSemaphoreTake m (portMAX_DELAY E))))
   }"

definition unlock :: "(('g, 'a) spi_st_scheme, unit) state" where
  "unlock = do {
     m \<leftarrow> gets SPI_busMutex;
     when_do (m \<noteq> 0) (emit (Rtos (XSemaphoreGive m)))
   }"

section \<open>DMA transfers\<close>

definition dmaWrite :: "bytes_ptr \<Rightarrow> u16 \<Rightarrow> (('g, 'a) spi_st_scheme, unit) state" where
  "dmaWrite data n = do {
     ch \<leftarrow> gets SPI_dmaTx;
     emit (Dma (Dma_set_read_addr ch data False));
     emit (Dma (Dma_set_transfer_count ch n False))
   }"

definition dmaRead :: "bytes_ptr \<Rightarrow> u16 \<Rightarrow> (('g, 'a) spi_st_scheme, unit) state" where
  "dmaRead data n = do {
     ch \<leftarrow> gets SPI_dmaRx;
     emit (Dma (Dma_set_write_addr ch data False));
     emit (Dma (Dma_set_transfer_count ch n False))
   }"

definition channel_mask :: "u32 \<Rightarrow> u32 \<Rightarrow> u32" where
  "channel_mask tx rx = push_bit (unat tx) 1 OR push_bit (unat rx) 1"

definition dmaStart :: "(('g, 'a) spi_st_scheme, unit) state" where
  "dmaStart = do {
     tx \<leftarrow> gets SPI_dmaTx;
     rx \<leftarrow> gets SPI_dmaRx;
     emit (Dma (Dma_start_channel_mask (channel_mask tx rx)))
   }"

text \<open>
  What the peripheral has stored at a buffer once the calls of \<open>transfer\<close> are done: the bytes
  \<open>miso\<close> answers for the trace so far.  Storing through \<open>nullptr\<close> or past the end of the
  buffer raises the monitor.
\<close>

definition received :: "env \<Rightarrow> event list \<Rightarrow> nat \<Rightarrow> u8 list" where
  "received E t n = map (miso E t) [0..<n]"

definition land_at :: "env \<Rightarrow> bytes_ptr \<Rightarrow> nat \<Rightarrow> (('g, 'a) spi_st_scheme, bytes_ptr) state" where
  "land_at E buf n = (case buf of
     None \<Rightarrow> do { raise_ub (0 < n); return None }
   | Some b \<Rightarrow> do {
       raise_ub (length b < n);
       r \<leftarrow> ask (\<lambda>t. received E t n);
       return (Some (patch b r)) })"

text \<open>
  \<open>transfer\<close> returns the count and the contents of the two buffers afterwards.  With DMA, a null
  \<open>tx\<close> sends what \<open>rx\<close> holds and a null \<open>rx\<close> receives into \<open>tx\<close>; the results of
  the two semaphore takes are not looked at.
\<close>

definition transfer ::
  "env \<Rightarrow> bytes_ptr \<Rightarrow> bytes_ptr \<Rightarrow> u16 \<Rightarrow> u32
     \<Rightarrow> (('g, 'a) spi_st_scheme, u16 \<times> bytes_ptr \<times> bytes_ptr) state" where
  "transfer E tx rx n timeout_ms = do {
     dma \<leftarrow> gets SPI_enableDma;
     d16 \<leftarrow> gets SPI_data16Bits;
     dev \<leftarrow> gets SPI_spi;
     (if dma then do {
        dmaWrite (if tx = None then rx else tx) n;
        dmaRead (if rx = None then tx else rx) n;
        dmaStart;
        txs \<leftarrow> gets SPI_dmaTxSemaphore;
        emit (Rtos (XSemaphoreTake txs (pdMS_TO_TICKS E timeout_ms)));
        rxs \<leftarrow> gets SPI_dmaRxSemaphore;
        emit (Rtos (XSemaphoreTake rxs (pdMS_TO_TICKS E timeout_ms)));
        (if rx = None
         then do { b \<leftarrow> land_at E tx (unat n * (if d16 then 2 else 1)); return (n, b, None) }
         else do { b \<leftarrow> land_at E rx (unat n * (if d16 then 2 else 1)); return (n, tx, b) })
      }
      else if d16 then do {
        r \<leftarrow> call (Spi (Spi_write16_read16_blocking dev tx rx n)) (spi_answer E);
        b \<leftarrow> land_at E rx (unat n * 2);
        return (r, tx, b)
      }
      else do {
        r \<leftarrow> call (Spi (Spi_write_read_blocking dev tx rx n)) (spi_answer E);
        b \<leftarrow> land_at E rx (unat n);
        return (r, tx, b)
      })
   }"

section \<open>Construction\<close>

definition setFormat :: "nat \<Rightarrow> nat \<Rightarrow> nat \<Rightarrow> nat \<Rightarrow> (('g, 'a) spi_st_scheme, unit) state" where
  "setFormat data_bits cpol cpha order = do {
     dev \<leftarrow> gets SPI_spi;
     emit (Spi (Spi_set_format dev data_bits cpol cpha order))
   }"

definition dmaConfigure :: "env \<Rightarrow> (('g, 'a) spi_st_scheme, unit) state" where
  "dmaConfigure E = do {
     tx \<leftarrow> gets SPI_dmaTx;
     rx \<leftarrow> gets SPI_dmaRx;
     dev \<leftarrow> gets SPI_spi;
     d16 \<leftarrow> gets SPI_data16Bits;
     modify (\<lambda>s. s\<lparr>SPI_dmaTxConfig :=
       [Default_config tx,
        Transfer_data_size (if d16 then DMA_SIZE_16 else DMA_SIZE_8),
        Dreq (spi_get_dreq E dev True)]\<rparr>);
     txc \<leftarrow> gets SPI_dmaTxConfig;
     emit (Dma (Dma_channel_configure tx txc (Spi_data_register dev) Null_addr 0 False));
     modify (\<lambda>s. s\<lparr>SPI_dmaRxConfig :=
       [Default_config rx,
        Transfer_data_size (if d16 then DMA_SIZE_16 else DMA_SIZE_8),
        Dreq (spi_get_dreq E dev False),
        Read_increment False,
        Write_increment True]\<rparr>);
     rxc \<leftarrow> gets SPI_dmaRxConfig;
     emit (Dma (Dma_channel_configure rx rxc Null_addr (Spi_data_register dev) 0 False))
   }"

definition SPI_init ::
  "env \<Rightarrow> nat \<Rightarrow> u32 \<Rightarrow> u32 \<Rightarrow> u32 \<Rightarrow> u32 \<Rightarrow> u32 \<Rightarrow> bool \<Rightarrow> nat \<Rightarrow> nat \<Rightarrow> nat \<Rightarrow> bool
     \<Rightarrow> (('g, 'a) spi_st_scheme, unit) state" where
  "SPI_init E spi baudrate cs sck mosi miso_pin data16Bits cpol cpha order enableDma_arg = do {
     modify (\<lambda>s. s\<lparr>SPI_spi := spi, SPI_cs := cs, SPI_data16Bits := data16Bits,
                    SPI_enableDma := enableDma_arg, SPI_csActive := False\<rparr>);
     emit (Spi (Spi_init spi baudrate));
     emit (Gpio (Gpio_set_function cs GPIO_FUNC_SIO));
     emit (Gpio (Gpio_set_function sck GPIO_FUNC_SPI));
     emit (Gpio (Gpio_set_function mosi GPIO_FUNC_SPI));
     emit (Gpio (Gpio_set_function miso_pin GPIO_FUNC_SPI));
     emit (Gpio (Gpio_set_dir cs True));
     emit (Gpio (Gpio_put cs True));
     m \<leftarrow> call (Rtos XSemaphoreCreateRecursiveMutex) (handle_answer E);
     modify (\<lambda>s. s\<lparr>SPI_busMutex := m\<rparr>);
     setFormat (if data16Bits then 16 else 8) cpol cpha order;
     (if enableDma_arg then do {
        rxs \<leftarrow> call (Rtos XSemaphoreCreateBinary) (handle_answer E);
        modify (\<lambda>s. s\<lparr>SPI_dmaRxSemaphore := rxs\<rparr>);
        txs \<leftarrow> call (Rtos XSemaphoreCreateBinary) (handle_answer E);
        modify (\<lambda>s. s\<lparr>SPI_dmaTxSemaphore := txs\<rparr>);
        rx \<leftarrow> enableDma E (Some SPI_damCallback) rxs;
        modify (\<lambda>s. s\<lparr>SPI_dmaRx := of_int rx\<rparr>);
        tx \<leftarrow> enableDma E (Some SPI_damCallback) txs;
        modify (\<lambda>s. s\<lparr>SPI_dmaTx := of_int tx\<rparr>);
        dmaConfigure E
      }
      else skip)
   }"

text \<open>
  The interrupt callback.  The local \<open>xHigherPriorityTaskWoken\<close> is not initialised before
  its address is passed on: its value is what the environment finds in it.
\<close>

definition damCallback :: "env \<Rightarrow> nat \<Rightarrow> (('g, 'a) spi_st_scheme, unit) state" where
  "damCallback E p = do {
     w0 \<leftarrow> ask (uninit_answer E);
     w \<leftarrow> call (Rtos (XSemaphoreGiveFromISR p)) (\<lambda>t. woken_answer E t w0);
     emit (Rtos (PortYIELD_FROM_ISR w))
   }"

definition invoke_dma :: "env \<Rightarrow> interrupt_callback \<Rightarrow> nat \<Rightarrow> (('g, 'a) spi_st_scheme, unit) state" where
  "invoke_dma E f p = (case f of SPI_damCallback \<Rightarrow> damCallback E p)"

definition SPI_operator_new :: "env \<Rightarrow> nat \<Rightarrow> ('a world_scheme, nat) state" where
  "SPI_operator_new E sz = call (Rtos (PvPortMalloc sz)) (handle_answer E)"

definition SPI_operator_delete :: "nat \<Rightarrow> ('a world_scheme, unit) state" where
  "SPI_operator_delete ptr = emit (Rtos (VPortFree ptr))"

section \<open>Symbolic execution\<close>

definition select_events :: "env \<Rightarrow> ('g, 'a) spi_st_scheme \<Rightarrow> event list" where
  "select_events E s =
     (if SPI_busMutex s \<noteq> 0 then [Rtos (XSemaphoreTakeRecursive (SPI_busMutex s) (portMAX_DELAY E))] else [])
     @ [Rtos (ConfigASSERT (\<not> SPI_csActive s)), Gpio (Gpio_put (SPI_cs s) False)]"

definition deselect_events :: "('g, 'a) spi_st_scheme \<Rightarrow> event list" where
  "deselect_events s =
     [Rtos (ConfigASSERT (SPI_csActive s)), Gpio (Gpio_put (SPI_cs s) True)]
     @ (if SPI_busMutex s \<noteq> 0 then [Rtos (XSemaphoreGiveRecursive (SPI_busMutex s))] else [])"

definition dma_events ::
  "env \<Rightarrow> ('g, 'a) spi_st_scheme \<Rightarrow> bytes_ptr \<Rightarrow> bytes_ptr \<Rightarrow> u16 \<Rightarrow> u32 \<Rightarrow> event list" where
  "dma_events E s src dst n timeout_ms =
     [Dma (Dma_set_read_addr (SPI_dmaTx s) src False),
      Dma (Dma_set_transfer_count (SPI_dmaTx s) n False),
      Dma (Dma_set_write_addr (SPI_dmaRx s) dst False),
      Dma (Dma_set_transfer_count (SPI_dmaRx s) n False),
      Dma (Dma_start_channel_mask (channel_mask (SPI_dmaTx s) (SPI_dmaRx s))),
      Rtos (XSemaphoreTake (SPI_dmaTxSemaphore s) (pdMS_TO_TICKS E timeout_ms)),
      Rtos (XSemaphoreTake (SPI_dmaRxSemaphore s) (pdMS_TO_TICKS E timeout_ms))]"

lemma run_csSelect [run_simps]:
  "run_state (csSelect E) s =
     ((), s\<lparr>trace := trace s @ select_events E s, SPI_csActive := True\<rparr>)"
  by (simp add: csSelect_def select_events_def)

lemma run_csDeselect [run_simps]:
  "run_state csDeselect s =
     ((), s\<lparr>trace := trace s @ deselect_events s, SPI_csActive := False\<rparr>)"
  by (simp add: csDeselect_def deselect_events_def)

lemma run_lock [run_simps]:
  "run_state (lock E) s = ((), s\<lparr>trace := trace s @
     (if SPI_busMutex s \<noteq> 0 then [Rtos (XSemaphoreTake (SPI_busMutex s) (portMAX_DELAY E))] else [])\<rparr>)"
  by (simp add: lock_def)

lemma run_unlock [run_simps]:
  "run_state unlock s = ((), s\<lparr>trace := trace s @
     (if SPI_busMutex s \<noteq> 0 then [Rtos (XSemaphoreGive (SPI_busMutex s))] else [])\<rparr>)"
  by (simp add: unlock_def)

lemma run_land_None [run_simps]:
  "run_state (land_at E None n) s = (None, s\<lparr>ub := ub s \<or> 0 < n\<rparr>)"
  by (simp add: land_at_def)

lemma run_land_Some [run_simps]:
  "run_state (land_at E (Some b) n) s =
     (Some (patch b (received E (trace s) n)), s\<lparr>ub := ub s \<or> length b < n\<rparr>)"
  by (simp add: land_at_def)

lemma length_received [simp]: "length (received E t n) = n"
  by (simp add: received_def)

lemma nth_received [simp]: "i < n \<Longrightarrow> received E t n ! i = miso E t i"
  by (simp add: received_def)

text \<open>The two shapes of DMA transfer the drivers use: send only, and receive only.\<close>

lemma run_transfer_send [run_simps]:
  assumes "SPI_enableDma s" and "\<not> SPI_data16Bits s" and "unat n = length d"
  shows "run_state (transfer E (Some d) None n tmo) s =
     (let t = trace s @ dma_events E s (Some d) (Some d) n tmo
      in ((n, Some (received E t (length d)), None), s\<lparr>trace := t\<rparr>))"
  using assms
  by (simp add: transfer_def dmaWrite_def dmaRead_def dmaStart_def dma_events_def run_simps Let_def
      patch_full)

lemma run_transfer_receive [run_simps]:
  assumes "SPI_enableDma s" and "\<not> SPI_data16Bits s" and "unat n = length d"
  shows "run_state (transfer E None (Some d) n tmo) s =
     (let t = trace s @ dma_events E s (Some d) (Some d) n tmo
      in ((n, None, Some (received E t (length d))), s\<lparr>trace := t\<rparr>))"
  using assms
  by (simp add: transfer_def dmaWrite_def dmaRead_def dmaStart_def dma_events_def run_simps Let_def
      patch_full)

lemma run_transfer_blocking8 [run_simps]:
  assumes "\<not> SPI_enableDma s" and "\<not> SPI_data16Bits s"
  shows "run_state (transfer E tx None n tmo) s =
     (let t = trace s @ [Spi (Spi_write_read_blocking (SPI_spi s) tx None n)]
      in ((spi_answer E t, tx, None), s\<lparr>trace := t, ub := ub s \<or> 0 < unat n\<rparr>))"
  using assms by (simp add: transfer_def run_simps Let_def)

lemma csActive_same [simp]:
  "\<not> SPI_csActive s \<Longrightarrow> s\<lparr>trace := t, SPI_csActive := False\<rparr> = s\<lparr>trace := t\<rparr>"
  by (cases s) simp

section \<open>The bus as an interface\<close>

text \<open>
  What a driver may assume of the bus master: from a ready bus, selecting, sending and deselecting
  puts exactly the sent bytes on the wire as one transaction and leaves the bus ready.
\<close>

locale spi_master =
  fixes ready :: "'s \<Rightarrow> bool"
    and selected :: "'s \<Rightarrow> bool"
    and sel :: "'s \<Rightarrow> 's"
    and send :: "u8 list \<Rightarrow> 's \<Rightarrow> 's"
    and desel :: "'s \<Rightarrow> 's"
    and sent :: "'s \<Rightarrow> u8 list list"
  assumes selected_sel: "ready s \<Longrightarrow> selected (sel s)"
    and selected_send: "selected s \<Longrightarrow> length d < 2 ^ 16 \<Longrightarrow> selected (send d s)"
    and ready_desel: "selected s \<Longrightarrow> ready (desel s)"
    and sent_sel: "ready s \<Longrightarrow> sent (sel s) = sent s"
    and sent_send: "selected s \<Longrightarrow> length d < 2 ^ 16 \<Longrightarrow> sent (send d s) = sent s @ [d]"
    and sent_desel: "selected s \<Longrightarrow> sent (desel s) = sent s"
begin

abbreviation transact :: "u8 list \<Rightarrow> 's \<Rightarrow> 's" where
  "transact d s \<equiv> desel (send d (sel s))"

lemma ready_transact: "ready s \<Longrightarrow> length d < 2 ^ 16 \<Longrightarrow> ready (transact d s)"
  by (simp add: selected_sel selected_send ready_desel)

lemma sent_transact: "ready s \<Longrightarrow> length d < 2 ^ 16 \<Longrightarrow> sent (transact d s) = sent s @ [d]"
  by (simp add: selected_sel selected_send sent_sel sent_send sent_desel)

lemma fold_transact:
  assumes "ready s" and "\<And>d. d \<in> set ds \<Longrightarrow> length d < 2 ^ 16"
  shows "ready (fold transact ds s) \<and> sent (fold transact ds s) = sent s @ ds"
  using assms
  by (induction ds arbitrary: s) (simp_all add: ready_transact sent_transact)

end

text \<open>The bytes handed to the transmit channel, one list per transfer.\<close>

fun mosi_of :: "event \<Rightarrow> u8 list list" where
  "mosi_of (Dma (Dma_set_read_addr _ (Some d) _)) = [d]"
| "mosi_of _ = []"

definition mosi :: "event list \<Rightarrow> u8 list list" where
  "mosi t = concat (map mosi_of t)"

lemma mosi_Nil [trace_simps, simp]: "mosi [] = []"
  and mosi_Cons [trace_simps]: "mosi (e # t) = mosi_of e @ mosi t"
  and mosi_append [trace_simps, simp]: "mosi (t @ u) = mosi t @ mosi u"
  by (simp_all add: mosi_def)

lemma mosi_select [trace_simps, simp]: "mosi (select_events E s) = []"
  and mosi_deselect [trace_simps, simp]: "mosi (deselect_events s) = []"
  by (simp_all add: select_events_def deselect_events_def mosi_def)

lemma mosi_dma [trace_simps, simp]: "mosi (dma_events E s (Some d) dst n tmo) = [d]"
  by (simp add: dma_events_def mosi_def)

definition spi_dma8 :: "('g, 'a) spi_st_scheme \<Rightarrow> bool" where
  "spi_dma8 s \<longleftrightarrow> SPI_enableDma s \<and> \<not> SPI_data16Bits s"

definition spi_ready :: "('g, 'a) spi_st_scheme \<Rightarrow> bool" where
  "spi_ready s \<longleftrightarrow> spi_dma8 s \<and> \<not> SPI_csActive s"

definition spi_selected :: "('g, 'a) spi_st_scheme \<Rightarrow> bool" where
  "spi_selected s \<longleftrightarrow> spi_dma8 s \<and> SPI_csActive s"

definition spi_send :: "env \<Rightarrow> u8 list \<Rightarrow> ('g, 'a) spi_st_scheme \<Rightarrow> ('g, 'a) spi_st_scheme" where
  "spi_send E d = exec (transfer E (Some d) None (of_nat (length d)) (portMAX_DELAY E))"

lemma unat_u16 [simp]: "n < 65536 \<Longrightarrow> unat (of_nat n :: u16) = n"
  by (simp add: unat_of_nat)

interpretation bus: spi_master spi_ready spi_selected "exec (csSelect E)" "spi_send E"
  "exec csDeselect" "\<lambda>s. mosi (trace s)"
  for E :: env
  by unfold_locales
    (simp_all add: spi_ready_def spi_selected_def spi_dma8_def spi_send_def exec_def run_simps Let_def)

section \<open>Properties\<close>

text \<open>
  What \<open>transfer\<close> returns.  With DMA it is always the requested size, whatever the two
  semaphore takes answered, so a timeout is not visible to the caller; without DMA it is the answer
  of the SDK call, of the 16-bit one when the object is configured for 16-bit data.
\<close>

theorem transfer_return_value:
  "fst (result (transfer E tx rx n tmo) s) =
     (if SPI_enableDma s then n
      else if SPI_data16Bits s
      then spi_answer E (trace s @ [Spi (Spi_write16_read16_blocking (SPI_spi s) tx rx n)])
      else spi_answer E (trace s @ [Spi (Spi_write_read_blocking (SPI_spi s) tx rx n)]))"
  by (cases rx; cases tx)
    (simp_all add: result_def transfer_def dmaWrite_def dmaRead_def dmaStart_def run_simps)

text \<open>
  A null receive buffer.  With DMA the received bytes overwrite the transmit buffer, so the
  caller's command is lost; without DMA the null pointer is handed to the SDK's blocking call, which
  stores every received byte through it.
\<close>

theorem transfer_null_rx:
  assumes "\<not> SPI_data16Bits s" and "length d = unat n" and "0 < n"
  shows "(SPI_enableDma s \<longrightarrow>
            result (transfer E (Some d) None n tmo) s =
              (n, Some (received E (trace (exec (transfer E (Some d) None n tmo) s)) (unat n)), None)
            \<and> (ub (exec (transfer E (Some d) None n tmo) s) \<longleftrightarrow> ub s))
       \<and> (\<not> SPI_enableDma s \<longrightarrow>
            trace (exec (transfer E (Some d) None n tmo) s) =
              trace s @ [Spi (Spi_write_read_blocking (SPI_spi s) (Some d) None n)]
            \<and> ub (exec (transfer E (Some d) None n tmo) s))"
  using assms
  by (auto simp: result_def exec_def run_transfer_send run_transfer_blocking8 Let_def word_gt_0
      unat_gt_0)

lemma damCallback_gives:
  "trace (exec (damCallback E p) s) = trace s @ [Rtos (XSemaphoreGiveFromISR p),
     Rtos (PortYIELD_FROM_ISR (woken_answer E (trace s @ [Rtos (XSemaphoreGiveFromISR p)])
       (uninit_answer E (trace s))))]"
  by (simp add: damCallback_def)

text \<open>
  Documented behaviour of \<open>dma_claim_unused_channel\<close>: it answers with a channel that exists and was
  not claimed before (and panics when there is none left).
\<close>

definition n_claims :: "event list \<Rightarrow> nat" where
  "n_claims t = count_list t claim_event"

definition claims_fresh :: "env \<Rightarrow> bool" where
  "claims_fresh E \<longleftrightarrow>
     (\<forall>t. 0 < n_claims t \<and> n_claims t \<le> NUM_DMA_CHANNELS E \<longrightarrow>
        0 \<le> dma_claim_answer E t \<and> dma_claim_answer E t < int (NUM_DMA_CHANNELS E))
   \<and> (\<forall>t u. 0 < n_claims t \<and> n_claims t < n_claims u \<and> n_claims u \<le> NUM_DMA_CHANNELS E \<longrightarrow>
        dma_claim_answer E t \<noteq> dma_claim_answer E u)"

lemma n_claims_simps [simp]:
  "n_claims (t @ u) = n_claims t + n_claims u" "n_claims [] = 0"
  "n_claims (e # t) = (if e = claim_event then Suc (n_claims t) else n_claims t)"
  by (auto simp: n_claims_def)

lemma n_claims_irq_setup [simp]: "n_claims (irq_setup E ch) = 0"
  by (simp add: irq_setup_def)

text \<open>The trace of the constructor, with DMA.\<close>

definition init_prefix ::
  "nat \<Rightarrow> u32 \<Rightarrow> u32 \<Rightarrow> u32 \<Rightarrow> u32 \<Rightarrow> u32 \<Rightarrow> event list" where
  "init_prefix spi baudrate cs sck mosi_pin miso_pin =
     [Spi (Spi_init spi baudrate),
      Gpio (Gpio_set_function cs GPIO_FUNC_SIO), Gpio (Gpio_set_function sck GPIO_FUNC_SPI),
      Gpio (Gpio_set_function mosi_pin GPIO_FUNC_SPI), Gpio (Gpio_set_function miso_pin GPIO_FUNC_SPI),
      Gpio (Gpio_set_dir cs True), Gpio (Gpio_put cs True), Rtos XSemaphoreCreateRecursiveMutex]"

lemma n_claims_init_prefix [simp]: "n_claims (init_prefix a b c d e f) = 0"
  by (simp add: init_prefix_def)

definition channel_state ::
  "int \<Rightarrow> nat \<Rightarrow> ('g, 'a) spi_st_scheme \<Rightarrow> bool" where
  "channel_state ch sem s \<longleftrightarrow>
     callbackList s ! nat ch = \<lparr>callback = Some SPI_damCallback, param = sem\<rparr>"

lemma run_setFormat [run_simps]:
  "run_state (setFormat bits cpol cpha order) s =
     ((), s\<lparr>trace := trace s @ [Spi (Spi_set_format (SPI_spi s) bits cpol cpha order)]\<rparr>)"
  by (simp add: setFormat_def)

definition tx_config :: "env \<Rightarrow> ('g, 'a) spi_st_scheme \<Rightarrow> dma_setting list" where
  "tx_config E s = [Default_config (SPI_dmaTx s),
     Transfer_data_size (if SPI_data16Bits s then DMA_SIZE_16 else DMA_SIZE_8),
     Dreq (spi_get_dreq E (SPI_spi s) True)]"

definition rx_config :: "env \<Rightarrow> ('g, 'a) spi_st_scheme \<Rightarrow> dma_setting list" where
  "rx_config E s = [Default_config (SPI_dmaRx s),
     Transfer_data_size (if SPI_data16Bits s then DMA_SIZE_16 else DMA_SIZE_8),
     Dreq (spi_get_dreq E (SPI_spi s) False), Read_increment False, Write_increment True]"

lemma run_dmaConfigure [run_simps]:
  "run_state (dmaConfigure E) s =
     ((), s\<lparr>SPI_dmaTxConfig := tx_config E s, SPI_dmaRxConfig := rx_config E s,
            trace := trace s @
              [Dma (Dma_channel_configure (SPI_dmaTx s) (tx_config E s)
                 (Spi_data_register (SPI_spi s)) Null_addr 0 False),
               Dma (Dma_channel_configure (SPI_dmaRx s) (rx_config E s)
                 Null_addr (Spi_data_register (SPI_spi s)) 0 False)]\<rparr>)"
  by (simp add: dmaConfigure_def tx_config_def rx_config_def)

lemma nat_of_u32: "0 \<le> ch \<Longrightarrow> ch < 256 \<Longrightarrow> unat (of_int ch :: u32) = nat ch"
  by (simp add: unat_eq_nat_uint uint_word_of_int)

lemma SPI_init_wires:
  assumes "dma_wf E s" and "claims_fresh E" and "n_claims (trace s) = 0"
    and "2 \<le> NUM_DMA_CHANNELS E" and "NUM_DMA_CHANNELS E \<le> 32"
    and "t = exec (SPI_init E spi baudrate cs sck mosi_pin miso_pin data16 cpol cpha order True) s"
  shows "dma_wf E t \<and> ub t = ub s \<and> SPI_enableDma t \<and> SPI_data16Bits t = data16 \<and> \<not> SPI_csActive t
       \<and> SPI_dmaRx t \<noteq> SPI_dmaTx t
       \<and> callbackList t ! unat (SPI_dmaRx t) = \<lparr>callback = Some SPI_damCallback, param = SPI_dmaRxSemaphore t\<rparr>
       \<and> callbackList t ! unat (SPI_dmaTx t) = \<lparr>callback = Some SPI_damCallback, param = SPI_dmaTxSemaphore t\<rparr>"
proof -
  let ?pre = "init_prefix spi baudrate cs sck mosi_pin miso_pin
      @ [Spi (Spi_set_format spi (if data16 then 16 else 8) cpol cpha order)]"
  let ?t1 = "trace s @ ?pre @ [Rtos XSemaphoreCreateBinary, Rtos XSemaphoreCreateBinary, claim_event]"
  let ?rx = "dma_claim_answer E ?t1"
  let ?t2 = "?t1 @ irq_setup E ?rx @ [claim_event]"
  let ?tx = "dma_claim_answer E ?t2"
  have n: "n_claims ?t1 = 1" "n_claims ?t2 = 2"
    using assms(3) by simp_all
  have rx: "0 \<le> ?rx" "?rx < int (NUM_DMA_CHANNELS E)" and tx: "0 \<le> ?tx" "?tx < int (NUM_DMA_CHANNELS E)"
    using assms(2,4) n unfolding claims_fresh_def by auto
  have ne: "?rx \<noteq> ?tx"
    using assms(2,4) n unfolding claims_fresh_def by (metis one_less_numeral_iff semiring_norm(76) zero_less_one)
  define rx tx where "rx = ?rx" and "tx = ?tx"
  define rxs txs where "rxs = handle_answer E (trace s @ ?pre @ [Rtos XSemaphoreCreateBinary])"
    and "txs = handle_answer E (trace s @ ?pre @ [Rtos XSemaphoreCreateBinary, Rtos XSemaphoreCreateBinary])"
  have eqs: "handle_answer E (trace s @ ?pre @ [Rtos XSemaphoreCreateBinary]) = rxs"
    "handle_answer E (trace s @ ?pre @ [Rtos XSemaphoreCreateBinary, Rtos XSemaphoreCreateBinary]) = txs"
    "?rx = rx" "dma_claim_answer E (?t1 @ irq_setup E rx @ [claim_event]) = tx"
    by (simp_all add: rx_def tx_def rxs_def txs_def)
  obtain u where u: "t = u"
    and "callbackList u = (callbackList s)[nat rx := \<lparr>callback = Some SPI_damCallback, param = rxs\<rparr>,
           nat tx := \<lparr>callback = Some SPI_damCallback, param = txs\<rparr>]"
    and "ub u = (ub s \<or> rx < 0 \<or> int (length (callbackList s)) \<le> rx
           \<or> tx < 0 \<or> int (length (callbackList s)) \<le> tx)"
    and "SPI_enableDma u" "SPI_data16Bits u = data16" "\<not> SPI_csActive u"
    and "SPI_dmaRx u = of_int rx" "SPI_dmaTx u = of_int tx"
    and "SPI_dmaRxSemaphore u = rxs" "SPI_dmaTxSemaphore u = txs"
    using eqs unfolding assms(6)
    by (simp add: SPI_init_def exec_def run_setFormat run_dmaConfigure run_enableDma_claimed init_prefix_def)
  note facts = this
  have b: "0 \<le> rx" "rx < int (NUM_DMA_CHANNELS E)" "0 \<le> tx" "tx < int (NUM_DMA_CHANNELS E)" "rx \<noteq> tx"
    unfolding rx_def tx_def by (rule rx tx ne)+
  then have un: "unat (of_int rx :: u32) = nat rx" "unat (of_int tx :: u32) = nat tx"
    and neq: "nat rx \<noteq> nat tx" "(of_int rx :: u32) \<noteq> of_int tx"
    using assms(5) by (simp_all add: nat_of_u32 word_unat_eq_iff nat_eq_iff2)
  show ?thesis
    unfolding u using assms(1) b un neq
    by (simp add: facts(2-10) dma_wf_def nth_list_update nat_less_iff not_less)
qed

text \<open>
  Constructing an SPI object with DMA leaves the bus deselected and idle, with two different DMA
  channels claimed; each channel's callback slot holds \<open>damCallback\<close> with that channel's own
  semaphore, so the completion interrupt of the receive channel gives the receive semaphore and that
  of the transmit channel the transmit semaphore.
\<close>

theorem SPI_init_wires_dma:
  assumes "dma_wf E s" and "claims_fresh E" and "n_claims (trace s) = 0"
    and "2 \<le> NUM_DMA_CHANNELS E" and "NUM_DMA_CHANNELS E \<le> 32"
    and "t = exec (SPI_init E spi baudrate cs sck mosi_pin miso_pin data16 cpol cpha order True) s"
  shows "dma_wf E t \<and> ub t = ub s \<and> SPI_enableDma t \<and> SPI_data16Bits t = data16 \<and> \<not> SPI_csActive t
       \<and> SPI_dmaRx t \<noteq> SPI_dmaTx t
       \<and> callbackList t ! unat (SPI_dmaRx t) = \<lparr>callback = Some SPI_damCallback, param = SPI_dmaRxSemaphore t\<rparr>
       \<and> callbackList t ! unat (SPI_dmaTx t) = \<lparr>callback = Some SPI_damCallback, param = SPI_dmaTxSemaphore t\<rparr>"
  using assms by (rule SPI_init_wires)

section \<open>Closed instances\<close>

definition demo_spi :: "nat spi_st" where
  "demo_spi = \<lparr>trace = [], ub = False, pinCallbacks = replicate 30 None,
     callbackList = replicate 12 \<lparr>callback = None, param = 0\<rparr>,
     SPI_spi = 0, SPI_cs = 17, SPI_enableDma = True, SPI_dmaTx = 1, SPI_dmaTxConfig = [],
     SPI_dmaRx = 0, SPI_dmaRxConfig = [], SPI_data16Bits = False, SPI_busMutex = 3,
     SPI_csActive = False, SPI_dmaRxSemaphore = 4, SPI_dmaTxSemaphore = 5\<rparr>"

definition fresh_env :: env where
  "fresh_env = demo_env\<lparr>dma_claim_answer := \<lambda>t. int (n_claims t) - 1\<rparr>"

theorem transfer_null_rx_witness:
  "result (transfer demo_env (Some [2, 15, 4]) None 3 100) demo_spi = (3, Some [0, 0, 0], None)
   \<and> ub (exec (transfer demo_env (Some [2, 15, 4]) None 3 100) (demo_spi\<lparr>SPI_enableDma := False\<rparr>))"
  using transfer_null_rx [of demo_spi "[2, 15, 4]" 3 demo_env 100]
    transfer_null_rx [of "demo_spi\<lparr>SPI_enableDma := False\<rparr>" "[2, 15, 4]" 3 demo_env 100]
  by (simp add: demo_spi_def demo_env_def received_def upt_rec)

theorem SPI_init_wires_dma_witness:
  "let t = exec (SPI_init fresh_env 0 1000000 17 18 19 16 False 0 0 1 True) demo_spi
   in SPI_dmaRx t \<noteq> SPI_dmaTx t
    \<and> callbackList t ! unat (SPI_dmaRx t) = \<lparr>callback = Some SPI_damCallback, param = SPI_dmaRxSemaphore t\<rparr>"
proof -
  have "dma_wf fresh_env demo_spi" "claims_fresh fresh_env" "n_claims (trace demo_spi) = 0"
    "2 \<le> NUM_DMA_CHANNELS fresh_env" "NUM_DMA_CHANNELS fresh_env \<le> 32"
    by (auto simp: dma_wf_def claims_fresh_def fresh_env_def demo_env_def demo_spi_def)
  from SPI_init_wires_dma [OF this refl, of 0 1000000 17 18 19 16 False 0 0 1]
  show ?thesis by (simp add: Let_def)
qed

end
