(* ===== verification/Mcp2515reg.thy ===== *)
theory Mcp2515reg
  imports Prelude
begin

text \<open>
  \<open>include/mcp2515reg.h\<close>: the register addresses, bit masks and SPI instructions of the MCP2515,
  one constant per macro, in the order of the header.  The collection \<open>regs\<close> unfolds them.
\<close>

named_theorems regs \<open>values of the MCP2515 constants\<close>


text \<open>Configuration Registers\<close>

definition CANSTAT :: u8 where [regs]: "CANSTAT = 0x0E"
definition CANCTRL :: u8 where [regs]: "CANCTRL = 0x0F"
definition BFPCTRL :: u8 where [regs]: "BFPCTRL = 0x0C"
definition TEC :: u8 where [regs]: "TEC = 0x1C"
definition REC :: u8 where [regs]: "REC = 0x1D"
definition CNF3 :: u8 where [regs]: "CNF3 = 0x28"
definition CNF2 :: u8 where [regs]: "CNF2 = 0x29"
definition CNF1 :: u8 where [regs]: "CNF1 = 0x2A"
definition CANINTE :: u8 where [regs]: "CANINTE = 0x2B"
definition CANINTF :: u8 where [regs]: "CANINTF = 0x2C"
definition EFLG :: u8 where [regs]: "EFLG = 0x2D"
definition TXRTSCTRL :: u8 where [regs]: "TXRTSCTRL = 0x0D"

text \<open>Recieve Filters\<close>

definition RXF0SIDH :: u8 where [regs]: "RXF0SIDH = 0x00"
definition RXF0SIDL :: u8 where [regs]: "RXF0SIDL = 0x01"
definition RXF0EID8 :: u8 where [regs]: "RXF0EID8 = 0x02"
definition RXF0EID0 :: u8 where [regs]: "RXF0EID0 = 0x03"
definition RXF1SIDH :: u8 where [regs]: "RXF1SIDH = 0x04"
definition RXF1SIDL :: u8 where [regs]: "RXF1SIDL = 0x05"
definition RXF1EID8 :: u8 where [regs]: "RXF1EID8 = 0x06"
definition RXF1EID0 :: u8 where [regs]: "RXF1EID0 = 0x07"
definition RXF2SIDH :: u8 where [regs]: "RXF2SIDH = 0x08"
definition RXF2SIDL :: u8 where [regs]: "RXF2SIDL = 0x09"
definition RXF2EID8 :: u8 where [regs]: "RXF2EID8 = 0x0A"
definition RXF2EID0 :: u8 where [regs]: "RXF2EID0 = 0x0B"
definition RXF3SIDH :: u8 where [regs]: "RXF3SIDH = 0x10"
definition RXF3SIDL :: u8 where [regs]: "RXF3SIDL = 0x11"
definition RXF3EID8 :: u8 where [regs]: "RXF3EID8 = 0x12"
definition RXF3EID0 :: u8 where [regs]: "RXF3EID0 = 0x13"
definition RXF4SIDH :: u8 where [regs]: "RXF4SIDH = 0x14"
definition RXF4SIDL :: u8 where [regs]: "RXF4SIDL = 0x15"
definition RXF4EID8 :: u8 where [regs]: "RXF4EID8 = 0x16"
definition RXF4EID0 :: u8 where [regs]: "RXF4EID0 = 0x17"
definition RXF5SIDH :: u8 where [regs]: "RXF5SIDH = 0x18"
definition RXF5SIDL :: u8 where [regs]: "RXF5SIDL = 0x19"
definition RXF5EID8 :: u8 where [regs]: "RXF5EID8 = 0x1A"
definition RXF5EID0 :: u8 where [regs]: "RXF5EID0 = 0x1B"

text \<open>Receive Masks\<close>

definition RXM0SIDH :: u8 where [regs]: "RXM0SIDH = 0x20"
definition RXM0SIDL :: u8 where [regs]: "RXM0SIDL = 0x21"
definition RXM0EID8 :: u8 where [regs]: "RXM0EID8 = 0x22"
definition RXM0EID0 :: u8 where [regs]: "RXM0EID0 = 0x23"
definition RXM1SIDH :: u8 where [regs]: "RXM1SIDH = 0x24"
definition RXM1SIDL :: u8 where [regs]: "RXM1SIDL = 0x25"
definition RXM1EID8 :: u8 where [regs]: "RXM1EID8 = 0x26"
definition RXM1EID0 :: u8 where [regs]: "RXM1EID0 = 0x27"

text \<open>define TX Buffer 0\<close>

definition TXB0CTRL :: u8 where [regs]: "TXB0CTRL = 0x30"
definition TXB0SIDH :: u8 where [regs]: "TXB0SIDH = 0x31"
definition TXB0SIDL :: u8 where [regs]: "TXB0SIDL = 0x32"
definition TXB0EID8 :: u8 where [regs]: "TXB0EID8 = 0x33"
definition TXB0EID0 :: u8 where [regs]: "TXB0EID0 = 0x34"
definition TXB0DLC :: u8 where [regs]: "TXB0DLC = 0x35"
definition TXB0D0 :: u8 where [regs]: "TXB0D0 = 0x36"
definition TXB0D1 :: u8 where [regs]: "TXB0D1 = 0x37"
definition TXB0D2 :: u8 where [regs]: "TXB0D2 = 0x38"
definition TXB0D3 :: u8 where [regs]: "TXB0D3 = 0x39"
definition TXB0D4 :: u8 where [regs]: "TXB0D4 = 0x3A"
definition TXB0D5 :: u8 where [regs]: "TXB0D5 = 0x3B"
definition TXB0D6 :: u8 where [regs]: "TXB0D6 = 0x3C"
definition TXB0D7 :: u8 where [regs]: "TXB0D7 = 0x3D"

text \<open>define TX Buffer 1\<close>

definition TXB1CTRL :: u8 where [regs]: "TXB1CTRL = 0x40"
definition TXB1SIDH :: u8 where [regs]: "TXB1SIDH = 0x41"
definition TXB1SIDL :: u8 where [regs]: "TXB1SIDL = 0x42"
definition TXB1EID8 :: u8 where [regs]: "TXB1EID8 = 0x43"
definition TXB1EID0 :: u8 where [regs]: "TXB1EID0 = 0x44"
definition TXB1DLC :: u8 where [regs]: "TXB1DLC = 0x45"
definition TXB1D0 :: u8 where [regs]: "TXB1D0 = 0x46"
definition TXB1D1 :: u8 where [regs]: "TXB1D1 = 0x47"
definition TXB1D2 :: u8 where [regs]: "TXB1D2 = 0x48"
definition TXB1D3 :: u8 where [regs]: "TXB1D3 = 0x49"
definition TXB1D4 :: u8 where [regs]: "TXB1D4 = 0x4A"
definition TXB1D5 :: u8 where [regs]: "TXB1D5 = 0x4B"
definition TXB1D6 :: u8 where [regs]: "TXB1D6 = 0x4C"
definition TXB1D7 :: u8 where [regs]: "TXB1D7 = 0x4D"

text \<open>define TX Buffer 2\<close>

definition TXB2CTRL :: u8 where [regs]: "TXB2CTRL = 0x50"
definition TXB2SIDH :: u8 where [regs]: "TXB2SIDH = 0x51"
definition TXB2SIDL :: u8 where [regs]: "TXB2SIDL = 0x52"
definition TXB2EID8 :: u8 where [regs]: "TXB2EID8 = 0x53"
definition TXB2EID0 :: u8 where [regs]: "TXB2EID0 = 0x54"
definition TXB2DLC :: u8 where [regs]: "TXB2DLC = 0x55"
definition TXB2D0 :: u8 where [regs]: "TXB2D0 = 0x56"
definition TXB2D1 :: u8 where [regs]: "TXB2D1 = 0x57"
definition TXB2D2 :: u8 where [regs]: "TXB2D2 = 0x58"
definition TXB2D3 :: u8 where [regs]: "TXB2D3 = 0x59"
definition TXB2D4 :: u8 where [regs]: "TXB2D4 = 0x5A"
definition TXB2D5 :: u8 where [regs]: "TXB2D5 = 0x5B"
definition TXB2D6 :: u8 where [regs]: "TXB2D6 = 0x5C"
definition TXB2D7 :: u8 where [regs]: "TXB2D7 = 0x5D"

text \<open>define RX Buffer 0\<close>

definition RXB0CTRL :: u8 where [regs]: "RXB0CTRL = 0x60"
definition RXB0SIDH :: u8 where [regs]: "RXB0SIDH = 0x61"
definition RXB0SIDL :: u8 where [regs]: "RXB0SIDL = 0x62"
definition RXB0EID8 :: u8 where [regs]: "RXB0EID8 = 0x63"
definition RXB0EID0 :: u8 where [regs]: "RXB0EID0 = 0x64"
definition RXB0DLC :: u8 where [regs]: "RXB0DLC = 0x65"
definition RXB0D0 :: u8 where [regs]: "RXB0D0 = 0x66"
definition RXB0D1 :: u8 where [regs]: "RXB0D1 = 0x67"
definition RXB0D2 :: u8 where [regs]: "RXB0D2 = 0x68"
definition RXB0D3 :: u8 where [regs]: "RXB0D3 = 0x69"
definition RXB0D4 :: u8 where [regs]: "RXB0D4 = 0x6A"
definition RXB0D5 :: u8 where [regs]: "RXB0D5 = 0x6B"
definition RXB0D6 :: u8 where [regs]: "RXB0D6 = 0x6C"
definition RXB0D7 :: u8 where [regs]: "RXB0D7 = 0x6D"

text \<open>define RX Buffer 1\<close>

definition RXB1CTRL :: u8 where [regs]: "RXB1CTRL = 0x70"
definition RXB1SIDH :: u8 where [regs]: "RXB1SIDH = 0x71"
definition RXB1SIDL :: u8 where [regs]: "RXB1SIDL = 0x72"
definition RXB1EID8 :: u8 where [regs]: "RXB1EID8 = 0x73"
definition RXB1EID0 :: u8 where [regs]: "RXB1EID0 = 0x74"
definition RXB1DLC :: u8 where [regs]: "RXB1DLC = 0x75"
definition RXB1D0 :: u8 where [regs]: "RXB1D0 = 0x76"
definition RXB1D1 :: u8 where [regs]: "RXB1D1 = 0x77"
definition RXB1D2 :: u8 where [regs]: "RXB1D2 = 0x78"
definition RXB1D3 :: u8 where [regs]: "RXB1D3 = 0x79"
definition RXB1D4 :: u8 where [regs]: "RXB1D4 = 0x7A"
definition RXB1D5 :: u8 where [regs]: "RXB1D5 = 0x7B"
definition RXB1D6 :: u8 where [regs]: "RXB1D6 = 0x7C"
definition RXB1D7 :: u8 where [regs]: "RXB1D7 = 0x7D"

text \<open>define TXBnCTRL\<close>

definition TXREQ :: u8 where [regs]: "TXREQ = 0x08"
definition TXP :: u8 where [regs]: "TXP = 0x03"

text \<open>define RXBnCTRL\<close>

definition RXM :: u8 where [regs]: "RXM = 0x60"
definition BUKT :: u8 where [regs]: "BUKT = 0x04"

text \<open>CANCTRL\<close>

definition REQOP :: u8 where [regs]: "REQOP = 0xE0"
definition ABAT :: u8 where [regs]: "ABAT = 0x10"
definition OSM :: u8 where [regs]: "OSM = 0x08"
definition CLKEN :: u8 where [regs]: "CLKEN = 0x04"
definition CLKPRE :: u8 where [regs]: "CLKPRE = 0x03"

text \<open>CANSTAT\<close>

definition ICOD :: u8 where [regs]: "ICOD = 0x0E"

text \<open>CANINTE\<close>

definition RX0IE :: u8 where [regs]: "RX0IE = 0x01"
definition RX1IE :: u8 where [regs]: "RX1IE = 0x02"
definition TX0IE :: u8 where [regs]: "TX0IE = 0x04"
definition TX1IE :: u8 where [regs]: "TX1IE = 0x80"
definition TX2IE :: u8 where [regs]: "TX2IE = 0x10"
definition ERRIE :: u8 where [regs]: "ERRIE = 0x20"
definition WAKIE :: u8 where [regs]: "WAKIE = 0x40"
definition MERRE :: u8 where [regs]: "MERRE = 0x80"

text \<open>CANINTF\<close>

definition RX0IF :: u8 where [regs]: "RX0IF = 0x01"
definition RX1IF :: u8 where [regs]: "RX1IF = 0x02"
definition TX0IF :: u8 where [regs]: "TX0IF = 0x04"
definition TX1IF :: u8 where [regs]: "TX1IF = 0x80"
definition TX2IF :: u8 where [regs]: "TX2IF = 0x10"
definition ERRIF :: u8 where [regs]: "ERRIF = 0x20"
definition WAKIF :: u8 where [regs]: "WAKIF = 0x40"
definition MERRF :: u8 where [regs]: "MERRF = 0x80"

text \<open>BFPCTRL\<close>

definition B1BFS :: u8 where [regs]: "B1BFS = 0x20"
definition B0BFS :: u8 where [regs]: "B0BFS = 0x10"
definition B1BFE :: u8 where [regs]: "B1BFE = 0x08"
definition B0BFE :: u8 where [regs]: "B0BFE = 0x04"
definition B1BFM :: u8 where [regs]: "B1BFM = 0x02"
definition B0BFM :: u8 where [regs]: "B0BFM = 0x01"

text \<open>CNF1 Masks\<close>

definition SJW :: u8 where [regs]: "SJW = 0xC0"
definition BRP :: u8 where [regs]: "BRP = 0x3F"

text \<open>CNF2 Masks\<close>

definition BTLMODE :: u8 where [regs]: "BTLMODE = 0x80"
definition SAM :: u8 where [regs]: "SAM = 0x40"
definition PHSEG1 :: u8 where [regs]: "PHSEG1 = 0x38"
definition PRSEG :: u8 where [regs]: "PRSEG = 0x07"

text \<open>CNF3 Masks\<close>

definition WAKFIL :: u8 where [regs]: "WAKFIL = 0x40"
definition PHSEG2 :: u8 where [regs]: "PHSEG2 = 0x07"

text \<open>define TXRTSCTRL Masks\<close>

definition TXB2RTS :: u8 where [regs]: "TXB2RTS = 0x04"
definition TXB1RTS :: u8 where [regs]: "TXB1RTS = 0x02"
definition TXB0RTS :: u8 where [regs]: "TXB0RTS = 0x01"

text \<open>CNF1\<close>

definition SJW_1TQ :: u8 where [regs]: "SJW_1TQ = 0x40"
definition SJW_2TQ :: u8 where [regs]: "SJW_2TQ = 0x80"
definition SJW_3TQ :: u8 where [regs]: "SJW_3TQ = 0x90"
definition SJW_4TQ :: u8 where [regs]: "SJW_4TQ = 0xC0"

text \<open>CNF2\<close>

definition BTLMODE_CNF3 :: u8 where [regs]: "BTLMODE_CNF3 = 0x80"
definition BTLMODE_PH1_IPT :: u8 where [regs]: "BTLMODE_PH1_IPT = 0x00"
definition SMPL_3X :: u8 where [regs]: "SMPL_3X = 0x40"
definition SMPL_1X :: u8 where [regs]: "SMPL_1X = 0x00"
definition PHSEG1_8TQ :: u8 where [regs]: "PHSEG1_8TQ = 0x38"
definition PHSEG1_7TQ :: u8 where [regs]: "PHSEG1_7TQ = 0x30"
definition PHSEG1_6TQ :: u8 where [regs]: "PHSEG1_6TQ = 0x28"
definition PHSEG1_5TQ :: u8 where [regs]: "PHSEG1_5TQ = 0x20"
definition PHSEG1_4TQ :: u8 where [regs]: "PHSEG1_4TQ = 0x18"
definition PHSEG1_3TQ :: u8 where [regs]: "PHSEG1_3TQ = 0x10"
definition PHSEG1_2TQ :: u8 where [regs]: "PHSEG1_2TQ = 0x08"
definition PHSEG1_1TQ :: u8 where [regs]: "PHSEG1_1TQ = 0x00"
definition PRSEG_8TQ :: u8 where [regs]: "PRSEG_8TQ = 0x07"
definition PRSEG_7TQ :: u8 where [regs]: "PRSEG_7TQ = 0x06"
definition PRSEG_6TQ :: u8 where [regs]: "PRSEG_6TQ = 0x05"
definition PRSEG_5TQ :: u8 where [regs]: "PRSEG_5TQ = 0x04"
definition PRSEG_4TQ :: u8 where [regs]: "PRSEG_4TQ = 0x03"
definition PRSEG_3TQ :: u8 where [regs]: "PRSEG_3TQ = 0x02"
definition PRSEG_2TQ :: u8 where [regs]: "PRSEG_2TQ = 0x01"
definition PRSEG_1TQ :: u8 where [regs]: "PRSEG_1TQ = 0x00"

text \<open>CNF3\<close>

definition PHSEG2_8TQ :: u8 where [regs]: "PHSEG2_8TQ = 0x07"
definition PHSEG2_7TQ :: u8 where [regs]: "PHSEG2_7TQ = 0x06"
definition PHSEG2_6TQ :: u8 where [regs]: "PHSEG2_6TQ = 0x05"
definition PHSEG2_5TQ :: u8 where [regs]: "PHSEG2_5TQ = 0x04"
definition PHSEG2_4TQ :: u8 where [regs]: "PHSEG2_4TQ = 0x03"
definition PHSEG2_3TQ :: u8 where [regs]: "PHSEG2_3TQ = 0x02"
definition PHSEG2_2TQ :: u8 where [regs]: "PHSEG2_2TQ = 0x01"
definition PHSEG2_1TQ :: u8 where [regs]: "PHSEG2_1TQ = 0x00"
definition SOF_ENABLED :: u8 where [regs]: "SOF_ENABLED = 0x80"
definition WAKFIL_ENABLED :: u8 where [regs]: "WAKFIL_ENABLED = 0x40"
definition WAKFIL_DISABLED :: u8 where [regs]: "WAKFIL_DISABLED = 0x00"

text \<open>CANINTE\<close>

definition RX0IE_ENABLED :: u8 where [regs]: "RX0IE_ENABLED = 0x01"
definition RX0IE_DISABLED :: u8 where [regs]: "RX0IE_DISABLED = 0x00"
definition RX1IE_ENABLED :: u8 where [regs]: "RX1IE_ENABLED = 0x02"
definition RX1IE_DISABLED :: u8 where [regs]: "RX1IE_DISABLED = 0x00"
definition RXIE_ENABLED :: u8 where [regs]: "RXIE_ENABLED = 0x03"
definition RXIE_DISABLED :: u8 where [regs]: "RXIE_DISABLED = 0x00"
definition TX0IE_ENABLED :: u8 where [regs]: "TX0IE_ENABLED = 0x04"
definition TX0IE_DISABLED :: u8 where [regs]: "TX0IE_DISABLED = 0x00"
definition TX1IE_ENABLED :: u8 where [regs]: "TX1IE_ENABLED = 0x08"
definition TX2IE_DISABLED :: u8 where [regs]: "TX2IE_DISABLED = 0x00"
definition TX2IE_ENABLED :: u8 where [regs]: "TX2IE_ENABLED = 0x10"
definition TXIE_ENABLED :: u8 where [regs]: "TXIE_ENABLED = 0x1C"
definition TXIE_DISABLED :: u8 where [regs]: "TXIE_DISABLED = 0x00"
definition ERRIE_ENABLED :: u8 where [regs]: "ERRIE_ENABLED = 0x20"
definition ERRIE_DISABLED :: u8 where [regs]: "ERRIE_DISABLED = 0x00"
definition WAKIE_ENABLED :: u8 where [regs]: "WAKIE_ENABLED = 0x40"
definition WAKIE_DISABLED :: u8 where [regs]: "WAKIE_DISABLED = 0x00"
definition IVRE_ENABLED :: u8 where [regs]: "IVRE_ENABLED = 0x80"
definition IVRE_DISABLED :: u8 where [regs]: "IVRE_DISABLED = 0x00"

text \<open>CANINTF\<close>

definition RX0IF_SET :: u8 where [regs]: "RX0IF_SET = 0x01"
definition RX0IF_RESET :: u8 where [regs]: "RX0IF_RESET = 0x00"
definition RX1IF_SET :: u8 where [regs]: "RX1IF_SET = 0x02"
definition RX1IF_RESET :: u8 where [regs]: "RX1IF_RESET = 0x00"
definition TX0IF_SET :: u8 where [regs]: "TX0IF_SET = 0x04"
definition TX0IF_RESET :: u8 where [regs]: "TX0IF_RESET = 0x00"
definition TX1IF_SET :: u8 where [regs]: "TX1IF_SET = 0x08"
definition TX2IF_RESET :: u8 where [regs]: "TX2IF_RESET = 0x00"
definition TX2IF_SET :: u8 where [regs]: "TX2IF_SET = 0x10"
definition ERRIF_SET :: u8 where [regs]: "ERRIF_SET = 0x20"
definition ERRIF_RESET :: u8 where [regs]: "ERRIF_RESET = 0x00"
definition WAKIF_SET :: u8 where [regs]: "WAKIF_SET = 0x40"
definition WAKIF_RESET :: u8 where [regs]: "WAKIF_RESET = 0x00"
definition IVRF_SET :: u8 where [regs]: "IVRF_SET = 0x80"
definition IVRF_RESET :: u8 where [regs]: "IVRF_RESET = 0x00"

text \<open>CANCTRL\<close>

definition REQOP_CONFIG :: u8 where [regs]: "REQOP_CONFIG = 0x80"
definition REQOP_LISTEN :: u8 where [regs]: "REQOP_LISTEN = 0x60"
definition REQOP_LOOPBACK :: u8 where [regs]: "REQOP_LOOPBACK = 0x40"
definition REQOP_SLEEP :: u8 where [regs]: "REQOP_SLEEP = 0x20"
definition REQOP_NORMAL :: u8 where [regs]: "REQOP_NORMAL = 0x00"
definition ABORT :: u8 where [regs]: "ABORT = 0x10"
definition OSM_ENABLED :: u8 where [regs]: "OSM_ENABLED = 0x08"
definition CLKOUT_ENABLED :: u8 where [regs]: "CLKOUT_ENABLED = 0x04"
definition CLKOUT_DISABLED :: u8 where [regs]: "CLKOUT_DISABLED = 0x00"
definition CLKOUT_PRE_8 :: u8 where [regs]: "CLKOUT_PRE_8 = 0x03"
definition CLKOUT_PRE_4 :: u8 where [regs]: "CLKOUT_PRE_4 = 0x02"
definition CLKOUT_PRE_2 :: u8 where [regs]: "CLKOUT_PRE_2 = 0x01"
definition CLKOUT_PRE_1 :: u8 where [regs]: "CLKOUT_PRE_1 = 0x00"

text \<open>CANSTAT\<close>

definition OPMODE_CONFIG :: u8 where [regs]: "OPMODE_CONFIG = 0x80"
definition OPMODE_LISTEN :: u8 where [regs]: "OPMODE_LISTEN = 0x60"
definition OPMODE_LOOPBACK :: u8 where [regs]: "OPMODE_LOOPBACK = 0x40"
definition OPMODE_SLEEP :: u8 where [regs]: "OPMODE_SLEEP = 0x20"
definition OPMODE_NORMAL :: u8 where [regs]: "OPMODE_NORMAL = 0x00"

text \<open>define RXBnCTRL\<close>

definition RXM_RCV_ALL :: u8 where [regs]: "RXM_RCV_ALL = 0x60"
definition RXM_VALID_EXT :: u8 where [regs]: "RXM_VALID_EXT = 0x40"
definition RXM_VALID_STD :: u8 where [regs]: "RXM_VALID_STD = 0x20"
definition RXM_VALID_ALL :: u8 where [regs]: "RXM_VALID_ALL = 0x00"
definition RXRTR_REMOTE :: u8 where [regs]: "RXRTR_REMOTE = 0x08"
definition RXRTR_NO_REMOTE :: u8 where [regs]: "RXRTR_NO_REMOTE = 0x00"
definition BUKT_ROLLOVER :: u8 where [regs]: "BUKT_ROLLOVER = 0x04"
definition BUKT_NO_ROLLOVER :: u8 where [regs]: "BUKT_NO_ROLLOVER = 0x00"
definition FILHIT0_FLTR_1 :: u8 where [regs]: "FILHIT0_FLTR_1 = 0x01"
definition FILHIT0_FLTR_0 :: u8 where [regs]: "FILHIT0_FLTR_0 = 0x00"
definition FILHIT1_FLTR_5 :: u8 where [regs]: "FILHIT1_FLTR_5 = 0x05"
definition FILHIT1_FLTR_4 :: u8 where [regs]: "FILHIT1_FLTR_4 = 0x04"
definition FILHIT1_FLTR_3 :: u8 where [regs]: "FILHIT1_FLTR_3 = 0x03"
definition FILHIT1_FLTR_2 :: u8 where [regs]: "FILHIT1_FLTR_2 = 0x02"
definition FILHIT1_FLTR_1 :: u8 where [regs]: "FILHIT1_FLTR_1 = 0x01"
definition FILHIT1_FLTR_0 :: u8 where [regs]: "FILHIT1_FLTR_0 = 0x00"

text \<open>define TXBnCTRL\<close>

definition TXREQ_SET :: u8 where [regs]: "TXREQ_SET = 0x08"
definition TXREQ_CLEAR :: u8 where [regs]: "TXREQ_CLEAR = 0x00"
definition TXP_HIGHEST :: u8 where [regs]: "TXP_HIGHEST = 0x03"
definition TXP_INTER_HIGH :: u8 where [regs]: "TXP_INTER_HIGH = 0x02"
definition TXP_INTER_LOW :: u8 where [regs]: "TXP_INTER_LOW = 0x01"
definition TXP_LOWEST :: u8 where [regs]: "TXP_LOWEST = 0x00"

text \<open>Register Bit Masks\<close>

definition DLC_0 :: u8 where [regs]: "DLC_0 = 0x00"
definition DLC_1 :: u8 where [regs]: "DLC_1 = 0x01"
definition DLC_2 :: u8 where [regs]: "DLC_2 = 0x02"
definition DLC_3 :: u8 where [regs]: "DLC_3 = 0x03"
definition DLC_4 :: u8 where [regs]: "DLC_4 = 0x04"
definition DLC_5 :: u8 where [regs]: "DLC_5 = 0x05"
definition DLC_6 :: u8 where [regs]: "DLC_6 = 0x06"
definition DLC_7 :: u8 where [regs]: "DLC_7 = 0x07"
definition DLC_8 :: u8 where [regs]: "DLC_8 = 0x08"
definition CAN_RESET :: u8 where [regs]: "CAN_RESET = 0xC0"
definition CAN_READ :: u8 where [regs]: "CAN_READ = 0x03"
definition CAN_WRITE :: u8 where [regs]: "CAN_WRITE = 0x02"
definition CAN_RTS :: u8 where [regs]: "CAN_RTS = 0x80"
definition CAN_RTS_TXB0 :: u8 where [regs]: "CAN_RTS_TXB0 = 0x81"
definition CAN_RTS_TXB1 :: u8 where [regs]: "CAN_RTS_TXB1 = 0x82"
definition CAN_RTS_TXB2 :: u8 where [regs]: "CAN_RTS_TXB2 = 0x84"
definition CAN_RD_STATUS :: u8 where [regs]: "CAN_RD_STATUS = 0xA0"
definition CAN_BIT_MODIFY :: u8 where [regs]: "CAN_BIT_MODIFY = 0x05"
definition CAN_RX_STATUS :: u8 where [regs]: "CAN_RX_STATUS = 0xB0"
definition CAN_RD_RX_BUFF :: u8 where [regs]: "CAN_RD_RX_BUFF = 0x90"
definition CAN_LOAD_TX :: u8 where [regs]: "CAN_LOAD_TX = 0x40"
definition DUMMY_BYTE :: u8 where [regs]: "DUMMY_BYTE = 0x00"
definition TXB0 :: u8 where [regs]: "TXB0 = 0x31"
definition TXB1 :: u8 where [regs]: "TXB1 = 0x41"
definition TXB2 :: u8 where [regs]: "TXB2 = 0x51"
definition RXB0 :: u8 where [regs]: "RXB0 = 0x61"
definition RXB1 :: u8 where [regs]: "RXB1 = 0x71"
definition EXIDE_SET :: u8 where [regs]: "EXIDE_SET = 0x08"
definition EXIDE_RESET :: u8 where [regs]: "EXIDE_RESET = 0x00"

end
