(* ===== verification/Mcp2515.thy ===== *)
theory Mcp2515
  imports Spi Mcp2515reg
begin

text \<open>
  \<open>include/mcp2515.h\<close> and \<open>source/mcp2515.cpp\<close>: the register-level driver of the CAN
  controller.  The state adds the two members of an \<open>Mcp2515\<close> object to those of its SPI bus;
  the row of the bit-timing table that \<open>bitrateAddr\<close> points to is kept as the list of its bytes.
\<close>

datatype Oscillator = MHZ8 | MHZ16

datatype Bitrate =
  KBPS5 | KBPS10 | KBPS20 | KBPS50 | KBPS100 | KBPS125 | KBPS250 | KBPS500 | KBPS1000

datatype RxBufferType = Rollover | Independent

record 'g mcp_st = "'g spi_st" +
  Mcp_bitrateAddr :: "u8 list"
  Mcp_intPin :: u32

fun bitrate_code :: "Bitrate \<Rightarrow> nat" where
  "bitrate_code KBPS5 = 0"
| "bitrate_code KBPS10 = 1"
| "bitrate_code KBPS20 = 2"
| "bitrate_code KBPS50 = 3"
| "bitrate_code KBPS100 = 4"
| "bitrate_code KBPS125 = 5"
| "bitrate_code KBPS250 = 6"
| "bitrate_code KBPS500 = 7"
| "bitrate_code KBPS1000 = 8"

definition bitrateToReg_8MHz :: "u8 list list" where
  "bitrateToReg_8MHz = [
     [0xA7, 0xBF, 0x07],
     [0x31, 0xA4, 0x04],
     [0x18, 0xA4, 0x04],
     [0x09, 0xA4, 0x04],
     [0x04, 0x9E, 0x03],
     [0x03, 0x9E, 0x03],
     [0x01, 0x1E, 0x03],
     [0x00, 0x9E, 0x03],
     [0x00, 0x82, 0x02]]"

definition bitrateToReg_16MHz :: "u8 list list" where
  "bitrateToReg_16MHz = [
     [0x3F, 0xFF, 0x87],
     [0x1F, 0xFF, 0x87],
     [0x0F, 0xFF, 0x87],
     [0x07, 0xFA, 0x87],
     [0x03, 0xFA, 0x87],
     [0x03, 0xF0, 0x86],
     [0x41, 0xF1, 0x85],
     [0x00, 0xF0, 0x86],
     [0x00, 0xD0, 0x82]]"

definition Mcp2515_init ::
  "u32 \<Rightarrow> Oscillator \<Rightarrow> Bitrate \<Rightarrow> (('g, 'a) mcp_st_scheme, unit) state" where
  "Mcp2515_init intPin oscillator bitrate =
     modify (\<lambda>s. s\<lparr>
       Mcp_bitrateAddr := (if oscillator = MHZ8
                           then bitrateToReg_8MHz ! bitrate_code bitrate
                           else bitrateToReg_16MHz ! bitrate_code bitrate),
       Mcp_intPin := intPin\<rparr>)"

section \<open>SPI instructions\<close>

definition resetMcp2515 :: "env \<Rightarrow> (('g, 'a) mcp_st_scheme, unit) state" where
  "resetMcp2515 E = do {
     csSelect E;
     _ \<leftarrow> transfer E (Some [CAN_WRITE, CAN_RESET]) None 2 (portMAX_DELAY E);
     csDeselect
   }"

definition readByte :: "env \<Rightarrow> u8 \<Rightarrow> (('g, 'a) mcp_st_scheme, u8) state" where
  "readByte E addr = do {
     csSelect E;
     _ \<leftarrow> transfer E (Some [CAN_READ, addr]) None 2 (portMAX_DELAY E);
     r \<leftarrow> transfer E None (Some [0]) 1 (portMAX_DELAY E);
     csDeselect;
     return (case snd (snd r) of Some (rdata # _) \<Rightarrow> rdata | _ \<Rightarrow> 0)
   }"

definition writeByte :: "env \<Rightarrow> u8 \<Rightarrow> u8 \<Rightarrow> (('g, 'a) mcp_st_scheme, unit) state" where
  "writeByte E addr data = do {
     csSelect E;
     _ \<leftarrow> transfer E (Some [CAN_WRITE, addr, data]) None 3 (portMAX_DELAY E);
     csDeselect
   }"

definition bitModify :: "env \<Rightarrow> u8 \<Rightarrow> u8 \<Rightarrow> u8 \<Rightarrow> (('g, 'a) mcp_st_scheme, unit) state" where
  "bitModify E addr msk data = do {
     csSelect E;
     _ \<leftarrow> transfer E (Some [CAN_BIT_MODIFY, addr, msk, data]) None 4 (portMAX_DELAY E);
     csDeselect
   }"

section \<open>Configuration\<close>

definition setMcp2515Bitrate :: "env \<Rightarrow> (('g, 'a) mcp_st_scheme, unit) state" where
  "setMcp2515Bitrate E = do {
     row \<leftarrow> gets Mcp_bitrateAddr;
     writeByte E CNF1 (row ! 0);
     writeByte E CNF2 (row ! 1);
     writeByte E CNF3 (row ! 2)
   }"

definition clearInterrupts :: "env \<Rightarrow> u8 \<Rightarrow> (('g, 'a) mcp_st_scheme, unit) state" where
  "clearInterrupts E interruptMask = writeByte E CANINTF interruptMask"

definition enableInterrupts :: "env \<Rightarrow> u8 \<Rightarrow> (('g, 'a) mcp_st_scheme, unit) state" where
  "enableInterrupts E interruptMask = writeByte E CANINTE interruptMask"

definition writeFilterOrMask ::
  "env \<Rightarrow> u8 \<Rightarrow> u32 \<Rightarrow> bool \<Rightarrow> (('g, 'a) mcp_st_scheme, unit) state" where
  "writeFilterOrMask E sidh ident extended =
     (if extended then do {
        writeByte E sidh (ucast (drop_bit 21 ident AND 0xFF));
        writeByte E (sidh + 1) (ucast (ucast EXIDE_SET
          OR push_bit 5 (drop_bit 18 ident AND 0x07) OR (drop_bit 16 ident AND 0x03) :: u32));
        writeByte E (sidh + 2) (ucast (drop_bit 8 ident AND 0xFF));
        writeByte E (sidh + 3) (ucast (ident AND 0xFF))
      }
      else do {
        writeByte E sidh (ucast (drop_bit 3 ident AND 0xFF));
        writeByte E (sidh + 1) (ucast (push_bit 5 (ident AND 0x07)));
        writeByte E (sidh + 2) 0x00;
        writeByte E (sidh + 3) 0x00
      })"

definition filterSidh :: "u8 list" where
  "filterSidh = [RXF0SIDH, RXF1SIDH, RXF2SIDH, RXF3SIDH, RXF4SIDH, RXF5SIDH]"

definition setFilter :: "env \<Rightarrow> u8 \<Rightarrow> u32 \<Rightarrow> bool \<Rightarrow> (('g, 'a) mcp_st_scheme, unit) state" where
  "setFilter E filterId canId extended =
     (if 6 \<le> filterId then skip
      else do {
        let rxbCtrl = (if filterId < 2 then RXB0CTRL else RXB1CTRL);
        lock E;
        writeByte E CANCTRL REQOP_CONFIG;
        writeFilterOrMask E (filterSidh ! unat filterId) canId extended;
        writeByte E CANCTRL (REQOP_NORMAL OR CLKOUT_ENABLED);
        ctrl \<leftarrow> readByte E rxbCtrl;
        writeByte E rxbCtrl (ctrl AND NOT RXM);
        unlock
      })"

definition maskSidh :: "u8 list" where
  "maskSidh = [RXM0SIDH, RXM1SIDH]"

definition setMask :: "env \<Rightarrow> u8 \<Rightarrow> u32 \<Rightarrow> bool \<Rightarrow> (('g, 'a) mcp_st_scheme, unit) state" where
  "setMask E maskId msk extended =
     (if 2 \<le> maskId then skip
      else do {
        let rxbCtrl = [RXB0CTRL, RXB1CTRL] ! unat maskId;
        lock E;
        writeByte E CANCTRL REQOP_CONFIG;
        writeFilterOrMask E (maskSidh ! unat maskId) msk extended;
        writeByte E CANCTRL (REQOP_NORMAL OR CLKOUT_ENABLED);
        ctrl \<leftarrow> readByte E rxbCtrl;
        writeByte E rxbCtrl (ctrl AND NOT RXM);
        unlock
      })"

section \<open>Frames\<close>

definition txBuffer0Send ::
  "env \<Rightarrow> u32 \<Rightarrow> u8 list \<Rightarrow> u8 \<Rightarrow> (('g, 'a) mcp_st_scheme, unit) state" where
  "txBuffer0Send E canId buf len = do {
     (if canId > 0x7FF then do {
        writeByte E TXB0EID0 (ucast (canId AND 0xFF));
        writeByte E TXB0EID8 (ucast (drop_bit 8 canId AND 0xFF));
        writeByte E TXB0SIDL (ucast (0x08 OR (drop_bit 16 canId AND 0x3)
          OR push_bit 5 (drop_bit 18 canId AND 0x07)));
        writeByte E TXB0SIDH (ucast (drop_bit 21 canId AND 0xFF))
      }
      else do {
        writeByte E TXB0SIDH (ucast (drop_bit 3 canId AND 0xFF));
        writeByte E TXB0SIDL (ucast (push_bit 5 (canId AND 0x07)))
      });
     writeByte E TXB0DLC len;
     for_each [0..<unat len] (\<lambda>j. do {
       b \<leftarrow> mem_load buf j;
       writeByte E (TXB0D0 + of_nat j) b
     });
     writeByte E TXB0CTRL 0x08
   }"

fun read_into :: "env \<Rightarrow> u8 \<Rightarrow> nat list \<Rightarrow> u8 list \<Rightarrow> (('g, 'a) mcp_st_scheme, u8 list) state" where
  "read_into E base [] buf = return buf"
| "read_into E base (i # is) buf = do {
     b \<leftarrow> readByte E (base + of_nat i);
     buf' \<leftarrow> mem_store buf i b;
     read_into E base is buf'
   }"

definition rxBuffer0Read ::
  "env \<Rightarrow> u8 list \<Rightarrow> (('g, 'a) mcp_st_scheme, u32 \<times> u8 list \<times> u8) state" where
  "rxBuffer0Read E buf = do {
     sidh \<leftarrow> readByte E RXB0SIDH;
     sidl \<leftarrow> readByte E RXB0SIDL;
     dlc0 \<leftarrow> readByte E RXB0DLC;
     let dlc = dlc0 AND 0x0F;
     canId \<leftarrow> (if sidl AND EXIDE_SET \<noteq> 0 then do {
         eid8 \<leftarrow> readByte E RXB0EID8;
         eid0 \<leftarrow> readByte E RXB0EID0;
         return (push_bit 21 (ucast sidh) OR push_bit 18 (ucast (drop_bit 5 sidl))
           OR push_bit 16 (ucast (sidl AND 0x03)) OR push_bit 8 (ucast eid8) OR ucast eid0)
       }
       else return (push_bit 3 (ucast sidh) OR ucast (drop_bit 5 sidl)));
     buf' \<leftarrow> read_into E RXB0D0 [0..<unat dlc] buf;
     return (canId, buf', dlc)
   }"

definition rxBuffer1Read ::
  "env \<Rightarrow> u8 list \<Rightarrow> (('g, 'a) mcp_st_scheme, u32 \<times> u8 list \<times> u8) state" where
  "rxBuffer1Read E buf = do {
     sidh \<leftarrow> readByte E RXB1SIDH;
     sidl \<leftarrow> readByte E RXB1SIDL;
     dlc0 \<leftarrow> readByte E RXB1DLC;
     let dlc = dlc0 AND 0x0F;
     canId \<leftarrow> (if sidl AND EXIDE_SET \<noteq> 0 then do {
         eid8 \<leftarrow> readByte E RXB1EID8;
         eid0 \<leftarrow> readByte E RXB1EID0;
         return (push_bit 21 (ucast sidh) OR push_bit 18 (ucast (drop_bit 5 sidl))
           OR push_bit 16 (ucast (sidl AND 0x03)) OR push_bit 8 (ucast eid8) OR ucast eid0)
       }
       else return (push_bit 3 (ucast sidh) OR ucast (drop_bit 5 sidl)));
     buf' \<leftarrow> read_into E RXB1D0 [0..<unat dlc] buf;
     return (canId, buf', dlc)
   }"

end
