(* ===== verification/CanId.thy ===== *)
theory CanId
  imports Prelude
begin

text \<open>
  The packing of CAN identifiers into the four identifier registers: 29-bit identifiers are split
  8 + 3 + 2 + 8 + 8, with the extended-identifier flag in bit 3 of SIDL; 11-bit ones are split 8 + 3.
\<close>

lemma and_3_take: "(w :: 'a::len word) AND 3 = take_bit 2 w"
  by (simp add: take_bit_eq_mask mask_eq_exp_minus_1)

lemma and_7_take: "(w :: 'a::len word) AND 7 = take_bit 3 w"
  by (simp add: take_bit_eq_mask mask_eq_exp_minus_1)

lemma bit_8_word: "bit (8 :: 'a::len word) n \<longleftrightarrow> n = 3 \<and> n < LENGTH('a)"
proof -
  have "(8 :: 'a word) = 2 ^ 3" by simp
  then show ?thesis by (simp only: bit_exp_iff) (auto simp: possible_bit_def)
qed

lemma bit_8_int: "bit (8 :: int) n \<longleftrightarrow> n = 3"
  using bit_exp_iff [where 'a = int, of 3 n] by (simp add: possible_bit_def)

lemma bit_8_nat: "bit (8 :: nat) n \<longleftrightarrow> n = 3"
  using bit_exp_iff [where 'a = nat, of 3 n] by (simp add: possible_bit_def)

lemmas bit_8 = bit_8_word bit_8_int bit_8_nat

lemma ucast_u8_u32: "(ucast (ucast (w :: u32) :: u8) :: u32) = take_bit 8 w"
  by (rule bit_word_eqI) (auto simp: bit_simps)

lemma sidl_low:
  "(ucast ((ucast ((8 :: u32) OR take_bit 2 x OR push_bit 5 (take_bit 3 y)) :: u8) AND 3) :: u32)
     = take_bit 2 x"
  unfolding and_3_take by (rule bit_word_eqI) (auto simp: bit_simps bit_8)

lemma sidl_high:
  "(ucast (drop_bit 5 (ucast ((8 :: u32) OR take_bit 2 x OR push_bit 5 (take_bit 3 y)) :: u8)) :: u32)
     = take_bit 3 y"
  by (rule bit_word_eqI) (auto simp: bit_simps bit_8)

lemma sidl_extended:
  "(ucast ((8 :: u32) OR take_bit 2 x OR push_bit 5 (take_bit 3 y)) :: u8) AND 8 \<noteq> 0"
proof
  assume "(ucast ((8 :: u32) OR take_bit 2 x OR push_bit 5 (take_bit 3 y)) :: u8) AND 8 = 0"
  then have "bit ((ucast ((8 :: u32) OR take_bit 2 x OR push_bit 5 (take_bit 3 y)) :: u8) AND 8) 3
      = bit (0 :: u8) 3" by simp
  then show False by (simp add: bit_simps bit_8)
qed

lemma sidl_standard: "(ucast (push_bit 5 (take_bit 3 (x :: u32))) :: u8) AND 8 = 0"
  by (rule bit_word_eqI) (auto simp: bit_simps bit_8)

lemma extended_parts:
  "push_bit 21 (take_bit 8 (drop_bit 21 i)) OR push_bit 18 (take_bit 3 (drop_bit 18 i))
     OR push_bit 16 (take_bit 2 (drop_bit 16 i)) OR push_bit 8 (take_bit 8 (drop_bit 8 i))
     OR take_bit 8 (i :: u32) = take_bit 29 i"
proof (rule bit_word_eqI)
  fix n
  assume "n < LENGTH(32)"
  consider "n < 8" | "8 \<le> n" "n < 16" | "16 \<le> n" "n < 18" | "18 \<le> n" "n < 21" | "21 \<le> n"
    by linarith
  then show "bit (push_bit 21 (take_bit 8 (drop_bit 21 i)) OR push_bit 18 (take_bit 3 (drop_bit 18 i))
     OR push_bit 16 (take_bit 2 (drop_bit 16 i)) OR push_bit 8 (take_bit 8 (drop_bit 8 i))
     OR take_bit 8 i) n = bit (take_bit 29 i) n"
    by cases (auto simp: bit_simps)
qed

lemma standard_parts:
  "push_bit 3 (take_bit 8 (drop_bit 3 i)) OR take_bit 3 (i :: u32) = take_bit 11 i"
proof (rule bit_word_eqI)
  fix n
  assume "n < LENGTH(32)"
  consider "n < 3" | "3 \<le> n" by linarith
  then show "bit (push_bit 3 (take_bit 8 (drop_bit 3 i)) OR take_bit 3 i) n = bit (take_bit 11 i) n"
    by cases (auto simp: bit_simps)
qed

lemma sidl_standard_high:
  "(ucast (drop_bit 5 (ucast (push_bit 5 (take_bit 3 (x :: u32))) :: u8)) :: u32) = take_bit 3 x"
  by (rule bit_word_eqI) (auto simp: bit_simps)

lemma take_bit_small: "(w :: u32) < 2 ^ n \<Longrightarrow> n < 32 \<Longrightarrow> take_bit n w = w"
  by (simp add: take_bit_eq_mask less_mask_eq)

end
