(* ===== verification/Mcp2515_Props.thy ===== *)
theory Mcp2515_Props
  imports Mcp2515 CanId
begin

text \<open>
  What the CAN controller driver does, seen at three levels: the exact events of one SPI
  instruction, the list of register writes an operation performs (\<open>reg_writes\<close>), and the frames
  that travel through the registers.
\<close>

section \<open>One instruction is one bus transaction\<close>

definition txn_events :: "env \<Rightarrow> ('g, 'a) spi_st_scheme \<Rightarrow> u8 list list \<Rightarrow> event list" where
  "txn_events E s ds =
     (if SPI_busMutex s \<noteq> 0 then [Rtos (XSemaphoreTakeRecursive (SPI_busMutex s) (portMAX_DELAY E))] else [])
     @ [Rtos (ConfigASSERT True), Gpio (Gpio_put (SPI_cs s) False)]
     @ concat (map (\<lambda>d. dma_events E s (Some d) (Some d) (of_nat (length d)) (portMAX_DELAY E)) ds)
     @ [Rtos (ConfigASSERT True), Gpio (Gpio_put (SPI_cs s) True)]
     @ (if SPI_busMutex s \<noteq> 0 then [Rtos (XSemaphoreGiveRecursive (SPI_busMutex s))] else [])"

text \<open>The events do not depend on the parts of the state that change from call to call.\<close>

lemma dma_events_upd [simp]:
  "dma_events E (s\<lparr>trace := t\<rparr>) = dma_events E s"
  "dma_events E (s\<lparr>ub := u\<rparr>) = dma_events E s"
  "dma_events E (s\<lparr>SPI_csActive := c\<rparr>) = dma_events E s"
  by (simp_all add: dma_events_def [abs_def])

lemma txn_events_upd [simp]:
  "txn_events E (s\<lparr>trace := t\<rparr>) = txn_events E s"
  "txn_events E (s\<lparr>ub := u\<rparr>) = txn_events E s"
  "txn_events E (s\<lparr>SPI_csActive := c\<rparr>) = txn_events E s"
  by (simp_all add: txn_events_def [abs_def])

lemma spi_ready_upd [simp]:
  "spi_ready (s\<lparr>trace := t\<rparr>) = spi_ready s"
  "spi_ready (s\<lparr>ub := u\<rparr>) = spi_ready s"
  by (simp_all add: spi_ready_def spi_dma8_def)

lemma spi_readyD:
  assumes "spi_ready s"
  shows "SPI_enableDma s" "\<not> SPI_data16Bits s" "\<not> SPI_csActive s"
  using assms by (simp_all add: spi_ready_def spi_dma8_def)

lemmas instruction_simps =
  run_simps Let_def select_events_def deselect_events_def txn_events_def

lemma run_writeByte [run_simps]:
  assumes "spi_ready s"
  shows "run_state (writeByte E a d) s =
     ((), s\<lparr>trace := trace s @ txn_events E s [[CAN_WRITE, a, d]]\<rparr>)"
  using spi_readyD [OF assms] by (simp add: writeByte_def instruction_simps)

lemma run_bitModify [run_simps]:
  assumes "spi_ready s"
  shows "run_state (bitModify E a m d) s =
     ((), s\<lparr>trace := trace s @ txn_events E s [[CAN_BIT_MODIFY, a, m, d]]\<rparr>)"
  using spi_readyD [OF assms] by (simp add: bitModify_def instruction_simps)

lemma run_resetMcp2515 [run_simps]:
  assumes "spi_ready s"
  shows "run_state (resetMcp2515 E) s =
     ((), s\<lparr>trace := trace s @ txn_events E s [[CAN_WRITE, CAN_RESET]]\<rparr>)"
  using spi_readyD [OF assms] by (simp add: resetMcp2515_def instruction_simps)

text \<open>
  The byte a read returns is what the environment answers after the data phase of the transaction.
\<close>

definition read_prefix :: "env \<Rightarrow> ('g, 'a) spi_st_scheme \<Rightarrow> u8 \<Rightarrow> event list" where
  "read_prefix E s a =
     (if SPI_busMutex s \<noteq> 0 then [Rtos (XSemaphoreTakeRecursive (SPI_busMutex s) (portMAX_DELAY E))] else [])
     @ [Rtos (ConfigASSERT True), Gpio (Gpio_put (SPI_cs s) False)]
     @ dma_events E s (Some [CAN_READ, a]) (Some [CAN_READ, a]) 2 (portMAX_DELAY E)
     @ dma_events E s (Some [0]) (Some [0]) 1 (portMAX_DELAY E)"

lemma read_prefix_upd [simp]:
  "read_prefix E (s\<lparr>trace := t\<rparr>) = read_prefix E s"
  "read_prefix E (s\<lparr>ub := u\<rparr>) = read_prefix E s"
  by (simp_all add: read_prefix_def [abs_def])

lemma run_readByte [run_simps]:
  assumes "spi_ready s"
  shows "run_state (readByte E a) s =
     (miso E (trace s @ read_prefix E s a) 0,
      s\<lparr>trace := trace s @ txn_events E s [[CAN_READ, a], [0]]\<rparr>)"
  using spi_readyD [OF assms]
  by (simp add: readByte_def instruction_simps read_prefix_def received_def)

section \<open>Commands and register writes in a trace\<close>

lemma mosi_txn [trace_simps, simp]: "mosi (txn_events E s ds) = ds"
proof -
  have "mosi (concat (map (\<lambda>d. dma_events E s (Some d) (Some d) (of_nat (length d)) (portMAX_DELAY E)) ds)) = ds"
    by (induction ds) simp_all
  then show ?thesis by (simp add: txn_events_def mosi_Cons)
qed

lemma mosi_read_prefix [trace_simps, simp]: "mosi (read_prefix E s a) = [[CAN_READ, a], [0]]"
  by (simp add: read_prefix_def mosi_Cons)

text \<open>A WRITE instruction of one byte: opcode, address, data.\<close>

fun write_of :: "u8 list \<Rightarrow> (u8 \<times> u8) list" where
  "write_of [opc, a, d] = (if opc = CAN_WRITE then [(a, d)] else [])"
| "write_of _ = []"

definition reg_writes :: "event list \<Rightarrow> (u8 \<times> u8) list" where
  "reg_writes t = concat (map write_of (mosi t))"

lemma reg_writes_append [simp]: "reg_writes (t @ u) = reg_writes t @ reg_writes u"
  by (simp add: reg_writes_def)

lemma reg_writes_txn [simp]:
  "reg_writes (txn_events E s [[CAN_WRITE, a, d]]) = [(a, d)]"
  "reg_writes (txn_events E s [[CAN_READ, a], [0]]) = []"
  "reg_writes (txn_events E s [[CAN_BIT_MODIFY, a, m, d]]) = []"
  "reg_writes (txn_events E s [[CAN_WRITE, CAN_RESET]]) = []"
  by (simp_all add: reg_writes_def)

section \<open>The register port as an interface\<close>

text \<open>
  What the configuration and frame operations assume of register access: a write leaves the port
  ready and is recorded once, at the end.
\<close>

locale register_port =
  fixes ready :: "'s \<Rightarrow> bool"
    and wr :: "u8 \<Rightarrow> u8 \<Rightarrow> 's \<Rightarrow> 's"
    and writes :: "'s \<Rightarrow> (u8 \<times> u8) list"
  assumes ready_write: "ready s \<Longrightarrow> ready (wr a d s)"
    and writes_write: "ready s \<Longrightarrow> writes (wr a d s) = writes s @ [(a, d)]"
begin

definition write_all :: "(u8 \<times> u8) list \<Rightarrow> 's \<Rightarrow> 's" where
  "write_all ws = fold (\<lambda>(a, d). wr a d) ws"

lemma write_all_simps [simp]:
  "write_all [] s = s"
  "write_all ((a, d) # ws) s = write_all ws (wr a d s)"
  "write_all (ws @ vs) s = write_all vs (write_all ws s)"
  by (simp_all add: write_all_def)

lemma ready_write_all: "ready s \<Longrightarrow> ready (write_all ws s)"
  by (induction ws arbitrary: s) (auto simp: ready_write)

lemma writes_write_all: "ready s \<Longrightarrow> writes (write_all ws s) = writes s @ ws"
  by (induction ws arbitrary: s) (auto simp: ready_write writes_write)

end

interpretation port: register_port spi_ready "\<lambda>a d. exec (writeByte E a d)" "\<lambda>s. reg_writes (trace s)"
  for E :: env
  by unfold_locales (simp_all add: exec_def run_writeByte)

text \<open>Folding register writes over a state only extends its trace.\<close>

lemma exec_writeByte:
  "spi_ready s \<Longrightarrow> exec (writeByte E a d) s = s\<lparr>trace := trace s @ txn_events E s [[CAN_WRITE, a, d]]\<rparr>"
  by (simp add: exec_def run_writeByte)

lemma write_all_state:
  "spi_ready s \<Longrightarrow> port.write_all E ws s =
     s\<lparr>trace := trace s @ concat (map (\<lambda>(a, d). txn_events E s [[CAN_WRITE, a, d]]) ws)\<rparr>"
proof (induction ws arbitrary: s)
  case Nil
  then show ?case by simp
next
  case (Cons w ws)
  obtain a d where w: "w = (a, d)" by (cases w)
  show ?case
    using Cons.IH [of "exec (writeByte E a d) s"] Cons.prems by (simp add: w exec_writeByte)
qed

section \<open>Operations as lists of register writes\<close>

definition id_writes :: "u8 \<Rightarrow> u32 \<Rightarrow> bool \<Rightarrow> (u8 \<times> u8) list" where
  "id_writes sidh ident extended =
     (if extended
      then [(sidh, ucast (drop_bit 21 ident)),
            (sidh + 1, ucast (ucast EXIDE_SET OR push_bit 5 (drop_bit 18 ident AND 7)
               OR (drop_bit 16 ident AND 3) :: u32)),
            (sidh + 2, ucast (drop_bit 8 ident)),
            (sidh + 3, ucast ident)]
      else [(sidh, ucast (drop_bit 3 ident)), (sidh + 1, ucast (push_bit 5 (ident AND 7))),
            (sidh + 2, 0), (sidh + 3, 0)])"

lemma ucast_and_255 [simp]: "(ucast ((w :: u32) AND 255) :: u8) = ucast w"
proof -
  have "w AND 255 = take_bit 8 w" by (simp add: take_bit_eq_mask mask_eq_exp_minus_1)
  then show ?thesis by (simp only:) (rule bit_word_eqI, simp add: bit_simps)
qed

lemma exec_writeFilterOrMask:
  "exec (writeFilterOrMask E sidh ident extended) s = port.write_all E (id_writes sidh ident extended) s"
  by (simp add: writeFilterOrMask_def id_writes_def)

definition tx_header :: "u32 \<Rightarrow> (u8 \<times> u8) list" where
  "tx_header canId =
     (if canId > 0x7FF
      then [(TXB0EID0, ucast canId), (TXB0EID8, ucast (drop_bit 8 canId)),
            (TXB0SIDL, ucast (8 OR (drop_bit 16 canId AND 3) OR push_bit 5 (drop_bit 18 canId AND 7))),
            (TXB0SIDH, ucast (drop_bit 21 canId))]
      else [(TXB0SIDH, ucast (drop_bit 3 canId)), (TXB0SIDL, ucast (push_bit 5 (canId AND 7)))])"

definition tx_data :: "nat list \<Rightarrow> u8 list \<Rightarrow> (u8 \<times> u8) list" where
  "tx_data js buf = map (\<lambda>j. (TXB0D0 + of_nat j, buf ! j)) js"

definition tx_writes :: "u32 \<Rightarrow> u8 list \<Rightarrow> u8 \<Rightarrow> (u8 \<times> u8) list" where
  "tx_writes canId buf len =
     tx_header canId @ (TXB0DLC, len) # tx_data [0..<unat len] buf @ [(TXB0CTRL, 0x08)]"

lemma exec_mem_load [simp]: "i < length buf \<Longrightarrow> exec (mem_load buf i) s = s"
  and result_mem_load [simp]: "i < length buf \<Longrightarrow> result (mem_load buf i) s = buf ! i"
  by (simp_all add: exec_def result_def run_mem_load)

lemma exec_tx_loop:
  assumes "\<And>j. j \<in> set js \<Longrightarrow> j < length buf"
  shows "exec (for_each js (\<lambda>j. do { b \<leftarrow> mem_load buf j; writeByte E (TXB0D0 + of_nat j) b })) s =
           port.write_all E (tx_data js buf) s"
  using assms by (induction js arbitrary: s) (simp_all add: tx_data_def)

lemma exec_txBuffer0Send:
  assumes "unat len \<le> length buf"
  shows "exec (txBuffer0Send E canId buf len) s = port.write_all E (tx_writes canId buf len) s"
proof -
  have "exec (for_each [0..<unat len] (\<lambda>j. do { b \<leftarrow> mem_load buf j; writeByte E (TXB0D0 + of_nat j) b })) t =
          port.write_all E (tx_data [0..<unat len] buf) t" for t :: "('a, 'b) mcp_st_scheme"
    by (rule exec_tx_loop) (use assms in auto)
  then show ?thesis by (simp add: txBuffer0Send_def tx_writes_def tx_header_def)
qed

section \<open>Register values\<close>

text \<open>The value a register was last written with.\<close>

definition reg_value :: "(u8 \<times> u8) list \<Rightarrow> u8 \<Rightarrow> u8" where
  "reg_value ws a = (case map_of (rev ws) a of Some v \<Rightarrow> v | None \<Rightarrow> 0)"

lemma reg_writes_read_prefix [simp]: "reg_writes (read_prefix E s a) = []"
  by (simp add: reg_writes_def)

lemma data_addr: "i < 8 \<Longrightarrow> (0x61 :: u8) \<le> 0x66 + of_nat i \<and> 0x66 + of_nat i \<le> (0x6D :: u8)"
proof -
  assume "i < 8"
  then consider "i = 0" | "i = 1" | "i = 2" | "i = 3" | "i = 4" | "i = 5" | "i = 6" | "i = 7" by linarith
  then show ?thesis by cases simp_all
qed

lemma fold_update_patch:
  "n \<le> length buf \<Longrightarrow> fold (\<lambda>i b. b[i := f i]) [0..<n] buf = patch buf (map f [0..<n])"
  by (induction n) (simp_all add: patch_snoc [of "map f [0..<n]" for n, simplified])

text \<open>The values of the transmit registers after a send.\<close>

lemma map_of_tx_data:
  assumes "n \<le> 8"
  shows "map_of (rev (tx_data [0..<n] buf)) a =
           (if 0x36 \<le> a \<and> unat (a - 0x36) < n then Some (buf ! unat (a - 0x36)) else None)"
  using assms
proof (induction n)
  case 0
  then show ?case by (simp add: tx_data_def)
next
  case (Suc n)
  have "n = 0 \<or> n = 1 \<or> n = 2 \<or> n = 3 \<or> n = 4 \<or> n = 5 \<or> n = 6 \<or> n = 7" using Suc.prems by linarith
  then have "unat (a - 0x36) = n \<longleftrightarrow> a = 0x36 + of_nat n"
    and "(0x36 :: u8) \<le> 0x36 + of_nat n" and "unat (of_nat n :: u8) = n"
    by (auto simp: word_unat_eq_iff unat_sub_if' unat_word_ariths split: if_splits)
  then show ?case
    using Suc by (auto simp: tx_data_def regs less_Suc_eq)
qed

lemma tx_reg_values:
  assumes len: "unat len \<le> 8"
  notes md = map_of_tx_data [OF len, of buf]
  shows "reg_value (W @ tx_writes canId buf len) 0x35 = len"
    and "i < unat len \<Longrightarrow> reg_value (W @ tx_writes canId buf len) (0x36 + of_nat i) = buf ! i"
    and "canId > 0x7FF \<Longrightarrow> reg_value (W @ tx_writes canId buf len) 0x31 = ucast (drop_bit 21 canId)"
    and "canId > 0x7FF \<Longrightarrow> reg_value (W @ tx_writes canId buf len) 0x32 =
           ucast (8 OR (drop_bit 16 canId AND 3) OR push_bit 5 (drop_bit 18 canId AND 7))"
    and "canId > 0x7FF \<Longrightarrow> reg_value (W @ tx_writes canId buf len) 0x33 = ucast (drop_bit 8 canId)"
    and "canId > 0x7FF \<Longrightarrow> reg_value (W @ tx_writes canId buf len) 0x34 = ucast canId"
    and "\<not> canId > 0x7FF \<Longrightarrow> reg_value (W @ tx_writes canId buf len) 0x31 = ucast (drop_bit 3 canId)"
    and "\<not> canId > 0x7FF \<Longrightarrow> reg_value (W @ tx_writes canId buf len) 0x32 = ucast (push_bit 5 (canId AND 7))"
proof -
  show "i < unat len \<Longrightarrow> reg_value (W @ tx_writes canId buf len) (0x36 + of_nat i) = buf ! i"
  proof -
    assume i: "i < unat len"
    with assms have "i = 0 \<or> i = 1 \<or> i = 2 \<or> i = 3 \<or> i = 4 \<or> i = 5 \<or> i = 6 \<or> i = 7" by linarith
    then have "(0x36 :: u8) \<le> 0x36 + of_nat i" "unat (of_nat i :: u8) = i" "(0x36 :: u8) + of_nat i \<noteq> 0x30"
      by auto
    with i show ?thesis by (simp add: reg_value_def tx_writes_def md map_add_def regs)
  qed
qed (simp_all add: reg_value_def tx_writes_def tx_header_def md map_add_def regs)

text \<open>The read side, as a function of the register values it finds.\<close>

lemma exec_readByte [simp]:
  "spi_ready s \<Longrightarrow> exec (readByte E a) s = s\<lparr>trace := trace s @ txn_events E s [[CAN_READ, a], [0]]\<rparr>"
  by (simp add: exec_def run_readByte)

lemma and_15_id: "unat (len :: u8) \<le> 8 \<Longrightarrow> len AND 0x0F = len"
proof -
  assume "unat len \<le> 8"
  then have "len < 2 ^ 4" by (simp add: word_less_nat_alt)
  then show ?thesis using less_mask_eq [of len 4] by (simp add: mask_eq_exp_minus_1)
qed

end
