(* ===== verification/Mcp2515_Config.thy ===== *)
theory Mcp2515_Config
  imports Mcp2515_Props
begin

text \<open>
  The configuration side of the CAN controller driver: bit timing, acceptance filters and masks,
  the reset command, the register header, and the bus discipline every operation of the class keeps.
\<close>

section \<open>Bit timing\<close>

definition nominal_bps :: "Bitrate \<Rightarrow> nat" where
  "nominal_bps b =
     [5000, 10000, 20000, 50000, 100000, 125000, 250000, 500000, 1000000] ! bitrate_code b"

text \<open>
  The controller's datasheet: a time quantum is \<open>2 * (BRP + 1)\<close> oscillator clocks, a bit one
  quantum of synchronisation followed by the three programmed segments; phase segment 2 is
  programmed by CNF3 only when BTLMODE is set and otherwise follows phase segment 1, but is at least
  the information processing time of 2.
\<close>

definition bit_time_clocks :: "u8 \<Rightarrow> u8 \<Rightarrow> u8 \<Rightarrow> nat" where
  "bit_time_clocks cnf1 cnf2 cnf3 =
     (let brp = unat (cnf1 AND 0x3F);
          prseg = unat (cnf2 AND 0x07) + 1;
          phseg1 = unat (drop_bit 3 cnf2 AND 0x07) + 1;
          phseg2 = (if cnf2 AND BTLMODE \<noteq> 0 then unat (cnf3 AND 0x07) + 1 else max phseg1 2)
      in 2 * (brp + 1) * (1 + prseg + phseg1 + phseg2))"

definition oscillator_hz :: "Oscillator \<Rightarrow> nat" where
  "oscillator_hz osc = (if osc = MHZ8 then 8000000 else 16000000)"

lemma table_16MHz:
  "bit_time_clocks (bitrateToReg_16MHz ! bitrate_code b ! 0) (bitrateToReg_16MHz ! bitrate_code b ! 1)
     (bitrateToReg_16MHz ! bitrate_code b ! 2) * nominal_bps b = 16000000"
  by (cases b) (simp_all add: bitrateToReg_16MHz_def bit_time_clocks_def nominal_bps_def regs Let_def)

lemma table_8MHz:
  "bit_time_clocks (bitrateToReg_8MHz ! bitrate_code b ! 0) (bitrateToReg_8MHz ! bitrate_code b ! 1)
     (bitrateToReg_8MHz ! bitrate_code b ! 2) * nominal_bps b = (if b = KBPS5 then 10000000 else 16000000)"
  by (cases b) (simp_all add: bitrateToReg_8MHz_def bit_time_clocks_def nominal_bps_def regs Let_def)

text \<open>The controller runs at the nominal rate when one bit takes \<open>hz / bps\<close> clocks.\<close>

definition runs_at :: "Oscillator \<Rightarrow> Bitrate \<Rightarrow> (u8 \<times> u8) list \<Rightarrow> bool" where
  "runs_at osc b ws \<longleftrightarrow>
     bit_time_clocks (reg_value ws CNF1) (reg_value ws CNF2) (reg_value ws CNF3) * nominal_bps b
       = oscillator_hz osc"

lemma exec_setMcp2515Bitrate:
  "exec (setMcp2515Bitrate E) s = port.write_all E
     [(CNF1, Mcp_bitrateAddr s ! 0), (CNF2, Mcp_bitrateAddr s ! 1), (CNF3, Mcp_bitrateAddr s ! 2)] s"
proof -
  have upd: "Mcp_bitrateAddr (exec (writeByte E a d) s) = Mcp_bitrateAddr s" for a d s
    by (simp add: exec_def writeByte_def csSelect_def csDeselect_def transfer_def dmaWrite_def dmaRead_def
        dmaStart_def land_at_def run_simps)
  show ?thesis by (simp add: setMcp2515Bitrate_def)
qed

lemma exec_Mcp2515_init:
  "exec (Mcp2515_init pin osc b) s = s\<lparr>
     Mcp_bitrateAddr := (if osc = MHZ8 then bitrateToReg_8MHz else bitrateToReg_16MHz) ! bitrate_code b,
     Mcp_intPin := pin\<rparr>"
  by (simp add: Mcp2515_init_def)

lemma spi_ready_init [simp]: "spi_ready (s\<lparr>Mcp_bitrateAddr := row, Mcp_intPin := pin\<rparr>) = spi_ready s"
  by (simp add: spi_ready_def spi_dma8_def)

lemma writes_setMcp2515Bitrate:
  "spi_ready s \<Longrightarrow> reg_writes (trace (exec (setMcp2515Bitrate E) (exec (Mcp2515_init pin osc b) s))) =
     reg_writes (trace s) @
       (let row = (if osc = MHZ8 then bitrateToReg_8MHz else bitrateToReg_16MHz) ! bitrate_code b
        in [(CNF1, row ! 0), (CNF2, row ! 1), (CNF3, row ! 2)])"
  unfolding exec_setMcp2515Bitrate by (subst port.writes_write_all) (simp_all add: exec_Mcp2515_init Let_def)

text \<open>
  C19: After construction with a 16 MHz crystal, \<open>setMcp2515Bitrate\<close> programs a bit time that is
  exactly the selected rate, for each of the nine rates; with an 8 MHz crystal it is never the
  selected rate: the rows of that table (all but the first) take as many clocks per bit as the rate
  needs at 16 MHz, so the bus runs at half the rate asked for.
\<close>

theorem bitrate_programmed:
  assumes "spi_ready s"
  shows "runs_at osc b (reg_writes (trace (exec (setMcp2515Bitrate E) (exec (Mcp2515_init pin osc b) s))))
           \<longleftrightarrow> osc = MHZ16"
  unfolding writes_setMcp2515Bitrate [OF assms] using table_16MHz [of b] table_8MHz [of b]
  by (cases osc) (simp_all add: runs_at_def oscillator_hz_def reg_value_def Let_def regs split: if_splits)

section \<open>Acceptance filters and masks\<close>

text \<open>The bus lock only adds an event that is no SPI traffic.\<close>

definition lock_events :: "env \<Rightarrow> ('g, 'a) spi_st_scheme \<Rightarrow> event list" where
  "lock_events E s =
     (if SPI_busMutex s \<noteq> 0 then [Rtos (XSemaphoreTake (SPI_busMutex s) (portMAX_DELAY E))] else [])"

definition unlock_events :: "('g, 'a) spi_st_scheme \<Rightarrow> event list" where
  "unlock_events s = (if SPI_busMutex s \<noteq> 0 then [Rtos (XSemaphoreGive (SPI_busMutex s))] else [])"

lemma exec_lock: "exec (lock E) s = s\<lparr>trace := trace s @ lock_events E s\<rparr>"
  and exec_unlock: "exec unlock s = s\<lparr>trace := trace s @ unlock_events s\<rparr>"
  by (simp_all add: exec_def run_lock run_unlock lock_events_def unlock_events_def)

lemma lock_events_upd [simp]:
  "lock_events E (s\<lparr>trace := t\<rparr>) = lock_events E s" "unlock_events (s\<lparr>trace := t\<rparr>) = unlock_events s"
  "mosi (lock_events E s) = []" "mosi (unlock_events s) = []"
  by (simp_all add: lock_events_def unlock_events_def mosi_Cons)

lemma result_readByte: "spi_ready s \<Longrightarrow> result (readByte E a) s = miso E (trace s @ read_prefix E s a) 0"
  by (simp add: result_def run_readByte)

text \<open>The common body of \<open>setFilter\<close> and \<open>setMask\<close>.\<close>

definition configure_id :: "env \<Rightarrow> u8 \<Rightarrow> u32 \<Rightarrow> bool \<Rightarrow> u8 \<Rightarrow> (('g, 'a) mcp_st_scheme, unit) state" where
  "configure_id E sidh ident extended rxb = do {
     lock E;
     writeByte E CANCTRL REQOP_CONFIG;
     writeFilterOrMask E sidh ident extended;
     writeByte E CANCTRL (REQOP_NORMAL OR CLKOUT_ENABLED);
     ctrl \<leftarrow> readByte E rxb;
     writeByte E rxb (ctrl AND NOT RXM);
     unlock
   }"

lemma setFilter_configure:
  "\<not> 6 \<le> filterId \<Longrightarrow> setFilter E filterId canId extended =
     configure_id E (filterSidh ! unat filterId) canId extended (if filterId < 2 then RXB0CTRL else RXB1CTRL)"
  by (simp add: setFilter_def configure_id_def Let_def)

lemma setMask_configure:
  "\<not> 2 \<le> maskId \<Longrightarrow> setMask E maskId msk extended =
     configure_id E (maskSidh ! unat maskId) msk extended ([RXB0CTRL, RXB1CTRL] ! unat maskId)"
  by (simp add: setMask_def configure_id_def Let_def)

text \<open>
  \<open>configures s u sidh ident extended rxb\<close>: from \<open>s\<close> to \<open>u\<close> the controller was put
  into configuration mode, the four identifier registers at \<open>sidh\<close> were written, normal mode was
  restored and the receive mode bits (and only those) of \<open>rxb\<close> were cleared in the value just
  read from it.
\<close>

definition configures ::
  "env \<Rightarrow> ('g, 'a) mcp_st_scheme \<Rightarrow> ('g, 'a) mcp_st_scheme \<Rightarrow> u8 \<Rightarrow> u32 \<Rightarrow> bool \<Rightarrow> u8 \<Rightarrow> bool" where
  "configures E s u sidh ident extended rxb \<longleftrightarrow>
     (\<exists>t m. reg_writes (trace u) = reg_writes (trace s) @ [(0x0F, 0x80)] @ id_writes sidh ident extended
              @ [(0x0F, 0x04), (rxb, miso E t 0 AND NOT 0x60)]
          \<and> mosi t = m @ [[0x03, rxb], [0]]
          \<and> spi_ready u \<and> ub u = ub s)"

lemma write_all_trace:
  "spi_ready s \<Longrightarrow> \<exists>es. port.write_all E ws s = s\<lparr>trace := trace s @ es\<rparr> \<and> reg_writes es = ws"
  using write_all_state [of s E ws] port.writes_write_all [of s E ws] by auto

lemma configure_id_configures:
  assumes "spi_ready s"
  shows "configures E s (exec (configure_id E sidh ident extended rxb) s) sidh ident extended rxb"
proof -
  let ?s1 = "s\<lparr>trace := trace s @ lock_events E s @ txn_events E s [[CAN_WRITE, CANCTRL, REQOP_CONFIG]]\<rparr>"
  obtain es where es: "port.write_all E (id_writes sidh ident extended) ?s1 =
      ?s1\<lparr>trace := trace ?s1 @ es\<rparr>" "reg_writes es = id_writes sidh ident extended"
    using write_all_trace [of ?s1 E "id_writes sidh ident extended"] assms by auto
  let ?s2 = "?s1\<lparr>trace := trace ?s1 @ es @ txn_events E s [[CAN_WRITE, CANCTRL, REQOP_NORMAL OR CLKOUT_ENABLED]]\<rparr>"
  have reg_l: "reg_writes (lock_events E s) = []" "reg_writes (unlock_events s) = []"
    by (simp_all add: reg_writes_def)
  let ?t = "trace ?s2 @ read_prefix E s rxb"
  have "exec (configure_id E sidh ident extended rxb) s =
      s\<lparr>trace := trace ?s2 @ txn_events E s [[CAN_READ, rxb], [0]]
        @ txn_events E s [[CAN_WRITE, rxb, miso E ?t 0 AND NOT RXM]] @ unlock_events s\<rparr>"
    using assms es(1)
    by (simp add: configure_id_def exec_lock exec_unlock exec_writeByte exec_writeFilterOrMask result_readByte)
  then show ?thesis
    unfolding configures_def using assms es(2) reg_l
    by (intro exI [of _ ?t] exI [of _ "mosi (trace ?s2)"])
       (simp add: regs reg_writes_txn [unfolded regs] mosi_read_prefix [unfolded regs])
qed

text \<open>
  C18: \<open>setFilter\<close> of filters 0 to 5 writes exactly the documented sequence: configuration mode,
  the four identifier registers of that filter, normal mode, and the receive buffer the filter
  belongs to (0 and 1: RXB0, 2 to 5: RXB1) switched to filtering with its other bits as they were; any
  other number leaves the state as it is.
\<close>

theorem setFilter_effect:
  assumes "spi_ready s"
  shows "if filterId < 6
         then configures E s (exec (setFilter E filterId canId extended) s)
                ([0x00, 0x04, 0x08, 0x10, 0x14, 0x18] ! unat filterId) canId extended
                (if filterId < 2 then 0x60 else 0x70)
         else exec (setFilter E filterId canId extended) s = s"
  using configure_id_configures [OF assms, where E = E and ident = canId and extended = extended]
  by (simp add: setFilter_configure not_less [symmetric] del: not_less)
     (simp add: filterSidh_def regs setFilter_def linorder_not_less)

text \<open>
  \<open>setMask\<close> of masks 0 and 1 writes exactly the documented sequence to the identifier
  registers of that mask and the control register of the receive buffer of the same number; any other
  number leaves the state as it is.
\<close>

theorem setMask_effect:
  assumes "spi_ready s"
  shows "if maskId < 2
         then configures E s (exec (setMask E maskId msk extended) s)
                ([0x20, 0x24] ! unat maskId) msk extended ([0x60, 0x70] ! unat maskId)
         else exec (setMask E maskId msk extended) s = s"
  using configure_id_configures [OF assms, where E = E and ident = msk and extended = extended]
  by (simp add: setMask_configure not_less [symmetric] del: not_less)
     (simp add: maskSidh_def regs setMask_def linorder_not_less)

end
