(* ===== verification/Mcp2515_Limits.thy ===== *)
theory Mcp2515_Limits
  imports Mcp2515_Config
begin

text \<open>
  Where the controller driver meets its limits: frame lengths beyond 8, the identifiers a filter
  can express, the reset command, the bus lock, and the register header's own consistency.
\<close>

section \<open>Identifiers\<close>

text \<open>
  A filter set up for an identifier holds, register by register, what the identifier registers
  of a frame with that identifier hold: all four of them for an extended identifier, the two standard
  ones otherwise.
\<close>

theorem filter_matches_frame:
  "let ext = (canId > 0x7FF); f = id_writes sidh canId ext
   in map_of f sidh = map_of (tx_header canId) 0x31
    \<and> map_of f (sidh + 1) = map_of (tx_header canId) 0x32
    \<and> (if ext then map_of f (sidh + 2) = map_of (tx_header canId) 0x33
                 \<and> map_of f (sidh + 3) = map_of (tx_header canId) 0x34
       else map_of f (sidh + 2) = Some 0 \<and> map_of f (sidh + 3) = Some 0)"
proof -
  have "sidh + 1 \<noteq> sidh" "sidh + 2 \<noteq> sidh" "sidh + 3 \<noteq> sidh" "sidh + 2 \<noteq> sidh + 1" "sidh + 3 \<noteq> sidh + 1"
    "sidh + 3 \<noteq> sidh + 2" by simp_all
  note distinct = this this [symmetric]
  have "ucast EXIDE_SET OR x OR y = 8 OR y OR x" for x y :: u32
    by (simp add: regs or.assoc or.commute [of x y])
  then show ?thesis
    using distinct by (simp add: id_writes_def tx_header_def TXB0SIDH_def TXB0SIDL_def TXB0EID8_def TXB0EID0_def Let_def)
qed

section \<open>Frame lengths\<close>

lemma set_tx_data: "set (tx_data [0..<n] buf) = (\<lambda>j. (TXB0D0 + of_nat j, buf ! j)) ` {0..<n}"
  by (simp add: tx_data_def)

lemma tx_data_written:
  "j < unat len \<Longrightarrow> (TXB0D0 + of_nat j, buf ! j) \<in> set (tx_writes canId buf len)"
  by (simp add: tx_writes_def set_tx_data)

lemma data_register_in_window:
  assumes "j < 256"
  shows "0x36 \<le> TXB0D0 + of_nat j \<and> TXB0D0 + of_nat j \<le> 0x3D \<longleftrightarrow> j < 8"
proof -
  have "unat (TXB0D0 + of_nat j) = (54 + j) mod 256"
    using assms by (simp add: regs unat_word_ariths unat_of_nat)
  moreover have "(54 + j) mod 256 = (if j < 202 then 54 + j else j - 202)"
    using assms by (simp add: mod_if)
  ultimately show ?thesis
    using assms by (auto simp: word_le_nat_alt)
qed

lemma tx_header_window: "(a, d) \<in> set (tx_header canId) \<Longrightarrow> 0x30 \<le> a \<and> a \<le> 0x3D"
  by (auto simp: tx_header_def regs split: if_splits)

text \<open>
  C29: \<open>txBuffer0Send\<close> stays inside the registers of transmit buffer 0 exactly for lengths up
  to 8; nothing in the code checks the length, and from 10 on the tenth data byte is written to
  address 0x3F, an alias of the control register CANCTRL.
\<close>

theorem txBuffer0Send_window:
  assumes "spi_ready s" and "unat len \<le> length buf"
  shows "\<exists>ws. reg_writes (trace (exec (txBuffer0Send E canId buf len) s)) = reg_writes (trace s) @ ws
           \<and> ((\<forall>(a, d) \<in> set ws. 0x30 \<le> a \<and> a \<le> 0x3D) \<longleftrightarrow> unat len \<le> 8)
           \<and> (10 \<le> unat len \<longrightarrow> (0x3F, buf ! 9) \<in> set ws)"
proof (intro exI conjI impI)
  let ?ws = "tx_writes canId buf len"
  show "reg_writes (trace (exec (txBuffer0Send E canId buf len) s)) = reg_writes (trace s) @ ?ws"
    using assms by (simp add: exec_txBuffer0Send port.writes_write_all)
  show "(\<forall>(a, d) \<in> set ?ws. 0x30 \<le> a \<and> a \<le> 0x3D) \<longleftrightarrow> unat len \<le> 8"
  proof
    assume all: "\<forall>(a, d) \<in> set ?ws. 0x30 \<le> a \<and> a \<le> 0x3D"
    show "unat len \<le> 8"
    proof (rule ccontr)
      assume "\<not> unat len \<le> 8"
      then have "(TXB0D0 + of_nat 8, buf ! 8) \<in> set ?ws" by (intro tx_data_written) simp
      with all have "TXB0D0 + of_nat 8 \<le> (0x3D :: u8)" by auto
      then show False by (simp add: regs)
    qed
  next
    assume "unat len \<le> 8"
    then have "0x30 \<le> TXB0D0 + of_nat j \<and> TXB0D0 + of_nat j \<le> (0x3D :: u8)" if "j < unat len" for j
      using that data_register_in_window [of j] by (auto simp: word_le_nat_alt)
    then show "\<forall>(a, d) \<in> set ?ws. 0x30 \<le> a \<and> a \<le> 0x3D"
      using tx_header_window by (auto simp: tx_writes_def set_tx_data regs dest: tx_header_window)
  qed
  assume "10 \<le> unat len"
  then have "(TXB0D0 + of_nat 9, buf ! 9) \<in> set ?ws" by (intro tx_data_written) simp
  then show "(0x3F, buf ! 9) \<in> set ?ws" by (simp add: regs)
qed

lemma transactions_keep_ub:
  "spi_ready s \<Longrightarrow> ub (exec (read_into E base is buf) s) \<longleftrightarrow> ub s \<or> (\<exists>i \<in> set is. length buf \<le> i)"
  by (induction "is" arbitrary: s buf) (auto simp: exec_def run_readByte run_mem_store)

lemma length_read_into: "length (result (read_into E base is buf) s) = length buf"
  by (induction "is" arbitrary: s buf) (auto simp: result_def exec_def run_mem_store split_beta)

text \<open>
  The receive functions take the length from the frame: they report a length of at most 15 (not
  8), store that many bytes, and run past the caller's buffer exactly when it is shorter than that; a
  frame whose length code is 9 to 15 overruns an 8-byte buffer.
\<close>

theorem rx_read_overrun:
  assumes "spi_ready s"
  shows "(case result (rxBuffer0Read E buf) s of (_, buf', len) \<Rightarrow>
            unat len \<le> 15 \<and> length buf' = length buf
            \<and> ub (exec (rxBuffer0Read E buf) s) = (ub s \<or> length buf < unat len))
       \<and> (case result (rxBuffer1Read E buf) s of (_, buf', len) \<Rightarrow>
            unat len \<le> 15 \<and> length buf' = length buf
            \<and> ub (exec (rxBuffer1Read E buf) s) = (ub s \<or> length buf < unat len))"
proof -
  note steps = rxBuffer0Read_def rxBuffer1Read_def Let_def transactions_keep_ub length_read_into split_beta
  have nibble: "unat (w AND 0x0F) \<le> 15" for w :: u8
    using word_and_le1 [of w "0x0F"] by (simp add: word_le_nat_alt)
  have loop: "(\<exists>i \<in> {0..<n}. m \<le> i) \<longleftrightarrow> m < n" for m n :: nat
    by (auto intro: bexI [of _ m])
  show ?thesis
    using assms nibble by (simp add: steps loop)
qed

section \<open>Reset, lock and header\<close>

text \<open>
  The controller's RESET instruction is the single byte 0xC0 at the start of a transaction.
\<close>

text \<open>
  \<open>resetMcp2515\<close> never resets the controller: the one command it sends is a WRITE
  instruction whose address byte is the RESET opcode and which carries no data.
\<close>

theorem reset_is_no_reset:
  assumes "spi_ready s"
  shows "mosi (trace (exec (resetMcp2515 E) s)) = mosi (trace s) @ [[CAN_WRITE, CAN_RESET]]
       \<and> hd [CAN_WRITE, CAN_RESET] \<noteq> CAN_RESET
       \<and> reg_writes (trace (exec (resetMcp2515 E) s)) = reg_writes (trace s)"
  using assms by (simp add: exec_def run_resetMcp2515) (simp add: regs)

text \<open>
  The constructor of the bus creates its mutex with \<open>xSemaphoreCreateRecursiveMutex\<close>, and
  chip select takes it with \<open>xSemaphoreTakeRecursive\<close>; but \<open>lock\<close>, as \<open>setFilter\<close> and
  \<open>setMask\<close> use it, takes the same handle with \<open>xSemaphoreTake\<close>, which FreeRTOS documents as
  not allowed on a recursive mutex.
\<close>

theorem lock_mixes_mutex_interfaces:
  assumes "\<And>t. handle_answer E t \<noteq> 0"
    and "u = exec (SPI_init E spi baudrate cs sck mosi_pin miso_pin data16 cpol cpha order False) s"
  shows "\<exists>t. trace u = trace s @ t \<and> Rtos XSemaphoreCreateRecursiveMutex \<in> set t
           \<and> (\<exists>t'. SPI_busMutex u = handle_answer E (t' @ [Rtos XSemaphoreCreateRecursiveMutex]))
           \<and> trace (exec (lock E) u) = trace u @ [Rtos (XSemaphoreTake (SPI_busMutex u) (portMAX_DELAY E))]
           \<and> Rtos (XSemaphoreTakeRecursive (SPI_busMutex u) (portMAX_DELAY E)) \<in> set (appends (csSelect E) u)"
proof -
  let ?es = "[Spi (Spi_init spi baudrate), Gpio (Gpio_set_function cs GPIO_FUNC_SIO),
    Gpio (Gpio_set_function sck GPIO_FUNC_SPI), Gpio (Gpio_set_function mosi_pin GPIO_FUNC_SPI),
    Gpio (Gpio_set_function miso_pin GPIO_FUNC_SPI), Gpio (Gpio_set_dir cs True), Gpio (Gpio_put cs True)]"
  let ?fs = "[Rtos XSemaphoreCreateRecursiveMutex,
              Spi (Spi_set_format spi (if data16 then 16 else 8) cpol cpha order)]"
  have m: "SPI_busMutex u = handle_answer E ((trace s @ ?es) @ [Rtos XSemaphoreCreateRecursiveMutex])"
    and t: "trace u = trace s @ (?es @ ?fs)"
    unfolding assms(2) by (simp_all add: SPI_init_def setFormat_def exec_def run_simps)
  have ne: "SPI_busMutex u \<noteq> 0" unfolding m by (rule assms(1))
  show ?thesis
  proof (intro exI conjI)
    show "trace u = trace s @ (?es @ ?fs)" by (rule t)
    show "SPI_busMutex u = handle_answer E ((trace s @ ?es) @ [Rtos XSemaphoreCreateRecursiveMutex])" by (rule m)
  qed (use ne in \<open>simp_all add: t appends_def exec_def run_csSelect run_lock select_events_def\<close>)
qed

text \<open>
  In the register header the interrupt-enable and flag masks of transmit buffer 1 are the bit of
  the message-error interrupt (0x80), not the bit 0x08 that the setting values of the same header use;
  and the value named for a synchronisation jump of three quanta does not even lie inside the
  SJW field, while the others are one step too high (0x00 to 0xC0 stand for 1 to 4 quanta).
\<close>

theorem register_header_conflicts:
  "TX1IE = MERRE \<and> TX1IE \<noteq> TX1IE_ENABLED \<and> TX1IF = MERRF \<and> TX1IF \<noteq> TX1IF_SET
   \<and> TX0IE = TX0IE_ENABLED \<and> TX2IE = TX2IE_ENABLED \<and> RX0IE = RX0IE_ENABLED \<and> RX1IE = RX1IE_ENABLED
   \<and> SJW_3TQ AND NOT SJW \<noteq> 0 \<and> drop_bit 6 SJW_1TQ = 1 \<and> drop_bit 6 SJW_2TQ = 2"
  by (simp add: regs)

section \<open>Closed instances\<close>

definition demo_mcp :: "nat mcp_st" where
  "demo_mcp = spi_st.extend demo_spi (mcp_st.fields [0x00, 0xF0, 0x86] 20)"

lemma spi_ready_demo_mcp: "spi_ready demo_mcp"
  by (simp add: spi_ready_def spi_dma8_def demo_mcp_def demo_spi_def spi_st.extend_def mcp_st.fields_def)

theorem bitrate_programmed_witness:
  "\<not> runs_at MHZ8 KBPS125 (reg_writes (trace (exec (setMcp2515Bitrate demo_env)
      (exec (Mcp2515_init 20 MHZ8 KBPS125) demo_mcp))))"
  using bitrate_programmed [OF spi_ready_demo_mcp, where osc = MHZ8 and b = KBPS125 and E = demo_env and pin = 20] by simp

theorem setFilter_effect_witness:
  "configures demo_env demo_mcp (exec (setFilter demo_env 2 0x123 False) demo_mcp) 0x08 0x123 False 0x70"
  using setFilter_effect [OF spi_ready_demo_mcp, where filterId = 2 and E = demo_env and canId = "0x123" and extended = False] by simp

theorem setMask_effect_witness:
  "configures demo_env demo_mcp (exec (setMask demo_env 1 0x7FF False) demo_mcp) 0x24 0x7FF False 0x70"
  using setMask_effect [OF spi_ready_demo_mcp, where maskId = 1 and E = demo_env and msk = "0x7FF" and extended = False] by simp

theorem txBuffer0Send_window_witness:
  "\<exists>ws. reg_writes (trace (exec (txBuffer0Send demo_env 0x100 [1, 2, 3, 4, 5, 6, 7, 8, 9, 10] 10) demo_mcp)) = ws
      \<and> (0x3F, 10) \<in> set ws"
  using txBuffer0Send_window [OF spi_ready_demo_mcp, where len = 10 and buf = "[1, 2, 3, 4, 5, 6, 7, 8, 9, 10]"
      and E = demo_env and canId = "0x100"]
  by auto

theorem rx_read_overrun_witness:
  "ub (exec (rxBuffer0Read (demo_env\<lparr>miso := \<lambda>t i. 15\<rparr>) [0, 0, 0, 0, 0, 0, 0, 0]) demo_mcp)"
proof -
  let ?E = "demo_env\<lparr>miso := \<lambda>t i. 15\<rparr>"
  have "snd (snd (result (rxBuffer0Read ?E [0, 0, 0, 0, 0, 0, 0, 0]) demo_mcp)) = 15"
    using spi_ready_demo_mcp by (simp add: rxBuffer0Read_def result_readByte split_beta)
  then show ?thesis
    using rx_read_overrun [OF spi_ready_demo_mcp, where E = ?E and buf = "[0, 0, 0, 0, 0, 0, 0, 0]"]
    by (simp add: split_beta)
qed

theorem reset_is_no_reset_witness:
  "mosi (trace (exec (resetMcp2515 demo_env) demo_mcp)) = [[0x02, 0xC0]]"
  using reset_is_no_reset [OF spi_ready_demo_mcp, of demo_env]
  by (simp add: regs demo_mcp_def demo_spi_def spi_st.extend_def mosi_def)

theorem lock_mixes_mutex_interfaces_witness:
  "\<exists>m. trace (exec (do { SPI_init demo_env 0 1000000 17 18 19 16 False 0 0 1 False; lock demo_env }) demo_spi)
     = m @ [Rtos (XSemaphoreTake 9 0xFFFFFFFF)]"
proof -
  let ?u = "exec (SPI_init demo_env 0 1000000 17 18 19 16 False 0 0 1 False) demo_spi"
  have "SPI_busMutex ?u = 9"
    by (simp add: SPI_init_def setFormat_def exec_def run_simps demo_env_def demo_spi_def)
  then show ?thesis
    using lock_mixes_mutex_interfaces [of demo_env ?u 0 1000000 17 18 19 16 False 0 0 1 demo_spi]
    by (auto simp: demo_env_def)
qed

end
