(* ===== verification/Bus_Discipline.thy ===== *)
theory Bus_Discipline
  imports Mcp2515_Config
begin

text \<open>
  The protocol on the shared bus as an automaton over the events of a run: chip select falls and
  rises alternately, DMA is started only while the chip is selected, every assertion of the code
  holds, the bus mutex is given by the recursive call as often as it is taken by it, never below zero, and
  the chip select moves only under the mutex (of a bus that has one), which is not given up while the chip
  is selected.  The plain calls of \<open>lock\<close> and \<open>unlock\<close> on the same mutex are counted on their own.
\<close>

type_synonym bus_phase = "bool \<times> nat"

fun bus_step :: "u32 \<Rightarrow> nat \<Rightarrow> event \<Rightarrow> bus_phase \<Rightarrow> bus_phase option" where
  "bus_step cs m (Rtos (ConfigASSERT b)) st = (if b then Some st else None)"
| "bus_step cs m (Rtos (XSemaphoreTakeRecursive h _)) (sel, d) = Some (sel, if h = m then d + 1 else d)"
| "bus_step cs m (Rtos (XSemaphoreGiveRecursive h)) (sel, d) =
     (if h \<noteq> m then Some (sel, d) else if d = 0 \<or> d = 1 \<and> sel then None else Some (sel, d - 1))"
| "bus_step cs m (Gpio (Gpio_put p v)) (sel, d) =
     (if p \<noteq> cs then Some (sel, d) else if sel = v \<and> (m = 0 \<or> 0 < d) then Some (\<not> v, d) else None)"
| "bus_step cs m (Dma (Dma_start_channel_mask _)) (sel, d) = (if sel then Some (sel, d) else None)"
| "bus_step cs m _ st = Some st"

fun bus_run :: "u32 \<Rightarrow> nat \<Rightarrow> event list \<Rightarrow> bus_phase \<Rightarrow> bus_phase option" where
  "bus_run cs m [] st = Some st"
| "bus_run cs m (e # es) st = (case bus_step cs m e st of None \<Rightarrow> None | Some st' \<Rightarrow> bus_run cs m es st')"

lemma bus_run_append:
  "bus_run cs m (es @ fs) st =
     (case bus_run cs m es st of None \<Rightarrow> None | Some st' \<Rightarrow> bus_run cs m fs st')"
  by (induction es arbitrary: st) (simp_all split: option.split)

text \<open>A complete piece of traffic starts and ends with the chip deselected and the mutex free.\<close>

definition complete :: "u32 \<Rightarrow> nat \<Rightarrow> event list \<Rightarrow> bool" where
  "complete cs m es \<longleftrightarrow> bus_run cs m es (False, 0) = Some (False, 0)"

lemma complete_Nil [simp, intro]: "complete cs m []"
  by (simp add: complete_def)

lemma complete_append [intro]: "complete cs m es \<Longrightarrow> complete cs m fs \<Longrightarrow> complete cs m (es @ fs)"
  by (simp add: complete_def bus_run_append)

lemma bus_run_dma [simp]: "bus_run cs m (dma_events E s src dst n tmo) (True, d) = Some (True, d)"
  by (simp add: dma_events_def)

lemma bus_run_payload:
  "bus_run cs m (concat (map (\<lambda>d. dma_events E s (Some d) (Some d) (of_nat (length d)) tmo) ds)) (True, n)
     = Some (True, n)"
  by (induction ds) (simp_all add: bus_run_append)

lemma complete_txn [intro]: "complete (SPI_cs s) (SPI_busMutex s) (txn_events E s ds)"
  by (simp add: complete_def txn_events_def bus_run_append bus_run_payload)

lemma complete_lock [intro]: "complete cs m (lock_events E s)" "complete cs m (unlock_events s)"
  by (simp_all add: complete_def lock_events_def unlock_events_def)

text \<open>The semaphore an event takes or gives; bus traffic uses only those of the bus itself.\<close>

fun sem_of :: "event \<Rightarrow> nat option" where
  "sem_of (Rtos (XSemaphoreTake h _)) = Some h"
| "sem_of (Rtos (XSemaphoreGive h)) = Some h"
| "sem_of (Rtos (XSemaphoreGiveFromISR h)) = Some h"
| "sem_of _ = None"

definition bus_sems :: "('g, 'a) spi_st_scheme \<Rightarrow> nat set" where
  "bus_sems s = {SPI_busMutex s, SPI_dmaRxSemaphore s, SPI_dmaTxSemaphore s}"

definition on_bus :: "('g, 'a) spi_st_scheme \<Rightarrow> event list \<Rightarrow> bool" where
  "on_bus s es \<longleftrightarrow> (\<forall>h. Some h \<in> sem_of ` set es \<longrightarrow> h \<in> bus_sems s)"

lemma on_bus_Nil [simp]: "on_bus s []"
  and on_bus_append [simp]: "on_bus s (es @ fs) \<longleftrightarrow> on_bus s es \<and> on_bus s fs"
  by (auto simp: on_bus_def)

lemma on_bus_dma: "on_bus s (dma_events E s src dst n tmo)"
  by (auto simp: on_bus_def dma_events_def bus_sems_def)

lemma on_bus_payload:
  "on_bus s (concat (map (\<lambda>d. dma_events E s (Some d) (Some d) (of_nat (length d)) tmo) ds))"
  by (induction ds) (simp_all add: on_bus_dma)

lemma on_bus_txn [simp, intro]: "on_bus s (txn_events E s ds)"
  unfolding txn_events_def on_bus_append by (auto simp: on_bus_payload) (auto simp: on_bus_def)

lemma on_bus_lock [simp, intro]: "on_bus s (lock_events E s)" "on_bus s (unlock_events s)"
  by (auto simp: on_bus_def lock_events_def unlock_events_def bus_sems_def)

lemma on_bus_upd [simp]: "on_bus (s\<lparr>trace := t\<rparr>) = on_bus s" "on_bus (s\<lparr>ub := u\<rparr>) = on_bus s"
  by (simp_all add: on_bus_def [abs_def] bus_sems_def)

text \<open>
  \<open>advances s t\<close>: all that happened from \<open>s\<close> to \<open>t\<close> is complete traffic on the bus's
  own semaphores (and possibly a raised memory monitor).  An operation transacts when it does only
  that from a ready bus.
\<close>

definition advances :: "('g, 'a) mcp_st_scheme \<Rightarrow> ('g, 'a) mcp_st_scheme \<Rightarrow> bool" where
  "advances s t \<longleftrightarrow>
     (\<exists>es u. t = s\<lparr>trace := trace s @ es, ub := u\<rparr>
           \<and> complete (SPI_cs s) (SPI_busMutex s) es \<and> on_bus s es)"

definition transacts :: "(('g, 'a) mcp_st_scheme, 'r) state \<Rightarrow> bool" where
  "transacts m \<longleftrightarrow> (\<forall>s. spi_ready s \<longrightarrow> spi_ready (exec m s) \<and> advances s (exec m s))"

lemma advancesI:
  "t = s\<lparr>trace := trace s @ es, ub := u\<rparr> \<Longrightarrow> complete (SPI_cs s) (SPI_busMutex s) es \<Longrightarrow> on_bus s es
     \<Longrightarrow> advances s t"
  unfolding advances_def by blast

lemma advances_refl [simp, intro]: "advances s s"
  by (rule advancesI [where es = "[]" and u = "ub s"]) simp_all

lemma advances_ub [simp, intro]: "advances s (s\<lparr>ub := u\<rparr>)"
  by (rule advancesI [where es = "[]" and u = u]) simp_all

lemma advances_trace [intro]:
  "complete (SPI_cs s) (SPI_busMutex s) es \<Longrightarrow> on_bus s es \<Longrightarrow> advances s (s\<lparr>trace := trace s @ es\<rparr>)"
  by (rule advancesI [where es = es and u = "ub s"]) simp_all

lemma advances_trans [trans]: "advances s t \<Longrightarrow> advances t u \<Longrightarrow> advances s u"
proof -
  assume "advances s t" and "advances t u"
  then obtain es x fs y where
      "t = s\<lparr>trace := trace s @ es, ub := x\<rparr>" "complete (SPI_cs s) (SPI_busMutex s) es" "on_bus s es"
      "u = t\<lparr>trace := trace t @ fs, ub := y\<rparr>" "complete (SPI_cs t) (SPI_busMutex t) fs" "on_bus t fs"
    unfolding advances_def by blast
  then show "advances s u"
    by (intro advancesI [where es = "es @ fs" and u = y]) auto
qed

lemma advances_ready: "advances s t \<Longrightarrow> spi_ready t = spi_ready s"
  by (auto simp: advances_def)

lemma transactsI: "(\<And>s. spi_ready s \<Longrightarrow> advances s (exec m s)) \<Longrightarrow> transacts m"
  unfolding transacts_def using advances_ready by blast

named_theorems transacts_intros \<open>closure of the bus discipline under the combinators\<close>

lemma transacts_return [transacts_intros]: "transacts (return x)"
  and transacts_gets [transacts_intros]: "transacts (gets f)"
  and transacts_raise_ub [transacts_intros]: "transacts (raise_ub b)"
  and transacts_lock [transacts_intros]: "transacts (lock E)"
  and transacts_unlock [transacts_intros]: "transacts unlock"
  by (rule transactsI, simp add: exec_lock exec_unlock advances_trace complete_lock)+

lemma transacts_bind [transacts_intros]:
  "transacts m \<Longrightarrow> (\<And>x. transacts (f x)) \<Longrightarrow> transacts (State_Monad.bind m f)"
  unfolding transacts_def by (auto intro: advances_trans)

lemma transacts_if [transacts_intros]:
  "(b \<Longrightarrow> transacts m) \<Longrightarrow> (\<not> b \<Longrightarrow> transacts n) \<Longrightarrow> transacts (if b then m else n)"
  by simp

lemma transacts_for_each [transacts_intros]: "(\<And>i. transacts (body i)) \<Longrightarrow> transacts (for_each is body)"
  by (induction "is") (auto intro: transacts_intros)

lemma transacts_instruction [transacts_intros]:
  "transacts (readByte E a)" "transacts (writeByte E a d)" "transacts (bitModify E a k d)"
  "transacts (resetMcp2515 E)"
  by (rule transactsI, simp add: exec_def run_readByte run_writeByte run_bitModify run_resetMcp2515
      advances_trace complete_txn)+

lemma transacts_memory [transacts_intros]:
  "transacts (mem_load buf i)" "transacts (mem_store buf i v)"
  unfolding mem_load_def mem_store_def by (intro transacts_intros)+

lemma transacts_read_into [transacts_intros]: "transacts (read_into E base is buf)"
  by (induction "is" arbitrary: buf) (auto intro: transacts_intros)

lemma transacts_setFilter: "transacts (setFilter E f canId ext)"
  and transacts_setMask: "transacts (setMask E f canId ext)"
  unfolding setFilter_def setMask_def writeFilterOrMask_def Let_def by (intro transacts_intros)+

section \<open>Lock and unlock\<close>

text \<open>The plain takes (True) and gives (False) of a semaphore in a run.\<close>

fun plain_call :: "nat \<Rightarrow> event \<Rightarrow> bool list" where
  "plain_call m (Rtos (XSemaphoreTake h _)) = (if h = m then [True] else [])"
| "plain_call m (Rtos (XSemaphoreGive h)) = (if h = m then [False] else [])"
| "plain_call m _ = []"

definition plain_calls :: "nat \<Rightarrow> event list \<Rightarrow> bool list" where
  "plain_calls m es = concat (map (plain_call m) es)"

lemma plain_calls_simps [simp]:
  "plain_calls m [] = []" "plain_calls m (e # es) = plain_call m e @ plain_calls m es"
  "plain_calls m (es @ fs) = plain_calls m es @ plain_calls m fs"
  by (simp_all add: plain_calls_def)

text \<open>The mutex is none of the semaphores of the DMA channels.\<close>

definition own_mutex :: "('g, 'a) spi_st_scheme \<Rightarrow> bool" where
  "own_mutex s \<longleftrightarrow> SPI_busMutex s \<notin> {SPI_dmaRxSemaphore s, SPI_dmaTxSemaphore s}"

lemma plain_calls_dma: "own_mutex s \<Longrightarrow> plain_calls (SPI_busMutex s) (dma_events E s src dst n tmo) = []"
  by (auto simp: dma_events_def own_mutex_def)

lemma plain_calls_txn: "own_mutex s \<Longrightarrow> plain_calls (SPI_busMutex s) (txn_events E s ds) = []"
proof -
  assume own: "own_mutex s"
  have "plain_calls (SPI_busMutex s)
      (concat (map (\<lambda>d. dma_events E s (Some d) (Some d) (of_nat (length d)) (portMAX_DELAY E)) ds)) = []"
    using own by (induction ds) (simp_all add: plain_calls_dma)
  then show ?thesis by (simp add: txn_events_def)
qed

text \<open>
  \<open>locks E pre post m\<close>: on a bus with a mutex of its own the operation transacts, and its events are
  those of \<open>lock\<close> (if \<open>pre\<close>), then events without a plain call on the mutex, then those of
  \<open>unlock\<close> (if \<open>post\<close>).
\<close>

definition locks :: "env \<Rightarrow> bool \<Rightarrow> bool \<Rightarrow> (('g, 'a) mcp_st_scheme, 'r) state \<Rightarrow> bool" where
  "locks E pre post m \<longleftrightarrow> transacts m \<and>
     (\<forall>s. spi_ready s \<longrightarrow> own_mutex s \<longrightarrow>
        (\<exists>es. trace (exec m s) = trace s @ (if pre then lock_events E s else []) @ es
                 @ (if post then unlock_events s else [])
             \<and> plain_calls (SPI_busMutex s) es = []))"

lemma locksI:
  "transacts m \<Longrightarrow> (\<And>s. spi_ready s \<Longrightarrow> own_mutex s \<Longrightarrow>
     \<exists>es. trace (exec m s) = trace s @ (if pre then lock_events E s else []) @ es
              @ (if post then unlock_events s else [])
          \<and> plain_calls (SPI_busMutex s) es = []) \<Longrightarrow> locks E pre post m"
  by (simp add: locks_def)

lemma locksE:
  assumes "locks E pre post m" and "spi_ready s" and "own_mutex s"
  obtains es where "trace (exec m s) = trace s @ (if pre then lock_events E s else []) @ es
      @ (if post then unlock_events s else [])" and "plain_calls (SPI_busMutex s) es = []"
  using assms unfolding locks_def by blast

lemma transacts_same:
  assumes "transacts m" and "spi_ready s" and "own_mutex s"
  shows "spi_ready (exec m s)" "own_mutex (exec m s)" "SPI_busMutex (exec m s) = SPI_busMutex s"
    "unlock_events (exec m s) = unlock_events s"
proof -
  obtain es u where "exec m s = s\<lparr>trace := trace s @ es, ub := u\<rparr>"
    using assms unfolding transacts_def advances_def by blast
  then show "own_mutex (exec m s)" "SPI_busMutex (exec m s) = SPI_busMutex s"
      "unlock_events (exec m s) = unlock_events s"
    using assms(3) by (simp_all add: own_mutex_def unlock_events_def)
  show "spi_ready (exec m s)" using assms by (simp add: transacts_def)
qed

named_theorems locks_intros \<open>the plain calls of an operation\<close>

lemma locks_seq [locks_intros]:
  assumes "locks E False False m" and "\<And>x. locks E False post (f x)"
  shows "locks E False post (State_Monad.bind m f)"
proof (rule locksI)
  have m: "transacts m" and f: "transacts (f x)" for x using assms by (simp_all add: locks_def)
  then show "transacts (State_Monad.bind m f)" by (rule transacts_bind)
  fix s :: "('a, 'b) mcp_st_scheme"
  assume s: "spi_ready s" "own_mutex s"
  note same = transacts_same [OF m s]
  obtain es where es: "trace (exec m s) = trace s @ es" "plain_calls (SPI_busMutex s) es = []"
    using locksE [OF assms(1) s] by auto
  obtain fs where fs: "trace (exec (f (result m s)) (exec m s)) = trace (exec m s) @ fs
        @ (if post then unlock_events (exec m s) else [])" "plain_calls (SPI_busMutex (exec m s)) fs = []"
    using locksE [OF assms(2) same(1,2), of "result m s"] by (auto simp only: if_False append_Nil)
  show "\<exists>es. trace (exec (State_Monad.bind m f) s) =
      trace s @ (if False then lock_events E s else []) @ es @ (if post then unlock_events s else [])
      \<and> plain_calls (SPI_busMutex s) es = []"
    by (rule exI [of _ "es @ fs"]) (simp only: exec_bind fs es same if_False append_Nil append_assoc
        plain_calls_simps fs(2) [unfolded same] simp_thms)
qed

lemma locks_locked:
  assumes "\<And>x. locks E False post (f x)"
  shows "locks E True post (State_Monad.bind (lock E) f)"
proof (rule locksI)
  have f: "transacts (f x)" for x using assms by (simp add: locks_def)
  then show "transacts (State_Monad.bind (lock E) f)" by (intro transacts_intros)
  fix s :: "('a, 'b) mcp_st_scheme"
  assume s: "spi_ready s" "own_mutex s"
  note same = transacts_same [OF transacts_lock s, of E]
  obtain fs where fs: "trace (exec (f (result (lock E) s)) (exec (lock E) s)) = trace (exec (lock E) s) @ fs
        @ (if post then unlock_events (exec (lock E) s) else [])"
      "plain_calls (SPI_busMutex (exec (lock E) s)) fs = []"
    using locksE [OF assms same(1,2), of "result (lock E) s"] by (auto simp only: if_False append_Nil)
  have "trace (exec (lock E) s) = trace s @ lock_events E s" by (simp add: exec_lock)
  then show "\<exists>es. trace (exec (State_Monad.bind (lock E) f) s) =
      trace s @ (if True then lock_events E s else []) @ es @ (if post then unlock_events s else [])
      \<and> plain_calls (SPI_busMutex s) es = []"
    by (intro exI [of _ fs]) (simp only: exec_bind fs same if_True append_assoc fs(2) [unfolded same] simp_thms)
qed

lemma locks_none [locks_intros]:
  "locks E False False (return x)" "locks E False False (gets g)" "locks E False False (raise_ub b)"
  "locks E False False (readByte E' a)" "locks E False False (writeByte E' a d)"
  "locks E False False (bitModify E' a k d)" "locks E False False (resetMcp2515 E')"
  by (rule locksI, intro transacts_intros,
      simp add: exec_def run_readByte run_writeByte run_bitModify run_resetMcp2515 plain_calls_txn)+

lemma locks_unlock [locks_intros]: "locks E False True unlock"
  by (rule locksI, intro transacts_intros) (simp add: exec_unlock)

lemma locks_if [locks_intros]:
  "(b \<Longrightarrow> locks E pre post m) \<Longrightarrow> (\<not> b \<Longrightarrow> locks E pre post n) \<Longrightarrow> locks E pre post (if b then m else n)"
  by simp

lemma locks_for_each [locks_intros]:
  "(\<And>i. locks E False False (body i)) \<Longrightarrow> locks E False False (for_each is body)"
  by (induction "is") (auto intro: locks_intros)

lemma locks_memory [locks_intros]:
  "locks E False False (mem_load buf i)" "locks E False False (mem_store buf i v)"
  unfolding mem_load_def mem_store_def by (intro locks_intros)+

lemma locks_read_into [locks_intros]: "locks E False False (read_into E' base is buf)"
  by (induction "is" arbitrary: buf) (auto intro: locks_intros)

lemma locks_writeFilterOrMask [locks_intros]: "locks E False False (writeFilterOrMask E r canId ext)"
  unfolding writeFilterOrMask_def by (intro locks_intros)

lemma locks_setFilter: "locks E (f < 6) (f < 6) (setFilter E f canId ext)"
proof (cases "f < 6")
  case True
  then have "\<not> 6 \<le> f" by simp
  with True show ?thesis
    unfolding setFilter_def Let_def by (simp only: if_False) (intro locks_locked locks_intros)
qed (auto simp: setFilter_def intro: locks_intros)

lemma locks_setMask: "locks E (f < 2) (f < 2) (setMask E f canId ext)"
proof (cases "f < 2")
  case True
  then have "\<not> 2 \<le> f" by simp
  with True show ?thesis
    unfolding setMask_def Let_def by (simp only: if_False) (intro locks_locked locks_intros)
qed (auto simp: setMask_def intro: locks_intros)

text \<open>
  C7: Every operation of the controller driver keeps the bus protocol for every argument: from a ready
  bus it appends only complete traffic (each assertion holds, chip select is raised exactly as often as
  lowered and moves only while the mutex, where there is one, is held by the recursive take, DMA runs only
  under chip select, the recursive give answers every recursive take, no semaphore but those of the bus is
  touched) and leaves the bus ready, also when a buffer was overrun on the way.  On a bus with a mutex of
  its own, the change of a valid filter or mask is moreover bracketed by \<open>lock\<close> and \<open>unlock\<close>: its first
  event is the plain take, its last the plain give of that mutex, with no plain call in between; an invalid
  number and every other operation make no plain call.  What a plain call does to a mutex that was
  created as a recursive one is not part of this.
\<close>

theorem driver_keeps_bus_protocol:
  "transacts (resetMcp2515 E) \<and> transacts (setMcp2515Bitrate E)
   \<and> transacts (clearInterrupts E k) \<and> transacts (enableInterrupts E k)
   \<and> transacts (bitModify E a k d) \<and> transacts (readByte E a) \<and> transacts (writeByte E a d)
   \<and> transacts (setFilter E f canId ext) \<and> transacts (setMask E f canId ext)
   \<and> transacts (txBuffer0Send E canId buf len)
   \<and> transacts (rxBuffer0Read E buf) \<and> transacts (rxBuffer1Read E buf)
   \<and> locks E False False (resetMcp2515 E) \<and> locks E False False (setMcp2515Bitrate E)
   \<and> locks E False False (clearInterrupts E k) \<and> locks E False False (enableInterrupts E k)
   \<and> locks E False False (bitModify E a k d)
   \<and> locks E False False (readByte E a) \<and> locks E False False (writeByte E a d)
   \<and> locks E (f < 6) (f < 6) (setFilter E f canId ext)
   \<and> locks E (f < 2) (f < 2) (setMask E f canId ext)
   \<and> locks E False False (txBuffer0Send E canId buf len)
   \<and> locks E False False (rxBuffer0Read E buf) \<and> locks E False False (rxBuffer1Read E buf)"
  unfolding setMcp2515Bitrate_def clearInterrupts_def enableInterrupts_def
    txBuffer0Send_def rxBuffer0Read_def rxBuffer1Read_def Let_def
  by (intro conjI locks_setFilter locks_setMask transacts_setFilter transacts_setMask transacts_intros locks_intros)

end
