(* ===== verification/Task_Interface.thy ===== *)
theory Task_Interface
  imports Platform
begin

text \<open>
  \<open>include/taskinterface.h\<close> and \<open>source/taskinterface.cpp\<close>: an object that owns a FreeRTOS
  task.  The object is a value of the record \<open>task_obj\<close>, passed and returned explicitly; its virtual
  member \<open>run\<close> is a parameter of the code that calls it.  Names are buffers of characters
  (\<open>u8 list\<close>), \<open>configSTACK_DEPTH_TYPE\<close>, \<open>size_t\<close> and \<open>UBaseType_t\<close> have 32 bits.
\<close>

datatype Priority = Low | MediumLow | Medium | MediumHigh | High | Priority_MAX

text \<open>\<open>Priority_MAX\<close> (\<open>MAX\<close> in the code) is the FreeRTOS configuration value \<open>configMAX_PRIORITIES\<close>.\<close>

fun priority_code :: "u32 \<Rightarrow> Priority \<Rightarrow> u32" where
  "priority_code configMAX_PRIORITIES Low = 0"
| "priority_code configMAX_PRIORITIES MediumLow = 1"
| "priority_code configMAX_PRIORITIES Medium = 2"
| "priority_code configMAX_PRIORITIES MediumHigh = 3"
| "priority_code configMAX_PRIORITIES High = 4"
| "priority_code configMAX_PRIORITIES Priority_MAX = configMAX_PRIORITIES"

record task_obj =
  rxQueue :: nat
  rxSema :: nat
  taskHandler :: nat
  task_name :: "u8 list"
  stackDepth :: u32
  priority :: u32
  taskStarted :: bool

section \<open>Construction\<close>

text \<open>
  The copying loop of the constructor, with its 8-bit counter; \<open>len\<close> is
  \<open>configMAX_TASK_NAME_LEN\<close>.  The result is the array and whether an access left a buffer.
\<close>

partial_function (option) copy_name ::
  "u8 list \<Rightarrow> int \<Rightarrow> u8 \<Rightarrow> u8 list \<times> bool \<Rightarrow> (u8 list \<times> bool) option" where
  "copy_name pcName len i st =
     (if uint i < len - 1 then
        (let c = (if unat i < length pcName then pcName ! unat i else 0);
             st' = ((fst st)[unat i := c], snd st \<or> length pcName \<le> unat i \<or> length (fst st) \<le> unat i)
         in if c = 0 then Some st' else copy_name pcName len (i + 1) st')
      else Some st)"

declare copy_name.simps [code]

definition start :: "env \<Rightarrow> task_obj \<Rightarrow> ('a world_scheme, bool \<times> task_obj) state" where
  "start E t =
     (if taskStarted t then return (False, t)
      else do {
        r \<leftarrow> call (Rtos (XTaskCreate (task_name t) (stackDepth t) (priority t))) (task_create_answer E);
        let t' = t\<lparr>taskStarted := fst r, taskHandler := (if fst r then snd r else taskHandler t)\<rparr>;
        return (fst r, t')
      })"

text \<open>
  The constructor.  \<open>raw\<close> is the object's uninitialised storage, of which the array
  \<open>name\<close> and the handle are kept until they are written; \<open>None\<close> means the copying loop
  does not end.
\<close>

definition TaskInterface_init ::
  "env \<Rightarrow> u32 \<Rightarrow> task_obj \<Rightarrow> u8 list \<Rightarrow> u32 \<Rightarrow> Priority \<Rightarrow> nat \<Rightarrow> nat
     \<Rightarrow> ('a world_scheme, task_obj option) state" where
  "TaskInterface_init E configMAX_PRIORITIES raw pcName usStackDepth uxPriority queueRx semaRx =
     (let len = int (configMAX_TASK_NAME_LEN E);
          t0 = raw\<lparr>rxQueue := queueRx, rxSema := semaRx, stackDepth := usStackDepth,
                   priority := priority_code configMAX_PRIORITIES uxPriority, taskStarted := False\<rparr>
      in case copy_name pcName len 0 (task_name raw, False) of
           None \<Rightarrow> return None
         | Some (buf, overrun) \<Rightarrow> do {
             raise_ub (overrun \<or> len - 1 < 0 \<or> int (length buf) \<le> len - 1);
             r \<leftarrow> start E (t0\<lparr>task_name := buf[nat (len - 1) := 0]\<rparr>);
             return (Some (snd r))
           })"

definition TaskInterface_destroy :: "task_obj \<Rightarrow> ('a world_scheme, unit) state" where
  "TaskInterface_destroy t = do {
     emit (Rtos (VTaskDelete (taskHandler t)));
     when_do (rxQueue t \<noteq> 0) (emit (Rtos (VQueueDelete (rxQueue t))));
     when_do (rxSema t \<noteq> 0) (emit (Rtos (VSemaphoreDelete (rxSema t))))
   }"

text \<open>
  The function handed to FreeRTOS; \<open>INCLUDE_vTaskDelete\<close> is a configuration constant.  The
  handle is read after \<open>run\<close> has returned.
\<close>

definition taskFunctionAdapter ::
  "bool \<Rightarrow> ('a world_scheme, task_obj) state \<Rightarrow> ('a world_scheme, unit) state" where
  "taskFunctionAdapter INCLUDE_vTaskDelete run_member = do {
     t \<leftarrow> run_member;
     (if INCLUDE_vTaskDelete then emit (Rtos (VTaskDelete (taskHandler t)))
      else emit (Rtos (ConfigASSERT False)))
   }"

section \<open>Stack figures and storage\<close>

definition getStackLeft :: "env \<Rightarrow> task_obj \<Rightarrow> ('a world_scheme, u32) state" where
  "getStackLeft E t = do {
     w \<leftarrow> call (Rtos (UxTaskGetStackHighWaterMark (taskHandler t))) (high_water_answer E);
     return (w * of_nat (sizeof_StackType E))
   }"

definition getStackUsage :: "env \<Rightarrow> task_obj \<Rightarrow> ('a world_scheme, u32) state" where
  "getStackUsage E t = do {
     left \<leftarrow> getStackLeft E t;
     return (stackDepth t * of_nat (sizeof_StackType E) - left)
   }"

definition TaskInterface_operator_new :: "env \<Rightarrow> nat \<Rightarrow> ('a world_scheme, nat) state" where
  "TaskInterface_operator_new E sz = call (Rtos (PvPortMalloc sz)) (handle_answer E)"

definition TaskInterface_operator_delete :: "nat \<Rightarrow> ('a world_scheme, unit) state" where
  "TaskInterface_operator_delete ptr = emit (Rtos (VPortFree ptr))"

section \<open>The name\<close>

definition c_string :: "u8 list \<Rightarrow> u8 list" where
  "c_string buf = takeWhile (\<lambda>c. c \<noteq> 0) buf"

lemma length_c_string: "0 \<in> set buf \<Longrightarrow> length (c_string buf) < length buf"
  by (induction buf) (auto simp: c_string_def)

lemma nth_c_string:
  assumes "i < length (c_string buf)"
  shows "c_string buf ! i = buf ! i" and "buf ! i \<noteq> 0"
proof -
  show eq: "c_string buf ! i = buf ! i"
    using assms by (simp add: c_string_def takeWhile_nth)
  have "c_string buf ! i \<in> set (takeWhile (\<lambda>c. c \<noteq> 0) buf)"
    using assms nth_mem unfolding c_string_def by blast
  then show "buf ! i \<noteq> 0"
    unfolding eq by (auto dest: set_takeWhileD)
qed

lemma nth_c_string_end: "0 \<in> set buf \<Longrightarrow> buf ! length (c_string buf) = 0"
  using nth_length_takeWhile [of "\<lambda>c. c \<noteq> 0" buf] length_c_string [of buf] by (simp add: c_string_def)

lemma copy_name_copies:
  assumes nul: "0 \<in> set pcName" and N: "len \<le> 256" "length buf = nat len" "0 < len"
    and "int (unat i) \<le> len - 1" and "unat i \<le> length (c_string pcName)"
    and "\<And>j. j < unat i \<Longrightarrow> buf ! j = pcName ! j"
  shows "\<exists>buf'. copy_name pcName len i (buf, ov) = Some (buf', ov) \<and> length buf' = length buf
           \<and> (\<forall>j < min (nat (len - 1)) (Suc (length (c_string pcName))). buf' ! j = pcName ! j)"
  using N(2) assms(5-7)
proof (induction "nat (len - 1) - unat i" arbitrary: i buf)
  case 0
  then have "\<not> uint i < len - 1" by (simp add: nat_le_iff)
  then have "copy_name pcName len i (buf, ov) = Some (buf, ov)"
    by (subst copy_name.simps) simp
  with 0 show ?case by auto
next
  case (Suc n)
  let ?s = "c_string pcName" and ?c = "pcName ! unat i"
  have "unat i < nat (len - 1)" using Suc.hyps(2) by linarith
  then have lt: "uint i < len - 1" by (simp add: zless_nat_eq_int_zless)
  have i: "unat i < length pcName" "unat i < length buf"
    using \<open>unat i < nat (len - 1)\<close> Suc.prems length_c_string [OF nul] by simp_all
  have unat_Suc: "unat (i + 1) = Suc (unat i)"
    using \<open>unat i < nat (len - 1)\<close> N(1) by (simp add: unat_word_ariths)
  have step: "copy_name pcName len i (buf, ov) =
      (if ?c = 0 then Some (buf[unat i := ?c], ov)
       else copy_name pcName len (i + 1) (buf[unat i := ?c], ov))"
    using lt i by (subst copy_name.simps) (simp add: Let_def)
  show ?case
  proof (cases "unat i = length ?s")
    case True
    then have "?c = 0" using nth_c_string_end [OF nul] by simp
    with step True Suc.prems i show ?thesis
      by (auto simp: less_Suc_eq nth_list_update)
  next
    case False
    then have c: "?c \<noteq> 0" using nth_c_string(2) [of "unat i" pcName] Suc.prems(3) by simp
    have "\<exists>buf'. copy_name pcName len (i + 1) (buf[unat i := ?c], ov) = Some (buf', ov)
        \<and> length buf' = length (buf[unat i := ?c])
        \<and> (\<forall>j < min (nat (len - 1)) (Suc (length ?s)). buf' ! j = pcName ! j)"
      by (rule Suc.hyps(1))
         (use Suc.hyps(2) Suc.prems False unat_Suc lt i in \<open>auto simp: nth_list_update less_Suc_eq\<close>)
    with step c show ?thesis by simp
  qed
qed

lemma c_string_eqI:
  assumes "n < length buf" and "\<And>j. j < n \<Longrightarrow> buf ! j \<noteq> 0" and "buf ! n = 0"
  shows "c_string buf = take n buf"
  unfolding c_string_def using assms by (intro takeWhile_eq_take_P_nth) auto

text \<open>
  C21: For a NUL-terminated name and a configured length of 1 to 256, the constructor returns; the
  name it keeps, and gives to the task it creates, is NUL-terminated and equal to the argument up to
  the first \<open>configMAX_TASK_NAME_LEN - 1\<close> characters; no access leaves a buffer, and exactly one
  task is created.
\<close>

theorem constructor_truncates_name:
  assumes "0 \<in> set pcName" and "configMAX_TASK_NAME_LEN E = N" and "0 < N" and "N \<le> 256"
    and "length (task_name raw) = N"
  shows "\<exists>t u. run_state (TaskInterface_init E mp raw pcName depth prio q m) s = (Some t, u)
       \<and> c_string (task_name t) = take (N - 1) (c_string pcName)
       \<and> trace u = trace s @ [Rtos (XTaskCreate (task_name t) depth (priority_code mp prio))]
       \<and> ub u = ub s \<and> rxQueue t = q \<and> rxSema t = m
       \<and> taskStarted t = fst (task_create_answer E (trace u))"
proof -
  let ?s = "c_string pcName"
  obtain buf where buf: "copy_name pcName (int N) 0 (task_name raw, False) = Some (buf, False)"
      "length buf = N" "\<forall>j < min (N - 1) (Suc (length ?s)). buf ! j = pcName ! j"
    using copy_name_copies [OF assms(1), of "int N" "task_name raw" 0 False] assms(3-5)
    by (auto simp: nat_diff_distrib' of_nat_diff)
  have "nat (int N - 1) = N - 1" by simp
  define b where "b = buf[N - 1 := 0]"
  have nth: "b ! j = (if j = N - 1 then 0 else buf ! j)" if "j < N" for j
    using that buf(2) by (simp add: b_def nth_list_update)
  have "c_string b = take (min (N - 1) (length ?s)) b"
  proof (rule c_string_eqI)
    show "min (N - 1) (length ?s) < length b" using assms(3) buf(2) by (simp add: b_def)
    show "b ! j \<noteq> 0" if "j < min (N - 1) (length ?s)" for j
    proof -
      have "j < N" "j \<noteq> N - 1" using that by linarith+
      then show ?thesis using that nth [of j] buf(3) nth_c_string(2) [of j pcName] by auto
    qed
    show "b ! min (N - 1) (length ?s) = 0"
    proof (cases "N - 1 \<le> length ?s")
      case True
      then show ?thesis using nth [of "N - 1"] assms(3) by (simp add: min_def)
    next
      case False
      then show ?thesis
        using nth [of "length ?s"] buf(3) nth_c_string_end [OF assms(1)] by (simp add: min_def)
    qed
  qed
  also have "\<dots> = take (N - 1) ?s"
    using buf(2,3) nth nth_c_string(1) [of _ pcName]
    by (intro nth_equalityI) (auto simp: b_def)
  finally have name: "c_string b = take (N - 1) ?s" .
  show ?thesis
    using assms(2-5) buf(1,2) name \<open>nat (int N - 1) = N - 1\<close>
    by (simp add: TaskInterface_init_def start_def Let_def run_simps b_def)
qed

text \<open>
  The counter of the copying loop has 8 bits.  When the configured length exceeds 256 and the
  first 256 characters of the name contain no NUL, the loop never ends, and so neither does the
  constructor, whatever follows.
\<close>

theorem copy_name_may_not_end:
  assumes "256 < len" and "\<And>j. j < 256 \<Longrightarrow> j < length pcName \<and> pcName ! j \<noteq> 0"
  shows "copy_name pcName len i st = None"
proof (rule ccontr)
  assume "copy_name pcName len i st \<noteq> None"
  then obtain y where "copy_name pcName len i st = Some y" by blast
  then have "256 < len \<longrightarrow> (\<forall>j < 256. j < length pcName \<and> pcName ! j \<noteq> 0) \<longrightarrow> False"
  proof (rule copy_name.raw_induct [rotated])
    fix f :: "u8 list \<Rightarrow> int \<Rightarrow> u8 \<Rightarrow> u8 list \<times> bool \<Rightarrow> (u8 list \<times> bool) option"
      and pcName len and i :: u8 and st y
    assume IH: "\<And>pcName len i st y. f pcName len i st = Some y \<Longrightarrow>
        256 < len \<longrightarrow> (\<forall>j < 256. j < length pcName \<and> pcName ! j \<noteq> 0) \<longrightarrow> False"
      and eq: "(if uint i < len - 1
        then let c = if unat i < length pcName then pcName ! unat i else 0;
                 st' = ((fst st)[unat i := c], snd st \<or> length pcName \<le> unat i \<or> length (fst st) \<le> unat i)
             in if c = 0 then Some st' else f pcName len (i + 1) st'
        else Some st) = Some y"
    show "256 < len \<longrightarrow> (\<forall>j < 256. j < length pcName \<and> pcName ! j \<noteq> 0) \<longrightarrow> False"
    proof (intro impI)
      assume len: "256 < len" and nz: "\<forall>j < 256. j < length pcName \<and> pcName ! j \<noteq> 0"
      have "unat (i :: u8) < 256" using unsigned_less [of i, where 'a = nat] by simp
      moreover have "uint i < len - 1" using unsigned_less [of i, where 'a = int] len by simp
      ultimately obtain st' where "f pcName len (i + 1) st' = Some y"
        using eq nz by (simp add: Let_def)
      from IH [OF this] show False using len nz by blast
    qed
  qed
  with assms show False by blast
qed

section \<open>The task\<close>

text \<open>
  \<open>start\<close> creates the task at most once: with a task running it calls nothing and returns
  false; otherwise it makes one call, and its answer, the flag and (on success only) the handle are
  those FreeRTOS returned, so that a failed start can be repeated.
\<close>

theorem start_once:
  "let c = Rtos (XTaskCreate (task_name t) (stackDepth t) (priority t));
       a = task_create_answer E (trace s @ [c])
   in run_state (start E t) s =
        (if taskStarted t then ((False, t), s)
         else ((fst a, t\<lparr>taskStarted := fst a, taskHandler := (if fst a then snd a else taskHandler t)\<rparr>),
               s\<lparr>trace := trace s @ [c]\<rparr>))"
  by (simp add: start_def Let_def run_simps)

lemma u32_product:
  assumes "unat (d :: u32) * m < 2 ^ 32"
  shows "unat (d * of_nat m) = unat d * m"
proof (cases "unat d = 0")
  case True
  then show ?thesis by (simp add: unat_eq_zero)
next
  case False
  then have "m < 2 ^ 32" using assms by (cases "unat d") (auto simp: less_eq_Suc_le)
  then have "unat (of_nat m :: u32) = m" by (simp add: unat_of_nat)
  with assms show ?thesis by (simp add: unat_word_ariths)
qed

text \<open>
  With a high-water mark within the stack and a stack of less than 4 GiB, the two figures are
  exact in bytes and add up to the size of the stack, and no 32-bit product or difference wraps.
\<close>

theorem stack_figures_exact:
  assumes "\<And>u. high_water_answer E u = hw" and "hw \<le> stackDepth t"
    and "unat (stackDepth t) * sizeof_StackType E < 2 ^ 32"
  shows "unat (result (getStackLeft E t) s) = unat hw * sizeof_StackType E
       \<and> unat (result (getStackUsage E t) s) = (unat (stackDepth t) - unat hw) * sizeof_StackType E
       \<and> unat (result (getStackUsage E t) s) + unat (result (getStackLeft E t) s)
           = unat (stackDepth t) * sizeof_StackType E"
proof -
  let ?z = "sizeof_StackType E" and ?d = "stackDepth t"
  have le: "unat hw * ?z \<le> unat ?d * ?z" using assms(2) by (simp add: word_le_nat_alt)
  have p: "unat (hw * of_nat ?z) = unat hw * ?z" "unat (?d * of_nat ?z) = unat ?d * ?z"
    by (rule u32_product, rule le_less_trans [OF le assms(3)]) (rule u32_product, rule assms(3))
  have left: "result (getStackLeft E t) s = hw * of_nat ?z" for s :: "'a world_scheme"
    by (simp add: getStackLeft_def assms(1))
  have "unat (?d * of_nat ?z - hw * of_nat ?z) = unat ?d * ?z - unat hw * ?z"
    using le p by (simp add: unat_sub word_le_nat_alt)
  with le p show ?thesis
    by (simp add: getStackUsage_def left diff_mult_distrib)
qed

text \<open>
  Destruction deletes the task first and then exactly the queue and the semaphore the object was
  constructed with, each once and only when there is one.
\<close>

theorem destructor_deletes:
  "exec (TaskInterface_destroy t) s = s\<lparr>trace := trace s @ Rtos (VTaskDelete (taskHandler t))
     # (if rxQueue t \<noteq> 0 then [Rtos (VQueueDelete (rxQueue t))] else [])
     @ (if rxSema t \<noteq> 0 then [Rtos (VSemaphoreDelete (rxSema t))] else [])\<rparr>"
  by (simp add: TaskInterface_destroy_def)

section \<open>Closed instances\<close>

definition demo_task :: task_obj where
  "demo_task = \<lparr>rxQueue = 0, rxSema = 0, taskHandler = 0, task_name = replicate 4 7, stackDepth = 256,
     priority = 4, taskStarted = False\<rparr>"

definition task_env :: env where
  "task_env = \<lparr>NUM_DMA_CHANNELS = 12, portMAX_DELAY = 0xFFFFFFFF, configMAX_TASK_NAME_LEN = 4,
     sizeof_StackType = 4, pdMS_TO_TICKS = (\<lambda>ms. ms), spi_get_dreq = (\<lambda>i tx. 16),
     dma_claim_answer = (\<lambda>t. 0), irq0_status_answer = (\<lambda>t c. False),
     gpio_get_answer = (\<lambda>t. True), handle_answer = (\<lambda>t. 1),
     woken_answer = (\<lambda>t b. b), GPIO_IRQ_EDGE_FALL = 4,
     uninit_answer = (\<lambda>t. False), spi_answer = (\<lambda>t. 0), miso = (\<lambda>t i. 0),
     task_create_answer = (\<lambda>t. (True, 1)), high_water_answer = (\<lambda>t. 100), clock_answer = (\<lambda>t. 0)\<rparr>"

theorem constructor_truncates_name_witness:
  "\<exists>t u. run_state (TaskInterface_init task_env 32 demo_task [99, 97, 110, 83, 101, 0] 512 High 0 0)
           \<lparr>trace = [], ub = False\<rparr> = (Some t, u) \<and> c_string (task_name t) = [99, 97, 110]"
proof -
  have "\<exists>t u. run_state (TaskInterface_init task_env 32 demo_task [99, 97, 110, 83, 101, 0] 512 High 0 0)
           \<lparr>trace = [], ub = False\<rparr> = (Some t, u)
      \<and> c_string (task_name t) = take (4 - 1) (c_string [99, 97, 110, 83, 101, 0])"
    using constructor_truncates_name [of "[99, 97, 110, 83, 101, 0]" task_env 4 demo_task 32 512 High 0 0
        "\<lparr>trace = [], ub = False\<rparr>"]
    by (auto simp: task_env_def demo_task_def)
  then show ?thesis by (simp add: c_string_def)
qed

theorem copy_name_may_not_end_witness: "copy_name (replicate 300 65) 300 0 ([], False) = None"
  using copy_name_may_not_end [of 300 "replicate 300 65" 0 "([], False)"] by simp

theorem stack_figures_exact_witness:
  "unat (result (getStackUsage task_env demo_task) \<lparr>trace = [], ub = False\<rparr>) = 624"
  using stack_figures_exact [of task_env 100 demo_task "\<lparr>trace = [], ub = False\<rparr>"]
  by (simp add: task_env_def demo_task_def)

end
