(* ===== verification/Can_Task.thy ===== *)
theory Can_Task
  imports Mcp2515_Limits Bus_Discipline Task_Interface
begin

text \<open>
  \<open>include/mcp2515Task.h\<close> and \<open>source/mcp2515Task.cpp\<close>: the CAN controller with its service
  task.  Three contexts share the object: the pin interrupt (\<open>irqHandler\<close>), the service task
  (\<open>run\<close>) and the user tasks (\<open>txBuffer0SendInTask\<close>, \<open>rxReadInTask\<close>).  The state adds the
  members of \<open>Mcp2515Task\<close> and the \<open>TaskInterface\<close> part of the object to the controller's.
\<close>

text \<open>The lambda that \<open>initialInTask\<close> registers for the interrupt pin, capturing the object.\<close>

datatype gpio_irq_callback = Irq_lambda

record can_st = "gpio_irq_callback mcp_st" +
  task_part :: "task_obj option"
  intSemaphore :: nat
  rxSemaphore :: nat
  txSemaphore :: nat
  pendingRxBuf :: u8
  pendingTxBuf :: u8
  lastIntTime :: u64
  lastRxTime :: u64

section \<open>Construction and initialisation\<close>

text \<open>The base classes are built first (the second one starts the task), then the members.\<close>

definition Mcp2515Task_init ::
  "env \<Rightarrow> u32 \<Rightarrow> task_obj \<Rightarrow> u32 \<Rightarrow> Oscillator \<Rightarrow> Bitrate \<Rightarrow> Priority \<Rightarrow> u32
     \<Rightarrow> ('a can_st_scheme, unit) state" where
  "Mcp2515Task_init E configMAX_PRIORITIES raw intPin oscillator bitrate prio depth = do {
     Mcp2515_init intPin oscillator bitrate;
     t \<leftarrow> TaskInterface_init E configMAX_PRIORITIES raw
            [99, 97, 110, 83, 101, 114, 118, 105, 99, 101, 0] depth prio 0 0;
     modify (\<lambda>s. s\<lparr>task_part := t, intSemaphore := 0, rxSemaphore := 0, txSemaphore := 0,
                    pendingRxBuf := 0, pendingTxBuf := 0, lastIntTime := 0, lastRxTime := 0\<rparr>)
   }"

definition initialInTask :: "env \<Rightarrow> RxBufferType \<Rightarrow> ('a can_st_scheme, unit) state" where
  "initialInTask E rxBufferType = do {
     i \<leftarrow> call (Rtos XSemaphoreCreateBinary) (handle_answer E);
     modify (\<lambda>s. s\<lparr>intSemaphore := i\<rparr>);
     t \<leftarrow> call (Rtos XSemaphoreCreateBinary) (handle_answer E);
     modify (\<lambda>s. s\<lparr>txSemaphore := t\<rparr>);
     r \<leftarrow> call (Rtos (XSemaphoreCreateCounting 2 0)) (handle_answer E);
     modify (\<lambda>s. s\<lparr>rxSemaphore := r\<rparr>);
     resetMcp2515 E;
     emit (Rtos (VTaskDelay (pdMS_TO_TICKS E 100)));
     setMcp2515Bitrate E;
     clearInterrupts E 0;
     (if rxBufferType = Rollover then writeByte E RXB0CTRL (RXM_RCV_ALL OR BUKT_ROLLOVER)
      else do {
        writeByte E RXB0CTRL RXM_RCV_ALL;
        writeByte E RXB1CTRL RXM_RCV_ALL
      });
     pin \<leftarrow> gets Mcp_intPin;
     emit (Gpio (Gpio_init pin));
     emit (Gpio (Gpio_set_pulls pin True False));
     gpioRegisterIrqCallback pin (GPIO_IRQ_EDGE_FALL E) (Some Irq_lambda);
     enableInterrupts E (TX0IE OR RX0IE OR RX1IE OR MERRE OR WAKIE OR ERRIE);
     writeByte E CANCTRL (REQOP_NORMAL OR CLKOUT_ENABLED)
   }"

section \<open>Interrupt\<close>

definition irqHandler :: "env \<Rightarrow> u32 \<Rightarrow> u32 \<Rightarrow> ('a can_st_scheme, unit) state" where
  "irqHandler E gpio events = do {
     now \<leftarrow> call (Time Get_absolute_time) (clock_answer E);
     modify (\<lambda>s. s\<lparr>lastIntTime := now\<rparr>);
     i \<leftarrow> gets intSemaphore;
     woken \<leftarrow> call (Rtos (XSemaphoreGiveFromISR i)) (\<lambda>t. woken_answer E t False);
     emit (Rtos (PortYIELD_FROM_ISR woken))
   }"

definition invoke_gpio ::
  "env \<Rightarrow> gpio_irq_callback \<Rightarrow> u32 \<Rightarrow> u32 \<Rightarrow> ('a can_st_scheme, unit) state" where
  "invoke_gpio E cb pin events = (case cb of Irq_lambda \<Rightarrow> irqHandler E pin events)"

section \<open>The service task\<close>

text \<open>
  One pass of the inner loop of \<open>run\<close>: the interrupt line was found low.  \<open>serve_flags\<close> is
  what follows the read of CANINTF.
\<close>

definition serve_errors :: "env \<Rightarrow> ('a can_st_scheme, unit) state" where
  "serve_errors E = do {
     eflg \<leftarrow> readByte E EFLG;
     bitModify E CANINTF (MERRF OR WAKIF OR ERRIF) 0;
     when_do (eflg AND 0x20 \<noteq> 0) (do {
       writeByte E CANCTRL REQOP_CONFIG;
       emit (Rtos (VTaskDelay (pdMS_TO_TICKS E 1)));
       writeByte E CANCTRL (REQOP_NORMAL OR CLKOUT_ENABLED)
     });
     modify (\<lambda>s. s\<lparr>pendingTxBuf := pendingTxBuf s AND NOT 0x01\<rparr>);
     tx \<leftarrow> gets txSemaphore;
     emit (Rtos (XSemaphoreGive tx))
   }"

definition serve_flags :: "env \<Rightarrow> u8 \<Rightarrow> ('a can_st_scheme, unit) state" where
  "serve_flags E intFlag =
     (if intFlag AND (MERRF OR WAKIF OR ERRIF) \<noteq> 0 then serve_errors E
      else do {
        when_do (intFlag AND RX0IF \<noteq> 0 \<or> intFlag AND RX1IF \<noteq> 0)
          (modify (\<lambda>s. s\<lparr>lastRxTime := lastIntTime s\<rparr>));
        when_do (intFlag AND RX0IF \<noteq> 0) (do {
          bitModify E CANINTF RX0IF 0;
          modify (\<lambda>s. s\<lparr>pendingRxBuf := pendingRxBuf s OR 0x01\<rparr>) });
        when_do (intFlag AND RX1IF \<noteq> 0) (do {
          bitModify E CANINTF RX1IF 0;
          modify (\<lambda>s. s\<lparr>pendingRxBuf := pendingRxBuf s OR 0x02\<rparr>) });
        when_do (intFlag AND TX0IF \<noteq> 0) (do {
          bitModify E CANINTF TX0IF 0;
          modify (\<lambda>s. s\<lparr>pendingTxBuf := pendingTxBuf s AND NOT 0x01\<rparr>) });
        rx \<leftarrow> gets rxSemaphore;
        when_do (intFlag AND RX0IF \<noteq> 0) (emit (Rtos (XSemaphoreGive rx)));
        when_do (intFlag AND RX1IF \<noteq> 0) (emit (Rtos (XSemaphoreGive rx)));
        tx \<leftarrow> gets txSemaphore;
        when_do (intFlag AND TX0IF \<noteq> 0) (emit (Rtos (XSemaphoreGive tx)))
      })"

definition service_pass :: "env \<Rightarrow> ('a can_st_scheme, unit) state" where
  "service_pass E = do { intFlag \<leftarrow> readByte E CANINTF; serve_flags E intFlag }"

text \<open>
  The loops of \<open>run\<close>, each with fuel for the number of tests it makes; the result tells whether
  the fuel was enough for the loop to be left.  The outer loop of \<open>run\<close> is never left.
\<close>

fun wait_ready :: "env \<Rightarrow> nat \<Rightarrow> ('a can_st_scheme, bool) state" where
  "wait_ready E 0 = return False"
| "wait_ready E (Suc n) = do {
     s \<leftarrow> gets (\<lambda>s. intSemaphore s = 0 \<or> txSemaphore s = 0 \<or> rxSemaphore s = 0);
     (if s then do { emit (Rtos (VTaskDelay (pdMS_TO_TICKS E 10))); wait_ready E n }
      else return True)
   }"

fun serve_line :: "env \<Rightarrow> nat \<Rightarrow> ('a can_st_scheme, bool) state" where
  "serve_line E 0 = return False"
| "serve_line E (Suc n) = do {
     pin \<leftarrow> gets Mcp_intPin;
     high \<leftarrow> call (Gpio (Gpio_get pin)) (gpio_get_answer E);
     (if high then return True else do { service_pass E; serve_line E n })
   }"

fun service_loop :: "env \<Rightarrow> nat \<Rightarrow> nat \<Rightarrow> ('a can_st_scheme, unit) state" where
  "service_loop E n 0 = skip"
| "service_loop E n (Suc k) = do {
     done \<leftarrow> serve_line E n;
     (if done then do {
        i \<leftarrow> gets intSemaphore;
        emit (Rtos (XSemaphoreTake i (portMAX_DELAY E)));
        service_loop E n k
      }
      else skip)
   }"

definition can_run :: "env \<Rightarrow> nat \<Rightarrow> nat \<Rightarrow> ('a can_st_scheme, unit) state" where
  "can_run E n k = do {
     ready \<leftarrow> wait_ready E n;
     (if ready then service_loop E n k else skip)
   }"

section \<open>The user's calls\<close>

definition txBuffer0SendInTask ::
  "env \<Rightarrow> u32 \<Rightarrow> u8 list \<Rightarrow> u8 \<Rightarrow> ('a can_st_scheme, unit) state" where
  "txBuffer0SendInTask E canId buf len = do {
     pending \<leftarrow> gets pendingTxBuf;
     tx \<leftarrow> gets txSemaphore;
     when_do (pending AND 0x01 \<noteq> 0) (emit (Rtos (XSemaphoreTake tx (portMAX_DELAY E))));
     modify (\<lambda>s. s\<lparr>pendingTxBuf := pendingTxBuf s OR 0x01\<rparr>);
     txBuffer0Send E canId buf len
   }"

definition rxReadInTask ::
  "env \<Rightarrow> u8 list \<Rightarrow> ('a can_st_scheme, (u32 \<times> u8 list \<times> u8) \<times> u64) state" where
  "rxReadInTask E buf = do {
     rx \<leftarrow> gets rxSemaphore;
     emit (Rtos (XSemaphoreTake rx (portMAX_DELAY E)));
     at \<leftarrow> gets lastRxTime;
     us \<leftarrow> call (Time (To_us_since_boot at)) (clock_answer E);
     pending \<leftarrow> gets pendingRxBuf;
     frame \<leftarrow> (if pending AND 0x01 \<noteq> 0 then do {
         modify (\<lambda>s. s\<lparr>pendingRxBuf := pendingRxBuf s AND NOT 0x01\<rparr>);
         rxBuffer0Read E buf
       }
       else do {
         modify (\<lambda>s. s\<lparr>pendingRxBuf := pendingRxBuf s AND NOT 0x02\<rparr>);
         rxBuffer1Read E buf
       });
     return (frame, us)
   }"

definition Mcp2515Task_operator_new :: "env \<Rightarrow> nat \<Rightarrow> ('a world_scheme, nat) state" where
  "Mcp2515Task_operator_new E sz = call (Rtos (PvPortMalloc sz)) (handle_answer E)"

definition Mcp2515Task_operator_delete :: "nat \<Rightarrow> ('a world_scheme, unit) state" where
  "Mcp2515Task_operator_delete ptr = emit (Rtos (VPortFree ptr))"

end
