(* ===== verification/Can_Steps.thy ===== *)
theory Can_Steps
  imports Can_Task
begin

text \<open>
  The service task, the interrupt and the user tasks as one step system over the shared object, and
  what the pending bits and the semaphores say about each other in every reachable state.  A step is
  one whole operation of a context (one interrupt, one pass of the service loop, one user call); a
  take that waits forever is enabled only when the semaphore has a token.
\<close>

section \<open>Semaphores\<close>

text \<open>
  The number of tokens of semaphore \<open>h\<close> with capacity \<open>cap\<close> after the calls of a trace, as
  FreeRTOS documents it: created empty, a give beyond the capacity fails, a take removes one.
\<close>

fun sem_step :: "nat \<Rightarrow> nat \<Rightarrow> event \<Rightarrow> nat \<Rightarrow> nat" where
  "sem_step h cap (Rtos (XSemaphoreGive x)) n = (if x = h then min cap (n + 1) else n)"
| "sem_step h cap (Rtos (XSemaphoreGiveFromISR x)) n = (if x = h then min cap (n + 1) else n)"
| "sem_step h cap (Rtos (XSemaphoreTake x tmo)) n = (if x = h then n - 1 else n)"
| "sem_step h cap _ n = n"

definition tokens :: "nat \<Rightarrow> nat \<Rightarrow> event list \<Rightarrow> nat" where
  "tokens h cap t = fold (sem_step h cap) t 0"

lemma tokens_snoc: "tokens h cap (t @ [e]) = sem_step h cap e (tokens h cap t)"
  by (simp add: tokens_def)

lemma sem_step_other: "sem_of e \<noteq> Some h \<Longrightarrow> sem_step h cap e n = n"
  by (induction e rule: sem_of.induct) auto

lemma fold_sem_step_other: "Some h \<notin> sem_of ` set es \<Longrightarrow> fold (sem_step h cap) es n = n"
  by (induction es arbitrary: n) (auto simp: sem_step_other)

lemma tokens_other: "Some h \<notin> sem_of ` set es \<Longrightarrow> tokens h cap (t @ es) = tokens h cap t"
  by (simp add: tokens_def fold_sem_step_other)

lemma tokens_on_bus:
  "on_bus s es \<Longrightarrow> h \<notin> bus_sems s \<Longrightarrow> tokens h cap (t @ es) = tokens h cap t"
  unfolding on_bus_def by (intro tokens_other) blast

lemma tokens_le_cap: "tokens h cap t \<le> cap"
proof (induction t rule: rev_induct)
  case Nil
  then show ?case by (simp add: tokens_def)
next
  case (snoc e t)
  then show ?case
    by (cases "sem_of e = Some h", cases e rule: sem_of.cases) (auto simp: tokens_snoc sem_step_other)
qed

abbreviation int_tokens :: "'a can_st_scheme \<Rightarrow> nat" where
  "int_tokens s \<equiv> tokens (intSemaphore s) 1 (trace s)"

abbreviation rx_tokens :: "'a can_st_scheme \<Rightarrow> nat" where
  "rx_tokens s \<equiv> tokens (rxSemaphore s) 2 (trace s)"

abbreviation tx_tokens :: "'a can_st_scheme \<Rightarrow> nat" where
  "tx_tokens s \<equiv> tokens (txSemaphore s) 1 (trace s)"

text \<open>An initialised object: a ready bus, and three semaphores of its own.\<close>

definition can_wf :: "'a can_st_scheme \<Rightarrow> bool" where
  "can_wf s \<longleftrightarrow> spi_ready s \<and> distinct [intSemaphore s, rxSemaphore s, txSemaphore s]
     \<and> {intSemaphore s, rxSemaphore s, txSemaphore s} \<inter> bus_sems s = {}"

section \<open>The abstract view\<close>

text \<open>What the contexts coordinate by: the two pending masks and the two token counts.\<close>

record can_view =
  rx_pending :: u8
  tx_pending :: u8
  rx_sem :: nat
  tx_sem :: nat

definition view :: "'a can_st_scheme \<Rightarrow> can_view" where
  "view s = \<lparr>rx_pending = pendingRxBuf s, tx_pending = pendingTxBuf s,
             rx_sem = rx_tokens s, tx_sem = tx_tokens s\<rparr>"

definition view_serve :: "u8 \<Rightarrow> can_view \<Rightarrow> can_view" where
  "view_serve f v =
     (if f AND 0xE0 \<noteq> 0
      then v\<lparr>tx_pending := tx_pending v AND NOT 1, tx_sem := min 1 (tx_sem v + 1)\<rparr>
      else \<lparr>rx_pending = rx_pending v OR (f AND 3),
             tx_pending = (if f AND 4 \<noteq> 0 then tx_pending v AND NOT 1 else tx_pending v),
             rx_sem = min 2 (rx_sem v + of_bool (f AND 1 \<noteq> 0) + of_bool (f AND 2 \<noteq> 0)),
             tx_sem = (if f AND 4 \<noteq> 0 then min 1 (tx_sem v + 1) else tx_sem v)\<rparr>)"

definition view_send :: "can_view \<Rightarrow> can_view" where
  "view_send v = v\<lparr>tx_pending := tx_pending v OR 1,
                   tx_sem := (if tx_pending v AND 1 \<noteq> 0 then tx_sem v - 1 else tx_sem v)\<rparr>"

definition view_receive :: "can_view \<Rightarrow> can_view" where
  "view_receive v = v\<lparr>rx_pending := (if rx_pending v AND 1 \<noteq> 0 then rx_pending v AND NOT 1
                                     else rx_pending v AND NOT 2),
                      rx_sem := rx_sem v - 1\<rparr>"

section \<open>The operations implement the view\<close>

lemma exec_bitModify:
  "spi_ready s \<Longrightarrow> exec (bitModify E a k d) s = s\<lparr>trace := trace s @ txn_events E s [[CAN_BIT_MODIFY, a, k, d]]\<rparr>"
  by (simp add: exec_def run_bitModify)

lemma spi_ready_can [simp]:
  "spi_ready (s\<lparr>pendingRxBuf := p\<rparr>) = spi_ready s" "spi_ready (s\<lparr>pendingTxBuf := q\<rparr>) = spi_ready s"
  "spi_ready (s\<lparr>lastIntTime := i\<rparr>) = spi_ready s" "spi_ready (s\<lparr>lastRxTime := i\<rparr>) = spi_ready s"
  by (simp_all add: spi_ready_def spi_dma8_def)

lemma txn_events_can [simp]:
  "txn_events E (s\<lparr>pendingRxBuf := p\<rparr>) = txn_events E s" "txn_events E (s\<lparr>pendingTxBuf := q\<rparr>) = txn_events E s"
  "txn_events E (s\<lparr>lastRxTime := i\<rparr>) = txn_events E s"
  by (simp_all add: txn_events_def [abs_def] dma_events_def)

lemma can_wfD:
  assumes "can_wf s"
  shows "spi_ready s" "rxSemaphore s \<noteq> txSemaphore s" "txSemaphore s \<noteq> rxSemaphore s"
    "intSemaphore s \<noteq> rxSemaphore s" "intSemaphore s \<noteq> txSemaphore s"
    "rxSemaphore s \<notin> bus_sems s" "txSemaphore s \<notin> bus_sems s" "intSemaphore s \<notin> bus_sems s"
  using assms by (auto simp: can_wf_def)

lemma bus_sems_can [simp]:
  "bus_sems (s\<lparr>pendingRxBuf := p\<rparr>) = bus_sems s" "bus_sems (s\<lparr>pendingTxBuf := q\<rparr>) = bus_sems s"
  "bus_sems (s\<lparr>lastIntTime := i\<rparr>) = bus_sems s" "bus_sems (s\<lparr>lastRxTime := i\<rparr>) = bus_sems s"
  "bus_sems (s\<lparr>trace := t\<rparr>) = bus_sems s" "bus_sems (s\<lparr>ub := u\<rparr>) = bus_sems s"
  by (simp_all add: bus_sems_def)

lemma fold_on_bus: "on_bus s es \<Longrightarrow> h \<notin> bus_sems s \<Longrightarrow> fold (sem_step h cap) es n = n"
  unfolding on_bus_def by (intro fold_sem_step_other) blast

lemma fold_txn [simp]: "h \<notin> bus_sems s \<Longrightarrow> fold (sem_step h cap) (txn_events E s ds) n = n"
  by (rule fold_on_bus [OF on_bus_txn])

lemmas can_simps = when_do_def view_def can_wf_def tokens_def exec_bitModify exec_writeByte

lemma serve_errors_view:
  assumes "can_wf s"
  shows "view (exec (serve_errors E) s) = (view s)\<lparr>tx_pending := pendingTxBuf s AND NOT 1,
           tx_sem := min 1 (tx_tokens s + 1)\<rparr>"
    and "can_wf (exec (serve_errors E) s)"
  using can_wfD [OF assms] by (auto simp: serve_errors_def can_simps)

lemma and_regs:
  "f AND (MERRF OR WAKIF OR ERRIF) = f AND 0xE0" "f AND RX0IF = f AND 1" "f AND RX1IF = f AND 2"
  "f AND TX0IF = f AND 4"
  by (simp_all add: regs)

lemma and_3_split: "(f :: u8) AND 3 = (if f AND 1 \<noteq> 0 then 1 else 0) OR (if f AND 2 \<noteq> 0 then 2 else 0)"
proof -
  have "f AND 1 = (if f AND 1 \<noteq> 0 then 1 else 0)"
    by (simp add: and_one_eq)
  moreover have "f AND 2 = (if f AND 2 \<noteq> 0 then 2 else 0)"
    using and_exp_eq_0_iff_not_bit [of f 1]
    by (auto intro!: bit_word_eqI simp: bit_simps)
  moreover have "f AND 3 = (f AND 1) OR (f AND 2)"
    by (simp add: bit.conj_disj_distrib [symmetric])
  ultimately show ?thesis by simp
qed

lemma serve_flags_view:
  assumes "can_wf s"
  shows "view (exec (serve_flags E f) s) = view_serve f (view s)"
    and "can_wf (exec (serve_flags E f) s)"
proof -
  show "view (exec (serve_flags E f) s) = view_serve f (view s)"
  proof (cases "f AND 0xE0 \<noteq> 0")
    case True
    then show ?thesis
      using serve_errors_view [OF assms] by (simp add: serve_flags_def and_regs view_serve_def view_def)
  next
    case False
    then show ?thesis
      using can_wfD [OF assms] tokens_le_cap [of "rxSemaphore s" 2 "trace s", unfolded tokens_def]
      by (cases "f AND 1 = 0"; cases "f AND 2 = 0"; cases "f AND 4 = 0")
        (simp_all add: serve_flags_def and_regs can_simps view_serve_def and_3_split or.assoc min_absorb2)
  qed
  show "can_wf (exec (serve_flags E f) s)"
    using can_wfD [OF assms] serve_errors_view(2) [OF assms]
    by (auto simp: serve_flags_def when_do_def exec_bitModify can_wf_def)
qed

text \<open>What a transacting operation leaves alone.\<close>

lemma transacts_view:
  assumes "transacts m" and "can_wf s"
  shows "view (exec m s) = view s" and "can_wf (exec m s)"
proof -
  have "advances s (exec m s)"
    using assms can_wfD(1) unfolding transacts_def by blast
  then obtain es u where es: "exec m s = s\<lparr>trace := trace s @ es, ub := u\<rparr>" "on_bus s es"
    unfolding advances_def by blast
  then show "view (exec m s) = view s" and "can_wf (exec m s)"
    using can_wfD [OF assms(2)]
    by (auto simp: view_def can_wf_def tokens_on_bus spi_ready_def spi_dma8_def)
qed

lemma transacts_frames:
  "transacts (txBuffer0Send E canId buf len)" "transacts (rxBuffer0Read E buf)" "transacts (rxBuffer1Read E buf)"
  "transacts (readByte E a)"
  unfolding txBuffer0Send_def rxBuffer0Read_def rxBuffer1Read_def Let_def
  by (intro transacts_intros)+

lemma service_pass_view:
  assumes "can_wf s"
  shows "view (exec (service_pass E) s) = view_serve (result (readByte E CANINTF) s) (view s)"
    and "can_wf (exec (service_pass E) s)"
  using serve_flags_view [OF transacts_view(2) [OF transacts_frames(4) assms]]
    transacts_view(1) [OF transacts_frames(4) assms]
  by (simp_all add: service_pass_def)

lemma send_view:
  assumes "can_wf s"
  shows "view (exec (txBuffer0SendInTask E canId buf len) s) = view_send (view s)"
    and "can_wf (exec (txBuffer0SendInTask E canId buf len) s)"
proof -
  define t where "t = exec (do {
     pending \<leftarrow> gets pendingTxBuf;
     tx \<leftarrow> gets txSemaphore;
     when_do (pending AND 0x01 \<noteq> 0) (emit (Rtos (XSemaphoreTake tx (portMAX_DELAY E))));
     modify (\<lambda>s. s\<lparr>pendingTxBuf := pendingTxBuf s OR 0x01\<rparr>) }) s"
  have t: "can_wf t" "view t = view_send (view s)"
    using can_wfD [OF assms] by (auto simp: t_def can_simps view_send_def)
  have "exec (txBuffer0SendInTask E canId buf len) s = exec (txBuffer0Send E canId buf len) t"
    by (simp add: txBuffer0SendInTask_def t_def)
  with t show "view (exec (txBuffer0SendInTask E canId buf len) s) = view_send (view s)"
    and "can_wf (exec (txBuffer0SendInTask E canId buf len) s)"
    using transacts_view [OF transacts_frames(1), of t] by simp_all
qed

lemma receive_view:
  assumes "can_wf s"
  shows "view (exec (rxReadInTask E buf) s) = view_receive (view s)"
    and "can_wf (exec (rxReadInTask E buf) s)"
proof -
  let ?p = "pendingRxBuf s AND 1 \<noteq> 0"
  define t where "t = s\<lparr>trace := trace s @ [Rtos (XSemaphoreTake (rxSemaphore s) (portMAX_DELAY E)),
      Time (To_us_since_boot (lastRxTime s))],
    pendingRxBuf := (if ?p then pendingRxBuf s AND NOT 1 else pendingRxBuf s AND NOT 2)\<rparr>"
  have t: "can_wf t" "view t = view_receive (view s)"
    using can_wfD [OF assms] by (auto simp: t_def can_simps view_receive_def)
  have "exec (rxReadInTask E buf) s = exec (if ?p then rxBuffer0Read E buf else rxBuffer1Read E buf) t"
    by (cases ?p) (simp_all add: rxReadInTask_def t_def)
  with t show "view (exec (rxReadInTask E buf) s) = view_receive (view s)"
    and "can_wf (exec (rxReadInTask E buf) s)"
    using transacts_view [OF transacts_frames(2), of t] transacts_view [OF transacts_frames(3), of t]
    by (simp_all split: if_splits)
qed

lemma irq_view:
  assumes "can_wf s"
  shows "view (exec (irqHandler E pin ev) s) = view s" and "can_wf (exec (irqHandler E pin ev) s)"
  using can_wfD [OF assms] by (auto simp: irqHandler_def can_simps)

section \<open>Steps\<close>

inductive can_step :: "env \<Rightarrow> can_st \<Rightarrow> can_st \<Rightarrow> bool" for E :: env where
  interrupt: "can_step E s (exec (irqHandler E pin ev) s)"
| service: "can_step E s (exec (service_pass E) s)"
| service_wait: "0 < int_tokens s \<Longrightarrow>
    can_step E s (exec (emit (Rtos (XSemaphoreTake (intSemaphore s) (portMAX_DELAY E)))) s)"
| send: "pendingTxBuf s AND 1 = 0 \<or> 0 < tx_tokens s \<Longrightarrow>
    can_step E s (exec (txBuffer0SendInTask E canId buf len) s)"
| receive: "0 < rx_tokens s \<Longrightarrow> can_step E s (exec (rxReadInTask E buf) s)"

inductive can_reaches :: "env \<Rightarrow> can_st \<Rightarrow> can_st \<Rightarrow> bool" for E :: env where
  reach_refl: "can_reaches E s s"
| reach_step: "can_reaches E s t \<Longrightarrow> can_step E t u \<Longrightarrow> can_reaches E s u"

text \<open>A freshly initialised object: nothing pending, no token given.\<close>

definition can_start :: "can_st \<Rightarrow> bool" where
  "can_start s \<longleftrightarrow> can_wf s \<and> pendingRxBuf s = 0 \<and> pendingTxBuf s = 0
     \<and> rx_tokens s = 0 \<and> tx_tokens s = 0 \<and> int_tokens s = 0"

definition flagged :: "u8 \<Rightarrow> nat" where
  "flagged p = of_bool (p AND 1 \<noteq> 0) + of_bool (p AND 2 \<noteq> 0)"

definition view_inv :: "can_view \<Rightarrow> bool" where
  "view_inv v \<longleftrightarrow> rx_pending v \<in> {0, 1, 2, 3} \<and> tx_pending v \<in> {0, 1}
     \<and> flagged (rx_pending v) \<le> rx_sem v \<and> rx_sem v \<le> 2 \<and> tx_sem v \<le> 1"

lemma and_3_cases: "(f :: u8) AND 3 \<in> {0, 1, 2, 3}"
  by (simp add: and_3_split)

lemma pending_cases:
  assumes "p \<in> {0, 1, 2, 3 :: u8}"
  obtains "p = 0" | "p = 1" | "p = 2" | "p = 3"
  using assms by blast

lemma view_inv_serve:
  assumes "view_inv v" shows "view_inv (view_serve f v)"
proof -
  have p: "rx_pending v \<in> {0, 1, 2, 3}" and q: "tx_pending v = 0 \<or> tx_pending v = 1"
    and r: "flagged (rx_pending v) \<le> rx_sem v" "rx_sem v \<le> 2" "tx_sem v \<le> 1"
    using assms by (simp_all add: view_inv_def)
  have tx: "tx_pending (view_serve f v) \<in> {0, 1}" "tx_sem (view_serve f v) \<le> 1"
    using q r by (auto simp only: view_serve_def) (simp_all split: if_splits)
  have rx: "rx_pending (view_serve f v) \<in> {0, 1, 2, 3}
      \<and> flagged (rx_pending (view_serve f v)) \<le> rx_sem (view_serve f v) \<and> rx_sem (view_serve f v) \<le> 2"
  proof (cases "f AND 0xE0 = 0")
    case True
    then have eqs: "rx_pending (view_serve f v) = rx_pending v OR (f AND 3)"
      "rx_sem (view_serve f v) = min 2 (rx_sem v + of_bool (f AND 1 \<noteq> 0) + of_bool (f AND 2 \<noteq> 0))"
      by (simp_all add: view_serve_def)
    from p show ?thesis
      unfolding eqs and_3_split [of f] using r(1)
      by (cases rule: pending_cases; cases "f AND 1 = 0"; cases "f AND 2 = 0") (simp_all add: flagged_def)
  qed (use p r in \<open>simp add: view_serve_def\<close>)
  with tx show ?thesis by (simp add: view_inv_def)
qed

lemma view_inv_send: assumes "view_inv v" shows "view_inv (view_send v)"
proof -
  have "tx_pending v = 0 \<or> tx_pending v = 1" using assms by (simp add: view_inv_def)
  then have "tx_pending v OR 1 = 1" by (elim disjE) simp_all
  then show ?thesis using assms by (simp add: view_inv_def view_send_def)
qed

lemma view_inv_receive: assumes "view_inv v" and "0 < rx_sem v" shows "view_inv (view_receive v)"
proof -
  have "rx_pending v \<in> {0, 1, 2, 3}" using assms(1) by (simp add: view_inv_def)
  moreover obtain n where "rx_sem v = Suc n" using assms(2) by (cases "rx_sem v") simp_all
  ultimately show ?thesis
    using assms by (cases rule: pending_cases) (simp_all add: view_inv_def view_receive_def flagged_def)
qed

text \<open>
  The same system without the hardware: steps of the view alone.  Every run of the object is a run of
  the view, so what holds for all runs of the view holds for the code.
\<close>

inductive view_step :: "can_view \<Rightarrow> can_view \<Rightarrow> bool" where
  view_idle: "view_step v v"
| view_pass: "view_step v (view_serve f v)"
| view_sends: "tx_pending v AND 1 = 0 \<or> 0 < tx_sem v \<Longrightarrow> view_step v (view_send v)"
| view_receives: "0 < rx_sem v \<Longrightarrow> view_step v (view_receive v)"

inductive_cases view_stepE: "view_step v w"

lemma can_step_simulates:
  assumes "can_step E s t" and "can_wf s"
  shows "can_wf t \<and> view_step (view s) (view t)"
  using assms(1)
proof (cases rule: can_step.cases)
  case service_wait
  then have "can_wf t \<and> view t = view s"
    using can_wfD [OF assms(2)] by (auto simp: can_simps view_def)
  then show ?thesis by (simp add: view_idle)
next
  case send
  then have "tx_pending (view s) AND 1 = 0 \<or> 0 < tx_sem (view s)" by (simp add: view_def)
  with send show ?thesis using assms(2) by (simp add: send_view view_sends)
next
  case receive
  then have "0 < rx_sem (view s)" by (simp add: view_def)
  with receive show ?thesis using assms(2) by (simp add: receive_view view_receives)
qed (use assms(2) in \<open>simp_all add: irq_view service_pass_view view_idle view_pass\<close>)

lemma can_reaches_simulates:
  "can_reaches E s t \<Longrightarrow> can_wf s \<Longrightarrow> can_wf t \<and> view_step\<^sup>*\<^sup>* (view s) (view t)"
proof (induction rule: can_reaches.induct)
  case (reach_step s t u)
  then show ?case using can_step_simulates [of E t u] by (auto intro: rtranclp.rtrancl_into_rtrancl)
qed simp

lemma view_step_inv: "view_step v w \<Longrightarrow> view_inv v \<Longrightarrow> view_inv w"
  by (erule view_stepE) (simp_all add: view_inv_serve view_inv_send view_inv_receive)

lemma view_steps_inv: "view_step\<^sup>*\<^sup>* v w \<Longrightarrow> view_inv v \<Longrightarrow> view_inv w"
  by (induction rule: rtranclp_induct) (simp_all add: view_step_inv)

lemma can_reaches_inv:
  assumes "can_reaches E s t" and "can_start s"
  shows "can_wf t \<and> view_inv (view t)"
proof -
  have "can_wf s" and "view_inv (view s)"
    using assms(2) by (simp_all add: can_start_def view_inv_def view_def flagged_def)
  then show ?thesis using can_reaches_simulates [OF assms(1)] view_steps_inv by blast
qed

end
