(* ===== verification/Can_Props.thy ===== *)
theory Can_Props
  imports Can_Steps
begin

text \<open>
  The properties of the CAN service: what its passes, the user calls and the interrupt do to the
  shared masks and semaphores, what holds in every reachable state, and the two ways in which the
  masks and the semaphores drift apart.
\<close>

section \<open>Refinement and invariant\<close>

text \<open>
  C5: Each context implements its step on the abstract view of two pending masks and two token
  counts: one service pass serves the flags read from CANINTF (errors alone when one is set), a send
  sets the transmit bit and waits only when it was set, a receive takes a token and clears one bit, and
  the interrupt changes none of them; and each leaves the object well formed.
\<close>

theorem contexts_implement_view:
  assumes "can_wf s"
  shows "view (exec (service_pass E) s) = view_serve (result (readByte E CANINTF) s) (view s)
       \<and> view (exec (txBuffer0SendInTask E canId buf len) s) = view_send (view s)
       \<and> view (exec (rxReadInTask E out) s) = view_receive (view s)
       \<and> view (exec (irqHandler E pin ev) s) = view s
       \<and> can_wf (exec (service_pass E) s) \<and> can_wf (exec (txBuffer0SendInTask E canId buf len) s)
       \<and> can_wf (exec (rxReadInTask E out) s) \<and> can_wf (exec (irqHandler E pin ev) s)"
  using assms by (simp add: service_pass_view send_view receive_view irq_view)

text \<open>
  C3: In every state reachable from initialisation, by interrupts, service passes, sends and
  receives in any order, each flagged receive buffer has a token in the receive semaphore, so no flagged
  frame can leave a reader waiting; the masks stay within their bits, and no semaphore exceeds its
  capacity.
\<close>

theorem flagged_frames_have_tokens:
  assumes "can_reaches E s t" and "can_start s"
  shows "flagged (pendingRxBuf t) \<le> rx_tokens t \<and> rx_tokens t \<le> 2 \<and> tx_tokens t \<le> 1
       \<and> pendingRxBuf t \<le> 3 \<and> pendingTxBuf t \<le> 1 \<and> spi_ready t"
proof -
  have wf: "can_wf t" and inv: "view_inv (view t)" using can_reaches_inv [OF assms] by simp_all
  then have "pendingRxBuf t \<in> {0, 1, 2, 3}" "pendingTxBuf t = 0 \<or> pendingTxBuf t = 1"
    and r: "flagged (pendingRxBuf t) \<le> rx_tokens t" "rx_tokens t \<le> 2" "tx_tokens t \<le> 1"
    by (simp_all add: view_inv_def view_def)
  then have "pendingRxBuf t \<le> 3" "pendingTxBuf t \<le> 1"
    by (auto elim: pending_cases)
  with wf r show ?thesis by (simp add: can_wf_def)
qed

section \<open>Where masks and semaphores drift apart\<close>

lemma view_sel:
  "pendingRxBuf s = rx_pending (view s)" "pendingTxBuf s = tx_pending (view s)"
  "rx_tokens s = rx_sem (view s)" "tx_tokens s = tx_sem (view s)"
  by (simp_all add: view_def)

text \<open>
  C22: The transmit semaphore keeps a stale token.  After a send, its completion and a second send,
  the transmit bit is set (the second frame is still in the buffer) and the semaphore still holds the
  token of the first completion: a third send does not wait and overwrites the frame in flight.
\<close>

theorem third_send_does_not_wait:
  assumes "can_start s" and "\<And>u :: can_st. spi_ready u \<Longrightarrow> result (readByte E CANINTF) u = 0x04"
    and "t = exec (do { txBuffer0SendInTask E i1 b1 n1; service_pass E; txBuffer0SendInTask E i2 b2 n2 }) s"
  shows "can_reaches E s t \<and> pendingTxBuf t AND 1 \<noteq> 0 \<and> 0 < tx_tokens t
       \<and> can_step E t (exec (txBuffer0SendInTask E i3 b3 n3) t)"
proof -
  let ?s1 = "exec (txBuffer0SendInTask E i1 b1 n1) s"
  let ?s2 = "exec (service_pass E) ?s1"
  have wf: "can_wf s" and v: "view s = \<lparr>rx_pending = 0, tx_pending = 0, rx_sem = 0, tx_sem = 0\<rparr>"
    using assms(1) by (simp_all add: can_start_def view_def)
  have t: "t = exec (txBuffer0SendInTask E i2 b2 n2) ?s2" by (simp add: assms(3))
  have v1: "view ?s1 = \<lparr>rx_pending = 0, tx_pending = 1, rx_sem = 0, tx_sem = 0\<rparr>" and wf1: "can_wf ?s1"
    using send_view [OF wf] v by (simp_all add: view_send_def)
  have v2: "view ?s2 = \<lparr>rx_pending = 0, tx_pending = 0, rx_sem = 0, tx_sem = 1\<rparr>" and wf2: "can_wf ?s2"
    using service_pass_view [OF wf1, of E] v1 assms(2) can_wfD(1) [OF wf1] by (simp_all add: view_serve_def)
  have vt: "view t = \<lparr>rx_pending = 0, tx_pending = 1, rx_sem = 0, tx_sem = 1\<rparr>"
    using send_view [OF wf2] v2 by (simp add: t view_send_def)
  have "can_step E s ?s1" "can_step E ?s2 t"
    unfolding t using v v2 by (auto intro!: can_step.send simp: view_sel)
  then have "can_reaches E s t"
    using can_step.service by (blast intro: can_reaches.intros)
  moreover have "pendingTxBuf t = 1" "tx_tokens t = 1"
    using vt by (simp_all add: view_def)
  ultimately show ?thesis by (auto intro: can_step.send)
qed

text \<open>
  When a second frame arrives in buffer 0 before the first was read, the semaphore counts two but
  the mask holds one bit.  After one receive a token is left with no buffer flagged: the next receive
  does not wait and returns what receive buffer 1 happens to hold, a frame nobody flagged.
\<close>

theorem unflagged_receive:
  assumes "can_start s" and "\<And>u :: can_st. spi_ready u \<Longrightarrow> result (readByte E CANINTF) u = 0x01"
    and "t = exec (do { service_pass E; service_pass E; rxReadInTask E b }) s"
  shows "can_reaches E s t \<and> 0 < rx_tokens t \<and> pendingRxBuf t = 0
       \<and> (\<exists>es. mosi es = [] \<and> fst (result (rxReadInTask E b') t)
                = result (rxBuffer1Read E b') (t\<lparr>trace := trace t @ es\<rparr>))"
proof -
  let ?s1 = "exec (service_pass E) s"
  let ?s2 = "exec (service_pass E) ?s1"
  have wf: "can_wf s" and v: "view s = \<lparr>rx_pending = 0, tx_pending = 0, rx_sem = 0, tx_sem = 0\<rparr>"
    using assms(1) by (simp_all add: can_start_def view_def)
  have t: "t = exec (rxReadInTask E b) ?s2" by (simp add: assms(3))
  have v1: "view ?s1 = \<lparr>rx_pending = 1, tx_pending = 0, rx_sem = 1, tx_sem = 0\<rparr>" and wf1: "can_wf ?s1"
    using service_pass_view [OF wf, of E] v assms(2) can_wfD(1) [OF wf] by (simp_all add: view_serve_def)
  have v2: "view ?s2 = \<lparr>rx_pending = 1, tx_pending = 0, rx_sem = 2, tx_sem = 0\<rparr>" and wf2: "can_wf ?s2"
    using service_pass_view [OF wf1, of E] v1 assms(2) can_wfD(1) [OF wf1] by (simp_all add: view_serve_def)
  have vt: "view t = \<lparr>rx_pending = 0, tx_pending = 0, rx_sem = 1, tx_sem = 0\<rparr>"
    using receive_view [OF wf2] v2 by (simp add: t view_receive_def)
  have "can_step E ?s2 t"
    unfolding t using v2 by (intro can_step.receive) (simp add: view_sel)
  then have "can_reaches E s t"
    using can_step.service by (blast intro: can_reaches.intros)
  moreover have p: "pendingRxBuf t = 0" and "rx_tokens t = 1" using vt by (simp_all add: view_def)
  moreover have "fst (result (rxReadInTask E b') t) = result (rxBuffer1Read E b') (t\<lparr>trace := trace t @
      [Rtos (XSemaphoreTake (rxSemaphore t) (portMAX_DELAY E)), Time (To_us_since_boot (lastRxTime t))]\<rparr>)"
    (is "_ = result _ ?u")
  proof -
    have "u\<lparr>pendingRxBuf := 0\<rparr> = u" if "pendingRxBuf u = 0" for u :: can_st
      using that by (cases u) simp
    then have same: "?u\<lparr>pendingRxBuf := 0\<rparr> = ?u" using p by simp
    have "fst (result (rxReadInTask E b') t) = result (rxBuffer1Read E b') (?u\<lparr>pendingRxBuf := 0\<rparr>)"
      using p by (simp add: rxReadInTask_def)
    then show ?thesis unfolding same .
  qed
  moreover have "mosi [Rtos (XSemaphoreTake (rxSemaphore t) (portMAX_DELAY E)),
      Time (To_us_since_boot (lastRxTime t))] = []" by (simp add: mosi_Cons)
  ultimately show ?thesis by auto
qed

section \<open>The service loop and the interrupt\<close>

definition line_tests :: "event list \<Rightarrow> nat" where
  "line_tests t = length (filter (\<lambda>e. case e of Gpio (Gpio_get _) \<Rightarrow> True | _ \<Rightarrow> False) t)"

lemma line_tests_append [simp]: "line_tests (t @ u) = line_tests t + line_tests u"
  and line_tests_get [simp]: "line_tests (Gpio (Gpio_get pin) # t) = Suc (line_tests t)"
  by (simp_all add: line_tests_def)

text \<open>From a ready bus a service pass only extends the trace.\<close>

lemma transacts_extends: "transacts m \<Longrightarrow> spi_ready s \<Longrightarrow>
    \<exists>es. trace (exec m s) = trace s @ es \<and> spi_ready (exec m s)"
  unfolding transacts_def advances_def by fastforce

lemma service_pass_extends:
  assumes "spi_ready s"
  shows "\<exists>es. trace (exec (service_pass E) s) = trace s @ es" and "spi_ready (exec (service_pass E) s)"
  using assms
  by (auto simp: service_pass_def serve_flags_def serve_errors_def when_do_def exec_bitModify exec_writeByte)

lemma serve_line_ends:
  assumes "\<And>t. k \<le> line_tests t \<Longrightarrow> gpio_get_answer E t"
  shows "spi_ready s \<Longrightarrow> k \<le> line_tests (trace s) + n \<Longrightarrow> result (serve_line E (Suc n)) s"
proof (induction n arbitrary: s)
  case 0
  then show ?case using assms by simp
next
  case (Suc n)
  let ?t = "s\<lparr>trace := trace s @ [Gpio (Gpio_get (Mcp_intPin s))]\<rparr>"
  obtain es where "trace (exec (service_pass E) ?t) = trace ?t @ es" "spi_ready (exec (service_pass E) ?t)"
    using service_pass_extends [of ?t E] Suc.prems by auto
  then have "result (serve_line E (Suc n)) (exec (service_pass E) ?t)"
    using Suc.IH [of "exec (service_pass E) ?t"] Suc.prems by (simp del: serve_line.simps)
  then show ?case by (subst serve_line.simps(2)) (simp del: serve_line.simps)
qed

text \<open>
  The inner loop of the service task ends: once the interrupt line reads high from the
  \<open>k\<close>-th test on, fuel for \<open>k + 1\<close> tests is enough from any ready state, whatever the
  passes in between find.
\<close>

theorem service_drains_line:
  assumes "\<And>t. k \<le> line_tests t \<Longrightarrow> gpio_get_answer E t" and "spi_ready s"
  shows "result (serve_line E (Suc k)) s"
  using serve_line_ends [of k E s k] assms by (simp del: serve_line.simps)

lemma spi_ready_sems [simp]:
  "spi_ready (s\<lparr>intSemaphore := i\<rparr>) = spi_ready s" "spi_ready (s\<lparr>rxSemaphore := i\<rparr>) = spi_ready s"
  "spi_ready (s\<lparr>txSemaphore := i\<rparr>) = spi_ready s" "spi_ready (s\<lparr>pinCallbacks := cbs\<rparr>) = spi_ready s"
  by (simp_all add: spi_ready_def spi_dma8_def)

lemma txn_events_sems [simp]:
  "txn_events E (s\<lparr>intSemaphore := i\<rparr>) = txn_events E s" "txn_events E (s\<lparr>rxSemaphore := i\<rparr>) = txn_events E s"
  "txn_events E (s\<lparr>txSemaphore := i\<rparr>) = txn_events E s" "txn_events E (s\<lparr>pinCallbacks := cbs\<rparr>) = txn_events E s"
  by (simp_all add: txn_events_def [abs_def] dma_events_def)

lemma reg_writes_Cons: "reg_writes (e # t) = concat (map write_of (mosi_of e)) @ reg_writes t"
  and reg_writes_Nil [simp]: "reg_writes [] = []"
  by (simp_all add: reg_writes_def mosi_Cons)

lemma exec_resetMcp2515:
  "spi_ready s \<Longrightarrow> exec (resetMcp2515 E) s = s\<lparr>trace := trace s @ txn_events E s [[CAN_WRITE, CAN_RESET]]\<rparr>"
  by (simp add: exec_def run_resetMcp2515)

lemma exec_register:
  "\<not> kNumGpios \<le> pin \<Longrightarrow> exec (gpioRegisterIrqCallback pin events cb) s =
     s\<lparr>pinCallbacks := (pinCallbacks s)[unat pin := cb],
       trace := trace s @ [Gpio Gpio_set_irq_callback, Gpio (Irq_set_enabled IO_IRQ_BANK0 True),
                 Gpio (Gpio_set_irq_enabled pin events True)]\<rparr>"
  by (simp add: exec_def run_register)

lemma irq_gives:
  assumes "pinCallbacks t ! unat pin = Some Irq_lambda" and "pin < 30"
  shows "\<exists>u es. exec (irqDispatcher (invoke_gpio E) pin ev) t = u
           \<and> trace u = trace t @ es \<and> Rtos (XSemaphoreGiveFromISR (intSemaphore t)) \<in> set es
           \<and> lastIntTime u = clock_answer E (trace t @ [Time Get_absolute_time])"
  using assms by (simp add: irqDispatcher_def kNumGpios_def invoke_gpio_def irqHandler_def)

definition init_writes :: "u8 list \<Rightarrow> RxBufferType \<Rightarrow> (u8 \<times> u8) list" where
  "init_writes row rxBufferType =
     [(0x2A, row ! 0), (0x29, row ! 1), (0x28, row ! 2), (0x2C, 0)]
     @ (if rxBufferType = Rollover then [(0x60, 0x64)] else [(0x60, 0x60), (0x70, 0x60)])
     @ [(0x2B, 0xE7), (0x0F, 0x04)]"

text \<open>
  C15: Initialisation writes exactly this register sequence (bit timing, all flags cleared, receive
  buffers opened, seven interrupt sources enabled, normal mode), leaves the interrupt pin with the
  object's handler, and the next interrupt on that pin gives the semaphore the service task waits on
  and records its time.
\<close>

theorem initialInTask_effect:
  assumes "spi_ready s" and "gpio_wf s" and "Mcp_intPin s < 30"
    and "t = exec (initialInTask E rxBufferType) s"
  shows "reg_writes (trace t) = reg_writes (trace s) @ init_writes (Mcp_bitrateAddr s) rxBufferType
       \<and> spi_ready t \<and> ub t = ub s
       \<and> pinCallbacks t ! unat (Mcp_intPin s) = Some Irq_lambda
       \<and> (\<exists>u es. exec (irqDispatcher (invoke_gpio E) (Mcp_intPin s) ev) t = u
              \<and> trace u = trace t @ es \<and> Rtos (XSemaphoreGiveFromISR (intSemaphore t)) \<in> set es
              \<and> lastIntTime u = clock_answer E (trace t @ [Time Get_absolute_time]))"
proof -
  note init = initialInTask_def exec_setMcp2515Bitrate write_all_state exec_writeByte clearInterrupts_def
    enableInterrupts_def exec_resetMcp2515 exec_register
  have pin: "\<not> kNumGpios \<le> Mcp_intPin s" "unat (Mcp_intPin s) < length (pinCallbacks s)"
    using assms(2,3) by (simp_all add: gpio_wf_def kNumGpios_def word_less_nat_alt not_le)
  have "reg_writes (trace t) = reg_writes (trace s) @ init_writes (Mcp_bitrateAddr s) rxBufferType"
    using assms(1) pin unfolding assms(4) by (simp add: init init_writes_def reg_writes_Cons) (simp add: regs)
  moreover have "spi_ready t \<and> ub t = ub s \<and> Mcp_intPin t = Mcp_intPin s
      \<and> pinCallbacks t ! unat (Mcp_intPin s) = Some Irq_lambda"
    using assms(1) pin unfolding assms(4) by (simp add: init)
  ultimately show ?thesis
    using irq_gives [of t "Mcp_intPin s" E ev] assms(3) by blast
qed

section \<open>Closed instances\<close>

definition demo_can :: can_st where
  "demo_can = \<lparr>trace = [], ub = False, pinCallbacks = replicate 30 None,
     callbackList = replicate 12 \<lparr>callback = None, param = 0\<rparr>,
     SPI_spi = 0, SPI_cs = 17, SPI_enableDma = True, SPI_dmaTx = 1, SPI_dmaTxConfig = [],
     SPI_dmaRx = 0, SPI_dmaRxConfig = [], SPI_data16Bits = False, SPI_busMutex = 3,
     SPI_csActive = False, SPI_dmaRxSemaphore = 4, SPI_dmaTxSemaphore = 5,
     Mcp_bitrateAddr = [0x00, 0xF0, 0x86], Mcp_intPin = 20, task_part = None,
     intSemaphore = 6, rxSemaphore = 7, txSemaphore = 8, pendingRxBuf = 0, pendingTxBuf = 0,
     lastIntTime = 0, lastRxTime = 0\<rparr>"

text \<open>An environment in which every register reads as \<open>b\<close>.\<close>

definition flag_env :: "u8 \<Rightarrow> env" where
  "flag_env b = demo_env\<lparr>miso := \<lambda>t i. b\<rparr>"

lemma can_start_demo: "can_start demo_can" and can_wf_demo: "can_wf demo_can"
  and spi_ready_demo_can: "spi_ready demo_can"
  by (simp_all add: can_start_def can_wf_def demo_can_def spi_ready_def spi_dma8_def bus_sems_def tokens_def)

lemma flag_env_reads: "spi_ready u \<Longrightarrow> result (readByte (flag_env b) a) u = b"
  by (simp add: result_readByte flag_env_def)

theorem contexts_implement_view_witness:
  "view (exec (service_pass (flag_env 0x05)) demo_can) = view_serve 0x05 (view demo_can)"
  using contexts_implement_view [OF can_wf_demo, of "flag_env 0x05"]
  by (simp add: flag_env_reads spi_ready_demo_can)

theorem flagged_frames_have_tokens_witness:
  "flagged (pendingRxBuf (exec (service_pass (flag_env 0x03)) demo_can))
     \<le> rx_tokens (exec (service_pass (flag_env 0x03)) demo_can)"
  using flagged_frames_have_tokens [OF can_reaches.reach_step [OF can_reaches.reach_refl can_step.service] can_start_demo]
  by blast

theorem third_send_does_not_wait_witness:
  "0 < tx_tokens (exec (do { txBuffer0SendInTask (flag_env 0x04) 1 [] 0; service_pass (flag_env 0x04);
         txBuffer0SendInTask (flag_env 0x04) 2 [] 0 }) demo_can)"
  using third_send_does_not_wait [OF can_start_demo flag_env_reads refl, of 1 "[]" 0 2 "[]" 0 3 "[]" 0] by blast

theorem unflagged_receive_witness:
  "pendingRxBuf (exec (do { service_pass (flag_env 0x01); service_pass (flag_env 0x01);
         rxReadInTask (flag_env 0x01) [0] }) demo_can) = 0"
  using unflagged_receive [OF can_start_demo flag_env_reads refl, of "[0]" "[0]"] by blast

theorem service_drains_line_witness:
  "result (serve_line (demo_env\<lparr>gpio_get_answer := \<lambda>t. 2 \<le> line_tests t\<rparr>) 3) demo_can"
  using service_drains_line [of 2 "demo_env\<lparr>gpio_get_answer := \<lambda>t. 2 \<le> line_tests t\<rparr>" demo_can]
    spi_ready_demo_can
  by (simp del: serve_line.simps add: numeral_3_eq_3 numeral_2_eq_2)

theorem initialInTask_effect_witness:
  "reg_writes (trace (exec (initialInTask demo_env Rollover) demo_can)) =
     [(0x2A, 0x00), (0x29, 0xF0), (0x28, 0x86), (0x2C, 0), (0x60, 0x64), (0x2B, 0xE7), (0x0F, 0x04)]"
proof -
  have "gpio_wf demo_can" "Mcp_intPin demo_can < 30"
    by (simp_all add: gpio_wf_def demo_can_def)
  from initialInTask_effect [OF spi_ready_demo_can this refl, of demo_env Rollover]
  show ?thesis by (simp add: init_writes_def reg_writes_def demo_can_def)
qed

end
