(* ===== verification/Can_Races.thy ===== *)
theory Can_Races
  imports Can_Props
begin

text \<open>
  The three contexts of the CAN service under preemption.  \<open>Can_Steps\<close> interleaves whole operations;
  here an operation is the sequence of its accesses to what the contexts share, the two masks and
  the two semaphores, and a switch can happen between any two of them.  A compound assignment
  (\<open>_pendingRxBuf &= ~0x01\<close>) is a load into a register and a store.
\<close>

section \<open>Micro-programs\<close>

datatype shared = Rx | Tx

datatype mask_op = Or_bits u8 | Clear_bits u8

datatype instr =
    Load shared
  | Store shared mask_op
  | Give shared
  | Take shared
  | If_set shared u8 "instr list" "instr list"
  | Access nat
  | Transmit

text \<open>A compound assignment to a mask.\<close>

definition assign :: "shared \<Rightarrow> mask_op \<Rightarrow> instr list" where
  "assign m u = [Load m, Store m u]"

text \<open>One pass of the service loop for the flags \<open>f\<close> it has read.\<close>

definition service_prog :: "u8 \<Rightarrow> instr list" where
  "service_prog f =
     (if f AND 0xE0 \<noteq> 0 then assign Tx (Clear_bits 1) @ [Give Tx]
      else (if f AND 1 \<noteq> 0 then assign Rx (Or_bits 1) else [])
         @ (if f AND 2 \<noteq> 0 then assign Rx (Or_bits 2) else [])
         @ (if f AND 4 \<noteq> 0 then assign Tx (Clear_bits 1) else [])
         @ (if f AND 1 \<noteq> 0 then [Give Rx] else [])
         @ (if f AND 2 \<noteq> 0 then [Give Rx] else [])
         @ (if f AND 4 \<noteq> 0 then [Give Tx] else []))"

text \<open>\<open>Access n\<close> stands for the read of receive buffer \<open>n\<close>, \<open>Transmit\<close> for the write of the frame.\<close>

definition receive_branch :: "nat \<Rightarrow> instr list" where
  "receive_branch n = assign Rx (Clear_bits (if n = 0 then 1 else 2)) @ [Access n]"

definition receive_prog :: "instr list" where
  "receive_prog = [Take Rx, If_set Rx 1 (receive_branch 0) (receive_branch 1)]"

definition send_prog :: "instr list" where
  "send_prog = If_set Tx 1 [Take Tx] [] # assign Tx (Or_bits 1) @ [Transmit]"

section \<open>Execution\<close>

fun apply_op :: "mask_op \<Rightarrow> u8 \<Rightarrow> u8" where
  "apply_op (Or_bits b) p = p OR b"
| "apply_op (Clear_bits b) p = p AND NOT b"

fun mask_of :: "shared \<Rightarrow> can_view \<Rightarrow> u8" where
  "mask_of Rx v = rx_pending v"
| "mask_of Tx v = tx_pending v"

fun set_mask :: "shared \<Rightarrow> u8 \<Rightarrow> can_view \<Rightarrow> can_view" where
  "set_mask Rx p v = v\<lparr>rx_pending := p\<rparr>"
| "set_mask Tx p v = v\<lparr>tx_pending := p\<rparr>"

text \<open>The semaphores count to 2 and to 1; a give beyond that is lost, a take waits for a token.\<close>

fun give :: "shared \<Rightarrow> can_view \<Rightarrow> can_view" where
  "give Rx v = v\<lparr>rx_sem := min 2 (rx_sem v + 1)\<rparr>"
| "give Tx v = v\<lparr>tx_sem := min 1 (tx_sem v + 1)\<rparr>"

fun take_token :: "shared \<Rightarrow> can_view \<Rightarrow> can_view option" where
  "take_token Rx v = (if 0 < rx_sem v then Some (v\<lparr>rx_sem := rx_sem v - 1\<rparr>) else None)"
| "take_token Tx v = (if 0 < tx_sem v then Some (v\<lparr>tx_sem := tx_sem v - 1\<rparr>) else None)"

text \<open>One instruction: the new register, the instructions it continues with and the shared state.\<close>

fun micro :: "instr \<Rightarrow> u8 \<Rightarrow> can_view \<Rightarrow> (u8 \<times> instr list \<times> can_view) option" where
  "micro (Load m) r v = Some (mask_of m v, [], v)"
| "micro (Store m u) r v = Some (r, [], set_mask m (apply_op u r) v)"
| "micro (Give m) r v = Some (r, [], give m v)"
| "micro (Take m) r v = map_option (\<lambda>v'. (r, [], v')) (take_token m v)"
| "micro (If_set m b xs ys) r v = Some (r, (if mask_of m v AND b \<noteq> 0 then xs else ys), v)"
| "micro (Access n) r v = Some (r, [], v)"
| "micro Transmit r v = Some (r, [], v)"

datatype ctx = Service | Receiver | Sender

record fine =
  f_view :: can_view
  f_reg :: "ctx \<Rightarrow> u8"
  f_prog :: "ctx \<Rightarrow> instr list"
  f_log :: "nat list"

text \<open>What the scheduler can do: let an idle context begin an operation, or let a context run on.\<close>

datatype action = Begin_service u8 | Begin_receive | Begin_send | Run ctx

definition begin_op :: "ctx \<Rightarrow> instr list \<Rightarrow> fine \<Rightarrow> fine option" where
  "begin_op c p s = (if f_prog s c = [] then Some (s\<lparr>f_prog := (f_prog s)(c := p)\<rparr>) else None)"

definition run_instr :: "ctx \<Rightarrow> fine \<Rightarrow> fine option" where
  "run_instr c s =
     (case f_prog s c of
        [] \<Rightarrow> None
      | i # is \<Rightarrow>
          map_option (\<lambda>(r, js, v). s\<lparr>f_view := v, f_reg := (f_reg s)(c := r), f_prog := (f_prog s)(c := js @ is),
              f_log := f_log s @ (case i of Access n \<Rightarrow> [n] | _ \<Rightarrow> [])\<rparr>)
            (micro i (f_reg s c) (f_view s)))"

fun fine_step :: "action \<Rightarrow> fine \<Rightarrow> fine option" where
  "fine_step (Begin_service f) s = begin_op Service (service_prog f) s"
| "fine_step Begin_receive s = begin_op Receiver (receive_prog) s"
| "fine_step Begin_send s = begin_op Sender (send_prog) s"
| "fine_step (Run c) s = run_instr c s"

text \<open>A schedule; \<open>None\<close> when it asks for a step that is not possible.\<close>

fun fine_run :: "action list \<Rightarrow> fine \<Rightarrow> fine option" where
  "fine_run [] s = Some s"
| "fine_run (x # xs) s = Option.bind (fine_step x s) (fine_run xs)"

definition fine_start :: fine where
  "fine_start = \<lparr>f_view = \<lparr>rx_pending = 0, tx_pending = 0, rx_sem = 0, tx_sem = 0\<rparr>,
     f_reg = (\<lambda>_. 0), f_prog = (\<lambda>_. []), f_log = []\<rparr>"

section \<open>Without preemption\<close>

text \<open>A program that runs alone.\<close>

fun alone :: "nat \<Rightarrow> u8 \<Rightarrow> instr list \<Rightarrow> can_view \<Rightarrow> can_view option" where
  "alone 0 r is v = None"
| "alone (Suc k) r [] v = Some v"
| "alone (Suc k) r (i # is) v =
     (case micro i r v of None \<Rightarrow> None | Some (r', js, v') \<Rightarrow> alone k r' (js @ is) v')"

lemma alone_numeral:
  "alone (numeral k) r is v =
     (case is of [] \<Rightarrow> Some v
      | i # is \<Rightarrow> (case micro i r v of None \<Rightarrow> None | Some (r', js, v') \<Rightarrow> alone (pred_numeral k) r' (js @ is) v'))"
  by (cases "is") (simp_all add: numeral_eq_Suc)

lemma alone_service:
  assumes "rx_sem v \<le> 2" and "tx_sem v \<le> 1"
  shows "alone 12 r (service_prog f) v = Some (view_serve f v)"
proof (cases "f AND 0xE0 = 0")
  case True
  obtain p q m n where "v = \<lparr>rx_pending = p, tx_pending = q, rx_sem = m, tx_sem = n\<rparr>"
    by (cases v)
  with True show ?thesis
    using assms unfolding and_3_split [of f]
    by (cases "f AND 1 = 0"; cases "f AND 2 = 0"; cases "f AND 4 = 0")
      (simp_all add: service_prog_def assign_def view_serve_def alone_numeral or.assoc and_3_split [of f])
qed (simp add: service_prog_def assign_def view_serve_def alone_numeral)

lemma alone_receive: "0 < rx_sem v \<Longrightarrow> alone 12 r (receive_prog) v = Some (view_receive v)"
  by (cases v) (simp_all add: receive_prog_def receive_branch_def assign_def view_receive_def alone_numeral)

lemma alone_send:
  "tx_pending v AND 1 = 0 \<or> 0 < tx_sem v \<Longrightarrow> alone 12 r (send_prog) v = Some (view_send v)"
  by (cases v) (auto simp: send_prog_def assign_def view_send_def alone_numeral)

lemma view_bounds: "rx_sem (view s) \<le> 2" "tx_sem (view s) \<le> 1"
  by (simp_all add: view_def tokens_le_cap)

text \<open>
  C13: run without a switch, the micro-steps of a service pass, of a receive and of a send compute
  on the masks and the semaphores exactly what the code of the operation does in one go: the finer model
  refines the coarser one, and the two differ only in where a switch can happen.\<close>

theorem micro_steps_refine_code:
  assumes "can_wf s"
  shows "alone 12 r (service_prog (result (readByte E CANINTF) s)) (view s)
      = Some (view (exec (service_pass E) s))
    \<and> (0 < rx_tokens s \<longrightarrow>
      alone 12 r (receive_prog) (view s) = Some (view (exec (rxReadInTask E buf) s)))
    \<and> (pendingTxBuf s AND 1 = 0 \<or> 0 < tx_tokens s \<longrightarrow>
      alone 12 r (send_prog) (view s) = Some (view (exec (txBuffer0SendInTask E canId buf len) s)))"
  using alone_service [OF view_bounds, of r] alone_receive [of "view s" r] alone_send [of "view s" r]
  by (simp add: service_pass_view [OF assms] receive_view [OF assms] send_view [OF assms])
    (simp add: view_def)

theorem micro_steps_refine_code_witness:
  "alone 12 0 (service_prog 0x05) (view demo_can) = Some (view (exec (service_pass (flag_env 0x05)) demo_can))"
  using micro_steps_refine_code [OF can_wf_demo, of 0 "flag_env 0x05"]
  by (simp add: flag_env_reads spi_ready_demo_can)

section \<open>Assignments that are not interrupted\<close>

text \<open>The flags a pass of the service has yet to set, and the receive tokens it has yet to give.\<close>

fun is_set :: "instr \<Rightarrow> bool" where
  "is_set (Store Rx (Or_bits b)) = True"
| "is_set _ = False"

definition sets :: "instr list \<Rightarrow> nat" where
  "sets p = length (filter is_set p)"

definition gives :: "instr list \<Rightarrow> nat" where
  "gives p = count_list p (Give Rx)"

lemma sets_simps [simp]:
  "sets [] = 0" "sets (i # p) = of_bool (is_set i) + sets p" "sets (p @ q) = sets p + sets q"
  by (simp_all add: sets_def)

lemma gives_simps [simp]:
  "gives [] = 0" "gives (i # p) = of_bool (i = Give Rx) + gives p" "gives (p @ q) = gives p + gives q"
  by (simp_all add: gives_def)

text \<open>The receiver has taken a token and not yet cleared a flag for it.\<close>

definition token_in_hand :: "instr list \<Rightarrow> bool" where
  "token_in_hand p \<longleftrightarrow> p \<in> {tl receive_prog, receive_branch 0, receive_branch 1,
      tl (receive_branch 0), tl (receive_branch 1)}"

text \<open>What is left of a pass of the service: every flag is set before the first token is given.\<close>

fun service_ok :: "instr list \<Rightarrow> bool" where
  "service_ok [] = True"
| "service_ok (Load Rx # Store Rx (Or_bits b) # p) = ((b = 1 \<or> b = 2) \<and> Suc (sets p) \<le> gives p \<and> service_ok p)"
| "service_ok (Load Tx # p) = service_ok p"
| "service_ok (Store Tx u # p) = service_ok p"
| "service_ok (Give Rx # p) = (sets p = 0 \<and> service_ok p)"
| "service_ok (Give Tx # p) = service_ok p"
| "service_ok _ = False"

lemma service_prog_ok: "service_ok (service_prog f)"
  by (simp add: service_prog_def assign_def)

lemma service_ok_sets: "service_ok p \<Longrightarrow> sets p \<le> gives p"
  by (induction p rule: service_ok.induct) auto

fun tx_only :: "instr \<Rightarrow> bool" where
  "tx_only (If_set m b xs ys) = (m = Tx \<and> (\<forall>i\<in>set xs. tx_only i) \<and> (\<forall>i\<in>set ys. tx_only i))"
| "tx_only (Load m) = (m = Tx)"
| "tx_only (Store m u) = (m = Tx)"
| "tx_only (Give m) = (m = Tx)"
| "tx_only (Take m) = (m = Tx)"
| "tx_only _ = True"

lemma micro_tx_only:
  "tx_only i \<Longrightarrow> micro i r v = Some (r', js, v') \<Longrightarrow>
     rx_pending v' = rx_pending v \<and> rx_sem v' = rx_sem v \<and> (\<forall>j\<in>set js. tx_only j)"
  by (cases i) (auto split: if_splits)

text \<open>\<open>k\<close> flags are still to be set and \<open>g\<close> tokens still to be given by the service.\<close>

definition receiver_inv :: "instr list \<Rightarrow> nat \<Rightarrow> nat \<Rightarrow> can_view \<Rightarrow> bool" where
  "receiver_inv p k g v \<longleftrightarrow>
     p \<in> {[], receive_prog, [Access 0], [Access 1]} \<and> flagged (rx_pending v) + k \<le> rx_sem v + g
   \<or> p = tl receive_prog \<and> flagged (rx_pending v) + k \<le> rx_sem v + g + 1
   \<or> p = receive_branch 0 \<and> rx_pending v AND 1 \<noteq> 0 \<and> flagged (rx_pending v) + k \<le> rx_sem v + g + 1
   \<or> p = receive_branch 1 \<and> of_bool (rx_pending v AND 1 \<noteq> 0) + k \<le> rx_sem v + g"

text \<open>The invariant of the states in which nobody is between the load and the store of the receive mask.\<close>

definition fine_inv :: "fine \<Rightarrow> bool" where
  "fine_inv s \<longleftrightarrow> rx_pending (f_view s) \<in> {0, 1, 2, 3} \<and> rx_sem (f_view s) \<le> 2
     \<and> service_ok (f_prog s Service) \<and> (\<forall>i\<in>set (f_prog s Sender). tx_only i)
     \<and> receiver_inv (f_prog s Receiver) (sets (f_prog s Service)) (gives (f_prog s Service)) (f_view s)"

lemma receiver_inv_cong:
  "rx_pending v' = rx_pending v \<Longrightarrow> rx_sem v' = rx_sem v \<Longrightarrow> receiver_inv p k g v' = receiver_inv p k g v"
  by (simp add: receiver_inv_def)

lemma flagged_simps [simp]: "flagged 0 = 0" "flagged 1 = 1" "flagged 2 = 1" "flagged 3 = 2"
  by (simp_all add: flagged_def)

text \<open>A flag set by the service.\<close>

lemma receiver_inv_set:
  assumes "receiver_inv p (Suc k) g v" and "rx_pending v \<in> {0, 1, 2, 3}" and "b = 1 \<or> b = 2"
  shows "receiver_inv p k g (v\<lparr>rx_pending := rx_pending v OR b\<rparr>)
       \<and> rx_pending v OR b \<in> {0, 1, 2, 3}"
  using assms(2,1,3) by (cases rule: pending_cases) (auto simp: receiver_inv_def)

text \<open>A token given by the service.\<close>

lemma receiver_inv_give:
  assumes "receiver_inv p 0 (Suc g) v" and "rx_pending v \<in> {0, 1, 2, 3}" and "rx_sem v \<le> 2"
  shows "receiver_inv p 0 g (v\<lparr>rx_sem := min 2 (rx_sem v + 1)\<rparr>)"
  using assms(2,1,3) by (cases rule: pending_cases) (auto simp: receiver_inv_def min_def)

text \<open>A pass that begins.\<close>

lemma receiver_inv_begin: "receiver_inv p 0 0 v \<Longrightarrow> k \<le> g \<Longrightarrow> receiver_inv p k g v"
  by (auto simp: receiver_inv_def)

text \<open>A step of the receiver other than the assignment, and the assignment as a whole.\<close>

lemma receiver_inv_run:
  assumes "receiver_inv (i # p) k g v" and "rx_pending v \<in> {0, 1, 2, 3}" and "rx_sem v \<le> 2" and "k \<le> g"
    and "micro i r v = Some (r', js, v')" and "i \<noteq> Load Rx"
  shows "receiver_inv (js @ p) k g v' \<and> rx_pending v' \<in> {0, 1, 2, 3} \<and> rx_sem v' \<le> 2"
proof -
  note receiver_defs = receiver_inv_def receive_prog_def receive_branch_def assign_def
  consider "i = Take Rx" "p = tl receive_prog"
    | "i = If_set Rx 1 (receive_branch 0) (receive_branch 1)" "p = []"
    | n where "i = Access n" "p = []"
    using assms(1,6) unfolding receiver_defs by auto
  then show ?thesis
  proof cases
    case 1
    with assms(5) have "v' = v\<lparr>rx_sem := rx_sem v - 1\<rparr>" "js = []" "0 < rx_sem v"
      by (simp_all split: if_splits)
    with 1 assms(1-3) show ?thesis unfolding receiver_defs by simp
  next
    case 2
    with assms(5) have eqs: "v' = v" "js = receive_branch (if rx_pending v AND 1 \<noteq> 0 then 0 else 1)"
      by (simp_all split: if_splits)
    show ?thesis
      using 2 assms(1-4) unfolding receiver_defs eqs by simp
  next
    case 3
    with assms show ?thesis unfolding receiver_defs by simp
  qed
qed

lemma receiver_inv_assign:
  assumes "receiver_inv (Load Rx # p) k g v" and "rx_pending v \<in> {0, 1, 2, 3}"
  obtains b n where "p = [Store Rx (Clear_bits b), Access n]"
    and "receiver_inv [Access n] k g (v\<lparr>rx_pending := rx_pending v AND NOT b\<rparr>)"
    and "rx_pending v AND NOT b \<in> {0, 1, 2, 3}"
proof -
  note receiver_defs = receiver_inv_def receive_prog_def receive_branch_def assign_def
  consider "p = [Store Rx (Clear_bits 1), Access 0]" "receiver_inv (receive_branch 0) k g v"
    | "p = [Store Rx (Clear_bits 2), Access 1]" "receiver_inv (receive_branch 1) k g v"
    using assms(1) unfolding receiver_defs by auto
  then show ?thesis
  proof cases
    case 1
    have "receiver_inv [Access 0] k g (v\<lparr>rx_pending := rx_pending v AND NOT 1\<rparr>)
        \<and> rx_pending v AND NOT 1 \<in> {0, 1, 2, 3}"
      using assms(2) 1(2) unfolding receiver_defs by (cases rule: pending_cases) simp_all
    with that 1(1) show ?thesis by blast
  next
    case 2
    have "receiver_inv [Access 1] k g (v\<lparr>rx_pending := rx_pending v AND NOT 2\<rparr>)
        \<and> rx_pending v AND NOT 2 \<in> {0, 1, 2, 3}"
      using assms(2) 2(2) unfolding receiver_defs by (cases rule: pending_cases) simp_all
    with that 2(1) show ?thesis by blast
  qed
qed

lemma fine_inv_start: "fine_inv fine_start"
  by (simp add: fine_inv_def fine_start_def receiver_inv_def)

lemma service_ok_run:
  assumes "service_ok (i # p)" and "micro i r v = Some (r', js, v')" and "i \<noteq> Load Rx"
    and inv: "receiver_inv q (sets (i # p)) (gives (i # p)) v" "rx_pending v \<in> {0, 1, 2, 3}" "rx_sem v \<le> 2"
  shows "js = [] \<and> service_ok p \<and> receiver_inv q (sets p) (gives p) v'
       \<and> rx_pending v' \<in> {0, 1, 2, 3} \<and> rx_sem v' \<le> 2"
proof -
  consider "i = Give Rx" "sets p = 0" | "tx_only i" "\<not> is_set i" "i \<noteq> Give Rx"
    using assms(1,3) by (cases "i # p" rule: service_ok.cases) auto
  then show ?thesis
  proof cases
    case 1
    then have "v' = v\<lparr>rx_sem := min 2 (rx_sem v + 1)\<rparr>" "js = []" "service_ok p"
      using assms(1,2) by simp_all
    with 1 inv show ?thesis
      using receiver_inv_give [of q "gives p" v] by simp
  next
    case 2
    have "js = [] \<and> service_ok p"
      using assms(1-3) by (cases "i # p" rule: service_ok.cases) auto
    with micro_tx_only [OF 2(1) assms(2)] 2 inv show ?thesis
      using receiver_inv_cong [of v' v q "sets p" "gives p"] by (simp only: sets_simps gives_simps) simp
  qed
qed

text \<open>The first instruction of a context that runs.\<close>

lemma run_instr_cases:
  assumes "run_instr c s = Some t"
  obtains i p r js v where "f_prog s c = i # p" "micro i (f_reg s c) (f_view s) = Some (r, js, v)"
    "f_view t = v" "f_prog t = (f_prog s)(c := js @ p)" "f_reg t = (f_reg s)(c := r)"
  using assms by (auto simp: run_instr_def split: list.splits)

definition loads_rx :: "ctx \<Rightarrow> fine \<Rightarrow> bool" where
  "loads_rx c s \<longleftrightarrow> (\<exists>p. f_prog s c = Load Rx # p)"

lemma fine_inv_step:
  assumes "fine_inv s" and "fine_step x s = Some t" and "\<And>c. x = Run c \<Longrightarrow> \<not> loads_rx c s"
  shows "fine_inv t"
proof (cases x)
  case (Begin_service f)
  with assms(1,2) show ?thesis
    using service_prog_ok [of f] service_ok_sets [OF service_prog_ok]
    by (auto simp: begin_op_def fine_inv_def receiver_inv_begin split: if_splits)
next
  case Begin_receive
  with assms(1,2) show ?thesis
    by (auto simp: begin_op_def fine_inv_def receiver_inv_def receive_prog_def receive_branch_def assign_def
        split: if_splits)
next
  case Begin_send
  with assms(1,2) show ?thesis
    unfolding fine_inv_def by (auto simp: begin_op_def send_prog_def assign_def split: if_splits)
next
  case (Run c)
  with assms(2) obtain i p r' js v' where
    run: "f_prog s c = i # p" "micro i (f_reg s c) (f_view s) = Some (r', js, v')"
      "f_view t = v'" "f_prog t = (f_prog s)(c := js @ p)"
    by (auto elim: run_instr_cases)
  then have no_load: "i \<noteq> Load Rx"
    using assms(3) [OF Run] by (simp add: loads_rx_def)
  from assms(1) have inv: "rx_pending (f_view s) \<in> {0, 1, 2, 3}" "rx_sem (f_view s) \<le> 2"
    "service_ok (f_prog s Service)" "\<forall>i\<in>set (f_prog s Sender). tx_only i"
    "receiver_inv (f_prog s Receiver) (sets (f_prog s Service)) (gives (f_prog s Service)) (f_view s)"
    unfolding fine_inv_def by blast+
  show ?thesis
  proof (cases c)
    case Service
    then show ?thesis
      using service_ok_run [OF _ run(2) no_load, of p] inv run unfolding fine_inv_def by simp
  next
    case Receiver
    then show ?thesis
      using receiver_inv_run [OF _ inv(1,2) service_ok_sets [OF inv(3)] run(2) no_load, of p] inv run
      unfolding fine_inv_def by simp
  next
    case Sender
    then have "tx_only i" using inv(4) run(1) by simp
    from micro_tx_only [OF this run(2)] show ?thesis
      using Sender inv run receiver_inv_cong [of v' "f_view s"] unfolding fine_inv_def by auto
  qed
qed

text \<open>The load and the store of the receive mask together.\<close>

lemma fine_inv_assign:
  assumes "fine_inv s" and "loads_rx c s" and "run_instr c s = Some s1" and "run_instr c s1 = Some t"
  shows "fine_inv t"
proof -
  obtain p where p: "f_prog s c = Load Rx # p" using assms(2) by (auto simp: loads_rx_def)
  from assms(1) have inv: "rx_pending (f_view s) \<in> {0, 1, 2, 3}" "rx_sem (f_view s) \<le> 2"
    "service_ok (f_prog s Service)" "\<forall>i\<in>set (f_prog s Sender). tx_only i"
    "receiver_inv (f_prog s Receiver) (sets (f_prog s Service)) (gives (f_prog s Service)) (f_view s)"
    unfolding fine_inv_def by blast+
  have s1: "f_view s1 = f_view s" "f_reg s1 c = rx_pending (f_view s)" "f_prog s1 = (f_prog s)(c := p)"
    using assms(3) p by (auto elim!: run_instr_cases)
  show ?thesis
  proof (cases c)
    case Service
    with p inv(3) obtain b q where b: "p = Store Rx (Or_bits b) # q" "b = 1 \<or> b = 2" "service_ok q"
      by (cases "f_prog s Service" rule: service_ok.cases) auto
    then have "f_view t = (f_view s)\<lparr>rx_pending := rx_pending (f_view s) OR b\<rparr>" "f_prog t = (f_prog s)(Service := q)"
      using assms(4) s1 Service by (auto elim!: run_instr_cases)
    with receiver_inv_set [of "f_prog s Receiver" "sets q" "gives q" "f_view s" b] b p Service inv show ?thesis
      unfolding fine_inv_def by simp
  next
    case Receiver
    with p inv(1,5) obtain b n where b: "p = [Store Rx (Clear_bits b), Access n]"
      "receiver_inv [Access n] (sets (f_prog s Service)) (gives (f_prog s Service))
         ((f_view s)\<lparr>rx_pending := rx_pending (f_view s) AND NOT b\<rparr>)"
      "rx_pending (f_view s) AND NOT b \<in> {0, 1, 2, 3}"
      by (auto elim: receiver_inv_assign)
    then have "f_view t = (f_view s)\<lparr>rx_pending := rx_pending (f_view s) AND NOT b\<rparr>"
        "f_prog t = (f_prog s)(Receiver := [Access n])"
      using assms(4) s1 Receiver by (auto elim!: run_instr_cases)
    with b inv show ?thesis unfolding fine_inv_def by simp
  next
    case Sender
    with p inv(4) show ?thesis by simp
  qed
qed

text \<open>Schedules that never switch between the load and the store of an assignment to the receive mask.\<close>

fun unswitched :: "action list \<Rightarrow> fine \<Rightarrow> bool" where
  "unswitched [] s = True"
| "unswitched (x # xs) s =
     ((\<forall>c. x = Run c \<and> loads_rx c s \<longrightarrow> xs = [] \<or> hd xs = Run c)
      \<and> (case fine_step x s of None \<Rightarrow> True | Some t \<Rightarrow> unswitched xs t))"

lemma fine_inv_run:
  "fine_run xs s = Some t \<Longrightarrow> unswitched xs s \<Longrightarrow> fine_inv s \<Longrightarrow>
     fine_inv t \<or> (\<exists>u c. fine_inv u \<and> loads_rx c u \<and> run_instr c u = Some t)"
proof (induction "length xs" arbitrary: xs s rule: less_induct)
  case less
  show ?case
  proof (cases xs)
    case Nil
    with less.prems show ?thesis by simp
  next
    case (Cons x ys)
    with less.prems(1) obtain s1 where s1: "fine_step x s = Some s1" "fine_run ys s1 = Some t"
      by (auto split: bind_splits)
    have ys: "unswitched ys s1" using less.prems(2) Cons s1(1) by simp
    show ?thesis
    proof (cases "\<exists>c. x = Run c \<and> loads_rx c s")
      case False
      then have "fine_inv s1" using fine_inv_step [OF less.prems(3) s1(1)] by blast
      with less.hyps [OF _ s1(2) ys] Cons show ?thesis by simp
    next
      case True
      then obtain c where c: "x = Run c" "loads_rx c s" by blast
      with less.prems(2) Cons have "ys = [] \<or> hd ys = Run c" by simp
      then consider "ys = []" | zs where "ys = Run c # zs" by (cases ys) auto
      then show ?thesis
      proof cases
        case 1
        with s1 c less.prems(3) show ?thesis by auto
      next
        case (2 zs)
        with s1(2) obtain s2 where s2: "run_instr c s1 = Some s2" "fine_run zs s2 = Some t"
          by (auto split: bind_splits)
        have "fine_inv s2"
          using fine_inv_assign [OF less.prems(3) c(2) _ s2(1)] s1(1) c(1) by simp
        with less.hyps [OF _ s2(2)] ys s2(1) 2 Cons show ?thesis by simp
      qed
    qed
  qed
qed

lemma token_in_hand:
  "token_in_hand (tl receive_prog)" "token_in_hand (receive_branch 0)" "token_in_hand (receive_branch (Suc 0))"
  by (simp_all add: token_in_hand_def)

lemma receiver_inv_bound:
  "receiver_inv p k g v \<Longrightarrow> flagged (rx_pending v) \<le> rx_sem v + g + of_bool (token_in_hand p)"
  unfolding receiver_inv_def
  by (elim disjE conjE) (simp_all add: token_in_hand flagged_def)

definition covered :: "fine \<Rightarrow> bool" where
  "covered s \<longleftrightarrow> flagged (rx_pending (f_view s))
     \<le> rx_sem (f_view s) + gives (f_prog s Service) + of_bool (token_in_hand (f_prog s Receiver))"

lemma fine_inv_covered: "fine_inv s \<Longrightarrow> covered s"
  using receiver_inv_bound unfolding fine_inv_def covered_def by blast

lemma covered_load:
  assumes "fine_inv u" and "loads_rx c u" and "run_instr c u = Some t"
  shows "covered t"
proof -
  obtain p where p: "f_prog u c = Load Rx # p" using assms(2) by (auto simp: loads_rx_def)
  then have t: "f_view t = f_view u" "f_prog t = (f_prog u)(c := p)"
    using assms(3) by (auto elim!: run_instr_cases)
  show ?thesis
  proof (cases c)
    case Receiver
    have "token_in_hand (Load Rx # p) \<Longrightarrow> token_in_hand p"
      by (auto simp: token_in_hand_def receive_prog_def receive_branch_def assign_def)
    with fine_inv_covered [OF assms(1)] t Receiver p show ?thesis
      unfolding covered_def by (cases "token_in_hand p"; cases "token_in_hand (Load Rx # p)") simp_all
  qed (use fine_inv_covered [OF assms(1)] t p in \<open>simp_all add: covered_def\<close>)
qed

text \<open>
  C12: preempted anywhere but inside an assignment to \<open>_pendingRxBuf\<close>, the contexts of the CAN service
  strand no received frame.  After any schedule of the instructions of service passes, receives and sends
  that never switches between the load and the store of the receive mask, every buffer flagged as received
  has a token in the receive semaphore, a token that the pass under way is about to give, or the token the
  receiver has just taken; with no pass and no receive under way, the semaphore alone covers the flags.
  The code does nothing to prevent that one switch; the section below shows what it costs.\<close>

theorem preemption_safe_outside_assignments:
  assumes "fine_run xs fine_start = Some s" and "unswitched xs fine_start"
  shows "flagged (rx_pending (f_view s))
           \<le> rx_sem (f_view s) + gives (f_prog s Service) + of_bool (token_in_hand (f_prog s Receiver))
       \<and> (f_prog s Service = [] \<and> f_prog s Receiver = [] \<longrightarrow>
            flagged (rx_pending (f_view s)) \<le> rx_sem (f_view s))"
proof -
  have "covered s"
    using fine_inv_run [OF assms fine_inv_start] fine_inv_covered covered_load by blast
  then show ?thesis
    by (auto simp: covered_def token_in_hand_def receive_branch_def receive_prog_def assign_def)
qed

section \<open>The race\<close>




section \<open>Closed instances\<close>

text \<open>A pass reports a frame in buffer 1 and the receiver gets to the assignment.\<close>

definition before_race :: "action list" where
  "before_race = Begin_service 2 # replicate 3 (Run Service) @ Begin_receive # replicate 2 (Run Receiver)"


theorem preemption_safe_outside_assignments_witness:
  "\<exists>s. fine_run before_race fine_start = Some s
     \<and> flagged (rx_pending (f_view s))
         \<le> rx_sem (f_view s) + gives (f_prog s Service) + of_bool (token_in_hand (f_prog s Receiver))"
proof -
  have "fine_run before_race fine_start \<noteq> None" and "unswitched before_race fine_start"
    by (simp_all add: before_race_def fine_start_def service_prog_def receive_prog_def receive_branch_def assign_def
        begin_op_def run_instr_def eval_nat_numeral loads_rx_def)
  then obtain s where "fine_run before_race fine_start = Some s"
    by blast
  with preemption_safe_outside_assignments [OF this] \<open>unswitched before_race fine_start\<close> show ?thesis by blast
qed

end
