(* ===== verification/Can_Timestamps.thy ===== *)
theory Can_Timestamps
  imports Can_Props
begin

text \<open>
  Where the time that a receive reports comes from.  The interrupt handler keeps the time of the last
  interrupt, a service pass copies it when it finds a receive flag, and a receive reports the last copy.
  The theory follows both members through any sequence of whole operations and shows what that makes of
  the time when two frames are waiting.
\<close>

section \<open>Sequences of operations\<close>

datatype can_op =
    Interrupt u32 u32
  | Pass
  | Wait
  | Send u32 "u8 list" u8
  | Receive "u8 list"

fun perform_op :: "env \<Rightarrow> can_op \<Rightarrow> can_st \<Rightarrow> can_st" where
  "perform_op E (Interrupt pin ev) s = exec (irqHandler E pin ev) s"
| "perform_op E Pass s = exec (service_pass E) s"
| "perform_op E Wait s = exec (emit (Rtos (XSemaphoreTake (intSemaphore s) (portMAX_DELAY E)))) s"
| "perform_op E (Send canId buf len) s = exec (txBuffer0SendInTask E canId buf len) s"
| "perform_op E (Receive buf) s = exec (rxReadInTask E buf) s"

fun perform_ops :: "env \<Rightarrow> can_op list \<Rightarrow> can_st \<Rightarrow> can_st" where
  "perform_ops E [] s = s"
| "perform_ops E (x # xs) s = perform_ops E xs (perform_op E x s)"

text \<open>A pass records a time when it finds a receive flag and no error flag.\<close>

definition records_time :: "env \<Rightarrow> can_st \<Rightarrow> bool" where
  "records_time E s \<longleftrightarrow>
     (let f = result (readByte E CANINTF) s in f AND 0xE0 = 0 \<and> (f AND 1 \<noteq> 0 \<or> f AND 2 \<noteq> 0))"

text \<open>
  The specification: the time \<open>i\<close> of the last interrupt, and the time \<open>r\<close> of the last interrupt
  before the last pass that recorded one.
\<close>

fun stamps :: "env \<Rightarrow> can_op list \<Rightarrow> can_st \<Rightarrow> u64 \<times> u64 \<Rightarrow> u64 \<times> u64" where
  "stamps E [] s ir = ir"
| "stamps E (x # xs) s (i, r) = stamps E xs (perform_op E x s)
     (case x of
        Interrupt _ _ \<Rightarrow> (clock_answer E (trace s @ [Time Get_absolute_time]), r)
      | Pass \<Rightarrow> (i, if records_time E s then i else r)
      | _ \<Rightarrow> (i, r))"

section \<open>The two members\<close>

definition times_of :: "can_st \<Rightarrow> u64 \<times> u64" where
  "times_of s = (lastIntTime s, lastRxTime s)"

lemma times_of_simps [simp]:
  "times_of (s\<lparr>trace := t\<rparr>) = times_of s" "times_of (s\<lparr>ub := u\<rparr>) = times_of s"
  "times_of (s\<lparr>pendingRxBuf := p\<rparr>) = times_of s" "times_of (s\<lparr>pendingTxBuf := q\<rparr>) = times_of s"
  "times_of (s\<lparr>lastIntTime := i\<rparr>) = (i, lastRxTime s)" "times_of (s\<lparr>lastRxTime := i\<rparr>) = (lastIntTime s, i)"
  by (simp_all add: times_of_def)

lemma times_of_transacts:
  assumes "transacts m" and "spi_ready s"
  shows "times_of (exec m s) = times_of s" and "spi_ready (exec m s)"
proof -
  obtain es u where "exec m s = s\<lparr>trace := trace s @ es, ub := u\<rparr>"
    using assms unfolding transacts_def advances_def by blast
  with assms(2) show "times_of (exec m s) = times_of s" and "spi_ready (exec m s)"
    by (simp_all add: spi_ready_def spi_dma8_def)
qed

lemma times_of_pass:
  assumes "spi_ready s"
  shows "times_of (exec (service_pass E) s) = (lastIntTime s, if records_time E s then lastIntTime s else lastRxTime s)"
proof -
  let ?f = "result (readByte E CANINTF) s"
  have "times_of (exec (serve_flags E f) u) =
      (lastIntTime u, if f AND 0xE0 = 0 \<and> (f AND 1 \<noteq> 0 \<or> f AND 2 \<noteq> 0) then lastIntTime u else lastRxTime u)"
    if "spi_ready u" for f and u :: can_st
    using that
    by (auto simp: serve_flags_def serve_errors_def and_regs when_do_def exec_bitModify exec_writeByte times_of_def)
  from this [of "exec (readByte E CANINTF) s" ?f] show ?thesis
    using times_of_transacts [OF transacts_frames(4) assms, of E CANINTF]
    by (auto simp: service_pass_def records_time_def times_of_def Let_def)
qed

lemma times_of_receive:
  assumes "spi_ready s"
  shows "times_of (exec (rxReadInTask E buf) s) = times_of s"
proof -
  let ?p = "pendingRxBuf s AND 1 \<noteq> 0"
  define t where "t = s\<lparr>trace := trace s @ [Rtos (XSemaphoreTake (rxSemaphore s) (portMAX_DELAY E)),
      Time (To_us_since_boot (lastRxTime s))],
    pendingRxBuf := (if ?p then pendingRxBuf s AND NOT 1 else pendingRxBuf s AND NOT 2)\<rparr>"
  have t: "spi_ready t" "times_of t = times_of s" using assms by (simp_all add: t_def)
  have "exec (rxReadInTask E buf) s = exec (if ?p then rxBuffer0Read E buf else rxBuffer1Read E buf) t"
    by (cases ?p) (simp_all add: rxReadInTask_def t_def)
  then show ?thesis
    using times_of_transacts(1) [OF transacts_frames(2) t(1)] times_of_transacts(1) [OF transacts_frames(3) t(1)] t(2)
    by simp
qed

lemma times_of_send:
  assumes "spi_ready s"
  shows "times_of (exec (txBuffer0SendInTask E canId buf len) s) = times_of s"
proof -
  define t where "t = exec (do {
     pending \<leftarrow> gets pendingTxBuf;
     tx \<leftarrow> gets txSemaphore;
     when_do (pending AND 0x01 \<noteq> 0) (emit (Rtos (XSemaphoreTake tx (portMAX_DELAY E))));
     modify (\<lambda>s. s\<lparr>pendingTxBuf := pendingTxBuf s OR 0x01\<rparr>) }) s"
  have t: "spi_ready t" "times_of t = times_of s" using assms by (simp_all add: t_def when_do_def)
  have "exec (txBuffer0SendInTask E canId buf len) s = exec (txBuffer0Send E canId buf len) t"
    by (simp add: txBuffer0SendInTask_def t_def)
  then show ?thesis using times_of_transacts(1) [OF transacts_frames(1) t(1)] t(2) by simp
qed

lemma perform_op_wf: "can_wf s \<Longrightarrow> can_wf (perform_op E x s)"
  by (cases x) (simp_all add: irq_view service_pass_view send_view receive_view, simp add: can_wf_def)

lemma times_of_perform:
  assumes "can_wf s"
  shows "times_of (perform_op E x s) =
     (case x of
        Interrupt _ _ \<Rightarrow> (clock_answer E (trace s @ [Time Get_absolute_time]), lastRxTime s)
      | Pass \<Rightarrow> (lastIntTime s, if records_time E s then lastIntTime s else lastRxTime s)
      | _ \<Rightarrow> (lastIntTime s, lastRxTime s))"
  using can_wfD(1) [OF assms]
  by (cases x) (simp_all add: times_of_pass times_of_receive times_of_send irqHandler_def times_of_def [of s])

lemma times_of_performs:
  "can_wf s \<Longrightarrow> can_wf (perform_ops E xs s) \<and> times_of (perform_ops E xs s) = stamps E xs s (times_of s)"
proof (induction xs arbitrary: s)
  case (Cons x xs)
  then show ?case
    using Cons.IH [OF perform_op_wf [OF Cons.prems, of E x]]
    by (simp add: times_of_perform) (simp add: times_of_def)
qed simp

text \<open>The first two calls of a receive.\<close>

definition take_and_stamp :: "env \<Rightarrow> u64 \<Rightarrow> can_st \<Rightarrow> event list" where
  "take_and_stamp E at s =
     [Rtos (XSemaphoreTake (rxSemaphore s) (portMAX_DELAY E)), Time (To_us_since_boot at)]"

lemma result_receive:
  "result (rxReadInTask E buf) s =
     (let es = trace s @ take_and_stamp E (lastRxTime s) s
      in (if pendingRxBuf s AND 1 \<noteq> 0
          then result (rxBuffer0Read E buf) (s\<lparr>trace := es, pendingRxBuf := pendingRxBuf s AND NOT 1\<rparr>)
          else result (rxBuffer1Read E buf) (s\<lparr>trace := es, pendingRxBuf := pendingRxBuf s AND NOT 2\<rparr>),
          clock_answer E es))"
  by (simp add: rxReadInTask_def take_and_stamp_def Let_def)

text \<open>
  C17: after any sequence of interrupts, service passes, waits, sends and receives, the time a receive
  reports is that of the last interrupt before the last service pass that found a receive flag and no
  error, converted to microseconds: no other operation changes it, and it does not depend on the buffer
  that is read.\<close>

theorem receive_time_provenance:
  assumes "can_wf s" and "t = perform_ops E xs s"
  shows "snd (result (rxReadInTask E buf) t)
     = clock_answer E (trace t @ take_and_stamp E (snd (stamps E xs s (lastIntTime s, lastRxTime s))) t)"
  using times_of_performs [OF assms(1), of E xs] unfolding assms(2)
  by (simp add: times_of_def prod_eq_iff result_receive Let_def)

text \<open>
  C26: two frames and one time.  A frame in buffer 0 is served, then an interrupt announces a frame in
  buffer 1 and it is served before the first one was read.  Both are flagged and both have a token; the first
  receive returns buffer 0, the second buffer 1, and both report the time of the second interrupt: the
  time of the interrupt that announced the first frame is never reported.\<close>

theorem two_frames_one_time:
  assumes "can_start s" and "s2 = perform_ops E [Interrupt pin ev, Pass] s"
    and "result (readByte E CANINTF) (perform_op E (Interrupt pin ev) s) = 0x01"
    and "result (readByte E CANINTF) (perform_op E (Interrupt pin ev) s2) = 0x02"
    and "t = perform_ops E [Interrupt pin ev, Pass] s2" and "u = perform_op E (Receive b) t"
    and "at = clock_answer E (trace s2 @ [Time Get_absolute_time])"
  shows "pendingRxBuf t = 3 \<and> rx_tokens t = 2 \<and> 0 < rx_tokens u
    \<and> result (rxReadInTask E b) t =
        (result (rxBuffer0Read E b) (t\<lparr>trace := trace t @ take_and_stamp E at t, pendingRxBuf := 2\<rparr>),
         clock_answer E (trace t @ take_and_stamp E at t))
    \<and> result (rxReadInTask E b') u =
        (result (rxBuffer1Read E b') (u\<lparr>trace := trace u @ take_and_stamp E at u, pendingRxBuf := 0\<rparr>),
         clock_answer E (trace u @ take_and_stamp E at u))"
proof -
  let ?s1 = "perform_op E (Interrupt pin ev) s"
  let ?s3 = "perform_op E (Interrupt pin ev) s2"
  have wf: "can_wf s" and v: "view s = \<lparr>rx_pending = 0, tx_pending = 0, rx_sem = 0, tx_sem = 0\<rparr>"
    using assms(1) by (simp_all add: can_start_def view_def)
  have wf1: "can_wf ?s1" and v1: "view ?s1 = view s" using irq_view [OF wf] by simp_all
  have wf2: "can_wf s2" and v2: "view s2 = \<lparr>rx_pending = 1, tx_pending = 0, rx_sem = 1, tx_sem = 0\<rparr>"
    using service_pass_view [OF wf1, of E] v1 v assms(2,3) by (simp_all add: view_serve_def)
  have wf3: "can_wf ?s3" and v3: "view ?s3 = view s2" using irq_view [OF wf2] by simp_all
  have wft: "can_wf t" and vt: "view t = \<lparr>rx_pending = 3, tx_pending = 0, rx_sem = 2, tx_sem = 0\<rparr>"
    using service_pass_view [OF wf3, of E] v3 v2 assms(4,5) by (simp_all add: view_serve_def)
  have wfu: "can_wf u" and vu: "view u = \<lparr>rx_pending = 2, tx_pending = 0, rx_sem = 1, tx_sem = 0\<rparr>"
    using receive_view [OF wft, of E b] vt assms(6) by (simp_all add: view_receive_def)
  have "stamps E [Interrupt pin ev, Pass] s2 (times_of s2) = (at, at)"
    using assms(4,7) by (simp add: times_of_def records_time_def Let_def)
  then have times: "times_of t = (at, at)" "times_of u = (at, at)"
    using times_of_performs [OF wf2, of E "[Interrupt pin ev, Pass]"] assms(5,6)
      times_of_receive [OF can_wfD(1) [OF wft], of E b] by simp_all
  have pend: "pendingRxBuf t = 3" "rx_tokens t = 2" "pendingRxBuf u = 2" "rx_tokens u = 1"
    using vt vu by (simp_all add: view_def)
  have lasts: "lastRxTime t = at" "lastRxTime u = at" using times by (simp_all add: times_of_def)
  show ?thesis using pend lasts by (simp add: result_receive Let_def)
qed

section \<open>Closed instances\<close>

definition clock_reads :: "event list \<Rightarrow> nat" where
  "clock_reads t = length (filter ((=) (Time Get_absolute_time)) t)"

lemma clock_reads_simps [simp]:
  "clock_reads [] = 0" "clock_reads (e # t) = of_bool (e = Time Get_absolute_time) + clock_reads t"
  "clock_reads (t @ u) = clock_reads t + clock_reads u"
  by (auto simp: clock_reads_def)

text \<open>The first interrupt announces buffer 0, the second buffer 1; the clock counts its own reads.\<close>

definition two_frames_env :: env where
  "two_frames_env = demo_env\<lparr>miso := \<lambda>t i. if clock_reads t \<le> 1 then 0x01 else 0x02,
     clock_answer := \<lambda>t. of_nat (clock_reads t)\<rparr>"

lemma clock_reads_txn [simp]: "clock_reads (txn_events E s ds) = 0"
  unfolding txn_events_def
  by (induction ds) (simp_all add: select_events_def deselect_events_def dma_events_def)

lemma clock_reads_prefix [simp]: "clock_reads (read_prefix E s a) = 0"
  by (simp add: read_prefix_def select_events_def dma_events_def)

lemma clock_reads_pass: "spi_ready s \<Longrightarrow> clock_reads (trace (exec (service_pass E) s)) = clock_reads (trace s)"
  by (simp add: service_pass_def serve_flags_def serve_errors_def when_do_def exec_bitModify exec_writeByte)

lemma clock_reads_interrupt:
  "clock_reads (trace (perform_op E (Interrupt pin ev) s)) = Suc (clock_reads (trace s))"
  by (simp add: irqHandler_def)

theorem two_frames_one_time_witness:
  "pendingRxBuf (perform_ops two_frames_env [Interrupt 20 4, Pass]
     (perform_ops two_frames_env [Interrupt 20 4, Pass] demo_can)) = 3"
proof -
  let ?E = two_frames_env
  let ?s1 = "perform_op ?E (Interrupt 20 4) demo_can"
  let ?s2 = "perform_ops ?E [Interrupt 20 4, Pass] demo_can"
  let ?s3 = "perform_op ?E (Interrupt 20 4) ?s2"
  have start: "clock_reads (trace demo_can) = 0" by (simp add: demo_can_def)
  have wf1: "can_wf ?s1" by (rule perform_op_wf [OF can_wf_demo])
  have wf2: "can_wf ?s2" using perform_op_wf [OF wf1, of ?E Pass] by simp
  have wf3: "can_wf ?s3" by (rule perform_op_wf [OF wf2])
  have reads1: "clock_reads (trace ?s1) = 1" using clock_reads_interrupt [of ?E 20 4 demo_can] start by simp
  have "clock_reads (trace ?s2) = 1" using clock_reads_pass [OF can_wfD(1) [OF wf1], of ?E] reads1 by simp
  then have reads3: "clock_reads (trace ?s3) = 2" using clock_reads_interrupt [of ?E 20 4 ?s2] by simp
  have flags: "result (readByte ?E CANINTF) s = (if clock_reads (trace s) \<le> 1 then 0x01 else 0x02)" if "can_wf s" for s
    using can_wfD(1) [OF that] by (simp add: result_readByte two_frames_env_def)
  have "result (readByte ?E CANINTF) ?s1 = 0x01" "result (readByte ?E CANINTF) ?s3 = 0x02"
    using flags [OF wf1] flags [OF wf3] reads1 reads3 by (simp_all only:) simp_all
  from two_frames_one_time [OF can_start_demo refl this refl refl refl] show ?thesis by blast
qed

theorem receive_time_provenance_witness:
  "let t = perform_ops (flag_env 0x01) [Interrupt 20 4, Pass] demo_can
   in snd (result (rxReadInTask (flag_env 0x01) [0]) t) = clock_answer (flag_env 0x01)
        (trace t @ take_and_stamp (flag_env 0x01) (clock_answer (flag_env 0x01) [Time Get_absolute_time]) t)"
proof -
  let ?E = "flag_env 0x01"
  have "result (readByte ?E CANINTF) (exec (irqHandler ?E 20 4) demo_can) = 0x01"
    by (rule flag_env_reads [OF can_wfD(1) [OF irq_view(2) [OF can_wf_demo]]])
  then have "records_time ?E (exec (irqHandler ?E 20 4) demo_can)"
    by (simp add: records_time_def Let_def)
  moreover have "trace demo_can = []" by (simp add: demo_can_def)
  ultimately have "snd (stamps ?E [Interrupt 20 4, Pass] demo_can (lastIntTime demo_can, lastRxTime demo_can))
      = clock_answer ?E [Time Get_absolute_time]"
    by (simp del: perform_ops.simps)
  with receive_time_provenance [OF can_wf_demo refl, of ?E "[0]" "[Interrupt 20 4, Pass]"]
  show ?thesis by (simp only: Let_def)
qed

end
