(* ===== verification/Can_Order.thy ===== *)
theory Can_Order
  imports Can_Timestamps
begin

text \<open>
  The order in which frames are received.  A receive prefers buffer 0 whenever its flag is set, so a frame
  in buffer 1 is only read when no frame has come into buffer 0 since the last receive.
\<close>

section \<open>Rounds of a receive and a new frame in buffer 0\<close>

fun round_ops :: "u8 list \<Rightarrow> nat \<Rightarrow> can_op list" where
  "round_ops out 0 = []"
| "round_ops out (Suc n) = round_ops out n @ [Receive out, Pass]"

lemma perform_ops_append: "perform_ops E (xs @ ys) s = perform_ops E ys (perform_ops E xs s)"
  by (induction xs arbitrary: s) simp_all

lemma round_ops_Suc: "perform_ops E (round_ops out (Suc n)) s =
    perform_op E Pass (perform_op E (Receive out) (perform_ops E (round_ops out n) s))"
  by (simp add: perform_ops_append)

lemma can_reaches_trans: "can_reaches E t u \<Longrightarrow> can_reaches E s t \<Longrightarrow> can_reaches E s u"
  by (induction rule: can_reaches.induct) (auto intro: can_reaches.reach_step)

lemma round_keeps:
  assumes "can_wf s" and "view s = \<lparr>rx_pending = 3, tx_pending = q, rx_sem = 2, tx_sem = k\<rparr>"
    and "\<And>u :: can_st. spi_ready u \<Longrightarrow> result (readByte E CANINTF) u = 0x01"
  shows "can_wf (perform_op E Pass (perform_op E (Receive out) s))
       \<and> view (perform_op E Pass (perform_op E (Receive out) s)) = view s
       \<and> can_reaches E s (perform_op E Pass (perform_op E (Receive out) s))"
proof -
  let ?t = "perform_op E (Receive out) s"
  have wf: "can_wf ?t" and v: "view ?t = view_receive (view s)" using receive_view [OF assms(1)] by simp_all
  have "can_step E s ?t" using assms(2) by (simp add: can_step.receive view_sel)
  moreover have "can_step E ?t (perform_op E Pass ?t)" by (simp add: can_step.service)
  ultimately have "can_reaches E s (perform_op E Pass ?t)"
    by (intro can_reaches.reach_step [OF can_reaches.reach_step [OF can_reaches.reach_refl]])
  then show ?thesis
    using service_pass_view [OF wf, of E] assms(3) [OF can_wfD(1) [OF wf]] v assms(2)
    by (simp add: view_receive_def view_serve_def)
qed

text \<open>
  C27: the second buffer starves.  When both buffers hold frames and a new frame has come into buffer 0 by
  the time of each receive, every receive, however many there are, returns buffer 0: the frame in buffer 1,
  the oldest one, keeps its flag and its token and is never read.\<close>

theorem second_buffer_starves:
  assumes "can_wf s" and "pendingRxBuf s = 3" and "rx_tokens s = 2"
    and "\<And>u :: can_st. spi_ready u \<Longrightarrow> result (readByte E CANINTF) u = 0x01"
    and "t = perform_ops E (round_ops out n) s"
  shows "can_reaches E s t \<and> pendingRxBuf t = 3 \<and> rx_tokens t = 2
       \<and> fst (result (rxReadInTask E out) t) =
           result (rxBuffer0Read E out) (t\<lparr>trace := trace t @ take_and_stamp E (lastRxTime t) t, pendingRxBuf := 2\<rparr>)"
proof -
  have "can_reaches E s t \<and> can_wf t \<and> view t = view s"
    unfolding assms(5)
  proof (induction n)
    case 0
    then show ?case using assms(1) by (simp add: can_reaches.reach_refl)
  next
    case (Suc n)
    let ?u = "perform_ops E (round_ops out n) s"
    have "view ?u = \<lparr>rx_pending = 3, tx_pending = pendingTxBuf s, rx_sem = 2, tx_sem = tx_tokens s\<rparr>"
      using Suc assms(2,3) by (simp add: view_def)
    from round_keeps [OF _ this assms(4), of out] Suc show ?case
      unfolding round_ops_Suc by (metis can_reaches_trans)
  qed
  then have "can_reaches E s t" "pendingRxBuf t = 3" "rx_tokens t = 2"
    using assms(2,3) by (simp_all add: view_def)
  then show ?thesis by (simp add: result_receive Let_def)
qed

theorem second_buffer_starves_witness:
  "pendingRxBuf (perform_ops (flag_env 0x01) (round_ops [0] 9) (exec (service_pass (flag_env 0x03)) demo_can)) = 3"
proof -
  let ?s = "exec (service_pass (flag_env 0x03)) demo_can"
  have v: "view ?s = \<lparr>rx_pending = 3, tx_pending = 0, rx_sem = 2, tx_sem = 0\<rparr>"
    using service_pass_view(1) [OF can_wf_demo, of "flag_env 0x03"] can_start_demo flag_env_reads [OF spi_ready_demo_can]
    by (simp add: view_serve_def can_start_def view_def)
  then have "pendingRxBuf ?s = 3" "rx_tokens ?s = 2" by (simp_all add: view_def)
  from second_buffer_starves [OF service_pass_view(2) [OF can_wf_demo] this flag_env_reads refl]
  show ?thesis by blast
qed

end
