(* ===== verification/Can_Draining.thy ===== *)
theory Can_Draining
  imports Can_Props
begin

text \<open>
  The service loop against a controller.  The interrupt flags of the MCP2515 are kept as a register
  that the controller raises bits in and the driver's instructions change; the interrupt line is low while
  an enabled flag is set.  From that the inner loop of the service task is shown to end and to serve
  exactly the flags that were raised.
\<close>

section \<open>The flag register\<close>

text \<open>What an instruction does to CANINTF.\<close>

fun flag_write :: "u8 list \<Rightarrow> u8 \<Rightarrow> u8" where
  "flag_write [opc, a, d] f = (if opc = CAN_WRITE \<and> a = CANINTF then d else f)"
| "flag_write [opc, a, k, d] f = (if opc = CAN_BIT_MODIFY \<and> a = CANINTF then (f AND NOT k) OR (d AND k) else f)"
| "flag_write _ f = f"

text \<open>The flags after the transfers \<open>ds\<close>, when the controller raises \<open>rise i\<close> during the transfer \<open>i\<close>.\<close>

definition flags_after :: "(nat \<Rightarrow> u8) \<Rightarrow> u8 list list \<Rightarrow> u8" where
  "flags_after rise ds = fold (\<lambda>(i, d) f. flag_write d f OR rise i) (enumerate 0 ds) 0"

definition enabled_flags :: u8 where
  "enabled_flags = TX0IE OR RX0IE OR RX1IE OR MERRE OR WAKIE OR ERRIE"

text \<open>
  An environment that is such a controller: a read of CANINTF shifts the flags out, and the interrupt pin
  reads high exactly when no enabled flag is set.
\<close>

definition controller_env :: "env \<Rightarrow> (nat \<Rightarrow> u8) \<Rightarrow> bool" where
  "controller_env E rise \<longleftrightarrow>
     (\<forall>t m x. mosi t = m @ [[CAN_READ, CANINTF], [x]] \<longrightarrow> miso E t 0 = flags_after rise (m @ [[CAN_READ, CANINTF]]))
     \<and> (\<forall>t. gpio_get_answer E t = (flags_after rise (mosi t) AND enabled_flags = 0))"

definition quiet_from :: "(nat \<Rightarrow> u8) \<Rightarrow> nat \<Rightarrow> bool" where
  "quiet_from rise n \<longleftrightarrow> (\<forall>i\<ge>n. rise i = 0)"

abbreviation transfers :: "('a world_scheme) \<Rightarrow> nat" where
  "transfers s \<equiv> length (mosi (trace s))"

abbreviation flags_now :: "(nat \<Rightarrow> u8) \<Rightarrow> ('a world_scheme) \<Rightarrow> u8" where
  "flags_now rise s \<equiv> flags_after rise (mosi (trace s))"

lemma enabled_flags: "enabled_flags = 0xE7"
  by (simp add: enabled_flags_def regs)

lemma flags_after_snoc:
  "flags_after rise (ds @ [d]) = flag_write d (flags_after rise ds) OR rise (length ds)"
  by (simp add: flags_after_def enumerate_append_eq)

lemma flags_after_append:
  "flags_after rise (ds @ es) =
     fold (\<lambda>(i, d) f. flag_write d f OR rise i) (enumerate (length ds) es) (flags_after rise ds)"
  by (simp add: flags_after_def enumerate_append_eq)

lemma flags_after_quiet:
  "quiet_from rise n \<Longrightarrow> n \<le> length ds \<Longrightarrow> flags_after rise (ds @ es) = fold flag_write es (flags_after rise ds)"
proof (induction es rule: rev_induct)
  case (snoc e es)
  then show ?case
    using flags_after_snoc [of rise "ds @ es" e] by (simp add: quiet_from_def)
qed simp

section \<open>One pass\<close>

lemma result_flags:
  assumes "controller_env E rise" and "spi_ready s" and "quiet_from rise n" and "n \<le> transfers s"
  shows "result (readByte E CANINTF) s = flags_now rise s"
proof -
  have "result (readByte E CANINTF) s = flags_after rise (mosi (trace s) @ [[CAN_READ, CANINTF]])"
    using assms(1,2) unfolding controller_env_def by (simp add: result_readByte)
  then show ?thesis using flags_after_quiet [OF assms(3,4), of "[[CAN_READ, CANINTF]]"] by simp
qed

text \<open>The transfers of a pass that found the flags \<open>f\<close> and, with an error, the error register \<open>e\<close>.\<close>

definition pass_transfers :: "u8 \<Rightarrow> u8 \<Rightarrow> u8 list list" where
  "pass_transfers f e = [[CAN_READ, CANINTF], [0]] @
     (if f AND 0xE0 \<noteq> 0
      then [[CAN_READ, EFLG], [0], [CAN_BIT_MODIFY, CANINTF, 0xE0, 0]]
        @ (if e AND 0x20 \<noteq> 0 then [[CAN_WRITE, CANCTRL, REQOP_CONFIG],
             [CAN_WRITE, CANCTRL, REQOP_NORMAL OR CLKOUT_ENABLED]] else [])
      else (if f AND 1 \<noteq> 0 then [[CAN_BIT_MODIFY, CANINTF, 1, 0]] else [])
        @ (if f AND 2 \<noteq> 0 then [[CAN_BIT_MODIFY, CANINTF, 2, 0]] else [])
        @ (if f AND 4 \<noteq> 0 then [[CAN_BIT_MODIFY, CANINTF, 4, 0]] else []))"

lemma mosi_service_pass:
  assumes "spi_ready s"
  shows "\<exists>e. mosi (trace (exec (service_pass E) s)) =
           mosi (trace s) @ pass_transfers (result (readByte E CANINTF) s) e"
proof -
  let ?f = "result (readByte E CANINTF) s"
  have exec: "exec (readByte E CANINTF) s = s\<lparr>trace := trace s @ txn_events E s [[CAN_READ, CANINTF], [0]]\<rparr>"
    using assms by (simp add: exec_def run_readByte)
  show ?thesis
    by (intro exI [of _ "result (readByte E EFLG) (s\<lparr>trace := trace s @ txn_events E s [[CAN_READ, CANINTF], [0]]\<rparr>)"])
      (use assms in \<open>simp add: service_pass_def exec serve_flags_def serve_errors_def and_regs pass_transfers_def
        when_do_def exec_bitModify exec_writeByte mosi_Cons regs\<close>)
qed

text \<open>What is left of the flags after a pass.\<close>

definition served :: "u8 \<Rightarrow> u8" where
  "served f = (if f AND 0xE0 \<noteq> 0 then f AND NOT 0xE0 else f AND NOT 7)"

lemma and_not_idle: "(g :: u8) AND b = 0 \<Longrightarrow> g AND NOT b = g"
  by (auto simp: bit_eq_iff bit_simps)

lemma and_not_7: "(f :: u8) AND NOT 7 = ((f AND NOT 1) AND NOT 2) AND NOT 4"
  by (simp add: and.assoc)

lemma fold_clear:
  "h AND b = f AND b \<Longrightarrow>
     fold flag_write (if f AND b \<noteq> 0 then [[CAN_BIT_MODIFY, CANINTF, b, 0]] else []) h = h AND NOT b"
  by (cases "f AND b = 0") (simp_all add: and_not_idle)

lemma fold_pass_transfers: "fold flag_write (pass_transfers f e) f = served f"
proof (cases "f AND 0xE0 = 0")
  case True
  have read: "fold flag_write [[CAN_READ, CANINTF], [0]] f = f" by simp
  have "(f AND NOT 1) AND 2 = f AND 2" "((f AND NOT 1) AND NOT 2) AND 4 = f AND 4"
    by (simp_all add: and.assoc)
  note clears = fold_clear [OF refl, of f 1] fold_clear [OF this(1)] fold_clear [OF this(2)]
  have "\<not> f AND 0xE0 \<noteq> 0" using True by simp
  then show ?thesis
    unfolding served_def and_not_7 pass_transfers_def
    by (simp only: if_False fold_append comp_apply read clears)
qed (simp add: served_def pass_transfers_def regs)

lemma served_enabled: "served f AND 0xE7 = (if f AND 0xE0 \<noteq> 0 then f AND 7 else 0)"
proof (cases "f AND 0xE0 = 0")
  case True
  have "(f AND NOT 7) AND 0xE7 = f AND 0xE0" by (simp add: and.assoc)
  with True show ?thesis by (simp add: served_def)
qed (simp add: served_def and.assoc)

text \<open>A pass on a controller that raises no further flags.\<close>

lemma pass_serves:
  assumes "controller_env E rise" and "can_wf s" and "quiet_from rise n" and "n \<le> transfers s"
  shows "flags_now rise (exec (service_pass E) s) = served (flags_now rise s)"
    and "view (exec (service_pass E) s) = view_serve (flags_now rise s) (view s)"
    and "can_wf (exec (service_pass E) s)" and "n \<le> transfers (exec (service_pass E) s)"
proof -
  have ready: "spi_ready s" by (rule can_wfD(1) [OF assms(2)])
  have read: "result (readByte E CANINTF) s = flags_now rise s"
    by (rule result_flags [OF assms(1) ready assms(3,4)])
  obtain e where e: "mosi (trace (exec (service_pass E) s)) = mosi (trace s) @ pass_transfers (flags_now rise s) e"
    using mosi_service_pass [OF ready, of E] unfolding read by blast
  show "flags_now rise (exec (service_pass E) s) = served (flags_now rise s)"
    unfolding e flags_after_quiet [OF assms(3,4)] by (rule fold_pass_transfers)
  show "n \<le> transfers (exec (service_pass E) s)" using assms(4) by (simp add: e)
qed (use service_pass_view [OF assms(2), of E] result_flags [OF assms(1) can_wfD(1) [OF assms(2)] assms(3,4)] in simp_all)

section \<open>The loop\<close>

abbreviation tested :: "can_st \<Rightarrow> can_st" where
  "tested s \<equiv> s\<lparr>trace := trace s @ [Gpio (Gpio_get (Mcp_intPin s))]\<rparr>"

lemma tested_simps:
  "mosi (trace s @ [Gpio (Gpio_get pin)]) = mosi (trace s)" "view (tested s) = view s" "can_wf (tested s) = can_wf s"
  by (simp_all add: mosi_Cons view_def tokens_snoc can_wf_def)

lemma line_idle:
  assumes "controller_env E rise" and "flags_now rise s AND 0xE7 = 0"
  shows "run_state (serve_line E (Suc n)) s = (True, tested s)"
  using assms by (simp add: controller_env_def enabled_flags mosi_Cons)

lemma line_busy:
  assumes "controller_env E rise" and "flags_now rise s AND 0xE7 \<noteq> 0"
  shows "run_state (serve_line E (Suc n)) s = run_state (serve_line E n) (exec (service_pass E) (tested s))"
  using assms by (simp add: controller_env_def enabled_flags mosi_Cons exec_def split_beta)

lemma view_serve_none:
  assumes "f AND 0xE7 = 0" and "rx_sem v \<le> 2"
  shows "view_serve f v = v"
proof -
  have part: "f AND b = 0" if "0xE7 AND b = b" for b
  proof -
    have "f AND b = (f AND 0xE7) AND b" by (simp only: and.assoc that)
    with assms(1) show ?thesis by simp
  qed
  have "f AND 0xE0 = 0" "f AND 1 = 0" "f AND 2 = 0" "f AND 3 = 0" "f AND 4 = 0"
    by (rule part; simp)+
  with assms(2) show ?thesis by (simp add: view_serve_def)
qed

lemma view_serve_low:
  assumes "f AND 0xE0 = 0"
  shows "view_serve (f AND NOT 0xE0) v = view_serve f v"
  unfolding and_not_idle [OF assms] ..

text \<open>
  C6: against a controller that raises no more flags, the inner loop of the service task ends after at
  most two passes, leaves the interrupt line high with exactly the enabled flags cleared, and serves all
  the flags that were set: the errors first, when there are any, and then the receive and transmit flags, so
  that an error never swallows a frame.\<close>

theorem line_drained:
  assumes "controller_env E rise" and "can_wf (s :: can_st)" and "quiet_from rise (transfers s)"
    and "f = flags_now rise s" and "t = exec (serve_line E 3) s"
  shows "result (serve_line E 3) s \<and> flags_now rise t = f AND NOT enabled_flags \<and> can_wf t
       \<and> view t = view_serve (f AND NOT 0xE0) (if f AND 0xE0 \<noteq> 0 then view_serve f (view s) else view s)"
proof -
  note idle = line_idle [OF assms(1)] and busy = line_busy [OF assms(1)]
  have three: "3 = Suc (Suc (Suc 0))" by simp
  have ends: "result (serve_line E (Suc n)) u \<and> flags_now rise (exec (serve_line E (Suc n)) u) = flags_now rise u
      \<and> can_wf (exec (serve_line E (Suc n)) u) \<and> view (exec (serve_line E (Suc n)) u) = view u"
    if "flags_now rise u AND 0xE7 = 0" and "can_wf u" for n and u :: can_st
    using idle [OF that(1), of n] that(2) unfolding result_def exec_def by (simp add: tested_simps del: mosi_append serve_line.simps)
  let ?p = "\<lambda>u. exec (service_pass E) (tested u)"
  have pass: "flags_now rise (?p u) = served (flags_now rise u)" "view (?p u) = view_serve (flags_now rise u) (view u)"
    "can_wf (?p u)" "transfers s \<le> transfers (?p u)"
    if "can_wf u" and "transfers s \<le> transfers u" for u
    using pass_serves [OF assms(1) _ assms(3), of "tested u"] that
    by (simp_all add: tested_simps del: mosi_append)
  have step: "result (serve_line E (Suc n)) u = result (serve_line E n) (?p u)"
      "exec (serve_line E (Suc n)) u = exec (serve_line E n) (?p u)"
    if "flags_now rise u AND 0xE7 \<noteq> 0" for n and u :: can_st
    using busy [OF that, of n] by (simp_all add: result_def exec_def del: serve_line.simps)
  have parts: "f AND NOT 0xE7 = (f AND NOT 0xE0) AND NOT 7" "f AND NOT 0xE7 = (f AND NOT 7) AND NOT 0xE0"
    by (simp_all add: and.assoc)
  have rx: "rx_sem (view u) \<le> 2" for u :: can_st
    using tokens_le_cap by (simp add: view_def)
  consider (idle) "f AND 0xE7 = 0" | (busy) "f AND 0xE7 \<noteq> 0" "served f AND 0xE7 = 0"
    | (both) "f AND 0xE7 \<noteq> 0" "served f AND 0xE7 \<noteq> 0" by blast
  then show ?thesis
  proof cases
    case idle
    have low: "f AND 0xE0 = 0" using arg_cong [OF idle, of "\<lambda>x. x AND 0xE0"] by (simp add: and.assoc)
    have "view_serve (f AND NOT 0xE0) (view s) = view s"
      unfolding view_serve_low [OF low] by (rule view_serve_none [OF idle rx])
    moreover have "f AND NOT 0xE7 = f" by (rule and_not_idle [OF idle])
    ultimately show ?thesis
      using ends [of s "Suc (Suc 0)"] idle low assms(2,4,5) unfolding three enabled_flags by simp
  next
    case busy
    have "result (serve_line E 3) s \<and> flags_now rise t = served f \<and> can_wf t \<and> view t = view_serve f (view s)"
      using step [of s "Suc (Suc 0)"] ends [of "?p s" "Suc 0"] pass [of s] busy assms(2,4,5)
      unfolding three by (simp del: serve_line.simps)
    moreover have "served f = f AND NOT 0xE7
      \<and> view_serve (f AND NOT 0xE0) (if f AND 0xE0 \<noteq> 0 then view_serve f (view s) else view s) = view_serve f (view s)"
    proof (cases "f AND 0xE0 = 0")
      case True
      then have "(f AND NOT 7) AND 0xE0 = 0" by (simp add: and.assoc)
      from and_not_idle [OF this] True show ?thesis
        unfolding parts(2) view_serve_low [OF True] by (simp add: served_def)
    next
      case False
      then have low: "f AND 7 = 0" using busy(2) by (simp add: served_enabled)
      then have "(f AND NOT 0xE0) AND 7 = 0" "(f AND NOT 0xE0) AND 0xE7 = 0" by (simp_all add: and.assoc)
      with False show ?thesis
        using and_not_idle [of "f AND NOT 0xE0" 7] view_serve_none [of "f AND NOT 0xE0" "view_serve f (view s)"]
          rx [of "?p s"] pass(2) [of s] assms(2,4)
        unfolding parts(1) by (simp add: served_def)
    qed
    ultimately show ?thesis unfolding enabled_flags by simp
  next
    case both
    then have "f AND 0xE0 \<noteq> 0" unfolding served_enabled by presburger
    then have g: "f AND 0xE0 \<noteq> 0" "served f = f AND NOT 0xE0" by (simp_all add: served_def)
    then have gs: "served (served f) = (f AND NOT 0xE0) AND NOT 7" "served (served f) AND 0xE7 = 0"
      unfolding served_enabled by (simp_all add: served_def and.assoc)
    have "result (serve_line E 3) s \<and> flags_now rise t = served (served f) \<and> can_wf t
        \<and> view t = view_serve (served f) (view_serve f (view s))"
      using step [of s "Suc (Suc 0)"] step [of "?p s" "Suc 0"] ends [of "?p (?p s)" 0] pass [of s] pass [of "?p s"]
        both gs(2) assms(2,4,5)
      unfolding three by (simp del: serve_line.simps)
    then show ?thesis using g gs(1) parts(1) unfolding enabled_flags by simp
  qed
qed

lemma line_idle_result:
  assumes "controller_env E rise" and "flags_now rise (s :: can_st) AND 0xE7 = 0"
  shows "result (serve_line E (Suc n)) s \<and> flags_now rise (exec (serve_line E (Suc n)) s) AND enabled_flags = 0"
  using line_idle [OF assms, of n] assms(2)
  by (simp add: result_def exec_def enabled_flags tested_simps del: serve_line.simps mosi_append)

text \<open>
  C31: the inner loop ends against any controller that stops raising flags some time: with no flags after
  the first \<open>n\<close> transfers on the bus, fuel for one pass per two of the remaining transfers and three
  tests more is enough, whatever is raised meanwhile, and the interrupt line is high at the end.\<close>

theorem line_ends_when_quiet:
  assumes "controller_env E rise" and "can_wf (s :: can_st)" and "quiet_from rise n" and "n \<le> transfers s + 2 * k"
  shows "result (serve_line E (k + 3)) s \<and> flags_now rise (exec (serve_line E (k + 3)) s) AND enabled_flags = 0"
  using assms(2,4)
proof (induction k arbitrary: s)
  case 0
  then have "quiet_from rise (transfers s)" using assms(3) by (auto simp: quiet_from_def)
  from line_drained [OF assms(1) 0(1) this refl refl] show ?case by (simp add: and.assoc)
next
  case (Suc k)
  show ?case
  proof (cases "flags_now rise s AND 0xE7 = 0")
    case True
    then show ?thesis using line_idle_result [OF assms(1) True, of "k + 3"] by (simp del: serve_line.simps)
  next
    case False
    let ?t = "exec (service_pass E) (tested s)"
    have wf: "can_wf (tested s)" using Suc.prems(1) by (simp add: tested_simps)
    obtain e where "mosi (trace ?t) = mosi (trace (tested s)) @ pass_transfers (result (readByte E CANINTF) (tested s)) e"
      using mosi_service_pass [OF can_wfD(1) [OF wf]] by blast
    then have "transfers s + 2 \<le> transfers ?t" by (simp add: pass_transfers_def mosi_Cons)
    with Suc have "result (serve_line E (k + 3)) ?t \<and> flags_now rise (exec (serve_line E (k + 3)) ?t) AND enabled_flags = 0"
      by (intro Suc.IH) (simp_all add: service_pass_view(2) [OF wf])
    then show ?thesis using line_busy [OF assms(1) False, of "k + 3"]
      by (simp add: result_def exec_def del: serve_line.simps)
  qed
qed

section \<open>Closed instances\<close>

definition ctl_env :: "(nat \<Rightarrow> u8) \<Rightarrow> env" where
  "ctl_env rise = demo_env\<lparr>miso := \<lambda>t i. flags_after rise (butlast (mosi t)),
     gpio_get_answer := \<lambda>t. flags_after rise (mosi t) AND enabled_flags = 0\<rparr>"

lemma controller_ctl_env: "controller_env (ctl_env rise) rise"
  by (simp add: controller_env_def ctl_env_def butlast_append)

text \<open>An error, a frame in buffer 0 and the end of a transmission, raised together during the first transfer.\<close>

definition demo_rise :: "nat \<Rightarrow> u8" where
  "demo_rise i = (if i = 0 then 0x25 else 0)"

definition risen_can :: can_st where
  "risen_can = exec (writeByte (ctl_env demo_rise) 0x2B 0xE7) demo_can"

lemma risen_can: "can_wf risen_can" "flags_now demo_rise risen_can = 0x25" "transfers risen_can = 1"
  "view risen_can = \<lparr>rx_pending = 0, tx_pending = 0, rx_sem = 0, tx_sem = 0\<rparr>"
proof -
  have writes: "transacts (writeByte E a d)" for E a d by (intro transacts_intros)
  have risen: "risen_can = demo_can\<lparr>trace := txn_events (ctl_env demo_rise) demo_can [[CAN_WRITE, 0x2B, 0xE7]]\<rparr>"
    by (simp add: risen_can_def exec_writeByte spi_ready_demo_can) (simp add: demo_can_def)
  show "can_wf risen_can" "view risen_can = \<lparr>rx_pending = 0, tx_pending = 0, rx_sem = 0, tx_sem = 0\<rparr>"
    using transacts_view [OF writes can_wf_demo] can_start_demo
    by (simp_all add: risen_can_def can_start_def view_def)
  show "flags_now demo_rise risen_can = 0x25" "transfers risen_can = 1"
    by (simp_all add: risen flags_after_def demo_rise_def regs)
qed

theorem line_drained_witness:
  "view (exec (serve_line (ctl_env demo_rise) 3) risen_can)
     = \<lparr>rx_pending = 1, tx_pending = 0, rx_sem = 1, tx_sem = 1\<rparr>"
proof -
  have "quiet_from demo_rise (transfers risen_can)" by (simp add: quiet_from_def demo_rise_def risen_can)
  from line_drained [OF controller_ctl_env risen_can(1) this refl refl]
  show ?thesis by (simp add: risen_can view_serve_def)
qed

theorem line_ends_when_quiet_witness:
  "result (serve_line (ctl_env demo_rise) 4) demo_can"
proof -
  have "quiet_from demo_rise 1" by (simp add: quiet_from_def demo_rise_def)
  from line_ends_when_quiet [OF controller_ctl_env can_wf_demo this, where k = 1] show ?thesis by simp
qed

end
