(* ===== verification/Can_Wakeup.thy ===== *)
theory Can_Wakeup
  imports Can_Draining
begin

text \<open>
  The hand-over from the controller to the service task: the flags of the controller drive the interrupt
  line, its falling edge runs the handler, the handler gives the semaphore the service task waits on, and
  the task empties the flags before it waits again.  The theory puts these together, step by step and in any
  order, and proves that no wake-up is lost and that the flags are emptied within a fixed number of steps.
\<close>

section \<open>Operations that leave the flags alone\<close>

definition flag_free :: "(('g, 'a) mcp_st_scheme, 'r) state \<Rightarrow> bool" where
  "flag_free m \<longleftrightarrow> transacts m \<and>
     (\<forall>s. spi_ready s \<longrightarrow> (\<exists>ds. mosi (trace (exec m s)) = mosi (trace s) @ ds \<and> (\<forall>d\<in>set ds. \<forall>f. flag_write d f = f)))"

text \<open>What an operation does to the flags \<open>f\<close>.\<close>

definition flag_effect :: "(('g, 'a) mcp_st_scheme, 'r) state \<Rightarrow> ('g, 'a) mcp_st_scheme \<Rightarrow> u8 \<Rightarrow> u8" where
  "flag_effect m s f = fold flag_write (drop (transfers s) (mosi (trace (exec m s)))) f"

lemma flag_freeI:
  "transacts m \<Longrightarrow> (\<And>s. spi_ready s \<Longrightarrow> \<exists>ds. mosi (trace (exec m s)) = mosi (trace s) @ ds
     \<and> (\<forall>d\<in>set ds. \<forall>f. flag_write d f = f)) \<Longrightarrow> flag_free m"
  by (simp add: flag_free_def)

lemma flag_freeD:
  "flag_free m \<Longrightarrow> spi_ready s \<Longrightarrow>
     \<exists>ds. mosi (trace (exec m s)) = mosi (trace s) @ ds \<and> (\<forall>d\<in>set ds. \<forall>f. flag_write d f = f)"
  by (simp add: flag_free_def)

lemma fold_flag_free: "\<forall>d\<in>set ds. \<forall>f. flag_write d f = f \<Longrightarrow> fold flag_write ds f = f"
  by (induction ds) simp_all

lemma flag_effect_free: "flag_free m \<Longrightarrow> spi_ready s \<Longrightarrow> flag_effect m s f = f"
  unfolding flag_free_def flag_effect_def using fold_flag_free by fastforce

named_theorems flag_intros \<open>operations that leave CANINTF alone\<close>

lemma flag_free_return [flag_intros]: "flag_free (return x)"
  and flag_free_gets [flag_intros]: "flag_free (gets g)"
  and flag_free_ub [flag_intros]: "flag_free (raise_ub b)"
  by (rule flag_freeI, intro transacts_intros, simp)+

lemma flag_free_read [flag_intros]: "flag_free (readByte E a)"
  by (rule flag_freeI, intro transacts_intros) (simp add: exec_def run_readByte)

lemma flag_free_write [flag_intros]: "a \<noteq> CANINTF \<Longrightarrow> flag_free (writeByte E a d)"
  by (rule flag_freeI, intro transacts_intros) (simp add: exec_writeByte)

lemma flag_free_bind [flag_intros]:
  assumes "flag_free m" and "\<And>x. flag_free (f x)"
  shows "flag_free (State_Monad.bind m f)"
proof (rule flag_freeI)
  show "transacts (State_Monad.bind m f)"
    using assms by (auto simp: flag_free_def intro: transacts_bind)
  fix s :: "('a, 'b) mcp_st_scheme"
  assume ready: "spi_ready s"
  then have ready': "spi_ready (exec m s)" using assms(1) by (auto simp: flag_free_def transacts_def)
  obtain ds where ds: "mosi (trace (exec m s)) = mosi (trace s) @ ds" "\<forall>d\<in>set ds. \<forall>g. flag_write d g = g"
    using flag_freeD [OF assms(1) ready] by blast
  obtain es where es: "mosi (trace (exec (f (result m s)) (exec m s))) = mosi (trace (exec m s)) @ es"
      "\<forall>d\<in>set es. \<forall>g. flag_write d g = g"
    using flag_freeD [OF assms(2) ready'] by blast
  show "\<exists>ds. mosi (trace (exec (State_Monad.bind m f) s)) = mosi (trace s) @ ds \<and> (\<forall>d\<in>set ds. \<forall>g. flag_write d g = g)"
    by (intro exI [of _ "ds @ es"]) (use ds es in auto)
qed

lemma flag_free_if [flag_intros]:
  "(b \<Longrightarrow> flag_free m) \<Longrightarrow> (\<not> b \<Longrightarrow> flag_free n) \<Longrightarrow> flag_free (if b then m else n)"
  by simp

lemma flag_free_for_each: "(\<And>i. i \<in> set is \<Longrightarrow> flag_free (body i)) \<Longrightarrow> flag_free (for_each is body)"
  by (induction "is") (auto intro: flag_intros)

lemma flag_free_mem [flag_intros]: "flag_free (mem_load buf i)" "flag_free (mem_store buf i b)"
  by (auto simp: mem_load_def mem_store_def intro!: flag_intros)

lemma flag_free_read_into [flag_intros]: "flag_free (read_into E base is buf)"
  by (induction "is" arbitrary: buf) (auto intro!: flag_intros)

lemma data_register: "j < 8 \<Longrightarrow> TXB0D0 + of_nat j \<noteq> CANINTF"
proof -
  assume "j < 8"
  then consider "j = 0" | "j = 1" | "j = 2" | "j = 3" | "j = 4" | "j = 5" | "j = 6" | "j = 7" by linarith
  then show ?thesis by cases (simp_all add: regs)
qed

lemma flag_free_frames:
  "unat len \<le> 8 \<Longrightarrow> flag_free (txBuffer0Send E canId buf len)"
  "flag_free (rxBuffer0Read E out)" "flag_free (rxBuffer1Read E out)"
  unfolding txBuffer0Send_def rxBuffer0Read_def rxBuffer1Read_def Let_def
  by (auto intro!: flag_intros flag_free_for_each data_register) (auto simp: regs)

section \<open>The system\<close>

datatype service_pc = At_test | At_pass | At_take

text \<open>
  The object, the flags of the controller, a falling edge of the interrupt line that the processor has not
  served yet, and where the service task is in its loop.
\<close>

record wake_st =
  w_obj :: can_st
  w_flags :: u8
  w_edge :: bool
  w_pc :: service_pc

definition line_low :: "wake_st \<Rightarrow> bool" where
  "line_low w \<longleftrightarrow> w_flags w AND enabled_flags \<noteq> 0"

text \<open>
  The steps of the interrupt and of the service task: the handler runs through the dispatcher of the pin; the
  task tests the line, makes a pass on the flags it reads, or takes the semaphore when it has a token.
  These are the loop heads and bodies of \<open>Mcp2515Task::run\<close>, one by one; \<open>serve_line_steps\<close> below shows that
  the inner loop is made of them.
\<close>

inductive own_step :: "wake_st \<Rightarrow> wake_st \<Rightarrow> bool" where
  interrupt: "w_edge w \<Longrightarrow>
    own_step w (w\<lparr>w_obj := exec (irqDispatcher (invoke_gpio E) (Mcp_intPin (w_obj w)) ev) (w_obj w), w_edge := False\<rparr>)"
| test: "w_pc w = At_test \<Longrightarrow>
    own_step w (w\<lparr>w_obj := tested (w_obj w), w_pc := (if line_low w then At_pass else At_take)\<rparr>)"
| pass: "w_pc w = At_pass \<Longrightarrow> result (readByte E CANINTF) (w_obj w) = w_flags w \<Longrightarrow>
    own_step w (w\<lparr>w_obj := exec (service_pass E) (w_obj w),
      w_flags := flag_effect (service_pass E) (w_obj w) (w_flags w), w_pc := At_test\<rparr>)"
| take: "w_pc w = At_take \<Longrightarrow> 0 < int_tokens (w_obj w) \<Longrightarrow>
    own_step w (w\<lparr>w_obj := exec (emit (Rtos (XSemaphoreTake (intSemaphore (w_obj w)) (portMAX_DELAY (E :: env))))) (w_obj w),
      w_pc := At_test\<rparr>)"

text \<open>
  What else can happen: the controller raises flags, which is an edge when the line was high; it raises flags
  during a pass, when the line may go up and down again; the user tasks send and receive.
\<close>

inductive wake_step :: "wake_st \<Rightarrow> wake_st \<Rightarrow> bool" where
  own: "own_step w w' \<Longrightarrow> wake_step w w'"
| raised: "w' = w\<lparr>w_flags := w_flags w OR b\<rparr> \<Longrightarrow> e = (\<not> line_low w \<and> line_low w') \<Longrightarrow>
    wake_step w (w'\<lparr>w_edge := w_edge w \<or> e\<rparr>)"
| raised_in_pass: "w_pc w = At_pass \<Longrightarrow> own_step w w' \<Longrightarrow> w_pc w' = At_test \<Longrightarrow>
    wake_step w (w'\<lparr>w_flags := w_flags w' OR b, w_edge := w_edge w' \<or> e\<rparr>)"
| sends: "pendingTxBuf (w_obj w) AND 1 = 0 \<or> 0 < tx_tokens (w_obj w) \<Longrightarrow> unat len \<le> 8 \<Longrightarrow>
    wake_step w (w\<lparr>w_obj := exec (txBuffer0SendInTask E canId buf len) (w_obj w),
      w_flags := flag_effect (txBuffer0SendInTask E canId buf len) (w_obj w) (w_flags w)\<rparr>)"
| receives: "0 < rx_tokens (w_obj w) \<Longrightarrow>
    wake_step w (w\<lparr>w_obj := exec (rxReadInTask E out) (w_obj w),
      w_flags := flag_effect (rxReadInTask E out) (w_obj w) (w_flags w)\<rparr>)"

inductive wake_reaches :: "wake_st \<Rightarrow> wake_st \<Rightarrow> bool" where
  wake_refl: "wake_reaches w w"
| wake_trans: "wake_reaches u v \<Longrightarrow> wake_step v w \<Longrightarrow> wake_reaches u w"

text \<open>The object after initialisation, with the handler registered and the task about to test the line.\<close>

definition wired :: "can_st \<Rightarrow> bool" where
  "wired s \<longleftrightarrow> can_wf s \<and> Mcp_intPin s < 30 \<and> pinCallbacks s ! unat (Mcp_intPin s) = Some Irq_lambda"

definition wake_start :: "wake_st \<Rightarrow> bool" where
  "wake_start w \<longleftrightarrow> wired (w_obj w) \<and> w_pc w = At_test"

definition wake_inv :: "wake_st \<Rightarrow> bool" where
  "wake_inv w \<longleftrightarrow> wired (w_obj w)
     \<and> (w_pc w = At_take \<longrightarrow> line_low w \<longrightarrow> w_edge w \<or> 0 < int_tokens (w_obj w))"

section \<open>What the operations keep\<close>

definition wiring :: "can_st \<Rightarrow> u32 \<times> gpio_irq_callback option list" where
  "wiring s = (Mcp_intPin s, pinCallbacks s)"

lemma wiring_simps [simp]:
  "wiring (s\<lparr>trace := t\<rparr>) = wiring s" "wiring (s\<lparr>ub := u\<rparr>) = wiring s"
  "wiring (s\<lparr>pendingRxBuf := p\<rparr>) = wiring s" "wiring (s\<lparr>pendingTxBuf := q\<rparr>) = wiring s"
  "wiring (s\<lparr>lastIntTime := i\<rparr>) = wiring s" "wiring (s\<lparr>lastRxTime := i\<rparr>) = wiring s"
  by (simp_all add: wiring_def)

lemma wired_iff: "wired s \<longleftrightarrow> can_wf s \<and> (case wiring s of (pin, cbs) \<Rightarrow> pin < 30 \<and> cbs ! unat pin = Some Irq_lambda)"
  by (simp add: wired_def wiring_def)

lemma wired_cong: "wired s \<Longrightarrow> can_wf t \<Longrightarrow> wiring t = wiring s \<Longrightarrow> wired t"
  by (simp add: wired_iff)

lemma transacts_keeps:
  assumes "transacts m" and "can_wf s"
  shows "wiring (exec m s) = wiring s" and "int_tokens (exec m s) = int_tokens s"
proof -
  have "advances s (exec m s)"
    using assms can_wfD(1) unfolding transacts_def by blast
  then obtain es u where es: "exec m s = s\<lparr>trace := trace s @ es, ub := u\<rparr>" "on_bus s es"
    unfolding advances_def by blast
  then show "wiring (exec m s) = wiring s" and "int_tokens (exec m s) = int_tokens s"
    using can_wfD(8) [OF assms(2)] by (auto simp: tokens_on_bus)
qed

lemma pass_wiring: "spi_ready s \<Longrightarrow> wiring (exec (service_pass E) s) = wiring s"
  by (simp add: service_pass_def serve_flags_def serve_errors_def when_do_def exec_bitModify exec_writeByte)

lemma send_keeps:
  assumes "can_wf s"
  shows "wiring (exec (txBuffer0SendInTask E canId buf len) s) = wiring s"
    and "int_tokens (exec (txBuffer0SendInTask E canId buf len) s) = int_tokens s"
    and "unat len \<le> 8 \<Longrightarrow> flag_effect (txBuffer0SendInTask E canId buf len) s f = f"
proof -
  let ?w = "pendingTxBuf s AND 1 \<noteq> 0"
  define t where "t = s\<lparr>trace := trace s @ (if ?w then [Rtos (XSemaphoreTake (txSemaphore s) (portMAX_DELAY E))] else []),
    pendingTxBuf := pendingTxBuf s OR 1\<rparr>"
  have exec: "exec (txBuffer0SendInTask E canId buf len) s = exec (txBuffer0Send E canId buf len) t"
    by (cases ?w) (simp_all add: txBuffer0SendInTask_def t_def when_do_def)
  have t: "can_wf t" "wiring t = wiring s" "int_tokens t = int_tokens s" "mosi (trace t) = mosi (trace s)"
    using can_wfD [OF assms] assms by (auto simp: t_def can_wf_def tokens_snoc mosi_Cons)
  then show "wiring (exec (txBuffer0SendInTask E canId buf len) s) = wiring s"
    "int_tokens (exec (txBuffer0SendInTask E canId buf len) s) = int_tokens s"
    using transacts_keeps [OF transacts_frames(1) t(1)] by (simp_all add: exec)
  show "flag_effect (txBuffer0SendInTask E canId buf len) s f = f" if "unat len \<le> 8"
    using flag_effect_free [OF flag_free_frames(1) [OF that] can_wfD(1) [OF t(1)], of E canId buf f] t(4)
    by (simp add: flag_effect_def exec)
qed

lemma receive_keeps:
  assumes "can_wf s"
  shows "wiring (exec (rxReadInTask E out) s) = wiring s"
    and "int_tokens (exec (rxReadInTask E out) s) = int_tokens s"
    and "flag_effect (rxReadInTask E out) s f = f"
proof -
  let ?p = "pendingRxBuf s AND 1 \<noteq> 0"
  let ?read = "if ?p then rxBuffer0Read E out else rxBuffer1Read E out"
  define t where "t = s\<lparr>trace := trace s @ [Rtos (XSemaphoreTake (rxSemaphore s) (portMAX_DELAY E)),
      Time (To_us_since_boot (lastRxTime s))],
    pendingRxBuf := (if ?p then pendingRxBuf s AND NOT 1 else pendingRxBuf s AND NOT 2)\<rparr>"
  have exec: "exec (rxReadInTask E out) s = exec ?read t"
    by (cases ?p) (simp_all add: rxReadInTask_def t_def)
  have t: "can_wf t" "wiring t = wiring s" "int_tokens t = int_tokens s" "mosi (trace t) = mosi (trace s)"
    using can_wfD [OF assms] assms by (auto simp: t_def can_wf_def tokens_def mosi_Cons)
  have read: "transacts ?read" "flag_free ?read"
    by (simp_all add: transacts_frames flag_free_frames)
  then show "wiring (exec (rxReadInTask E out) s) = wiring s"
    "int_tokens (exec (rxReadInTask E out) s) = int_tokens s"
    using transacts_keeps [OF read(1) t(1)] t by (simp_all only: exec)
  show "flag_effect (rxReadInTask E out) s f = f"
    using flag_effect_free [OF read(2) can_wfD(1) [OF t(1)], of f] t(4)
    by (simp only: flag_effect_def exec)
qed

lemma interrupt_keeps:
  assumes "wired s" and "t = exec (irqDispatcher (invoke_gpio E) (Mcp_intPin s) ev) s"
  shows "wired t" and "0 < int_tokens t"
proof -
  have t: "t = exec (irqHandler E (Mcp_intPin s) ev) s"
    using assms by (simp add: wired_def irqDispatcher_def kNumGpios_def invoke_gpio_def)
  have "wiring t = wiring s" "can_wf t"
    using assms(1) irq_view(2) [of s E "Mcp_intPin s" ev] by (simp_all add: t wired_def) (simp add: irqHandler_def)
  then show "wired t" using assms(1) wired_cong by blast
  show "0 < int_tokens t" by (simp add: t irqHandler_def tokens_def)
qed

lemma flag_effect_pass:
  assumes "spi_ready s" and "result (readByte E CANINTF) s = f"
  shows "flag_effect (service_pass E) s f = served f"
proof -
  obtain e where "mosi (trace (exec (service_pass E) s)) = mosi (trace s) @ pass_transfers f e"
    using mosi_service_pass [OF assms(1), of E] assms(2) by auto
  then show ?thesis by (simp add: flag_effect_def fold_pass_transfers)
qed

section \<open>No wake-up is lost\<close>

inductive_cases own_stepE: "own_step w w'"
inductive_cases wake_stepE: "wake_step w w'"

lemma own_step_inv: "own_step w w' \<Longrightarrow> wake_inv w \<Longrightarrow> wake_inv w'"
proof (induction rule: own_step.induct)
  case (interrupt w E ev)
  then show ?case using interrupt_keeps [OF _ refl, of "w_obj w" E ev] by (simp add: wake_inv_def)
next
  case (test w)
  then show ?case by (auto simp: wake_inv_def wired_iff tested_simps line_low_def)
next
  case (pass w E)
  then have "wired (w_obj w)" by (simp add: wake_inv_def)
  then have "wired (exec (service_pass E) (w_obj w))"
    using service_pass_view(2) pass_wiring can_wfD(1) by (metis wired_cong wired_def)
  then show ?case by (simp add: wake_inv_def)
next
  case (take w E)
  then show ?case by (auto simp: wake_inv_def wired_iff can_wf_def)
qed

lemma wake_step_inv: "wake_step w w' \<Longrightarrow> wake_inv w \<Longrightarrow> wake_inv w'"
proof (induction rule: wake_step.induct)
  case (own w w')
  then show ?case by (rule own_step_inv)
next
  case (raised w' w b e)
  then show ?case by (auto simp: wake_inv_def line_low_def)
next
  case (raised_in_pass w w' b e)
  then have "wake_inv w'" using own_step_inv by blast
  with raised_in_pass(3) show ?case by (simp add: wake_inv_def)
next
  case (sends w len E canId buf)
  then have wf: "can_wf (w_obj w)" by (simp add: wake_inv_def wired_def)
  note keeps = send_keeps(1,2) [OF wf, of E canId buf len] send_keeps(3) [OF wf sends(2)]
  show ?case
    using sends keeps wired_cong [OF _ send_view(2) [OF wf] keeps(1)] by (simp add: wake_inv_def line_low_def)
next
  case (receives w E out)
  then have wf: "can_wf (w_obj w)" by (simp add: wake_inv_def wired_def)
  note keeps = receive_keeps [OF wf]
  show ?case
    using receives keeps wired_cong [OF _ receive_view(2) [OF wf] keeps(1)] by (simp add: wake_inv_def line_low_def)
qed

lemma wake_reaches_inv: "wake_reaches w0 w \<Longrightarrow> wake_start w0 \<Longrightarrow> wake_inv w"
  by (induction rule: wake_reaches.induct) (auto simp: wake_start_def wake_inv_def dest: wake_step_inv)

section \<open>The flags are emptied\<close>

text \<open>How many passes the flags take, and how many steps there are to the end of them.\<close>

definition passes :: "u8 \<Rightarrow> nat" where
  "passes f = of_bool (f AND 0xE0 \<noteq> 0) + of_bool (f AND 7 \<noteq> 0)"

definition wake_rank :: "wake_st \<Rightarrow> nat" where
  "wake_rank w = 4 * passes (w_flags w) + of_bool (w_edge w)
     + (case w_pc w of At_take \<Rightarrow> 2 | At_test \<Rightarrow> 1 | At_pass \<Rightarrow> 0)"

lemma wake_rank_bound: "wake_rank w \<le> 11"
  by (auto simp: wake_rank_def passes_def split: service_pc.split)

lemma low_passes: "line_low w \<longleftrightarrow> 0 < passes (w_flags w)"
proof -
  let ?f = "w_flags w"
  have "?f AND 0xE7 = (?f AND 0xE0) OR (?f AND 7)"
    by (simp add: bit.conj_disj_distrib [symmetric])
  then show ?thesis by (simp add: line_low_def enabled_flags passes_def or_eq_0_iff)
qed

lemma passes_served: "0 < passes f \<Longrightarrow> passes (served f) < passes f"
proof (cases "f AND 0xE0 = 0")
  case True
  then have "served f AND 0xE0 = 0" "served f AND 7 = 0" by (simp_all add: served_def and.assoc)
  with True show "0 < passes f \<Longrightarrow> passes (served f) < passes f" by (simp add: passes_def)
next
  case False
  then have "served f AND 0xE0 = 0" "served f AND 7 = f AND 7" by (simp_all add: served_def and.assoc)
  with False show "0 < passes f \<Longrightarrow> passes (served f) < passes f" by (simp add: passes_def)
qed

lemma own_step_rank: "own_step w w' \<Longrightarrow> wake_inv w \<Longrightarrow> line_low w \<Longrightarrow> wake_rank w' < wake_rank w"
proof (induction rule: own_step.induct)
  case (pass w E)
  then have "can_wf (w_obj w)" by (simp add: wake_inv_def wired_def)
  then have "flag_effect (service_pass E) (w_obj w) (w_flags w) = served (w_flags w)"
    using pass.hyps(2) by (intro flag_effect_pass can_wfD(1))
  then show ?case
    using passes_served [of "w_flags w"] pass by (simp add: wake_rank_def low_passes)
qed (simp_all add: wake_rank_def)

lemma own_step_enabled:
  assumes "wake_inv w" and "line_low w"
  shows "\<exists>w'. own_step w w'"
proof (cases "w_pc w")
  case At_test
  then show ?thesis by (blast intro: own_step.test)
next
  case At_pass
  have "result (readByte (flag_env (w_flags w)) CANINTF) (w_obj w) = w_flags w"
    using assms(1) by (intro flag_env_reads can_wfD(1)) (simp add: wake_inv_def wired_def)
  with At_pass show ?thesis by (blast intro: own_step.pass)
next
  case At_take
  with assms have "w_edge w \<or> 0 < int_tokens (w_obj w)" by (simp add: wake_inv_def)
  with At_take show ?thesis by (blast intro: own_step.interrupt own_step.take)
qed

text \<open>Runs of the interrupt and the service task alone while the line is low, by their number of steps.\<close>

inductive low_run :: "nat \<Rightarrow> wake_st \<Rightarrow> wake_st \<Rightarrow> bool" where
  low_none: "low_run 0 w w"
| low_more: "line_low w \<Longrightarrow> own_step w v \<Longrightarrow> low_run n v u \<Longrightarrow> low_run (Suc n) w u"

lemma low_run_rank: "low_run n w u \<Longrightarrow> wake_inv w \<Longrightarrow> n + wake_rank u \<le> wake_rank w \<and> wake_inv u"
proof (induction rule: low_run.induct)
  case (low_more w v n u)
  then show ?case using own_step_rank [of w v] own_step_inv [of w v] by fastforce
qed simp

text \<open>
  C2: no wake-up is lost.  In every state that interrupts, the steps of the service loop, sends, receives
  and flags raised by the controller at any moment can lead to, whenever the service task waits on its
  semaphore while the interrupt line is low, the semaphore has a token or the edge is about to run the
  handler; so in every such state with the line low the interrupt or the service task can make a step, and
  after at most eleven steps of them the line is high: every enabled flag has been served.\<close>

theorem no_wakeup_lost:
  assumes "wake_start w0" and "wake_reaches w0 w"
  shows "(w_pc w = At_take \<and> line_low w \<longrightarrow> w_edge w \<or> 0 < int_tokens (w_obj w))
       \<and> (line_low w \<longrightarrow> (\<exists>w'. own_step w w'))
       \<and> (\<forall>n u. low_run n w u \<longrightarrow> n \<le> 11 \<and> (line_low u \<longrightarrow> (\<exists>v. own_step u v)))"
proof -
  have inv: "wake_inv w" by (rule wake_reaches_inv [OF assms(2,1)])
  have "n \<le> 11 \<and> wake_inv u" if "low_run n w u" for n u
    using low_run_rank [OF that inv] wake_rank_bound [of w] by simp
  with inv show ?thesis using own_step_enabled by (auto simp: wake_inv_def)
qed

section \<open>The loop of the code is a run of these steps\<close>

text \<open>Against a controller that raises no more flags, the inner loop of \<open>run\<close> makes tests and passes of the
  system, from the test of the line to the wait for the semaphore.\<close>

lemma serve_line_steps:
  assumes "controller_env E rise" and "quiet_from rise m"
  shows "can_wf s \<Longrightarrow> m \<le> transfers s \<Longrightarrow> result (serve_line E n) s \<Longrightarrow>
    own_step\<^sup>*\<^sup>* \<lparr>w_obj = s, w_flags = flags_now rise s, w_edge = e, w_pc = At_test\<rparr>
      \<lparr>w_obj = exec (serve_line E n) s, w_flags = flags_now rise (exec (serve_line E n) s), w_edge = e, w_pc = At_take\<rparr>"
proof (induction n arbitrary: s)
  case (Suc n)
  let ?w = "\<lparr>w_obj = s, w_flags = flags_now rise s, w_edge = e, w_pc = At_test\<rparr>"
  show ?case
  proof (cases "flags_now rise s AND 0xE7 = 0")
    case True
    have loop: "exec (serve_line E (Suc n)) s = tested s"
      using line_idle [OF assms(1) True] unfolding exec_def by simp
    have "own_step ?w \<lparr>w_obj = tested s, w_flags = flags_now rise s, w_edge = e, w_pc = At_take\<rparr>"
      using own_step.test [of ?w] True by (simp add: line_low_def enabled_flags)
    then show ?thesis unfolding loop by (simp add: tested_simps del: mosi_append)
  next
    case False
    let ?v = "\<lparr>w_obj = tested s, w_flags = flags_now rise s, w_edge = e, w_pc = At_pass\<rparr>"
    let ?t = "exec (service_pass E) (tested s)"
    have wf: "can_wf (tested s)" and m: "m \<le> transfers (tested s)" and now: "flags_now rise (tested s) = flags_now rise s"
      using Suc.prems by (simp_all add: tested_simps del: mosi_append)
    note ready = can_wfD(1) [OF wf] and pass = pass_serves [OF assms(1) wf assms(2) m]
    have "result (readByte E CANINTF) (tested s) = flags_now rise s"
      using result_flags [OF assms(1) ready assms(2) m] unfolding now .
    with ready have eff: "own_step ?v \<lparr>w_obj = ?t, w_flags = flags_now rise ?t, w_edge = e, w_pc = At_test\<rparr>"
      using own_step.pass [of ?v E] flag_effect_pass [OF ready] pass(1) by (simp add: tested_simps del: mosi_append)
    moreover have "own_step ?w ?v"
      using own_step.test [of ?w] False by (simp add: line_low_def enabled_flags)
    moreover have "result (serve_line E n) ?t" "exec (serve_line E (Suc n)) s = exec (serve_line E n) ?t"
      using line_busy [OF assms(1) False, of n] Suc.prems(3) by (simp_all add: result_def exec_def del: serve_line.simps)
    ultimately show ?thesis
      using Suc.IH [OF pass(3,4)] by (simp only:) (meson converse_rtranclp_into_rtranclp)
  qed
qed simp

section \<open>A closed instance\<close>

definition demo_wake :: wake_st where
  "demo_wake = \<lparr>w_obj = demo_can\<lparr>pinCallbacks := (pinCallbacks demo_can)[20 := Some Irq_lambda]\<rparr>,
     w_flags = 0, w_edge = False, w_pc = At_test\<rparr>"

theorem no_wakeup_lost_witness:
  "\<exists>w'. own_step (demo_wake\<lparr>w_obj := tested (w_obj demo_wake), w_pc := At_take, w_flags := 1, w_edge := True\<rparr>) w'"
proof -
  let ?w = "demo_wake\<lparr>w_obj := tested (w_obj demo_wake), w_pc := At_take\<rparr>"
  let ?v = "?w\<lparr>w_flags := 1, w_edge := True\<rparr>"
  have wf: "can_wf (demo_can\<lparr>pinCallbacks := cbs\<rparr>)" for cbs
    using can_wf_demo by (simp add: can_wf_def bus_sems_def)
  then have "wake_start demo_wake"
    by (simp add: wake_start_def wired_def demo_wake_def) (simp add: demo_can_def)
  moreover have "own_step demo_wake ?w"
    using own_step.test [of demo_wake] by (simp add: demo_wake_def line_low_def)
  moreover have "wake_step ?w ?v"
    using wake_step.raised [of "?w\<lparr>w_flags := 1\<rparr>" ?w 1 True] by (simp add: demo_wake_def line_low_def enabled_flags)
  ultimately have "wake_start demo_wake" "wake_reaches demo_wake ?v"
    by (blast intro: wake_refl wake_trans wake_step.own)+
  from no_wakeup_lost [OF this] have "line_low ?v \<longrightarrow> (\<exists>w'. own_step ?v w')" by blast
  moreover have "line_low ?v" by (simp add: line_low_def enabled_flags)
  ultimately show ?thesis by (simp add: demo_wake_def)
qed

end
