(* ===== verification/Can_Start.thy ===== *)
theory Can_Start
  imports Can_Wakeup
begin

text \<open>
  Initialisation establishes what the other theories of the CAN service start from: three semaphores of its
  own without a token, nothing pending, and the handler registered for the interrupt pin.
\<close>

section \<open>The handles\<close>

text \<open>The three semaphores of \<open>initialInTask\<close>: each handle answers a creation call after the ones before.\<close>

definition created_handles :: "env \<Rightarrow> event list \<Rightarrow> nat \<times> nat \<times> nat" where
  "created_handles E t =
     (let t1 = t @ [Rtos XSemaphoreCreateBinary];
          t2 = t1 @ [Rtos XSemaphoreCreateBinary];
          t3 = t2 @ [Rtos (XSemaphoreCreateCounting 2 0)]
      in (handle_answer E t1, handle_answer E t2, handle_answer E t3))"

text \<open>New handles: distinct, not those of the bus, and without a call on them so far.\<close>

definition handles_new :: "env \<Rightarrow> can_st \<Rightarrow> bool" where
  "handles_new E s \<longleftrightarrow>
     (case created_handles E (trace s) of (i, t, r) \<Rightarrow>
        distinct [i, r, t] \<and> {i, r, t} \<inter> bus_sems s = {} \<and> {Some i, Some r, Some t} \<inter> sem_of ` set (trace s) = {})"

lemma bus_sems_sems [simp]:
  "bus_sems (s\<lparr>intSemaphore := i\<rparr>) = bus_sems s" "bus_sems (s\<lparr>rxSemaphore := i\<rparr>) = bus_sems s"
  "bus_sems (s\<lparr>txSemaphore := i\<rparr>) = bus_sems s" "bus_sems (s\<lparr>pinCallbacks := cbs\<rparr>) = bus_sems s"
  by (simp_all add: bus_sems_def)

section \<open>What initialisation leaves alone\<close>

definition kept :: "can_st \<Rightarrow> can_st \<Rightarrow> bool" where
  "kept s t \<longleftrightarrow> spi_ready t \<and> bus_sems t = bus_sems s \<and> pendingRxBuf t = pendingRxBuf s \<and> pendingTxBuf t = pendingTxBuf s
     \<and> Mcp_intPin t = Mcp_intPin s \<and> (\<exists>es. trace t = trace s @ es \<and> on_bus s es)"

definition prepares :: "(can_st, 'r) state \<Rightarrow> bool" where
  "prepares m \<longleftrightarrow> (\<forall>s. spi_ready s \<longrightarrow> kept s (exec m s))"

lemma kept_trans:
  assumes "kept s t" and "kept t u"
  shows "kept s u"
proof -
  obtain es fs where "trace t = trace s @ es" "on_bus s es" "trace u = trace t @ fs" "on_bus t fs"
    using assms unfolding kept_def by blast
  moreover from this(4) assms(1) have "on_bus s fs" by (simp add: on_bus_def kept_def)
  ultimately have "trace u = trace s @ (es @ fs) \<and> on_bus s (es @ fs)" by simp
  with assms show ?thesis unfolding kept_def by auto
qed

lemma kept_ready: "kept s t \<Longrightarrow> spi_ready t"
  by (simp add: kept_def)

lemma preparesI: "(\<And>s. spi_ready s \<Longrightarrow> kept s (exec m s)) \<Longrightarrow> prepares m"
  by (simp add: prepares_def)

named_theorems prepares_intros \<open>steps of initialisation\<close>

lemma prepares_bind [prepares_intros]:
  "prepares m \<Longrightarrow> (\<And>x. prepares (f x)) \<Longrightarrow> prepares (State_Monad.bind m f)"
  unfolding prepares_def using kept_ready by (simp add: exec_bind) (blast intro: kept_trans)

lemma prepares_transacts: "transacts m \<Longrightarrow> prepares m"
proof (rule preparesI)
  fix s :: can_st
  assume "transacts m" and ready: "spi_ready s"
  then obtain es u where "exec m s = s\<lparr>trace := trace s @ es, ub := u\<rparr>" "on_bus s es"
    unfolding transacts_def advances_def by blast
  with ready show "kept s (exec m s)"
    by (simp add: kept_def)
qed

lemma prepares_emit [prepares_intros]: "sem_of e = None \<Longrightarrow> prepares (emit e)"
  by (rule preparesI) (simp add: kept_def on_bus_def)

lemma prepares_call [prepares_intros]: "sem_of e = None \<Longrightarrow> prepares (call e g)"
  by (rule preparesI) (simp add: kept_def on_bus_def)

lemma prepares_store [prepares_intros]:
  "prepares (modify (\<lambda>s. s\<lparr>intSemaphore := h\<rparr>))" "prepares (modify (\<lambda>s. s\<lparr>rxSemaphore := h\<rparr>))"
  "prepares (modify (\<lambda>s. s\<lparr>txSemaphore := h\<rparr>))"
  by (rule preparesI, simp add: kept_def)+

lemma prepares_if [prepares_intros]: "prepares m \<Longrightarrow> prepares n \<Longrightarrow> prepares (if b then m else n)"
  by simp

lemma prepares_register [prepares_intros]: "prepares (gpioRegisterIrqCallback pin events cb)"
  by (rule preparesI) (auto simp: exec_def run_register kept_def on_bus_def)

lemma prepares_driver [prepares_intros]:
  "prepares (gets g)" "prepares (writeByte E a d)" "prepares (resetMcp2515 E)" "prepares (setMcp2515Bitrate E)"
  "prepares (clearInterrupts E f)" "prepares (enableInterrupts E f)"
  unfolding setMcp2515Bitrate_def clearInterrupts_def enableInterrupts_def
  by (rule prepares_transacts, intro transacts_intros)+

lemma prepares_initialInTask: "prepares (initialInTask E rxBufferType)"
  unfolding initialInTask_def by (intro prepares_intros) simp_all

lemma created_initialInTask:
  assumes "spi_ready s" and "gpio_wf s" and "Mcp_intPin s < 30"
  shows "(let t = exec (initialInTask E rxBufferType) s in (intSemaphore t, txSemaphore t, rxSemaphore t))
       = created_handles E (trace s)"
proof -
  have pin: "\<not> kNumGpios \<le> Mcp_intPin s" "unat (Mcp_intPin s) < length (pinCallbacks s)"
    using assms(2,3) by (simp_all add: gpio_wf_def kNumGpios_def word_less_nat_alt not_le)
  then show ?thesis
    using assms(1)
    by (simp add: Let_def initialInTask_def exec_setMcp2515Bitrate write_all_state exec_writeByte clearInterrupts_def
      enableInterrupts_def exec_resetMcp2515 exec_register created_handles_def)
qed

text \<open>
  C16: from a ready bus, with nothing pending and new handles from FreeRTOS, \<open>initialInTask\<close> leaves an object
  that is well formed: the bus is ready, the three semaphores are distinct, not the bus's and empty, no buffer
  is pending, and the pin's callback is the object's handler.  This is the state from which the invariants of
  the service are proved.\<close>

theorem initialInTask_starts:
  assumes "spi_ready s" and "gpio_wf s" and "Mcp_intPin s < 30" and "handles_new E s"
    and "pendingRxBuf s = 0" and "pendingTxBuf s = 0" and "t = exec (initialInTask E rxBufferType) s"
  shows "can_start t \<and> wired t
       \<and> (intSemaphore t, txSemaphore t, rxSemaphore t) = created_handles E (trace s)"
proof -
  have "kept s t" using prepares_initialInTask assms(1) by (simp add: prepares_def assms(7))
  then obtain es where same: "spi_ready t" "bus_sems t = bus_sems s" "pendingRxBuf t = 0" "pendingTxBuf t = 0"
      "Mcp_intPin t = Mcp_intPin s" and es: "trace t = trace s @ es" "on_bus s es"
    using assms(5,6) by (auto simp: kept_def)
  have cb: "pinCallbacks t ! unat (Mcp_intPin s) = Some Irq_lambda"
    using initialInTask_effect [OF assms(1-3,7)] by blast
  obtain i j k where new: "created_handles E (trace s) = (i, j, k)" by (cases "created_handles E (trace s)")
  have handles: "(intSemaphore t, txSemaphore t, rxSemaphore t) = (i, j, k)"
    using created_initialInTask [OF assms(1-3), of E rxBufferType] by (simp add: assms(7) new Let_def)
  have none: "tokens h cap (trace t) = 0" if "h \<in> {i, j, k}" for h cap
  proof -
    from that assms(4) new have "h \<notin> bus_sems s" "Some h \<notin> sem_of ` set (trace s)"
      by (auto simp: handles_new_def)
    then show ?thesis
      using tokens_on_bus [OF es(2), of h cap "trace s"] tokens_other [of h "trace s" cap "[]"]
      by (simp add: es(1) tokens_def)
  qed
  have "can_wf t" using same handles assms(4) new by (auto simp: can_wf_def handles_new_def)
  then show ?thesis
    using same cb handles none assms(3) new by (simp add: can_start_def wired_def)
qed

section \<open>A closed instance\<close>

text \<open>Handles counted up from 10.\<close>

definition handle_env :: env where
  "handle_env = demo_env\<lparr>handle_answer := \<lambda>t. 9 + length t\<rparr>"

theorem initialInTask_starts_witness:
  "can_start (exec (initialInTask handle_env Rollover) demo_can)
     \<and> intSemaphore (exec (initialInTask handle_env Rollover) demo_can) = 10"
proof -
  have "gpio_wf demo_can" "Mcp_intPin demo_can < 30" "handles_new handle_env demo_can" "pendingRxBuf demo_can = 0"
    "pendingTxBuf demo_can = 0" "created_handles handle_env (trace demo_can) = (10, 11, 12)"
    by (simp_all add: gpio_wf_def demo_can_def handles_new_def created_handles_def handle_env_def bus_sems_def Let_def)
  from initialInTask_starts [OF spi_ready_demo_can this(1-5) refl, of Rollover] this(6)
  show ?thesis by simp
qed

end
