(* ===== verification/Loopback.thy ===== *)
theory Loopback
  imports Mcp2515_Limits
begin

text \<open>
  A frame from a transmit buffer to a receive buffer.  The controller is a state machine over the
  instructions on the bus, as its data sheet describes it in loopback mode: a write of TXREQ sends the
  frame that the transmit buffer holds at that moment, and the frame is stored in receive buffer 0 when the
  buffer accepts every frame and is empty.  Nothing else puts a frame there.
\<close>

section \<open>The registers after a list of writes\<close>

type_synonym regs = "u8 \<Rightarrow> u8"

definition tx_window :: "u8 set" where
  "tx_window = {0x31..0x3D}"

lemma tx_header_regs: "(a, d) \<in> set (tx_header canId) \<Longrightarrow> 0x31 \<le> a \<and> a \<le> 0x34"
  by (auto simp: tx_header_def regs split: if_splits)

lemma tx_data_regs: "j < 8 \<Longrightarrow> 0x36 \<le> TXB0D0 + of_nat j \<and> TXB0D0 + of_nat j \<le> (0x3D :: u8)"
  using data_register_in_window [of j] by simp

text \<open>A send is the writes of the frame's registers and then the request.\<close>

definition tx_body :: "u32 \<Rightarrow> u8 list \<Rightarrow> u8 \<Rightarrow> (u8 \<times> u8) list" where
  "tx_body canId buf len = tx_header canId @ (TXB0DLC, len) # tx_data [0..<unat len] buf"

lemma tx_writes_body: "tx_writes canId buf len = tx_body canId buf len @ [(TXB0CTRL, 8)]"
  by (simp add: tx_writes_def tx_body_def)

lemma tx_body_window:
  assumes "unat len \<le> 8" and "(a, d) \<in> set (tx_body canId buf len)"
  shows "a \<in> tx_window"
proof -
  have "(a, d) \<in> set (tx_header canId) \<or> a = TXB0DLC \<or> (\<exists>j < unat len. a = TXB0D0 + of_nat j)"
    using assms(2) unfolding tx_body_def by (auto simp: set_tx_data)
  then consider "(a, d) \<in> set (tx_header canId)" | "a = TXB0DLC" | j where "j < unat len" "a = TXB0D0 + of_nat j"
    by blast
  then show ?thesis
  proof cases
    case 1
    then show ?thesis using tx_header_regs [of a d canId] by (auto simp: tx_window_def intro: order_trans)
  next
    case (3 j)
    then show ?thesis using tx_data_regs [of j] assms(1) order_trans [of "0x31" "0x36" a] by (simp add: tx_window_def)
  qed (simp add: tx_window_def regs)
qed

definition written :: "regs \<Rightarrow> (u8 \<times> u8) list \<Rightarrow> regs" where
  "written R ws = fold (\<lambda>(a, d) R. R(a := d)) ws R"

lemma written_simps [simp]:
  "written R [] = R" "written R ((a, d) # ws) = written (R(a := d)) ws" "written R (ws @ vs) = written (written R ws) vs"
  by (simp_all add: written_def)

lemma written_value: "a \<in> fst ` set ws \<Longrightarrow> written R ws a = reg_value ws a"
  unfolding reg_value_def
proof (induction ws rule: rev_induct)
  case (snoc w ws)
  then show ?case by (cases w) auto
qed simp

lemma written_id: "a \<notin> fst ` set ws \<Longrightarrow> written R ws a = R a"
  by (induction ws arbitrary: R) auto

lemma tx_body_value:
  assumes "unat len \<le> 8" and "a \<in> fst ` set (tx_body canId buf len)"
  shows "written R (tx_body canId buf len) a = reg_value (tx_writes canId buf len) a"
proof -
  have "a \<in> tx_window" using assms tx_body_window by fastforce
  then have "a \<noteq> TXB0CTRL" by (auto simp: tx_window_def regs)
  then have "reg_value (tx_writes canId buf len) a = reg_value (tx_body canId buf len) a"
    by (simp add: tx_writes_body reg_value_def)
  with written_value [OF assms(2)] show ?thesis by simp
qed

section \<open>The controller\<close>

text \<open>The registers, the interrupt flags of CANINTF, and receive buffer 0.\<close>

record loop_ctl =
  lc_regs :: regs
  lc_flags :: u8
  lc_rx :: regs

text \<open>After a reset the controller is in configuration mode.\<close>

definition lc_reset :: loop_ctl where
  "lc_reset = \<lparr>lc_regs = (\<lambda>_. 0)(CANCTRL := 0x87), lc_flags = 0, lc_rx = (\<lambda>_. 0)\<rparr>"

definition in_loopback :: "loop_ctl \<Rightarrow> bool" where
  "in_loopback c \<longleftrightarrow> lc_regs c CANCTRL AND REQOP = REQOP_LOOPBACK"

definition accepts_all :: "loop_ctl \<Rightarrow> bool" where
  "accepts_all c \<longleftrightarrow> lc_regs c RXB0CTRL AND RXM = RXM_RCV_ALL"

text \<open>The frame in transmit buffer 0 is sent: TX0IF, and RX0IF when receive buffer 0 stores it.\<close>

definition lc_transmit :: "loop_ctl \<Rightarrow> loop_ctl" where
  "lc_transmit c =
     (if in_loopback c
      then if accepts_all c \<and> lc_flags c AND RX0IF = 0
        then c\<lparr>lc_flags := lc_flags c OR TX0IF OR RX0IF, lc_rx := (\<lambda>a. lc_regs c (a - 0x30))\<rparr>
        else c\<lparr>lc_flags := lc_flags c OR TX0IF\<rparr>
      else c)"

fun lc_step :: "u8 list \<Rightarrow> loop_ctl \<Rightarrow> loop_ctl" where
  "lc_step [opc, a, d] c =
     (if opc \<noteq> CAN_WRITE then c
      else if a = CANINTF then c\<lparr>lc_flags := d\<rparr>
      else if a = TXB0CTRL \<and> d AND TXREQ \<noteq> 0 then lc_transmit c
      else c\<lparr>lc_regs := (lc_regs c)(a := d)\<rparr>)"
| "lc_step [opc, a, k, d] c =
     (if opc \<noteq> CAN_BIT_MODIFY then c
      else if a = CANINTF then c\<lparr>lc_flags := (lc_flags c AND NOT k) OR (d AND k)\<rparr>
      else if a = TXB0CTRL \<and> d AND k AND TXREQ \<noteq> 0 then lc_transmit c
      else c\<lparr>lc_regs := (lc_regs c)(a := (lc_regs c a AND NOT k) OR (d AND k))\<rparr>)"
| "lc_step _ c = c"

definition controller :: "event list \<Rightarrow> loop_ctl" where
  "controller t = fold lc_step (mosi t) lc_reset"

lemma controller_append [simp]: "controller (t @ u) = fold lc_step (mosi u) (controller t)"
  by (simp add: controller_def)

lemma controller_Nil [simp]: "controller [] = lc_reset"
  by (simp add: controller_def)

text \<open>An environment whose reads of CANINTF and of receive buffer 0 are this controller's.\<close>

definition loopback_env :: "env \<Rightarrow> bool" where
  "loopback_env E \<longleftrightarrow> (\<forall>t m a x. mosi t = m @ [[CAN_READ, a], [x]] \<longrightarrow>
     (a = CANINTF \<longrightarrow> miso E t 0 = lc_flags (controller t))
     \<and> (RXB0SIDH \<le> a \<and> a \<le> RXB0D7 \<longrightarrow> miso E t 0 = lc_rx (controller t) a))"

text \<open>Ready for a frame: loopback mode, every frame accepted, the receive buffer empty.\<close>

definition loopback_ready :: "loop_ctl \<Rightarrow> bool" where
  "loopback_ready c \<longleftrightarrow> in_loopback c \<and> accepts_all c \<and> lc_flags c AND RX0IF = 0"

section \<open>Reading the receive buffer\<close>

lemma controller_read [simp]:
  "fold lc_step (mosi (txn_events E s [[CAN_READ, a], [x]])) c = c"
  "fold lc_step (mosi (read_prefix E s a)) c = c"
  by simp_all

lemma result_flags_loopback:
  "loopback_env E \<Longrightarrow> spi_ready s \<Longrightarrow> result (readByte E CANINTF) s = lc_flags (controller (trace s))"
  by (simp add: result_readByte loopback_env_def)

lemma result_readByte_loop:
  "loopback_env E \<Longrightarrow> spi_ready s \<Longrightarrow> 0x61 \<le> a \<Longrightarrow> a \<le> 0x6D \<Longrightarrow>
     result (readByte E a) s = lc_rx (controller (trace s)) a"
  by (simp add: result_readByte loopback_env_def regs)

lemma run_readByte_loop:
  "loopback_env E \<Longrightarrow> spi_ready s \<Longrightarrow> 0x61 \<le> a \<Longrightarrow> a \<le> 0x6D \<Longrightarrow>
     run_state (readByte E a) s =
       (lc_rx (controller (trace s)) a, s\<lparr>trace := trace s @ txn_events E s [[CAN_READ, a], [0]]\<rparr>)"
  using result_readByte_loop [of E s a] by (simp add: result_def run_readByte)

lemma run_read_into_loop:
  assumes "loopback_env E" and "spi_ready s" and "\<And>i. i \<in> set is \<Longrightarrow> i < 8 \<and> i < length buf"
  shows "\<exists>t. run_state (read_into E RXB0D0 is buf) s =
           (fold (\<lambda>i b. b[i := lc_rx (controller (trace s)) (0x66 + of_nat i)]) is buf, s\<lparr>trace := t\<rparr>)"
  using assms(2,3)
proof (induction "is" arbitrary: s buf)
  case Nil
  then show ?case by (auto intro: exI [of _ "trace s"])
next
  case (Cons i "is")
  let ?v = "lc_rx (controller (trace s)) (0x66 + of_nat i)"
  let ?s = "s\<lparr>trace := trace s @ txn_events E s [[CAN_READ, 0x66 + of_nat i], [0]]\<rparr>"
  have i: "i < 8" "i < length buf" using Cons.prems(2) by auto
  obtain t where t: "run_state (read_into E RXB0D0 is (buf[i := ?v])) ?s =
      (fold (\<lambda>i b. b[i := lc_rx (controller (trace ?s)) (0x66 + of_nat i)]) is (buf[i := ?v]), ?s\<lparr>trace := t\<rparr>)"
    using Cons.IH [of ?s "buf[i := ?v]"] Cons.prems by auto
  have "run_state (readByte E (RXB0D0 + of_nat i)) s = (?v, ?s)"
    using run_readByte_loop [OF assms(1) Cons.prems(1)] data_addr [OF i(1)] by (simp add: regs)
  with t i show ?case by (auto simp: run_mem_store)
qed

lemma read_into_loop:
  assumes "loopback_env E" and "spi_ready s" and "n \<le> 8" and "n \<le> length out"
  shows "result (read_into E 0x66 [0..<n] out) s =
           patch out (map (\<lambda>i. lc_rx (controller (trace s)) (0x66 + of_nat i)) [0..<n])"
    and "ub (exec (read_into E 0x66 [0..<n] out) s) = ub s"
  using run_read_into_loop [OF assms(1,2), of "[0..<n]" out] assms(3,4)
  by (auto simp: result_def exec_def fold_update_patch regs)

lemma rxBuffer0Read_loop:
  assumes "loopback_env E" and "spi_ready s" and V: "lc_rx (controller (trace s)) = V"
    and "V 0x65 AND 0x0F = len" and "unat len \<le> 8" and "unat len \<le> length out"
  shows "result (rxBuffer0Read E out) s =
           (if V 0x62 AND 8 \<noteq> 0
            then push_bit 21 (ucast (V 0x61)) OR push_bit 18 (ucast (drop_bit 5 (V 0x62)))
                   OR push_bit 16 (ucast (V 0x62 AND 3)) OR push_bit 8 (ucast (V 0x63)) OR ucast (V 0x64)
            else push_bit 3 (ucast (V 0x61)) OR ucast (drop_bit 5 (V 0x62)),
            patch out (map (\<lambda>i. V (0x66 + of_nat i)) [0..<unat len]), len)"
    and "ub (exec (rxBuffer0Read E out) s) = ub s"
proof -
  note steps = rxBuffer0Read_def regs controller_read [unfolded regs] exec_readByte [unfolded regs]
    result_readByte_loop [OF assms(1)] read_into_loop [OF assms(1)] V assms(4) Let_def
  show "result (rxBuffer0Read E out) s =
           (if V 0x62 AND 8 \<noteq> 0
            then push_bit 21 (ucast (V 0x61)) OR push_bit 18 (ucast (drop_bit 5 (V 0x62)))
                   OR push_bit 16 (ucast (V 0x62 AND 3)) OR push_bit 8 (ucast (V 0x63)) OR ucast (V 0x64)
            else push_bit 3 (ucast (V 0x61)) OR ucast (drop_bit 5 (V 0x62)),
            patch out (map (\<lambda>i. V (0x66 + of_nat i)) [0..<unat len]), len)"
    using assms(2,5,6) by (cases "V 0x62 AND 8 = 0") (simp_all add: steps)
  show "ub (exec (rxBuffer0Read E out) s) = ub s"
    using assms(2,5,6) by (cases "V 0x62 AND 8 = 0") (simp_all add: steps)
qed

section \<open>A frame that is sent\<close>

lemma mosi_write_all:
  "spi_ready s \<Longrightarrow> mosi (trace (port.write_all E ws s)) = mosi (trace s) @ map (\<lambda>(a, d). [CAN_WRITE, a, d]) ws"
proof (induction ws arbitrary: s)
  case (Cons w ws)
  obtain a d where w: "w = (a, d)" by (cases w)
  show ?case
    using Cons.IH [of "exec (writeByte E a d) s"] Cons.prems by (simp add: w exec_writeByte)
qed simp

lemma lc_write: "a \<noteq> CANINTF \<Longrightarrow> a \<noteq> TXB0CTRL \<Longrightarrow>
    lc_step [CAN_WRITE, a, d] c = c\<lparr>lc_regs := (lc_regs c)(a := d)\<rparr>"
  by simp

lemma lc_writes:
  "\<forall>w \<in> set ws. fst w \<noteq> CANINTF \<and> fst w \<noteq> TXB0CTRL \<Longrightarrow>
     fold lc_step (map (\<lambda>(a, d). [CAN_WRITE, a, d]) ws) c = c\<lparr>lc_regs := written (lc_regs c) ws\<rparr>"
proof (induction ws arbitrary: c)
  case (Cons w ws)
  obtain a d where w: "w = (a, d)" by (cases w)
  have "fold lc_step (map (\<lambda>(a, d). [CAN_WRITE, a, d]) (w # ws)) c
      = fold lc_step (map (\<lambda>(a, d). [CAN_WRITE, a, d]) ws) (c\<lparr>lc_regs := (lc_regs c)(a := d)\<rparr>)"
    using Cons.prems lc_write [of a d c] by (simp add: w del: lc_step.simps)
  also have "\<dots> = c\<lparr>lc_regs := written (lc_regs c) (w # ws)\<rparr>"
    using Cons.IH [of "c\<lparr>lc_regs := (lc_regs c)(a := d)\<rparr>"] Cons.prems by (simp add: w del: fun_upd_apply)
  finally show ?case .
qed simp

text \<open>A send in loopback mode stores the frame, and only its last write does.\<close>

lemma controller_send:
  assumes "spi_ready s" and "unat len \<le> 8" and "unat len \<le> length buf" and "loopback_ready (controller (trace s))"
    and R_def: "R = written (lc_regs (controller (trace s))) (tx_body canId buf len)"
  shows "controller (trace (exec (txBuffer0Send E canId buf len) s)) =
    \<lparr>lc_regs = R, lc_flags = lc_flags (controller (trace s)) OR TX0IF OR RX0IF, lc_rx = (\<lambda>a. R (a - 0x30))\<rparr>"
proof -
  let ?c = "controller (trace s)"
  have body: "a \<in> tx_window" if "(a, d) \<in> set (tx_body canId buf len)" for a d
    by (rule tx_body_window [OF assms(2) that])
  then have outside: "a \<notin> fst ` set (tx_body canId buf len)" if "a \<notin> tx_window" for a
    using that by force
  have "mosi (trace (exec (txBuffer0Send E canId buf len) s)) =
      mosi (trace s) @ map (\<lambda>(a, d). [CAN_WRITE, a, d]) (tx_body canId buf len) @ [[CAN_WRITE, TXB0CTRL, 8]]"
    using mosi_write_all [OF assms(1), of E "tx_writes canId buf len"] assms(3)
    by (simp only: exec_txBuffer0Send) (simp only: tx_writes_body map_append list.map case_prod_conv)
  moreover have "fold lc_step (map (\<lambda>(a, d). [CAN_WRITE, a, d]) (tx_body canId buf len)) ?c = ?c\<lparr>lc_regs := R\<rparr>"
    unfolding R_def
  proof (intro lc_writes ballI)
    fix w assume "w \<in> set (tx_body canId buf len)"
    with body [of "fst w" "snd w"] show "fst w \<noteq> CANINTF \<and> fst w \<noteq> TXB0CTRL"
      by (auto simp: tx_window_def regs)
  qed
  moreover have "R CANCTRL = lc_regs ?c CANCTRL" "R RXB0CTRL = lc_regs ?c RXB0CTRL"
    unfolding R_def by (intro written_id outside; simp add: tx_window_def regs)+
  ultimately show ?thesis
    using assms(4)
    by (simp add: controller_def lc_transmit_def loopback_ready_def in_loopback_def accepts_all_def regs)
qed

text \<open>What is read from a receive buffer that holds the frame.\<close>

lemma read_back:
  assumes "loopback_env E" and "spi_ready t"
    and rx: "lc_rx (controller (trace t)) = (\<lambda>a. written R (tx_body canId buf len) (a - 0x30))"
    and "canId < 2 ^ 29" and "unat len \<le> 8" and "unat len \<le> length buf" and "unat len \<le> length out"
  shows "result (rxBuffer0Read E out) t = (canId, patch out (take (unat len) buf), len)"
    and "ub (exec (rxBuffer0Read E out) t) = ub t"
proof -
  define V where "V = lc_rx (controller (trace t))"
  have V: "V (a + 0x30) = reg_value ([] @ tx_writes canId buf len) a" if "a \<in> fst ` set (tx_body canId buf len)" for a
    using tx_body_value [OF assms(5) that] by (simp add: V_def rx)
  have "len AND 0x0F = len"
    using assms(5) by (simp add: and_15_id)
  have dlc: "0x35 \<in> fst ` set (tx_body canId buf len)"
    and hdr: "0x31 \<in> fst ` set (tx_body canId buf len)" "0x32 \<in> fst ` set (tx_body canId buf len)"
    and ext: "canId > 0x7FF \<Longrightarrow> 0x33 \<in> fst ` set (tx_body canId buf len) \<and> 0x34 \<in> fst ` set (tx_body canId buf len)"
    by (auto simp: tx_body_def tx_header_def regs image_iff)
  have dat: "0x36 + of_nat i \<in> fst ` set (tx_body canId buf len)" if "i < unat len" for i
    using that by (force simp: tx_body_def tx_data_def regs image_iff)
  note tx = tx_reg_values [OF assms(5), where W = "[]" and canId = canId and buf = buf]
  have vals: "V 0x65 = len"
    "canId > 0x7FF \<Longrightarrow> V 0x61 = ucast (drop_bit 21 canId)"
    "canId > 0x7FF \<Longrightarrow> V 0x62 = ucast (8 OR (drop_bit 16 canId AND 3) OR push_bit 5 (drop_bit 18 canId AND 7))"
    "canId > 0x7FF \<Longrightarrow> V 0x63 = ucast (drop_bit 8 canId)" "canId > 0x7FF \<Longrightarrow> V 0x64 = ucast canId"
    "\<not> canId > 0x7FF \<Longrightarrow> V 0x61 = ucast (drop_bit 3 canId)"
    "\<not> canId > 0x7FF \<Longrightarrow> V 0x62 = ucast (push_bit 5 (canId AND 7))"
    using V [OF dlc] V [OF hdr(1)] V [OF hdr(2)] V [of "0x33"] V [of "0x34"] ext tx(1,3-8) by simp_all
  have data: "map (\<lambda>i. V (0x66 + of_nat i)) [0..<unat len] = take (unat len) buf"
  proof (rule nth_equalityI)
    fix i assume "i < length (map (\<lambda>i. V (0x66 + of_nat i)) [0..<unat len])"
    then have i: "i < unat len" by simp
    have "(0x36 :: u8) + of_nat i + 0x30 = 0x66 + of_nat i" by simp
    with V [OF dat [OF i]] tx(2) [OF i] i show "map (\<lambda>i. V (0x66 + of_nat i)) [0..<unat len] ! i = take (unat len) buf ! i"
      by simp
  qed (use assms(6) in simp)
  have "canId < 2 ^ 11" if "\<not> canId > 0x7FF"
    using that by (simp add: word_less_nat_alt)
  then have id: "take_bit 29 canId = canId" "\<not> canId > 0x7FF \<Longrightarrow> take_bit 11 canId = canId"
    using take_bit_small [of canId 29] take_bit_small [of canId 11] assms(4) by simp_all
  note rx_loop = rxBuffer0Read_loop [OF assms(1,2) V_def [symmetric] _ assms(5,7)]
  show "result (rxBuffer0Read E out) t = (canId, patch out (take (unat len) buf), len)"
    using rx_loop(1) \<open>len AND 0x0F = len\<close> id
    by (cases "canId > 0x7FF")
      (simp_all add: vals data and_3_take and_7_take sidl_low [unfolded and_3_take] sidl_high sidl_extended
        sidl_standard sidl_standard_high ucast_u8_u32 extended_parts standard_parts)
  show "ub (exec (rxBuffer0Read E out) t) = ub t"
    using rx_loop(2) \<open>len AND 0x0F = len\<close> by (simp add: vals)
qed

text \<open>
  C4: A frame written with \<open>txBuffer0Send\<close> to a controller in loopback mode that accepts every frame and
  has an empty receive buffer 0 is what \<open>rxBuffer0Read\<close> then returns: every 29-bit identifier (standard up to
  0x7FF, extended above), the length, and the data bytes, with the rest of the receiver's buffer untouched; the
  controller has raised RX0IF and TX0IF.  The frame gets there by the request to send alone.
\<close>

theorem frame_round_trip:
  assumes "loopback_env E" and "spi_ready s" and "loopback_ready (controller (trace s))"
    and "canId < 2 ^ 29" and "unat len \<le> 8" and "unat len \<le> length buf" and "unat len \<le> length out"
    and "t = exec (txBuffer0Send E canId buf len) s"
  shows "result (rxBuffer0Read E out) t = (canId, patch out (take (unat len) buf), len)
       \<and> ub (exec (rxBuffer0Read E out) t) = ub s
       \<and> result (readByte E CANINTF) t = lc_flags (controller (trace s)) OR TX0IF OR RX0IF"
proof -
  have ready: "spi_ready t" "ub t = ub s"
    using assms(2,6,8) by (simp_all add: exec_txBuffer0Send port.ready_write_all) (simp add: write_all_state)
  note sent = controller_send [OF assms(2,5,6,3) refl, of E canId, folded assms(8)]
  have "lc_rx (controller (trace t)) =
      (\<lambda>a. written (lc_regs (controller (trace s))) (tx_body canId buf len) (a - 0x30))" by (simp add: sent)
  from read_back [OF assms(1) ready(1) this assms(4-7)] show ?thesis
    using result_flags_loopback [OF assms(1) ready(1)] ready(2) by (simp add: sent)
qed

section \<open>A closed instance\<close>

definition loop_env :: env where
  "loop_env = demo_env\<lparr>miso := \<lambda>t i. (case rev (mosi t) of
     _ # [opc, a] # _ \<Rightarrow> if a = CANINTF then lc_flags (controller t) else lc_rx (controller t) a | _ \<Rightarrow> 0)\<rparr>"

lemma loopback_loop_env: "loopback_env loop_env"
  by (simp add: loopback_env_def loop_env_def) (simp add: regs)

text \<open>The two writes that put a controller into loopback mode.\<close>

definition loop_writes :: "(u8 \<times> u8) list" where
  "loop_writes = [(RXB0CTRL, RXM_RCV_ALL), (CANCTRL, REQOP_LOOPBACK)]"

lemma loop_writes_ready:
  assumes "spi_ready s" and "trace s = []"
  shows "loopback_ready (controller (trace (port.write_all E loop_writes s)))"
    and "lc_flags (controller (trace (port.write_all E loop_writes s))) = 0"
  using mosi_write_all [OF assms(1), of E loop_writes] assms(2)
  by (simp_all add: controller_def loop_writes_def loopback_ready_def in_loopback_def accepts_all_def lc_reset_def regs)

theorem frame_round_trip_witness:
  "result (rxBuffer0Read loop_env [0, 0, 0, 9])
     (exec (txBuffer0Send loop_env 0x12345678 [1, 2, 3, 4] 3) (port.write_all loop_env loop_writes demo_mcp))
   = (0x12345678, [1, 2, 3, 9], 3)"
proof -
  have "trace demo_mcp = []" by (simp add: demo_mcp_def demo_spi_def spi_st.extend_def)
  note ready = port.ready_write_all [OF spi_ready_demo_mcp] loop_writes_ready(1) [OF spi_ready_demo_mcp this]
  from frame_round_trip [OF loopback_loop_env ready, of "0x12345678" 3 "[1, 2, 3, 4]" "[0, 0, 0, 9]"]
  show ?thesis by (simp add: patch_def)
qed

end
