(* ===== verification/Bus_Sharing.thy ===== *)
theory Bus_Sharing
  imports Can_Props Loopback
begin

text \<open>
  Tasks that share the CAN controller.  The bus mutex makes one instruction (one selected transfer)
  indivisible, but the operations of the driver are sequences of instructions, and another task or the
  controller itself can come in between any two of them.  An operation is a program of register
  accesses here; a schedule says who makes the next step.
\<close>

section \<open>Programs of register accesses\<close>

text \<open>
  \<open>Wait_tx\<close> is the wait of \<open>txBuffer0SendInTask\<close> for the transmit semaphore when the buffer is marked,
  \<open>Mark_tx\<close> the marking.
\<close>

datatype 'r prog =
    Finish 'r
  | Read_reg u8 "u8 \<Rightarrow> 'r prog"
  | Write_reg u8 u8 "'r prog"
  | Modify_reg u8 u8 u8 "'r prog"
  | Wait_tx "'r prog"
  | Mark_tx "'r prog"

text \<open>A frame: identifier and data.\<close>

type_synonym frame = "u32 \<times> u8 list"

fun write_regs :: "(u8 \<times> u8) list \<Rightarrow> 'r prog \<Rightarrow> 'r prog" where
  "write_regs [] p = p"
| "write_regs ((a, d) # ws) p = Write_reg a d (write_regs ws p)"

definition send_accesses :: "u32 \<Rightarrow> u8 list \<Rightarrow> u8 \<Rightarrow> frame option prog" where
  "send_accesses canId buf len = write_regs (tx_writes canId buf len) (Finish None)"

definition send_in_task_accesses :: "u32 \<Rightarrow> u8 list \<Rightarrow> u8 \<Rightarrow> frame option prog" where
  "send_in_task_accesses canId buf len = Wait_tx (Mark_tx (send_accesses canId buf len))"

fun read_regs :: "u8 \<Rightarrow> nat list \<Rightarrow> u8 list \<Rightarrow> (u8 list \<Rightarrow> 'r prog) \<Rightarrow> 'r prog" where
  "read_regs base [] acc k = k acc"
| "read_regs base (i # is) acc k = Read_reg (base + of_nat i) (\<lambda>v. read_regs base is (acc @ [v]) k)"

definition receive_accesses :: "frame option prog" where
  "receive_accesses =
     Read_reg RXB0SIDH (\<lambda>sidh. Read_reg RXB0SIDL (\<lambda>sidl. Read_reg RXB0DLC (\<lambda>dlc.
       let data = (\<lambda>canId. read_regs RXB0D0 [0..<unat (dlc AND 0x0F)] [] (\<lambda>d. Finish (Some (canId, d))))
       in if sidl AND EXIDE_SET \<noteq> 0
          then Read_reg RXB0EID8 (\<lambda>eid8. Read_reg RXB0EID0 (\<lambda>eid0.
            data (push_bit 21 (ucast sidh) OR push_bit 18 (ucast (drop_bit 5 sidl))
                  OR push_bit 16 (ucast (sidl AND 3)) OR push_bit 8 (ucast eid8) OR ucast eid0)))
          else data (push_bit 3 (ucast sidh) OR ucast (drop_bit 5 sidl)))))"

definition receive1_accesses :: "frame option prog" where
  "receive1_accesses =
     Read_reg RXB1SIDH (\<lambda>sidh. Read_reg RXB1SIDL (\<lambda>sidl. Read_reg RXB1DLC (\<lambda>dlc.
       let data = (\<lambda>canId. read_regs RXB1D0 [0..<unat (dlc AND 0x0F)] [] (\<lambda>d. Finish (Some (canId, d))))
       in if sidl AND EXIDE_SET \<noteq> 0
          then Read_reg RXB1EID8 (\<lambda>eid8. Read_reg RXB1EID0 (\<lambda>eid0.
            data (push_bit 21 (ucast sidh) OR push_bit 18 (ucast (drop_bit 5 sidl))
                  OR push_bit 16 (ucast (sidl AND 3)) OR push_bit 8 (ucast eid8) OR ucast eid0)))
          else data (push_bit 3 (ucast sidh) OR ucast (drop_bit 5 sidl)))))"

text \<open>One pass of the service task, as the controller sees it.\<close>

definition service_accesses :: "frame option prog" where
  "service_accesses =
     Read_reg CANINTF (\<lambda>f.
       if f AND (MERRF OR WAKIF OR ERRIF) \<noteq> 0 then
         Read_reg EFLG (\<lambda>e. Modify_reg CANINTF (MERRF OR WAKIF OR ERRIF) 0
           (if e AND 0x20 \<noteq> 0
            then Write_reg CANCTRL REQOP_CONFIG (Write_reg CANCTRL (REQOP_NORMAL OR CLKOUT_ENABLED) (Finish None))
            else Finish None))
       else
         let clear = (\<lambda>b p. if f AND b \<noteq> 0 then Modify_reg CANINTF b 0 p else p)
         in clear RX0IF (clear RX1IF (clear TX0IF (Finish None))))"

text \<open>A filter set by a task: \<open>setFilter\<close> for a filter number below 6.\<close>

definition filter_accesses :: "u8 \<Rightarrow> u32 \<Rightarrow> bool \<Rightarrow> frame option prog" where
  "filter_accesses filterId canId extended =
     (let rxbCtrl = (if filterId < 2 then RXB0CTRL else RXB1CTRL)
      in Write_reg CANCTRL REQOP_CONFIG
          (write_regs (id_writes (filterSidh ! unat filterId) canId extended)
            (Write_reg CANCTRL (REQOP_NORMAL OR CLKOUT_ENABLED)
              (Read_reg rxbCtrl (\<lambda>ctrl. Write_reg rxbCtrl (ctrl AND NOT RXM) (Finish None))))))"

text \<open>The same for a mask, and the operations that set the bit timing and the interrupt registers.\<close>

definition mask_accesses :: "u8 \<Rightarrow> u32 \<Rightarrow> bool \<Rightarrow> frame option prog" where
  "mask_accesses maskId msk extended =
     (let rxbCtrl = [RXB0CTRL, RXB1CTRL] ! unat maskId
      in Write_reg CANCTRL REQOP_CONFIG
          (write_regs (id_writes (maskSidh ! unat maskId) msk extended)
            (Write_reg CANCTRL (REQOP_NORMAL OR CLKOUT_ENABLED)
              (Read_reg rxbCtrl (\<lambda>ctrl. Write_reg rxbCtrl (ctrl AND NOT RXM) (Finish None))))))"

definition bitrate_accesses :: "u8 list \<Rightarrow> frame option prog" where
  "bitrate_accesses row =
     Write_reg CNF1 (row ! 0) (Write_reg CNF2 (row ! 1) (Write_reg CNF3 (row ! 2) (Finish None)))"

definition clear_accesses :: "u8 \<Rightarrow> frame option prog" where
  "clear_accesses interruptMask = Write_reg CANINTF interruptMask (Finish None)"

definition enable_accesses :: "u8 \<Rightarrow> frame option prog" where
  "enable_accesses interruptMask = Write_reg CANINTE interruptMask (Finish None)"

section \<open>The programs are the code's\<close>

text \<open>A program as an operation of the driver.  The steps on \<open>_pendingTxBuf\<close> are not accesses of the bus.\<close>

primrec perform :: "env \<Rightarrow> 'r prog \<Rightarrow> (('g, 'a) mcp_st_scheme, 'r) state" where
  "perform E (Finish r) = return r"
| "perform E (Read_reg a k) = do { v \<leftarrow> readByte E a; perform E (k v) }"
| "perform E (Write_reg a d p) = do { writeByte E a d; perform E p }"
| "perform E (Modify_reg a m d p) = do { bitModify E a m d; perform E p }"
| "perform E (Wait_tx p) = perform E p"
| "perform E (Mark_tx p) = perform E p"

lemma run_perform_writes:
  "run_state (perform E (write_regs ws p)) s = run_state (perform E p) (port.write_all E ws s)"
  by (induction ws arbitrary: s) (auto simp: exec_def split_beta)

lemma exec_perform_writes:
  "exec (perform E (write_regs ws p)) s = exec (perform E p) (port.write_all E ws s)"
  by (simp add: exec_def run_perform_writes)

lemma perform_send:
  "unat len \<le> length buf \<Longrightarrow>
     run_state (perform E (send_accesses canId buf len)) s = (None, exec (txBuffer0Send E canId buf len) s)"
  by (simp add: send_accesses_def run_perform_writes exec_txBuffer0Send)

lemma perform_read_regs:
  "\<lbrakk> m \<le> n; length acc = m; take m buf = acc; n \<le> length buf \<rbrakk> \<Longrightarrow>
     run_state (perform E (read_regs base [m..<n] acc k)) s =
       (let (buf', t) = run_state (read_into E base [m..<n] buf) s in run_state (perform E (k (take n buf'))) t)"
proof (induction "n - m" arbitrary: m acc buf s)
  case 0
  then show ?case by simp
next
  case (Suc d)
  then have m: "[m..<n] = m # [Suc m..<n]" "m < length buf"
    by (simp_all add: upt_conv_Cons)
  obtain v t where v: "run_state (readByte E (base + of_nat m)) s = (v, t)" by fastforce
  have "run_state (perform E (read_regs base [Suc m..<n] (acc @ [v]) k)) t =
      (let (buf', u) = run_state (read_into E base [Suc m..<n] (buf[m := v])) t in run_state (perform E (k (take n buf'))) u)"
    using Suc m by (intro Suc.hyps) (auto simp: take_Suc_conv_app_nth)
  then show ?case
    using m v by (simp add: run_mem_store)
qed

lemma perform_receive:
  assumes "run_state (rxBuffer0Read E out) s = ((canId, out', len), t)" and "15 \<le> length out"
  shows "run_state (perform E receive_accesses) s = (Some (canId, take (unat len) out'), t)"
proof -
  have data: "run_state (perform E (read_regs RXB0D0 [0..<unat (dlc AND 0x0F)] [] k)) u =
      (let (buf', u') = run_state (read_into E RXB0D0 [0..<unat (dlc AND 0x0F)] out) u
       in run_state (perform E (k (take (unat (dlc AND 0x0F)) buf'))) u')"
    for dlc :: u8 and k :: "u8 list \<Rightarrow> frame option prog" and u
  proof -
    have "dlc AND 0x0F \<le> 0x0F" by (rule word_and_le1)
    then have "unat (dlc AND 0x0F) \<le> length out"
      using assms(2) by (simp add: word_le_nat_alt)
    then show ?thesis by (intro perform_read_regs) simp_all
  qed
  show ?thesis
    using assms(1) unfolding rxBuffer0Read_def receive_accesses_def
    by (auto simp: split_beta Let_def data split: if_splits prod.splits)
qed

lemma perform_receive1:
  assumes "run_state (rxBuffer1Read E out) s = ((canId, out', len), t)" and "15 \<le> length out"
  shows "run_state (perform E receive1_accesses) s = (Some (canId, take (unat len) out'), t)"
proof -
  have data: "run_state (perform E (read_regs RXB1D0 [0..<unat (dlc AND 0x0F)] [] k)) u =
      (let (buf', u') = run_state (read_into E RXB1D0 [0..<unat (dlc AND 0x0F)] out) u
       in run_state (perform E (k (take (unat (dlc AND 0x0F)) buf'))) u')"
    for dlc :: u8 and k :: "u8 list \<Rightarrow> frame option prog" and u
  proof -
    have "dlc AND 0x0F \<le> 0x0F" by (rule word_and_le1)
    then have "unat (dlc AND 0x0F) \<le> length out"
      using assms(2) by (simp add: word_le_nat_alt)
    then show ?thesis by (intro perform_read_regs) simp_all
  qed
  show ?thesis
    using assms(1) unfolding rxBuffer1Read_def receive1_accesses_def
    by (auto simp: split_beta Let_def data split: if_splits prod.splits)
qed

text \<open>The instructions of a service pass.\<close>

lemma perform_if: "perform E (if c then p else q) = (if c then perform E p else perform E q)"
  by simp

lemma service_mosi:
  assumes "spi_ready s"
  shows "mosi (trace (exec (service_pass E) s)) = mosi (trace (exec (perform E service_accesses) s))"
  using assms
  by (simp add: service_pass_def serve_flags_def serve_errors_def service_accesses_def when_do_def perform_if
      exec_bitModify exec_writeByte mosi_Cons Let_def)

text \<open>\<open>setFilter\<close> between its two calls of the bus mutex.\<close>

lemma perform_filter:
  assumes "filterId < 6"
  shows "exec (setFilter E filterId canId extended) s =
    exec (do { lock E; _ \<leftarrow> perform E (filter_accesses filterId canId extended); unlock }) s"
proof -
  have "\<not> 6 \<le> filterId" using assms by simp
  then show ?thesis
    by (simp add: setFilter_def filter_accesses_def exec_writeFilterOrMask exec_perform_writes Let_def)
qed

lemma perform_mask:
  assumes "maskId < 2"
  shows "exec (setMask E maskId msk extended) s =
    exec (do { lock E; _ \<leftarrow> perform E (mask_accesses maskId msk extended); unlock }) s"
proof -
  have "\<not> 2 \<le> maskId" using assms by simp
  then show ?thesis
    by (simp add: setMask_def mask_accesses_def exec_writeFilterOrMask exec_perform_writes Let_def)
qed

lemma perform_configuration:
  "exec (setMcp2515Bitrate E) s = exec (perform E (bitrate_accesses (Mcp_bitrateAddr s))) s"
  "exec (clearInterrupts E k) s = exec (perform E (clear_accesses k)) s"
  "exec (enableInterrupts E k) s = exec (perform E (enable_accesses k)) s"
  by (simp_all add: setMcp2515Bitrate_def bitrate_accesses_def clearInterrupts_def clear_accesses_def
      enableInterrupts_def enable_accesses_def)

section \<open>Tasks on one controller\<close>

text \<open>
  The registers of the controller, the frames whose transmission was requested, with the contents of
  the transmit buffer at that moment, and what the senders share: the mark of the buffer and the tokens of
  its semaphore.
\<close>

record shared_bus =
  bus_regs :: regs
  bus_sent :: "frame list"
  bus_marked :: bool
  bus_tokens :: nat

text \<open>The frame in the buffer at \<open>b\<close>, read the way the driver reads it: identifier, length and data registers.\<close>

definition frame_at :: "u8 \<Rightarrow> regs \<Rightarrow> frame" where
  "frame_at b R =
     ((if R (b + 2) AND 8 \<noteq> 0
       then push_bit 21 (ucast (R (b + 1))) OR push_bit 18 (ucast (drop_bit 5 (R (b + 2))))
              OR push_bit 16 (ucast (R (b + 2) AND 3)) OR push_bit 8 (ucast (R (b + 3))) OR ucast (R (b + 4))
       else push_bit 3 (ucast (R (b + 1))) OR ucast (drop_bit 5 (R (b + 2)))),
      map (\<lambda>i. R (b + 6 + of_nat i)) [0..<unat (R (b + 5) AND 0x0F)])"

definition modified :: "u8 \<Rightarrow> u8 \<Rightarrow> u8 \<Rightarrow> u8" where
  "modified old m d = (old AND NOT m) OR (d AND m)"

text \<open>What goes out on the bus: at most eight data bytes.\<close>

definition tx_frame :: "regs \<Rightarrow> frame" where
  "tx_frame R = (fst (frame_at 0x30 R), take 8 (snd (frame_at 0x30 R)))"

text \<open>Writing TXREQ of transmit buffer 0 requests the transmission of what the buffer holds.\<close>

definition requests :: "u8 \<Rightarrow> u8 \<Rightarrow> bool" where
  "requests a d \<longleftrightarrow> a = TXB0CTRL \<and> d AND 8 \<noteq> 0"

fun step_prog :: "'r prog \<Rightarrow> shared_bus \<Rightarrow> ('r prog \<times> shared_bus) option" where
  "step_prog (Finish r) b = None"
| "step_prog (Read_reg a k) b = Some (k (bus_regs b a), b)"
| "step_prog (Write_reg a d p) b =
     Some (p, b\<lparr>bus_regs := (bus_regs b)(a := d),
                bus_sent := bus_sent b @ (if requests a d then [tx_frame (bus_regs b)] else [])\<rparr>)"
| "step_prog (Modify_reg a m d p) b = Some (p, b\<lparr>bus_regs := (bus_regs b)(a := modified (bus_regs b a) m d)\<rparr>)"
| "step_prog (Wait_tx p) b =
     (if bus_marked b
      then if 0 < bus_tokens b then Some (p, b\<lparr>bus_tokens := bus_tokens b - 1\<rparr>) else None
      else Some (p, b))"
| "step_prog (Mark_tx p) b = Some (p, b\<lparr>bus_marked := True\<rparr>)"

text \<open>A schedule: a step of a task, or a change the controller makes to its registers.\<close>

datatype turn = Task nat | Controller "regs \<Rightarrow> regs"

fun take_turn :: "turn \<Rightarrow> 'r prog list \<times> shared_bus \<Rightarrow> ('r prog list \<times> shared_bus) option" where
  "take_turn (Task i) (ps, b) =
     (if i < length ps then map_option (\<lambda>(p, b'). (ps[i := p], b')) (step_prog (ps ! i) b) else None)"
| "take_turn (Controller h) (ps, b) = Some (ps, b\<lparr>bus_regs := h (bus_regs b)\<rparr>)"

fun run_tasks :: "turn list \<Rightarrow> 'r prog list \<times> shared_bus \<Rightarrow> ('r prog list \<times> shared_bus) option" where
  "run_tasks [] s = Some s"
| "run_tasks (x # xs) s = Option.bind (take_turn x s) (run_tasks xs)"

section \<open>Isolation\<close>

text \<open>
  A program that, started on the registers \<open>R\<close>, reads only registers of \<open>A\<close> and writes only those and
  TXB0CTRL; and one that never writes a register of \<open>A\<close>.
\<close>

primrec confined :: "u8 set \<Rightarrow> 'r prog \<Rightarrow> regs \<Rightarrow> bool" where
  "confined A (Finish r) R = True"
| "confined A (Read_reg a k) R = (a \<in> A \<and> confined A (k (R a)) R)"
| "confined A (Write_reg a d p) R = ((a \<in> A \<or> a = TXB0CTRL) \<and> confined A p (R(a := d)))"
| "confined A (Modify_reg a m d p) R = (a \<in> A \<and> confined A p (R(a := modified (R a) m d)))"
| "confined A (Wait_tx p) R = False"
| "confined A (Mark_tx p) R = False"

primrec avoids :: "u8 set \<Rightarrow> 'r prog \<Rightarrow> bool" where
  "avoids A (Finish r) = True"
| "avoids A (Read_reg a k) = (\<forall>v. avoids A (k v))"
| "avoids A (Write_reg a d p) = (a \<notin> A \<and> avoids A p)"
| "avoids A (Modify_reg a m d p) = (a \<notin> A \<and> avoids A p)"
| "avoids A (Wait_tx p) = avoids A p"
| "avoids A (Mark_tx p) = avoids A p"

definition leaves :: "u8 set \<Rightarrow> turn \<Rightarrow> bool" where
  "leaves A x \<longleftrightarrow> (case x of Task i \<Rightarrow> True | Controller h \<Rightarrow> \<forall>R. \<forall>a\<in>A. h R a = R a)"

text \<open>What a program does alone: its result and the frames it requests.\<close>

primrec outcome :: "'r prog \<Rightarrow> regs \<Rightarrow> 'r \<times> frame list" where
  "outcome (Finish r) R = (r, [])"
| "outcome (Read_reg a k) R = outcome (k (R a)) R"
| "outcome (Write_reg a d p) R =
     (let (r, fs) = outcome p (R(a := d)) in (r, (if requests a d then [tx_frame R] else []) @ fs))"
| "outcome (Modify_reg a m d p) R = outcome p (R(a := modified (R a) m d))"
| "outcome (Wait_tx p) R = outcome p R"
| "outcome (Mark_tx p) R = outcome p R"

definition rx_window :: "u8 set" where
  "rx_window = {0x61..0x6D}"

definition agree :: "u8 set \<Rightarrow> regs \<Rightarrow> regs \<Rightarrow> bool" where
  "agree A R S \<longleftrightarrow> (\<forall>a\<in>A. R a = S a)"

lemma agreeD: "agree A R S \<Longrightarrow> a \<in> A \<Longrightarrow> R a = S a"
  and agree_refl [simp]: "agree A R R"
  and agree_trans: "agree A R S \<Longrightarrow> agree A S T \<Longrightarrow> agree A R T"
  and agree_update: "agree A R S \<Longrightarrow> agree A (R(a := d)) (S(a := d))"
  and agree_subset: "agree B R S \<Longrightarrow> A \<subseteq> B \<Longrightarrow> agree A R S"
  by (auto simp: agree_def)

lemma tx_frame_cong: "agree tx_window R S \<Longrightarrow> tx_frame R = tx_frame S"
proof -
  assume agree: "agree tx_window R S"
  have reg: "R (0x30 + a) = S (0x30 + a)" if "1 \<le> a" "a \<le> 13" for a
  proof -
    have "0x30 + a \<in> tx_window"
      using that by (auto simp: tx_window_def word_le_nat_alt unat_word_ariths)
    with agree show ?thesis by (rule agreeD)
  qed
  have "R (0x36 + of_nat i) = S (0x36 + of_nat i)" if "i < 8" for i
  proof -
    have "i = 0 \<or> i = 1 \<or> i = 2 \<or> i = 3 \<or> i = 4 \<or> i = 5 \<or> i = 6 \<or> i = 7" using that by linarith
    then show ?thesis
      using reg [of 6] reg [of 7] reg [of 8] reg [of 9] reg [of 10] reg [of 11] reg [of 12] reg [of 13] by auto
  qed
  then have "map (\<lambda>i. R (0x36 + of_nat i)) (take 8 [0..<n]) = map (\<lambda>i. S (0x36 + of_nat i)) (take 8 [0..<n])" for n
    by (intro map_cong refl) (cases "8 \<le> n"; simp)
  then show ?thesis
    using reg [of 1] reg [of 2] reg [of 3] reg [of 4] reg [of 5]
    by (simp add: tx_frame_def frame_at_def take_map)
qed

lemma confined_cong: "confined A p R \<Longrightarrow> agree A R S \<Longrightarrow> confined A p S"
proof (induction p arbitrary: R S)
  case (Read_reg a k)
  then show ?case using agreeD [OF Read_reg.prems(2), of a] by auto
next
  case (Modify_reg a m d p)
  then show ?case using agreeD [OF Modify_reg.prems(2), of a] by (auto intro: agree_update)
qed (auto intro: agree_update)

lemma outcome_cong:
  "confined A p R \<Longrightarrow> agree A R S \<Longrightarrow>
     fst (outcome p R) = fst (outcome p S) \<and> (tx_window \<subseteq> A \<longrightarrow> outcome p R = outcome p S)"
proof (induction p arbitrary: R S)
  case (Read_reg a k)
  then show ?case using agreeD [OF Read_reg.prems(2), of a] by auto
next
  case (Write_reg a d p)
  have "fst (outcome p (R(a := d))) = fst (outcome p (S(a := d)))
      \<and> (tx_window \<subseteq> A \<longrightarrow> outcome p (R(a := d)) = outcome p (S(a := d)))"
    using Write_reg.IH [OF _ agree_update [OF Write_reg.prems(2), of a d]] Write_reg.prems(1)
    unfolding confined.simps by blast
  moreover have "tx_window \<subseteq> A \<Longrightarrow> tx_frame R = tx_frame S"
    using Write_reg.prems(2) by (blast intro: tx_frame_cong agree_subset)
  ultimately show ?case by (auto simp: split_beta Let_def)
next
  case (Modify_reg a m d p)
  then show ?case using agreeD [OF Modify_reg.prems(2), of a] by (auto intro: agree_update)
qed auto

text \<open>The state of a task among others that leave the registers \<open>A\<close> alone.\<close>

definition isolated :: "u8 set \<Rightarrow> u8 set \<Rightarrow> nat \<Rightarrow> 'r prog list \<times> shared_bus \<Rightarrow> bool" where
  "isolated A B i s \<longleftrightarrow> A \<subseteq> B \<and> i < length (fst s) \<and> confined A (fst s ! i) (bus_regs (snd s))
     \<and> (\<forall>j < length (fst s). j \<noteq> i \<longrightarrow> avoids B (fst s ! j))"

definition task_outcome :: "nat \<Rightarrow> 'r prog list \<times> shared_bus \<Rightarrow> 'r" where
  "task_outcome i s = fst (outcome (fst s ! i) (bus_regs (snd s)))"

definition all_sent :: "nat \<Rightarrow> 'r prog list \<times> shared_bus \<Rightarrow> frame list" where
  "all_sent i s = bus_sent (snd s) @ snd (outcome (fst s ! i) (bus_regs (snd s)))"

lemma own_step:
  assumes "step_prog p b = Some (q, c)" and "confined A p (bus_regs b)"
  shows "confined A q (bus_regs c)" "fst (outcome q (bus_regs c)) = fst (outcome p (bus_regs b))"
    "bus_sent c @ snd (outcome q (bus_regs c)) = bus_sent b @ snd (outcome p (bus_regs b))"
  using assms by (cases p; auto simp: split_beta Let_def)+

lemma foreign_step:
  assumes "step_prog p b = Some (q, c)" and "avoids B p"
  shows "avoids B q" "agree B (bus_regs b) (bus_regs c)" "TXB0CTRL \<in> B \<Longrightarrow> bus_sent c = bus_sent b"
  using assms by (cases p; auto simp: agree_def requests_def split: if_splits)+

lemma isolated_turn:
  assumes "isolated A B i (ps, b)" and "take_turn x (ps, b) = Some (qs, c)" and "leaves A x"
  shows "isolated A B i (qs, c) \<and> task_outcome i (qs, c) = task_outcome i (ps, b)
       \<and> (tx_window \<subseteq> A \<and> TXB0CTRL \<in> B \<longrightarrow> all_sent i (qs, c) = all_sent i (ps, b))"
proof (cases "x = Task i")
  case True
  with assms(1,2) obtain q where q: "step_prog (ps ! i) b = Some (q, c)" "qs = ps[i := q]"
    by (auto split: if_splits)
  then show ?thesis
    using own_step [OF q(1)] assms(1) by (auto simp: isolated_def task_outcome_def all_sent_def)
next
  case False
  have "qs ! i = ps ! i \<and> length qs = length ps \<and> agree A (bus_regs b) (bus_regs c)
      \<and> (\<forall>j < length qs. j \<noteq> i \<longrightarrow> avoids B (qs ! j)) \<and> (TXB0CTRL \<in> B \<longrightarrow> bus_sent c = bus_sent b)"
  proof (cases x)
    case (Task j)
    with False assms(1,2) obtain q where "step_prog (ps ! j) b = Some (q, c)" "qs = ps[j := q]" "j < length ps" "j \<noteq> i"
      by (auto split: if_splits)
    moreover then have "avoids B (ps ! j)"
      using assms(1) by (simp add: isolated_def)
    ultimately show ?thesis
      using foreign_step [of "ps ! j" b q c B] assms(1)
      by (auto simp: isolated_def nth_list_update intro: agree_subset)
  next
    case (Controller h)
    with assms show ?thesis
      by (auto simp: isolated_def leaves_def agree_def)
  qed
  then show ?thesis
    using assms(1) outcome_cong [of A "ps ! i" "bus_regs b" "bus_regs c"] confined_cong [of A "ps ! i" "bus_regs b" "bus_regs c"]
    unfolding isolated_def task_outcome_def all_sent_def by auto
qed

lemma isolated_run:
  "isolated A B i s \<Longrightarrow> run_tasks xs s = Some t \<Longrightarrow> list_all (leaves A) xs \<Longrightarrow>
     isolated A B i t \<and> task_outcome i t = task_outcome i s
     \<and> (tx_window \<subseteq> A \<and> TXB0CTRL \<in> B \<longrightarrow> all_sent i t = all_sent i s)"
proof (induction xs arbitrary: s)
  case (Cons x xs)
  obtain ps b where s: "s = (ps, b)" by (cases s)
  from Cons.prems(2) obtain qs c where turn: "take_turn x (ps, b) = Some (qs, c)" "run_tasks xs (qs, c) = Some t"
    unfolding s by (auto split: bind_splits)
  from isolated_turn [OF Cons.prems(1) [unfolded s] turn(1)] Cons.prems(3)
  show ?case
    using Cons.IH [of "(qs, c)"] turn(2) s by auto
qed simp

section \<open>What the driver's operations touch\<close>

lemma confined_writes:
  "\<forall>(a, d) \<in> set ws. a \<in> A \<or> a = TXB0CTRL \<Longrightarrow> confined A (write_regs ws (Finish r)) R"
  by (induction ws arbitrary: R) auto

lemma avoids_writes: "\<forall>(a, d) \<in> set ws. a \<notin> B \<Longrightarrow> avoids B p \<Longrightarrow> avoids B (write_regs ws p)"
  by (induction ws) auto

lemma send_confined: "unat len \<le> 8 \<Longrightarrow> confined tx_window (send_accesses canId buf len) R"
  unfolding send_accesses_def by (rule confined_writes) (auto simp: tx_writes_body dest: tx_body_window)

definition tx_registers :: "u8 set" where
  "tx_registers = insert TXB0CTRL tx_window"

text \<open>The operations of the driver that do not send, but for the reset of the controller.\<close>

definition other_operation :: "frame option prog \<Rightarrow> bool" where
  "other_operation p \<longleftrightarrow> p = service_accesses \<or> p = receive_accesses \<or> p = receive1_accesses
     \<or> (\<exists>f canId ext. f < 6 \<and> p = filter_accesses f canId ext)
     \<or> (\<exists>f msk ext. f < 2 \<and> p = mask_accesses f msk ext)
     \<or> (\<exists>row. p = bitrate_accesses row) \<or> (\<exists>k. p = clear_accesses k \<or> p = enable_accesses k)"

lemma avoids_read_regs: "(\<And>d. avoids B (k d)) \<Longrightarrow> avoids B (read_regs base is acc k)"
  by (induction "is" arbitrary: acc) auto

lemma avoids_receive: "avoids B receive_accesses" "avoids B receive1_accesses"
  by (simp_all add: receive_accesses_def receive1_accesses_def Let_def avoids_read_regs)

lemma avoids_service: "CANINTF \<notin> B \<Longrightarrow> CANCTRL \<notin> B \<Longrightarrow> avoids B service_accesses"
  by (simp add: service_accesses_def Let_def)

lemma u8_below_6: "(f :: u8) < 6 \<Longrightarrow> f = 0 \<or> f = 1 \<or> f = 2 \<or> f = 3 \<or> f = 4 \<or> f = 5"
proof -
  assume "f < 6"
  then have "unat f < 6" by (simp add: word_less_nat_alt)
  then have "unat f \<in> {0, 1, 2, 3, 4, 5}" by auto
  then show ?thesis by (auto simp: word_unat_eq_iff)
qed

lemma avoids_filter:
  assumes "f < 6" and "B \<subseteq> {0x30..0x3D} \<union> {0x61..0x6D}"
  shows "avoids B (filter_accesses f canId ext)"
proof -
  have out: "a \<notin> B" if "a < 0x30 \<or> a = 0x60 \<or> a = 0x70" for a
    using assms(2) that by (auto simp: subset_iff word_le_nat_alt word_less_nat_alt)
  show ?thesis
    using u8_below_6 [OF assms(1)] unfolding filter_accesses_def
    by (elim disjE) (auto simp: Let_def filterSidh_def id_writes_def regs intro!: avoids_writes out)
qed

lemma avoids_mask:
  assumes "f < 2" and "B \<subseteq> {0x30..0x3D} \<union> {0x61..0x6D}"
  shows "avoids B (mask_accesses f msk ext)"
proof -
  have out: "a \<notin> B" if "a < 0x30 \<or> a = 0x60 \<or> a = 0x70" for a
    using assms(2) that by (auto simp: subset_iff word_le_nat_alt word_less_nat_alt)
  have "f < 6" using assms(1) by (rule order_less_trans) simp
  then have "f = 0 \<or> f = 1" using u8_below_6 [of f] assms(1) by auto
  then show ?thesis
    unfolding mask_accesses_def
    by (elim disjE) (auto simp: Let_def maskSidh_def id_writes_def regs intro!: avoids_writes out)
qed

lemma avoids_configuration:
  assumes "B \<subseteq> {0x30..0x3D} \<union> {0x61..0x6D}"
  shows "avoids B (bitrate_accesses row)" "avoids B (clear_accesses k)" "avoids B (enable_accesses k)"
proof -
  have out: "a \<notin> B" if "a < 0x30" for a
    using assms that by (auto simp: subset_iff word_le_nat_alt word_less_nat_alt)
  show "avoids B (bitrate_accesses row)" "avoids B (clear_accesses k)" "avoids B (enable_accesses k)"
    by (auto simp: bitrate_accesses_def clear_accesses_def enable_accesses_def regs intro!: out)
qed

lemma avoids_other:
  assumes "other_operation p" and "B \<subseteq> {0x30..0x3D} \<union> {0x61..0x6D}"
  shows "avoids B p"
proof -
  have "avoids B service_accesses"
    using assms(2) by (intro avoids_service) (auto simp: regs word_le_nat_alt)
  with assms(1) show ?thesis
    using avoids_receive avoids_filter [OF _ assms(2)] avoids_mask [OF _ assms(2)] avoids_configuration [OF assms(2)]
    unfolding other_operation_def by blast
qed

section \<open>The outcome of a send\<close>

lemma outcome_writes:
  "\<forall>(a, d) \<in> set ws. \<not> requests a d \<Longrightarrow> outcome (write_regs ws p) R = outcome p (written R ws)"
  by (induction ws arbitrary: R) (auto simp: Let_def split_beta)

lemma write_regs_append: "write_regs (ws @ vs) p = write_regs ws (write_regs vs p)"
  by (induction ws) auto

lemma tx_body_requests:
  "unat len \<le> 8 \<Longrightarrow> (a, d) \<in> set (tx_body canId buf len) \<Longrightarrow> a \<noteq> TXB0CTRL"
  using tx_body_window [of len a d canId buf] by (auto simp: tx_window_def regs)

text \<open>The transmit buffer after the registers of a frame were written holds that frame.\<close>

lemma tx_frame_body:
  assumes "canId < 2 ^ 29" and "unat len \<le> 8" and "unat len \<le> length buf"
  shows "tx_frame (written R (tx_body canId buf len)) = (canId, take (unat len) buf)"
proof -
  define V where "V = written R (tx_body canId buf len)"
  have V: "V a = reg_value (tx_writes canId buf len) a" if "a \<in> fst ` set (tx_body canId buf len)" for a
    unfolding V_def by (rule tx_body_value [OF assms(2) that])
  note vals = tx_reg_values [OF assms(2), where W = "[]", unfolded append_Nil]
  have data: "map (\<lambda>i. V (0x36 + of_nat i)) [0..<unat len] = take (unat len) buf"
  proof (rule nth_equalityI)
    fix i assume "i < length (map (\<lambda>i. V (0x36 + of_nat i)) [0..<unat len])"
    then have "i < unat len" by simp
    moreover then have "(0x36 + of_nat i :: u8) \<in> fst ` set (tx_body canId buf len)"
      by (force simp: tx_body_def set_tx_data regs image_iff)
    ultimately show "map (\<lambda>i. V (0x36 + of_nat i)) [0..<unat len] ! i = take (unat len) buf ! i"
      by (simp add: V vals)
  qed (use assms(3) in simp)
  have dlc: "V 0x35 = len" and hdr: "V 0x31 = reg_value (tx_writes canId buf len) 0x31"
    "V 0x32 = reg_value (tx_writes canId buf len) 0x32"
    using V vals(1) by (auto simp: tx_body_def tx_header_def regs)
  have eid: "canId > 0x7FF \<Longrightarrow> V 0x33 = ucast (drop_bit 8 canId) \<and> V 0x34 = ucast canId"
    using V vals(5,6) by (auto simp: tx_body_def tx_header_def regs)
  have "canId < 2 ^ 11" if "\<not> canId > 0x7FF"
    using that by (simp add: word_less_nat_alt)
  then have id: "take_bit 29 canId = canId" "\<not> canId > 0x7FF \<Longrightarrow> take_bit 11 canId = canId"
    using take_bit_small [of canId 29] take_bit_small [of canId 11] assms(1) by simp_all
  have "tx_frame V = (canId, take (unat len) buf)"
    using assms(2,3) id data
    by (cases "canId > 0x7FF")
      (simp_all add: tx_frame_def frame_at_def dlc hdr eid vals and_15_id and_3_take and_7_take
        sidl_low [unfolded and_3_take] sidl_high sidl_extended sidl_standard sidl_standard_high ucast_u8_u32
        extended_parts standard_parts)
  then show ?thesis by (simp only: V_def)
qed

lemma outcome_send:
  assumes "canId < 2 ^ 29" and "unat len \<le> 8" and "unat len \<le> length buf"
  shows "outcome (send_accesses canId buf len) R = (None, [(canId, take (unat len) buf)])"
  using tx_body_requests [OF assms(2)]
  by (subst send_accesses_def, simp only: tx_writes_body write_regs_append, subst outcome_writes)
    (auto simp: requests_def tx_frame_body [OF assms])

section \<open>Properties\<close>

text \<open>
  C8: a frame sent while other tasks use the controller goes out whole.  In any schedule in which the
  other tasks run service passes, receives and changes of the configuration (filters, masks, bit timing,
  interrupt registers), instruction by instruction between those of \<open>txBuffer0Send\<close>, and the
  controller does what it likes outside the transmit buffer, a send of up to eight bytes that finishes has requested exactly its own frame, identifier and data, and nothing else was requested.\<close>

theorem send_is_isolated:
  assumes "run_tasks xs (ps, b) = Some (qs, c)"
    and "i < length ps" and "ps ! i = send_accesses canId buf len" and "qs ! i = Finish r"
    and "canId < 2 ^ 29" and "unat len \<le> 8" and "unat len \<le> length buf"
    and "\<And>j. j < length ps \<Longrightarrow> j \<noteq> i \<Longrightarrow> other_operation (ps ! j)" and "list_all (leaves tx_window) xs"
  shows "bus_sent c = bus_sent b @ [(canId, take (unat len) buf)]"
proof -
  have "tx_registers \<subseteq> {0x30..0x3D}"
    by (auto simp: tx_registers_def tx_window_def regs intro: order_trans)
  then have "avoids tx_registers (ps ! j)" if "j < length ps" "j \<noteq> i" for j
    using assms(8) [OF that] by (intro avoids_other) auto
  then have "isolated tx_window tx_registers i (ps, b)"
    using assms(2,3,6) by (auto simp: isolated_def tx_registers_def send_confined)
  from isolated_run [OF this assms(1,9)]
  have "all_sent i (qs, c) = all_sent i (ps, b)"
    by (simp add: tx_registers_def)
  then show ?thesis
    using outcome_send [OF assms(5-7)] assms(3,4) by (simp add: all_sent_def)
qed

text \<open>A receive alone returns the frame in the buffer.\<close>

lemma outcome_read_regs:
  "outcome (read_regs base is acc k) R = outcome (k (acc @ map (\<lambda>i. R (base + of_nat i)) is)) R"
  by (induction "is" arbitrary: acc) auto

lemma outcome_receive: "outcome receive_accesses R = (Some (frame_at 0x60 R), [])"
  by (simp add: receive_accesses_def Let_def outcome_read_regs frame_at_def regs)

lemma confined_read_regs:
  "\<forall>i \<in> set is. base + of_nat i \<in> A \<Longrightarrow> (\<And>d. confined A (k d) R) \<Longrightarrow> confined A (read_regs base is acc k) R"
  by (induction "is" arbitrary: acc) auto

lemma confined_receive: "unat (R 0x65 AND 15) \<le> 8 \<Longrightarrow> confined rx_window receive_accesses R"
proof -
  assume len: "unat (R 0x65 AND 15) \<le> 8"
  have "confined rx_window (read_regs 0x66 [0..<unat (R 0x65 AND 15)] [] k) R"
    if "\<And>d. confined rx_window (k d) R" for k :: "u8 list \<Rightarrow> frame option prog"
    using len data_addr that by (intro confined_read_regs) (auto simp: rx_window_def intro: order_trans)
  then show ?thesis
    by (simp add: receive_accesses_def Let_def regs) (simp add: rx_window_def)
qed

text \<open>
  C9: a receive is a snapshot of the buffer as long as the controller leaves the buffer alone.  In any
  schedule in which each other task runs, instruction by instruction, a service pass, a receive from either
  buffer, a change of a filter, a mask, the bit timing or the interrupt registers, or a send of up to eight
  data bytes, and the controller stores no frame in receive buffer 0, a receive from buffer 0 of a frame
  of up to eight bytes returns the identifier and the data that were in the buffer when the schedule began.
  Left out are the reset of the controller, which clears the buffer, and sends of more than eight bytes,
  which write past the transmit buffer.\<close>

theorem receive_is_isolated:
  assumes "run_tasks xs (ps, b) = Some (qs, c)"
    and "i < length ps" and "ps ! i = receive_accesses" and "qs ! i = Finish r"
    and "unat (bus_regs b 0x65 AND 15) \<le> 8"
    and "\<And>j. j < length ps \<Longrightarrow> j \<noteq> i \<Longrightarrow> other_operation (ps ! j)
           \<or> (\<exists>canId buf len. unat len \<le> 8 \<and> (ps ! j = send_accesses canId buf len \<or> ps ! j = send_in_task_accesses canId buf len))"
    and "list_all (leaves rx_window) xs"
  shows "r = Some (frame_at 0x60 (bus_regs b))"
proof -
  have apart: "a \<notin> rx_window" if "a \<in> tx_window \<or> a = TXB0CTRL" for a
    using that by (auto simp: tx_window_def rx_window_def regs word_le_nat_alt)
  have "avoids rx_window (send_accesses canId buf len)" if "unat len \<le> 8" for canId buf len
    unfolding send_accesses_def using tx_body_window [OF that] apart
    by (intro avoids_writes) (auto simp: tx_writes_body)
  then have "avoids rx_window (ps ! j)" if "j < length ps" "j \<noteq> i" for j
    using assms(6) [OF that] avoids_other [of "ps ! j" rx_window]
    by (auto simp: send_in_task_accesses_def rx_window_def)
  then have "isolated rx_window rx_window i (ps, b)"
    using assms(2,3) confined_receive [of "bus_regs b"] assms(5) by (simp add: isolated_def)
  from isolated_run [OF this assms(1,7)]
  show ?thesis
    using assms(3,4) by (simp add: task_outcome_def outcome_receive)
qed

text \<open>Runs of one task between the steps of the others.\<close>

lemma run_tasks_append: "run_tasks (xs @ ys) s = Option.bind (run_tasks xs s) (run_tasks ys)"
  by (induction xs arbitrary: s) (simp_all split: bind_splits)

lemma list_update_same: "ps ! i = p \<Longrightarrow> ps[i := p] = ps"
  by auto

lemma run_reads:
  "i < length ps \<Longrightarrow> ps ! i = read_regs base is acc k \<Longrightarrow>
     run_tasks (replicate (length is) (Task i)) (ps, b)
       = Some (ps[i := k (acc @ map (\<lambda>n. bus_regs b (base + of_nat n)) is)], b)"
proof (induction "is" arbitrary: acc ps)
  case (Cons n "is")
  then show ?case
    using Cons.IH [of "ps[i := read_regs base is (acc @ [bus_regs b (base + of_nat n)]) k]"
        "acc @ [bus_regs b (base + of_nat n)]"] by simp
qed (simp add: list_update_same)

lemma run_writes:
  "i < length ps \<Longrightarrow> ps ! i = write_regs ws p \<Longrightarrow> \<forall>(a, d) \<in> set ws. \<not> requests a d \<Longrightarrow>
     run_tasks (replicate (length ws) (Task i)) (ps, b)
       = Some (ps[i := p], b\<lparr>bus_regs := written (bus_regs b) ws\<rparr>)"
proof (induction ws arbitrary: ps b)
  case (Cons w ws)
  obtain a d where w: "w = (a, d)" by (cases w)
  then show ?case
    using Cons.IH [of "ps[i := write_regs ws p]" "b\<lparr>bus_regs := (bus_regs b)(a := d)\<rparr>"] Cons.prems
    by (simp del: fun_upd_apply)
qed (simp add: list_update_same)

text \<open>
  The controller as its data sheet describes it: a received frame is stored in buffer 0, and RX0IF set,
  only while RX0IF is clear.  The frame is given by the registers \<open>F\<close> of the buffer.
\<close>

definition store_frame :: "regs \<Rightarrow> regs \<Rightarrow> regs" where
  "store_frame F R =
     (if R CANINTF AND RX0IF \<noteq> 0 then R
      else (\<lambda>a. if a \<in> rx_window then F a else if a = CANINTF then R CANINTF OR RX0IF else R a))"

text \<open>The reads of the receive before the data, and the instructions of a pass that handles RX0IF.\<close>

definition header_reads :: "regs \<Rightarrow> nat" where
  "header_reads F = (if F 0x62 AND EXIDE_SET \<noteq> 0 then 5 else 3)"

definition pass_steps :: "u8 \<Rightarrow> nat" where
  "pass_steps f = 2 + of_bool (f AND RX1IF \<noteq> 0) + of_bool (f AND TX0IF \<noteq> 0)"

lemma modified_apart: "m AND k = 0 \<Longrightarrow> modified g m 0 AND k = g AND k"
  and modified_self [simp]: "modified g m 0 AND m = 0"
  by (auto simp: modified_def bit_eq_iff bit_and_iff bit_not_iff)

lemma pass_run:
  assumes "bus_regs b CANINTF AND (MERRF OR WAKIF OR ERRIF) = 0" and "bus_regs b CANINTF AND RX0IF \<noteq> 0"
  shows "\<exists>f. f AND RX0IF = 0 \<and>
    run_tasks (replicate (pass_steps (bus_regs b CANINTF)) (Task 0)) ([service_accesses, q], b)
      = Some ([Finish None, q], b\<lparr>bus_regs := (bus_regs b)(CANINTF := f)\<rparr>)"
proof -
  have clear: "(modified g RX1IF 0 AND RX0IF) = g AND RX0IF" "(modified g TX0IF 0 AND RX0IF) = g AND RX0IF" for g
    by (simp_all add: modified_apart regs)
  let ?f = "bus_regs b CANINTF" and ?cl = "\<lambda>m g. if bus_regs b CANINTF AND m \<noteq> 0 then modified g m 0 else g"
  show ?thesis
    using assms
    by (intro exI [of _ "?cl TX0IF (?cl RX1IF (modified ?f RX0IF 0))"])
      (cases "?f AND RX1IF = 0"; cases "?f AND TX0IF = 0";
        simp add: service_accesses_def pass_steps_def eval_nat_numeral clear)
qed

lemma header_run:
  assumes "agree rx_window F (bus_regs b)"
  shows "run_tasks (replicate (header_reads F) (Task 1)) ([p, receive_accesses], b)
    = Some ([p, read_regs 0x66 [0..<unat (F 0x65 AND 15)] [] (\<lambda>d. Finish (Some (fst (frame_at 0x60 F), d)))], b)"
proof -
  have F: "bus_regs b 0x61 = F 0x61" "bus_regs b 0x62 = F 0x62" "bus_regs b 0x63 = F 0x63" "bus_regs b 0x64 = F 0x64"
    "bus_regs b 0x65 = F 0x65"
    using agreeD [OF assms] by (simp_all add: rx_window_def)
  show ?thesis
    by (cases "F 0x62 AND 8 = 0")
      (simp_all add: receive_accesses_def header_reads_def frame_at_def regs F Let_def eval_nat_numeral)
qed

text \<open>
  C25: with the flag cleared before the buffer is read, a frame can be torn.  For every two frames: the
  controller stores the first, the service pass clears RX0IF, the receiver reads identifier and length, the
  controller, free to use the buffer again, stores the second, and the receiver reads its data: it gets the
  identifier and length of the first with the data registers of the second.  Were the flag still set when
  the buffer is read, as it is with no pass in between, the controller would keep the second frame away and
  the same reads would return the first one whole.\<close>

theorem torn_receive:
  assumes "bus_regs b CANINTF AND (MERRF OR WAKIF OR ERRIF) = 0" and "bus_regs b CANINTF AND RX0IF = 0" and "unat (F 0x65 AND 15) \<le> 8"
  shows "map_option fst (run_tasks
     (Controller (store_frame F) # replicate (pass_steps (bus_regs b CANINTF)) (Task 0)
        @ replicate (header_reads F) (Task 1)
        @ Controller (store_frame G) # replicate (unat (F 0x65 AND 15)) (Task 1))
     ([service_accesses, receive_accesses], b))
   = Some [Finish None,
       Finish (Some (fst (frame_at 0x60 F), map (\<lambda>i. G (0x66 + of_nat i)) [0..<unat (F 0x65 AND 15)]))]
   \<and> map_option fst (run_tasks
     (Controller (store_frame F)
        # replicate (header_reads F) (Task 1)
        @ Controller (store_frame G) # replicate (unat (F 0x65 AND 15)) (Task 1))
     ([service_accesses, receive_accesses], b))
   = Some [service_accesses, Finish (Some (frame_at 0x60 F))]"
proof -
  let ?n = "unat (F 0x65 AND 15)" and ?f = "bus_regs b CANINTF OR RX0IF"
  define c where "c = b\<lparr>bus_regs := store_frame F (bus_regs b)\<rparr>"
  have c: "bus_regs c CANINTF = ?f" "agree rx_window F (bus_regs c)"
    using assms(2) by (simp_all add: c_def store_frame_def agree_def rx_window_def regs)
  have f: "?f AND (MERRF OR WAKIF OR ERRIF) = 0" "?f AND RX0IF \<noteq> 0" "pass_steps ?f = pass_steps (bus_regs b CANINTF)"
    using assms(1) by (simp_all add: pass_steps_def regs bit.conj_disj_distrib2)
  have data: "(0x66 + of_nat i :: u8) \<in> rx_window" if "i < ?n" for i
    using data_addr [of i] that assms(3) by (auto simp: rx_window_def intro: order_trans)
  have reads: "map (\<lambda>i. bus_regs d (0x66 + of_nat i)) [0..<?n] = map (\<lambda>i. H (0x66 + of_nat i)) [0..<?n]"
    if "agree rx_window H (bus_regs d)" for H d
    using agreeD [OF that] data by auto
  have torn: "map_option fst (run_tasks
      (replicate (pass_steps ?f) (Task 0) @ replicate (header_reads F) (Task 1)
        @ Controller (store_frame G) # replicate ?n (Task 1)) ([service_accesses, receive_accesses], c))
    = Some [Finish None, Finish (Some (fst (frame_at 0x60 F), map (\<lambda>i. G (0x66 + of_nat i)) [0..<?n]))]"
  proof -
    obtain g where g: "g AND RX0IF = 0" "run_tasks (replicate (pass_steps ?f) (Task 0)) ([service_accesses, receive_accesses], c)
        = Some ([Finish None, receive_accesses], c\<lparr>bus_regs := (bus_regs c)(CANINTF := g)\<rparr>)"
      using pass_run [of c receive_accesses] f c(1) by auto
    define d where "d = c\<lparr>bus_regs := (bus_regs c)(CANINTF := g)\<rparr>"
    define e where "e = d\<lparr>bus_regs := store_frame G (bus_regs d)\<rparr>"
    have d: "agree rx_window F (bus_regs d)"
      using c(2) by (auto simp: d_def agree_def rx_window_def regs)
    have e: "agree rx_window G (bus_regs e)"
      using g(1) by (simp add: e_def d_def store_frame_def agree_def)
    let ?ps = "[Finish None, read_regs 0x66 [0..<?n] [] (\<lambda>d. Finish (Some (fst (frame_at 0x60 F), d)))]"
    have "run_tasks (replicate (length [0..<?n]) (Task 1)) (?ps, e)
        = Some (?ps[1 := Finish (Some (fst (frame_at 0x60 F), [] @ map (\<lambda>i. bus_regs e (0x66 + of_nat i)) [0..<?n]))], e)"
      by (rule run_reads) simp_all
    then show ?thesis
      using header_run [OF d, of "Finish None"] reads [OF e]
      by (simp add: run_tasks_append g(2) flip: d_def e_def)
  qed
  have whole: "map_option fst (run_tasks
      (replicate (header_reads F) (Task 1) @ Controller (store_frame G) # replicate ?n (Task 1))
      ([service_accesses, receive_accesses], c))
    = Some [service_accesses, Finish (Some (frame_at 0x60 F))]"
  proof -
    let ?ps = "[service_accesses, read_regs 0x66 [0..<?n] [] (\<lambda>d. Finish (Some (fst (frame_at 0x60 F), d)))]"
    have keep: "c\<lparr>bus_regs := store_frame G (bus_regs c)\<rparr> = c"
      using f(2) c(1) by (simp add: store_frame_def)
    have "run_tasks (replicate (length [0..<?n]) (Task 1)) (?ps, c)
        = Some (?ps[1 := Finish (Some (fst (frame_at 0x60 F), [] @ map (\<lambda>i. bus_regs c (0x66 + of_nat i)) [0..<?n]))], c)"
      by (rule run_reads) simp_all
    moreover have "(fst (frame_at 0x60 F), map (\<lambda>i. F (0x66 + of_nat i)) [0..<?n]) = frame_at 0x60 F"
      by (simp add: frame_at_def)
    ultimately show ?thesis
      using header_run [OF c(2), of service_accesses] reads [OF c(2)]
      by (simp add: run_tasks_append keep)
  qed
  show ?thesis
    using torn whole f(3) by (simp add: c_def)
qed

text \<open>Writes of different registers commute.\<close>

lemma written_upd: "a \<notin> fst ` set ws \<Longrightarrow> written (R(a := d)) ws = (written R ws)(a := d)"
  by (induction ws arbitrary: R) (auto simp: fun_upd_twist simp del: fun_upd_apply)

lemma written_swap:
  "fst ` set vs \<inter> fst ` set ws = {} \<Longrightarrow> written (written R vs) ws = written (written R ws) vs"
proof (induction vs arbitrary: R)
  case (Cons v vs)
  obtain a d where "v = (a, d)" by (cases v)
  with Cons show ?case using written_upd [of a ws R d] by (simp del: fun_upd_apply)
qed simp

text \<open>What a send writes after the identifier, before the request.\<close>

definition tx_rest :: "u8 list \<Rightarrow> u8 \<Rightarrow> (u8 \<times> u8) list" where
  "tx_rest buf len = (TXB0DLC, len) # tx_data [0..<unat len] buf"

lemma send_parts:
  "send_accesses canId buf len =
     write_regs (tx_header canId) (write_regs (tx_rest buf len) (Write_reg TXB0CTRL 8 (Finish None)))"
  by (simp add: send_accesses_def tx_writes_body tx_body_def tx_rest_def write_regs_append)

lemma no_request:
  "\<forall>(a, d) \<in> set (tx_header canId). \<not> requests a d"
  "unat len \<le> 8 \<Longrightarrow> \<forall>(a, d) \<in> set (tx_rest buf len). \<not> requests a d"
  using tx_body_requests [of 0 _ _ canId "[]"] tx_body_requests [of len _ _ canId buf]
  by (auto simp: requests_def tx_body_def tx_rest_def)

lemma tx_header_apart:
  assumes "unat len \<le> 8"
  shows "fst ` set (tx_header canId) \<inter> fst ` set (tx_rest buf len @ [(TXB0CTRL, 8)]) = {}"
proof -
  have data: "a \<noteq> TXB0D0 + of_nat j" if "(a, d) \<in> set (tx_header canId)" "j < 8" for a d j
    using tx_header_regs [OF that(1)] tx_data_regs [OF that(2)]
    by (auto simp: word_le_nat_alt)
  have ctrl: "a \<noteq> TXB0DLC \<and> a \<noteq> TXB0CTRL" if "(a, d) \<in> set (tx_header canId)" for a d
    using tx_header_regs [OF that] by (auto simp: regs word_le_nat_alt)
  have rest: "a = TXB0DLC \<or> a = TXB0CTRL \<or> (\<exists>j < unat len. a = TXB0D0 + of_nat j)"
    if "a \<in> fst ` set (tx_rest buf len @ [(TXB0CTRL, 8)])" for a
    using that by (auto simp: tx_rest_def set_tx_data)
  show ?thesis
  proof (rule equals0I)
    fix a assume a: "a \<in> fst ` set (tx_header canId) \<inter> fst ` set (tx_rest buf len @ [(TXB0CTRL, 8)])"
    then obtain d where d: "(a, d) \<in> set (tx_header canId)" by auto
    with rest [of a] a ctrl [OF d] obtain j where "j < unat len" "a = TXB0D0 + of_nat j" by auto
    with data [OF d, of j] assms show False by simp
  qed
qed

lemma run_request:
  "i < length ps \<Longrightarrow> ps ! i = Write_reg TXB0CTRL 8 p \<Longrightarrow>
     run_tasks [Task i] (ps, b) = Some (ps[i := p],
       b\<lparr>bus_regs := (bus_regs b)(TXB0CTRL := 8), bus_sent := bus_sent b @ [tx_frame (bus_regs b)]\<rparr>)"
  by (simp add: requests_def)

text \<open>The schedule: both check and mark, both write their identifiers, then the rest of one and of the other.\<close>

definition mixing :: "u32 \<Rightarrow> u8 \<Rightarrow> u32 \<Rightarrow> u8 \<Rightarrow> turn list" where
  "mixing canId1 len1 canId2 len2 =
     [Task 0, Task 1, Task 0, Task 1]
     @ replicate (length (tx_header canId1)) (Task 0) @ replicate (length (tx_header canId2)) (Task 1)
     @ replicate (unat len1 + 1) (Task 0) @ [Task 0]
     @ replicate (unat len2 + 1) (Task 1) @ [Task 1]"

text \<open>
  C24: two tasks that send at the same time destroy each other's frames.  For every two frames and every state
  of the controller in which the buffer is not marked: both find it unmarked and neither waits, both write
  their identifiers, and then the rest of their registers, one after the other.  What is requested is the
  identifier of the second task with the data of the first, then the second frame; the first frame goes out
  with a foreign identifier.  The bus mutex does not help, it is held for single instructions only.\<close>

theorem two_senders_mix_frames:
  assumes "canId1 < 2 ^ 29" and "unat len1 \<le> 8" and "unat len1 \<le> length buf1"
    and "canId2 < 2 ^ 29" and "unat len2 \<le> 8" and "unat len2 \<le> length buf2" and "\<not> bus_marked b"
  shows "map_option (\<lambda>(ps, c). (ps, bus_sent c)) (run_tasks (mixing canId1 len1 canId2 len2)
      ([send_in_task_accesses canId1 buf1 len1, send_in_task_accesses canId2 buf2 len2], b))
    = Some ([Finish None, Finish None], bus_sent b @ [(canId2, take (unat len1) buf1), (canId2, take (unat len2) buf2)])"
proof -
  let ?H1 = "tx_header canId1" and ?H2 = "tx_header canId2" and ?T1 = "tx_rest buf1 len1" and ?T2 = "tx_rest buf2 len2"
  let ?R = "\<lambda>p. Write_reg TXB0CTRL 8 p :: frame option prog"
  define R where "R = written (bus_regs b) ?H1"
  have len: "length ?T1 = unat len1 + 1" "length ?T2 = unat len2 + 1"
    by (simp_all add: tx_rest_def tx_data_def)
  have "written (written R ?H2) ?T1 = written R (tx_body canId2 buf1 len1)"
    by (simp add: tx_body_def tx_rest_def)
  then have first: "tx_frame (written (written R ?H2) ?T1) = (canId2, take (unat len1) buf1)"
    using tx_frame_body [OF assms(4,2,3)] by simp
  have "written ((written (written R ?H2) ?T1)(TXB0CTRL := 8)) ?T2
      = written (written (written R ?H2) (?T1 @ [(TXB0CTRL, 8)])) ?T2" by simp
  also have "\<dots> = written (written (written R (?T1 @ [(TXB0CTRL, 8)])) ?H2) ?T2"
    using written_swap [OF tx_header_apart [OF assms(2)], of R canId2 buf1] by simp
  also have "\<dots> = written (written R (?T1 @ [(TXB0CTRL, 8)])) (tx_body canId2 buf2 len2)"
    by (simp add: tx_body_def tx_rest_def)
  finally have second: "tx_frame (written ((written (written R ?H2) ?T1)(TXB0CTRL := 8)) ?T2) = (canId2, take (unat len2) buf2)"
    using tx_frame_body [OF assms(4-6)] by simp
  define P1 where "P1 = write_regs ?T1 (?R (Finish None))"
  define P2 where "P2 = write_regs ?T2 (?R (Finish None))"
  have "run_tasks [Task 0, Task 1, Task 0, Task 1]
      ([send_in_task_accesses canId1 buf1 len1, send_in_task_accesses canId2 buf2 len2], b)
    = Some ([write_regs ?H1 P1, write_regs ?H2 P2], b\<lparr>bus_marked := True\<rparr>)" (is "_ = Some (_, ?b)")
    using assms(7) by (simp add: send_in_task_accesses_def send_parts P1_def P2_def)
  moreover have "run_tasks (replicate (length ?H1) (Task 0)) ([write_regs ?H1 P1, write_regs ?H2 P2], ?b)
    = Some ([P1, write_regs ?H2 P2], ?b\<lparr>bus_regs := R\<rparr>)"
    using run_writes [of 0 "[write_regs ?H1 P1, write_regs ?H2 P2]" ?H1 P1 ?b] no_request(1) by (simp add: R_def)
  moreover have "run_tasks (replicate (length ?H2) (Task 1)) ([P1, write_regs ?H2 P2], ?b\<lparr>bus_regs := R\<rparr>)
    = Some ([P1, P2], ?b\<lparr>bus_regs := written R ?H2\<rparr>)"
    using run_writes [of 1 "[P1, write_regs ?H2 P2]" ?H2 P2 "?b\<lparr>bus_regs := R\<rparr>"] no_request(1) by simp
  moreover have "run_tasks (replicate (unat len1 + 1) (Task 0)) ([P1, P2], ?b\<lparr>bus_regs := written R ?H2\<rparr>)
    = Some ([?R (Finish None), P2], ?b\<lparr>bus_regs := written (written R ?H2) ?T1\<rparr>)"
    using run_writes [of 0 "[P1, P2]" ?T1 "?R (Finish None)" "?b\<lparr>bus_regs := written R ?H2\<rparr>"]
      no_request(2) [OF assms(2)] by (simp add: P1_def len)
  moreover have "run_tasks [Task 0] ([?R (Finish None), P2], ?b\<lparr>bus_regs := written (written R ?H2) ?T1\<rparr>)
    = Some ([Finish None, P2], ?b\<lparr>bus_regs := (written (written R ?H2) ?T1)(TXB0CTRL := 8),
        bus_sent := bus_sent b @ [(canId2, take (unat len1) buf1)]\<rparr>)" (is "_ = Some (_, ?c)")
    by (subst run_request) (simp_all add: first)
  moreover have "run_tasks (replicate (unat len2 + 1) (Task 1)) ([Finish None, P2], ?c)
    = Some ([Finish None, ?R (Finish None)], ?c\<lparr>bus_regs := written ((written (written R ?H2) ?T1)(TXB0CTRL := 8)) ?T2\<rparr>)"
    using run_writes [of 1 "[Finish None, P2]" ?T2 "?R (Finish None)" ?c] no_request(2) [OF assms(5)] by (simp add: P2_def len)
  moreover have "run_tasks [Task 1] ([Finish None, ?R (Finish None)],
      ?c\<lparr>bus_regs := written ((written (written R ?H2) ?T1)(TXB0CTRL := 8)) ?T2\<rparr>)
    = Some ([Finish None, Finish None],
        ?c\<lparr>bus_regs := (written ((written (written R ?H2) ?T1)(TXB0CTRL := 8)) ?T2)(TXB0CTRL := 8),
          bus_sent := bus_sent ?c @ [(canId2, take (unat len2) buf2)]\<rparr>)"
    by (subst run_request) (simp_all add: second)
  ultimately show ?thesis
    unfolding mixing_def run_tasks_append by (simp only: bind.simps) simp
qed

text \<open>
  C10: the access programs are the code's operations.  Performed instruction by instruction through
  \<open>readByte\<close>, \<open>writeByte\<close> and \<open>bitModify\<close>, whatever the controller answers, the program of a send does
  exactly what \<open>txBuffer0Send\<close> does, that of a receive returns what \<open>rxBuffer0Read\<close> stores and leaves the same
  state (the same for buffer 1), that of a filter change is \<open>setFilter\<close> between its two calls of the mutex (the
  same for a mask), those of the bit timing and the interrupt registers are their operations, and that of a
  service pass sends the same instructions as the pass.\<close>

theorem accesses_refine_code:
  "(unat len \<le> length buf \<longrightarrow>
      run_state (perform E (send_accesses canId buf len)) s = (None, exec (txBuffer0Send E canId buf len) s))
   \<and> (15 \<le> length out \<longrightarrow>
      run_state (perform E receive_accesses) s =
        (case run_state (rxBuffer0Read E out) s of ((i, out', n), t) \<Rightarrow> (Some (i, take (unat n) out'), t)))
   \<and> (filterId < 6 \<longrightarrow>
      exec (setFilter E filterId canId ext) s =
        exec (do { lock E; _ \<leftarrow> perform E (filter_accesses filterId canId ext); unlock }) s)
   \<and> (spi_ready u \<longrightarrow>
      mosi (trace (exec (service_pass E) u)) = mosi (trace (exec (perform E service_accesses) u)))
   \<and> (15 \<le> length out \<longrightarrow>
      run_state (perform E receive1_accesses) s =
        (case run_state (rxBuffer1Read E out) s of ((i, out', n), t) \<Rightarrow> (Some (i, take (unat n) out'), t)))
   \<and> (maskId < 2 \<longrightarrow>
      exec (setMask E maskId canId ext) s =
        exec (do { lock E; _ \<leftarrow> perform E (mask_accesses maskId canId ext); unlock }) s)
   \<and> exec (setMcp2515Bitrate E) s = exec (perform E (bitrate_accesses (Mcp_bitrateAddr s))) s
   \<and> exec (clearInterrupts E k) s = exec (perform E (clear_accesses k)) s
   \<and> exec (enableInterrupts E k) s = exec (perform E (enable_accesses k)) s"
  using perform_send [of len buf E canId s] perform_filter [of filterId E canId ext s] service_mosi [of u E]
    perform_receive [of E out s] perform_receive1 [of E out s] perform_mask [of maskId E canId ext s]
    perform_configuration [where E = E and s = s]
  by (auto split: prod.split)

section \<open>Closed instances\<close>

definition quiet_bus :: shared_bus where
  "quiet_bus = \<lparr>bus_regs = (\<lambda>_. 0), bus_sent = [], bus_marked = False, bus_tokens = 0\<rparr>"

text \<open>The registers of a standard frame with one data byte.\<close>

definition short_frame :: "u32 \<Rightarrow> u8 \<Rightarrow> regs" where
  "short_frame canId x = written (\<lambda>_. 0)
     [(0x61, ucast (drop_bit 3 canId)), (0x62, ucast (push_bit 5 (canId AND 7))), (0x65, 1), (0x66, x)]"

theorem send_is_isolated_witness:
  "\<exists>qs c. run_tasks [Task 0, Task 1, Task 0, Controller (\<lambda>R. R(CANINTF := 4)), Task 0, Task 1, Task 0, Task 0]
      ([send_accesses 0x123 [7] 1, filter_accesses 0 1 False], quiet_bus) = Some (qs, c)
    \<and> bus_sent c = [(0x123, [7])]"
proof -
  let ?xs = "[Task 0, Task 1, Task 0, Controller (\<lambda>R. R(CANINTF := 4)), Task 0, Task 1, Task 0, Task 0]"
  let ?ps = "[send_accesses 0x123 [7] 1, filter_accesses 0 1 False]"
  obtain qs c where run: "run_tasks ?xs (?ps, quiet_bus) = Some (qs, c)" "qs ! 0 = Finish None"
    by (simp add: quiet_bus_def send_accesses_def filter_accesses_def id_writes_def tx_writes_def tx_header_def
        tx_data_def Let_def regs)
  have "other_operation (?ps ! j)" if "j < length ?ps" "j \<noteq> 0" for j
  proof -
    have "j = 1" using that by simp
    moreover have "other_operation (filter_accesses 0 1 False)"
      unfolding other_operation_def by (rule disjI2, rule disjI2, rule disjI2, rule disjI1)
        (rule exI [of _ 0], auto)
    ultimately show ?thesis by simp
  qed
  moreover have "list_all (leaves tx_window) ?xs"
    by (auto simp: leaves_def tx_window_def regs)
  ultimately have "bus_sent c = bus_sent quiet_bus @ [(0x123, take (unat (1 :: u8)) [7])]"
    using run by (intro send_is_isolated [OF run(1), where i = 0]) simp_all
  then show ?thesis using run(1) by (auto simp: quiet_bus_def)
qed

theorem receive_is_isolated_witness:
  "\<exists>qs c. run_tasks [Task 0, Task 1, Task 0, Task 1, Task 0, Task 1, Task 0]
      ([receive_accesses, send_in_task_accesses 0x456 [9] 1],
       quiet_bus\<lparr>bus_regs := short_frame 0x123 7\<rparr>) = Some (qs, c)
    \<and> qs ! 0 = Finish (Some (frame_at 0x60 (short_frame 0x123 7)))"
proof -
  let ?xs = "[Task 0, Task 1, Task 0, Task 1, Task 0, Task 1, Task 0]"
  let ?b = "quiet_bus\<lparr>bus_regs := short_frame 0x123 7\<rparr>"
  let ?ps = "[receive_accesses, send_in_task_accesses 0x456 [9] 1]"
  obtain qs c r where run: "run_tasks ?xs (?ps, ?b) = Some (qs, c)" "qs ! 0 = Finish r"
    by (simp add: quiet_bus_def short_frame_def receive_accesses_def send_in_task_accesses_def
        send_accesses_def tx_writes_def tx_header_def tx_data_def Let_def regs)
  have "\<exists>canId buf len. unat len \<le> 8
      \<and> (?ps ! j = send_accesses canId buf len \<or> ?ps ! j = send_in_task_accesses canId buf len)"
    if "j < length ?ps" "j \<noteq> 0" for j
  proof -
    have "j = 1" using that by simp
    then show ?thesis by (intro exI [of _ "0x456"] exI [of _ "[9]"] exI [of _ 1]) simp
  qed
  moreover have "list_all (leaves rx_window) ?xs"
    by (simp add: leaves_def)
  moreover have "unat (bus_regs ?b 0x65 AND 15) \<le> 8"
    by (simp add: short_frame_def)
  ultimately have "r = Some (frame_at 0x60 (bus_regs ?b))"
    using run by (intro receive_is_isolated [OF run(1), where i = 0] disjI2) simp_all
  then show ?thesis using run by auto
qed

theorem accesses_refine_code_witness:
  "mosi (trace (exec (service_pass (flag_env 0x05)) demo_can))
     = mosi (trace (exec (perform (flag_env 0x05) service_accesses) demo_can))"
  using accesses_refine_code [where s = demo_can and u = demo_can and E = "flag_env 0x05"] spi_ready_demo_can
  by blast

theorem torn_receive_witness:
  "map_option fst (run_tasks
     (Controller (store_frame (short_frame 0x123 7)) # replicate 2 (Task 0) @ replicate 3 (Task 1)
        @ [Controller (store_frame (short_frame 0x456 9)), Task 1])
     ([service_accesses, receive_accesses], quiet_bus))
   = Some [Finish None, Finish (Some (0x123, [9]))]"
proof -
  have vals: "short_frame 0x123 7 0x65 AND 15 = 1" "fst (frame_at 0x60 (short_frame 0x123 7)) = 0x123"
    "short_frame 0x456 9 0x66 = 9" "header_reads (short_frame 0x123 7) = 3"
    by (simp_all add: short_frame_def frame_at_def header_reads_def regs)
  show ?thesis
    using torn_receive [of quiet_bus "short_frame 0x123 7" "short_frame 0x456 9"]
    by (simp add: vals quiet_bus_def pass_steps_def)
qed

theorem two_senders_mix_frames_witness:
  "map_option (\<lambda>(ps, c). (ps, bus_sent c)) (run_tasks (mixing 0x123 1 0x456 1)
      ([send_in_task_accesses 0x123 [7] 1, send_in_task_accesses 0x456 [9] 1], quiet_bus))
    = Some ([Finish None, Finish None], [(0x456, [7]), (0x456, [9])])"
  using two_senders_mix_frames [of "0x123" 1 "[7]" "0x456" 1 "[9]" quiet_bus] by (simp add: quiet_bus_def)

end
