(* ===== verification/Bus_Mutex.thy ===== *)
theory Bus_Mutex
  imports Can_Props
begin

text \<open>
  Several tasks on one SPI bus.  Selecting, transferring and deselecting are programs of single steps here,
  the statements of \<open>csSelect\<close> and \<open>csDeselect\<close> one by one; the programs are proved to be the code's.
  A schedule merges the steps of the tasks in any order.  The member \<open>_csActive\<close>, the chip-select line and the
  recursive mutex are shared: an assertion is evaluated on what the other tasks have left, a take by the
  holder counts up, a take by another task waits, a give counts down.
\<close>

section \<open>The driver's instructions step by step\<close>

datatype bus_instr =
    Take_bus
  | Assert_active bool
  | Set_active bool
  | Put_cs bool
  | Move "bytes_ptr" "bytes_ptr" u16
  | Give_bus

definition select_prog :: "bus_instr list" where
  "select_prog = [Take_bus, Assert_active False, Set_active True, Put_cs False]"

definition deselect_prog :: "bus_instr list" where
  "deselect_prog = [Assert_active True, Set_active False, Put_cs True, Give_bus]"

text \<open>The calls of the controller driver that use the bus.\<close>

datatype bus_call = Call_reset | Call_read u8 | Call_write u8 u8 | Call_modify u8 u8 u8

fun moves :: "bus_call \<Rightarrow> bus_instr list" where
  "moves Call_reset = [Move (Some [CAN_WRITE, CAN_RESET]) None 2]"
| "moves (Call_read a) = [Move (Some [CAN_READ, a]) None 2, Move None (Some [0]) 1]"
| "moves (Call_write a d) = [Move (Some [CAN_WRITE, a, d]) None 3]"
| "moves (Call_modify a k d) = [Move (Some [CAN_BIT_MODIFY, a, k, d]) None 4]"

definition call_prog :: "bus_call \<Rightarrow> bus_instr list" where
  "call_prog c = select_prog @ moves c @ deselect_prog"

text \<open>The code's statement for each step, of a bus with or without a mutex.\<close>

primrec run_instr_of :: "env \<Rightarrow> bus_instr \<Rightarrow> (('g, 'a) spi_st_scheme, unit) state" where
  "run_instr_of E Take_bus = do {
     m \<leftarrow> gets SPI_busMutex;
     when_do (m \<noteq> 0) (emit (Rtos (XSemaphoreTakeRecursive m (portMAX_DELAY E))))
   }"
| "run_instr_of E (Assert_active b) = do {
     active \<leftarrow> gets SPI_csActive;
     emit (Rtos (ConfigASSERT (active = b)))
   }"
| "run_instr_of E (Set_active b) = modify (\<lambda>s. s\<lparr>SPI_csActive := b\<rparr>)"
| "run_instr_of E (Put_cs v) = do {
     cs \<leftarrow> gets SPI_cs;
     emit (Gpio (Gpio_put cs v))
   }"
| "run_instr_of E (Move tx rx n) = do { _ \<leftarrow> transfer E tx rx n (portMAX_DELAY E); skip }"
| "run_instr_of E Give_bus = do {
     m \<leftarrow> gets SPI_busMutex;
     when_do (m \<noteq> 0) (emit (Rtos (XSemaphoreGiveRecursive m)))
   }"

definition run_instrs :: "env \<Rightarrow> bus_instr list \<Rightarrow> (('g, 'a) spi_st_scheme, unit) state" where
  "run_instrs E p = for_each p (run_instr_of E)"

lemma exec_run_instrs [simp]:
  "exec (run_instrs E []) s = s"
  "exec (run_instrs E (i # p)) s = exec (run_instrs E p) (exec (run_instr_of E i) s)"
  "exec (run_instrs E (p @ q)) s = exec (run_instrs E q) (exec (run_instrs E p) s)"
  by (simp_all add: run_instrs_def for_each_append)

lemma exec_select: "exec (csSelect E) s = exec (run_instrs E select_prog) s"
  by (simp add: csSelect_def select_prog_def)

lemma exec_deselect: "exec csDeselect s = exec (run_instrs E deselect_prog) s"
  by (simp add: csDeselect_def deselect_prog_def)

lemma exec_calls:
  "exec (resetMcp2515 E) s = exec (run_instrs E (call_prog Call_reset)) s"
  "exec (readByte E a) s = exec (run_instrs E (call_prog (Call_read a))) s"
  "exec (writeByte E a d) s = exec (run_instrs E (call_prog (Call_write a d))) s"
  "exec (bitModify E a k d) s = exec (run_instrs E (call_prog (Call_modify a k d))) s"
  by (simp_all add: resetMcp2515_def readByte_def writeByte_def bitModify_def call_prog_def
      exec_select exec_deselect [where E = E])

section \<open>Merging the steps of tasks\<close>

text \<open>
  What the tasks share: \<open>_csActive\<close>, whether the chip is selected, the holder of the mutex with its count,
  and what has happened on the wires, by which task.
\<close>

record shared_spi =
  sh_active :: bool
  sh_selected :: bool
  sh_holder :: "(nat \<times> nat) option"
  sh_wires :: "(nat \<times> bus_instr) list"

datatype bus_result = Waits | Breaks | Goes shared_spi

text \<open>
  A step of task \<open>i\<close>.  An assertion that fails, a chip select that moves the wrong way, a transfer
  without it, and any of these and a give by a task that does not hold the mutex break the protocol.
\<close>

definition holds :: "nat \<Rightarrow> shared_spi \<Rightarrow> bool" where
  "holds i b \<longleftrightarrow> (case sh_holder b of None \<Rightarrow> False | Some (j, n) \<Rightarrow> j = i)"

fun shared_step :: "nat \<Rightarrow> bus_instr \<Rightarrow> shared_spi \<Rightarrow> bus_result" where
  "shared_step i Take_bus b =
     (case sh_holder b of
        None \<Rightarrow> Goes (b\<lparr>sh_holder := Some (i, 1)\<rparr>)
      | Some (j, n) \<Rightarrow> if j = i then Goes (b\<lparr>sh_holder := Some (i, n + 1)\<rparr>) else Waits)"
| "shared_step i (Assert_active v) b = (if sh_active b = v then Goes b else Breaks)"
| "shared_step i (Set_active v) b = Goes (b\<lparr>sh_active := v\<rparr>)"
| "shared_step i (Put_cs v) b =
     (if holds i b \<and> sh_selected b = v
      then Goes (b\<lparr>sh_selected := \<not> v, sh_wires := sh_wires b @ [(i, Put_cs v)]\<rparr>) else Breaks)"
| "shared_step i (Move tx rx n) b =
     (if holds i b \<and> sh_selected b then Goes (b\<lparr>sh_wires := sh_wires b @ [(i, Move tx rx n)]\<rparr>) else Breaks)"
| "shared_step i Give_bus b =
     (case sh_holder b of
        None \<Rightarrow> Breaks
      | Some (j, n) \<Rightarrow>
          if j = i then Goes (b\<lparr>sh_holder := if n \<le> 1 then None else Some (i, n - 1)\<rparr>) else Breaks)"

text \<open>The tasks with the steps they have left, and the bus.\<close>

type_synonym bus_tasks = "bus_instr list list \<times> shared_spi"

datatype merge_result = Merged bus_tasks | Not_possible | Protocol_broken

definition task_step :: "nat \<Rightarrow> bus_tasks \<Rightarrow> merge_result" where
  "task_step i s =
     (case s of (ts, b) \<Rightarrow>
        if i < length ts then
          (case ts ! i of
             [] \<Rightarrow> Not_possible
           | x # xs \<Rightarrow>
               (case shared_step i x b of
                  Waits \<Rightarrow> Not_possible
                | Breaks \<Rightarrow> Protocol_broken
                | Goes b' \<Rightarrow> Merged (ts[i := xs], b')))
        else Not_possible)"

fun merge :: "nat list \<Rightarrow> bus_tasks \<Rightarrow> merge_result" where
  "merge [] s = Merged s"
| "merge (i # is) s =
     (case task_step i s of Merged s' \<Rightarrow> merge is s' | Not_possible \<Rightarrow> Not_possible
      | Protocol_broken \<Rightarrow> Protocol_broken)"

text \<open>Tasks that each make a list of calls on an idle bus.\<close>

definition task_prog :: "bus_call list \<Rightarrow> bus_instr list" where
  "task_prog cs = concat (map call_prog cs)"

definition start_tasks :: "bus_call list list \<Rightarrow> bus_tasks" where
  "start_tasks jobs = (map task_prog jobs,
     \<lparr>sh_active = False, sh_selected = False, sh_holder = None, sh_wires = []\<rparr>)"

section \<open>Invariant\<close>

text \<open>What a call puts on the wires.\<close>

fun on_wires :: "bus_instr \<Rightarrow> bool" where
  "on_wires (Put_cs v) = True"
| "on_wires (Move tx rx n) = True"
| "on_wires _ = False"

definition wires :: "nat \<times> bus_call \<Rightarrow> (nat \<times> bus_instr) list" where
  "wires ic = map (Pair (fst ic)) (filter on_wires (call_prog (snd ic)))"

text \<open>What the holder of the mutex may have left of its call, by the state of flag and chip select.\<close>

fun rest_ok :: "bool \<times> bool \<Rightarrow> bus_instr list \<Rightarrow> bool" where
  "rest_ok (a, s) (Assert_active v # p) = (a = v \<and> rest_ok (a, s) p)"
| "rest_ok (a, s) (Set_active v # p) = rest_ok (v, s) p"
| "rest_ok (a, s) (Put_cs v # p) = (s = v \<and> rest_ok (a, \<not> v) p)"
| "rest_ok (a, s) (Move tx rx n # p) = (s \<and> rest_ok (a, s) p)"
| "rest_ok (a, s) (Give_bus # p) = (\<not> a \<and> \<not> s \<and> p = [])"
| "rest_ok _ _ = False"

lemma call_prog_ok: "\<exists>p. call_prog c = Take_bus # p \<and> rest_ok (False, False) p"
  by (cases c) (simp_all add: call_prog_def select_prog_def deselect_prog_def)

text \<open>The calls \<open>cs\<close> are done, task \<open>i\<close> has the calls \<open>rem i\<close> to make or to finish.\<close>

definition bus_inv :: "bus_call list list \<Rightarrow> (nat \<times> bus_call) list \<Rightarrow> (nat \<Rightarrow> bus_call list) \<Rightarrow> bus_tasks \<Rightarrow> bool" where
  "bus_inv jobs cs rem s \<longleftrightarrow>
     (case s of (ts, b) \<Rightarrow>
        length ts = length jobs
      \<and> (\<forall>i < length jobs. map snd (filter (\<lambda>(j, c). j = i) cs) @ rem i = jobs ! i)
      \<and> (case sh_holder b of
           None \<Rightarrow> \<not> sh_active b \<and> \<not> sh_selected b \<and> sh_wires b = concat (map wires cs)
             \<and> (\<forall>i < length jobs. ts ! i = task_prog (rem i))
         | Some (j, n) \<Rightarrow> n = 1 \<and> j < length jobs
             \<and> (\<forall>i < length jobs. i \<noteq> j \<longrightarrow> ts ! i = task_prog (rem i))
             \<and> (\<exists>c r p q. rem j = c # r \<and> call_prog c = p @ q \<and> ts ! j = q @ task_prog r
                  \<and> rest_ok (sh_active b, sh_selected b) q
                  \<and> sh_wires b = concat (map wires cs) @ map (Pair j) (filter on_wires p))))"

lemma task_prog_simps [simp]: "task_prog [] = []" "task_prog (c # cs) = call_prog c @ task_prog cs"
  by (simp_all add: task_prog_def)

lemma start_inv: "bus_inv jobs [] (\<lambda>i. jobs ! i) (start_tasks jobs)"
  by (simp add: bus_inv_def start_tasks_def)

text \<open>A task that finds the mutex free takes it, or is done.\<close>

lemma step_free:
  assumes "bus_inv jobs cs rem (ts, b)" and "sh_holder b = None" and "i < length jobs"
  shows "rem i = [] \<and> task_step i (ts, b) = Not_possible
       \<or> (\<exists>t. task_step i (ts, b) = Merged t \<and> bus_inv jobs cs rem t)"
proof (cases "rem i")
  case Nil
  with assms show ?thesis by (simp add: bus_inv_def task_step_def)
next
  case (Cons c r)
  obtain p where p: "call_prog c = Take_bus # p" "rest_ok (False, False) p" using call_prog_ok by blast
  with Cons assms have "ts ! i = Take_bus # p @ task_prog r" "length ts = length jobs"
    by (auto simp: bus_inv_def)
  then have "task_step i (ts, b) = Merged (ts[i := p @ task_prog r], b\<lparr>sh_holder := Some (i, 1)\<rparr>)"
    using assms(2,3) by (simp add: task_step_def)
  moreover have "bus_inv jobs cs rem (ts[i := p @ task_prog r], b\<lparr>sh_holder := Some (i, 1)\<rparr>)"
    using assms Cons p by (auto simp: bus_inv_def intro: exI [of _ "[Take_bus]"])
  ultimately show ?thesis by blast
qed

text \<open>A task waits for the holder.\<close>

lemma step_waiting:
  assumes "bus_inv jobs cs rem (ts, b)" and "sh_holder b = Some (j, n)" and "i < length jobs" and "i \<noteq> j"
  shows "task_step i (ts, b) = Not_possible"
proof (cases "rem i")
  case Nil
  with assms show ?thesis by (simp add: bus_inv_def task_step_def)
next
  case (Cons c r)
  obtain p where "call_prog c = Take_bus # p" using call_prog_ok by blast
  with Cons assms show ?thesis by (simp add: bus_inv_def task_step_def)
qed

text \<open>The holder goes on.\<close>

lemma step_holding:
  assumes "bus_inv jobs cs rem (ts, b)" and "sh_holder b = Some (j, n)"
  shows "\<exists>t cs' rem'. task_step j (ts, b) = Merged t \<and> bus_inv jobs cs' rem' t"
proof -
  obtain c r p q where h: "n = 1" "j < length jobs" "length ts = length jobs" "rem j = c # r" "call_prog c = p @ q"
    "ts ! j = q @ task_prog r" "rest_ok (sh_active b, sh_selected b) q"
    "sh_wires b = concat (map wires cs) @ map (Pair j) (filter on_wires p)"
    using assms unfolding bus_inv_def by auto
  have others: "ts ! i = task_prog (rem i)" if "i < length jobs" "i \<noteq> j" for i
    using assms that unfolding bus_inv_def by auto
  have jobs: "map snd (filter (\<lambda>(j, c). j = i) cs) @ rem i = jobs ! i" if "i < length jobs" for i
    using assms(1) that unfolding bus_inv_def by auto
  from h(7) obtain x q' where q: "q = x # q'" by (cases q) auto
  show ?thesis
  proof (cases "x = Give_bus")
    case True
    with h(7) q have fin: "q' = []" "\<not> sh_active b" "\<not> sh_selected b" by simp_all
    have step: "task_step j (ts, b) = Merged (ts[j := task_prog r], b\<lparr>sh_holder := None\<rparr>)"
      using h q fin True assms(2) by (simp add: task_step_def)
    have "wires (j, c) = map (Pair j) (filter on_wires p)"
      using h(5) q fin True by (simp add: wires_def)
    then have "bus_inv jobs (cs @ [(j, c)]) (rem(j := r)) (ts[j := task_prog r], b\<lparr>sh_holder := None\<rparr>)"
      using h others jobs jobs [OF h(2), unfolded h(4)] fin by (auto simp: bus_inv_def nth_list_update)
    with step show ?thesis by blast
  next
    case False
    then obtain b' where b': "shared_step j x b = Goes b'" "sh_holder b' = Some (j, 1)"
      "rest_ok (sh_active b', sh_selected b') q'"
      "sh_wires b' = sh_wires b @ map (Pair j) (filter on_wires [x])"
      using h(1,7) q assms(2) by (cases x) (auto simp: holds_def)
    have step: "task_step j (ts, b) = Merged (ts[j := q' @ task_prog r], b')"
      using h q b'(1) by (simp add: task_step_def)
    have "bus_inv jobs cs rem (ts[j := q' @ task_prog r], b')"
      using h others jobs b' q
      by (auto simp: bus_inv_def intro!: exI [of _ "p @ [x]"])
    with step show ?thesis by blast
  qed
qed

lemma task_step_inv:
  assumes "bus_inv jobs cs rem s"
  shows "task_step i s \<noteq> Protocol_broken"
    and "task_step i s = Merged t \<Longrightarrow> \<exists>cs rem. bus_inv jobs cs rem t"
proof -
  obtain ts b where s: "s = (ts, b)" by (cases s)
  have len: "length ts = length jobs" using assms by (simp add: bus_inv_def s)
  have "task_step i s = Not_possible \<or> (\<exists>t cs rem. task_step i s = Merged t \<and> bus_inv jobs cs rem t)"
  proof (cases "i < length jobs")
    case True
    show ?thesis
    proof (cases "sh_holder b")
      case None
      with step_free [OF assms [unfolded s] None True] show ?thesis by (auto simp: s)
    next
      case (Some h)
      obtain j n where h: "h = (j, n)" by (cases h)
      show ?thesis
      proof (cases "i = j")
        case True
        with step_holding [OF assms [unfolded s]] Some h show ?thesis by (auto simp: s)
      next
        case False
        with step_waiting [OF assms [unfolded s]] Some h True show ?thesis by (auto simp: s)
      qed
    qed
  qed (use len in \<open>simp add: s task_step_def\<close>)
  then show "task_step i s \<noteq> Protocol_broken" and "task_step i s = Merged t \<Longrightarrow> \<exists>cs rem. bus_inv jobs cs rem t"
    by auto
qed

lemma merge_inv:
  "bus_inv jobs cs rem s \<Longrightarrow>
     merge is s \<noteq> Protocol_broken \<and> (\<forall>t. merge is s = Merged t \<longrightarrow> (\<exists>cs rem. bus_inv jobs cs rem t))"
proof (induction "is" arbitrary: s cs rem)
  case (Cons i "is")
  show ?case
  proof (cases "task_step i s")
    case (Merged t)
    then obtain cs' rem' where "bus_inv jobs cs' rem' t" using task_step_inv(2) [OF Cons.prems] by blast
    from Cons.IH [OF this] Merged show ?thesis by simp
  qed (use task_step_inv(1) [OF Cons.prems, of i] in simp_all)
qed auto

text \<open>As long as a task is not done, the holder of the mutex, or a task that wants it, can go on.\<close>

lemma merge_progress:
  assumes "bus_inv jobs cs rem (ts, b)" and "xs \<in> set ts" and "xs \<noteq> []"
  shows "\<exists>i t. task_step i (ts, b) = Merged t"
proof (cases "sh_holder b")
  case None
  obtain i where i: "i < length ts" "ts ! i \<noteq> []" using assms(2,3) by (auto simp: in_set_conv_nth)
  with assms(1) None have "i < length jobs" "rem i \<noteq> []" by (auto simp: bus_inv_def)
  with step_free [OF assms(1) None] show ?thesis by blast
next
  case (Some h)
  obtain j n where "h = (j, n)" by (cases h)
  with step_holding [OF assms(1)] Some show ?thesis by blast
qed

lemma merge_done:
  assumes "bus_inv jobs cs rem (ts, b)" and "\<forall>xs \<in> set ts. xs = []"
  shows "\<not> sh_active b \<and> \<not> sh_selected b \<and> sh_holder b = None \<and> sh_wires b = concat (map wires cs)
       \<and> (\<forall>i < length jobs. map snd (filter (\<lambda>(j, c). j = i) cs) = jobs ! i)"
proof (cases "sh_holder b")
  case None
  have "rem i = []" if "i < length jobs" for i
  proof (cases "rem i")
    case (Cons c r)
    obtain p where "call_prog c = Take_bus # p" using call_prog_ok by blast
    with Cons None assms that have "ts ! i \<noteq> []" "i < length ts" by (auto simp: bus_inv_def)
    with assms(2) nth_mem [of i ts] show ?thesis by blast
  qed
  with None assms(1) show ?thesis by (auto simp: bus_inv_def)
next
  case (Some h)
  obtain j n where "h = (j, n)" by (cases h)
  with Some assms(1) obtain q r where "j < length ts" "ts ! j = q @ task_prog r"
      "rest_ok (sh_active b, sh_selected b) q"
    unfolding bus_inv_def by auto
  moreover from this(1) assms(2) have "ts ! j = []" by simp
  ultimately show ?thesis by simp
qed

text \<open>
  C11: on a bus with a mutex, the instructions of different tasks stay apart.  The code's select, deselect and
  the driver's four instructions are the programs of steps above.  Let any number of tasks each make any list
  of these calls, and let their steps be merged in any order: no assertion on the shared \<open>_csActive\<close>
  fails, whoever wrote it last, and chip select moves and transfers start only by the task that holds the
  mutex and only in order.  As long as a task is not done, some task can go on; when all are, flag, chip
  select and mutex are back at rest, and the wires have carried the calls one after the other, each whole, those of
  each task in its order.\<close>

theorem bus_mutex_separates_instructions:
  "exec (csSelect E) s = exec (run_instrs E select_prog) s
   \<and> exec csDeselect s = exec (run_instrs E deselect_prog) s
   \<and> exec (resetMcp2515 E) u = exec (run_instrs E (call_prog Call_reset)) u
   \<and> exec (readByte E a) u = exec (run_instrs E (call_prog (Call_read a))) u
   \<and> exec (writeByte E a d) u = exec (run_instrs E (call_prog (Call_write a d))) u
   \<and> exec (bitModify E a k d) u = exec (run_instrs E (call_prog (Call_modify a k d))) u
   \<and> merge sched (start_tasks jobs) \<noteq> Protocol_broken
   \<and> (\<forall>ts b. merge sched (start_tasks jobs) = Merged (ts, b) \<longrightarrow>
        (\<exists>i t. task_step i (ts, b) = Merged t)
      \<or> (\<forall>xs \<in> set ts. xs = []) \<and> \<not> sh_active b \<and> \<not> sh_selected b \<and> sh_holder b = None
        \<and> (\<exists>cs. sh_wires b = concat (map wires cs)
              \<and> (\<forall>i < length jobs. map snd (filter (\<lambda>(j, c). j = i) cs) = jobs ! i)))"
proof -
  have merged: "(\<exists>i t. task_step i (ts, b) = Merged t)
      \<or> (\<forall>xs \<in> set ts. xs = []) \<and> \<not> sh_active b \<and> \<not> sh_selected b \<and> sh_holder b = None
        \<and> (\<exists>cs. sh_wires b = concat (map wires cs)
              \<and> (\<forall>i < length jobs. map snd (filter (\<lambda>(j, c). j = i) cs) = jobs ! i))"
    if m: "merge sched (start_tasks jobs) = Merged (ts, b)" for ts b
  proof -
    obtain cs rem where inv: "bus_inv jobs cs rem (ts, b)"
      using merge_inv [OF start_inv [of jobs], of sched] m by auto
    show ?thesis
    proof (cases "\<forall>xs \<in> set ts. xs = []")
      case True
      with merge_done [OF inv True] show ?thesis by blast
    next
      case False
      with merge_progress [OF inv] show ?thesis by blast
    qed
  qed
  have "merge sched (start_tasks jobs) \<noteq> Protocol_broken"
    using merge_inv [OF start_inv [of jobs], of sched] by blast
  with merged show ?thesis
    by (intro conjI exec_select exec_deselect exec_calls) blast+
qed

theorem bus_mutex_separates_instructions_witness:
  "\<exists>ts b. merge [0, 0, 0, 0, 0, 0, 0, 0, 0, 1, 1, 1, 1] (start_tasks [[Call_write 0x31 7], [Call_read 0x2C]]) = Merged (ts, b)
     \<and> (\<exists>i t. task_step i (ts, b) = Merged t)"
proof -
  let ?m = "merge [0, 0, 0, 0, 0, 0, 0, 0, 0, 1, 1, 1, 1] (start_tasks [[Call_write 0x31 7], [Call_read 0x2C]])"
  obtain ts b where m: "?m = Merged (ts, b)" "sh_selected b"
    by (simp add: start_tasks_def task_prog_def call_prog_def select_prog_def deselect_prog_def task_step_def holds_def)
  then have "\<exists>i t. task_step i (ts, b) = Merged t"
    using bus_mutex_separates_instructions [where sched = "[0, 0, 0, 0, 0, 0, 0, 0, 0, 1, 1, 1, 1]"
        and jobs = "[[Call_write 0x31 7], [Call_read 0x2C]]" and E = demo_env and s = demo_can and u = demo_can]
    by blast
  with m(1) show ?thesis by blast
qed

end
