(* ===== verification/Udp_Transport.thy ===== *)
theory Udp_Transport
  imports Platform
begin

text \<open>
  \<open>source/udp_transport.cpp\<close>: the UDP transport handed to micro-ROS, with its two globals (the
  socket and the agent's address).  The platform's constants and what the socket layer answers are
  the fields of \<open>net\<close>; \<open>int\<close> values are integers, an error flag that a call may leave alone is
  returned as an option.
\<close>

record net =
  AF_INET :: nat
  ROS_UDP_PORT :: u16
  INADDR_ANY :: u32
  htons :: "u16 \<Rightarrow> u16"
  htonl :: "u32 \<Rightarrow> u32"
  agent_aton :: "u32 option"
  socket_answer :: "event list \<Rightarrow> int"
  bind_answer :: "event list \<Rightarrow> int"
  sendto_answer :: "event list \<Rightarrow> int"
  recv_answer :: "event list \<Rightarrow> int \<times> u8 list"

record udp_st = world +
  sock_fd :: int
  agent_addr_sender :: sockaddr_in

text \<open>\<open>inet_aton\<close> stores an address only when the configured string is one.\<close>

definition agent_address :: "net \<Rightarrow> sockaddr_in" where
  "agent_address N = (AF_INET N, htons N (ROS_UDP_PORT N), case agent_aton N of Some a \<Rightarrow> a | None \<Rightarrow> 0)"

definition udp_transport_open :: "net \<Rightarrow> ('a udp_st_scheme, bool) state" where
  "udp_transport_open N = do {
     fd \<leftarrow> call (Sock Socket) (socket_answer N);
     modify (\<lambda>s. s\<lparr>sock_fd := fd\<rparr>);
     (if fd < 0 then return False
      else do {
        let agent_addr = (AF_INET N, htons N (ROS_UDP_PORT N), htonl N (INADDR_ANY N));
        modify (\<lambda>s. s\<lparr>agent_addr_sender := agent_address N\<rparr>);
        r \<leftarrow> call (Sock (Bind fd agent_addr)) (bind_answer N);
        (if r < 0 then do { emit (Sock (Close fd)); return False }
         else return True)
      })
   }"

definition udp_transport_close :: "('a udp_st_scheme, bool) state" where
  "udp_transport_close = do {
     fd \<leftarrow> gets sock_fd;
     when_do (0 \<le> fd) (do {
       emit (Sock (Close fd));
       modify (\<lambda>s. s\<lparr>sock_fd := -1\<rparr>)
     });
     return True
   }"

text \<open>The result is the count and the value stored in \<open>*err\<close>, \<open>None\<close> when nothing is.\<close>

definition udp_transport_write ::
  "net \<Rightarrow> u8 list \<Rightarrow> nat \<Rightarrow> ('a udp_st_scheme, int \<times> u8 option) state" where
  "udp_transport_write N buf len = do {
     fd \<leftarrow> gets sock_fd;
     (if fd < 0 then return (0, None)
      else do {
        addr \<leftarrow> gets agent_addr_sender;
        sent \<leftarrow> call (Sock (Sendto fd buf len addr)) (sendto_answer N);
        (if sent < 0 then return (0, Some 1) else return (sent, Some 0))
      })
   }"

definition udp_transport_read ::
  "net \<Rightarrow> u8 list \<Rightarrow> nat \<Rightarrow> int \<Rightarrow> ('a udp_st_scheme, int \<times> u8 list \<times> u8 option) state" where
  "udp_transport_read N buf len timeout = do {
     fd \<leftarrow> gets sock_fd;
     (if fd < 0 then return (0, buf, None)
      else do {
        let tv_sec = c_div timeout 1000;
        let tv_usec = c_mod timeout 1000 * 1000;
        emit (Sock (Setsockopt_rcvtimeo fd tv_sec tv_usec));
        r \<leftarrow> call (Sock (Recv fd len)) (recv_answer N);
        (if fst r < 0 then return (0, buf, Some 1)
         else do {
           raise_ub (length buf < nat (fst r));
           return (fst r, patch buf (take (nat (fst r)) (snd r)), Some 0)
         })
      })
   }"

section \<open>The transport as an interface\<close>

text \<open>
  What the micro-ROS client relies on: a write on an open transport tries to send the datagram to the peer
  and reports either an error, and then nothing was sent, or the number of bytes that were; on a closed
  transport it does and reports nothing; close leaves the transport closed.  \<open>frame\<close> is what the peer
  sees of some bytes: where they come from and go to.
\<close>

locale datagram_transport =
  fixes closed :: "'s \<Rightarrow> bool"
    and open_it :: "'s \<Rightarrow> bool \<times> 's"
    and close_it :: "'s \<Rightarrow> 's"
    and write_it :: "u8 list \<Rightarrow> 's \<Rightarrow> (int \<times> u8 option) \<times> 's"
    and attempted :: "'s \<Rightarrow> 'm list"
    and sent :: "'s \<Rightarrow> 'm list"
    and frame :: "'s \<Rightarrow> u8 list \<Rightarrow> 'm"
  assumes closed_close: "closed (close_it s)"
    and logs_close: "sent (close_it s) = sent s" "attempted (close_it s) = attempted s"
    and write_closed: "closed s \<Longrightarrow> write_it d s = ((0, None), s)"
    and opened: "fst (open_it s) \<Longrightarrow> \<not> closed (snd (open_it s))"
    and logs_open: "sent (snd (open_it s)) = sent s" "attempted (snd (open_it s)) = attempted s"
    and write_open: "\<not> closed s \<Longrightarrow> write_it d s = ((n, e), t) \<Longrightarrow>
        \<not> closed t \<and> frame t = frame s \<and> attempted t = attempted s @ [frame s d]
        \<and> (e = Some 0 \<and> 0 \<le> n \<and> sent t = sent s @ [frame s (take (nat n) d)]
           \<or> e = Some 1 \<and> n = 0 \<and> sent t = sent s)"
begin

primrec write_all :: "u8 list list \<Rightarrow> 's \<Rightarrow> (int \<times> u8 option) list \<times> 's" where
  "write_all [] s = ([], s)"
| "write_all (d # ds) s =
     (let (r, t) = write_it d s; (rs, u) = write_all ds t in (r # rs, u))"

lemma write_all_closed: "closed s \<Longrightarrow> write_all ds s = (replicate (length ds) (0, None), s)"
  by (induction ds) (simp_all add: write_closed)

text \<open>What a list of writes with the answers \<open>rs\<close> sends.\<close>

definition goes_out :: "(u8 list \<Rightarrow> 'm) \<Rightarrow> u8 list list \<Rightarrow> (int \<times> u8 option) list \<Rightarrow> 'm list" where
  "goes_out f ds rs = concat (map2 (\<lambda>d (n, e). if e = Some 0 then [f (take (nat n) d)] else []) ds rs)"

lemma write_all_open:
  "\<not> closed s \<Longrightarrow> write_all ds s = (rs, t) \<Longrightarrow>
     \<not> closed t \<and> attempted t = attempted s @ map (frame s) ds \<and> sent t = sent s @ goes_out (frame s) ds rs
     \<and> length rs = length ds \<and> (\<forall>(n, e) \<in> set rs. e = Some 0 \<and> 0 \<le> n \<or> e = Some 1 \<and> n = 0)"
proof (induction ds arbitrary: s rs)
  case Nil
  then show ?case by (simp add: goes_out_def)
next
  case (Cons d ds)
  obtain n e u where w: "write_it d s = ((n, e), u)" by (cases "write_it d s") auto
  obtain qs where qs: "write_all ds u = (qs, t)" "rs = (n, e) # qs"
    using Cons.prems(2) w by (auto simp: split: prod.splits)
  note step = write_open [OF Cons.prems(1) w]
  from step Cons.IH [OF _ qs(1)] show ?case
    using qs(2) by (auto simp: goes_out_def)
qed

text \<open>A session: what is written between open and close goes out as reported, in order, later writes do not.\<close>

lemma session:
  assumes "fst (open_it s)" and "write_all ds (snd (open_it s)) = (rs, t)"
    and "write_all late (close_it t) = (rs', u)"
  shows "attempted u = attempted s @ map (frame (snd (open_it s))) ds"
    and "sent u = sent s @ goes_out (frame (snd (open_it s))) ds rs"
    and "length rs = length ds"
    and "\<forall>(n, e) \<in> set rs. e = Some 0 \<and> 0 \<le> n \<or> e = Some 1 \<and> n = 0"
    and "rs' = replicate (length late) (0, None)"
proof -
  have "u = close_it t" "rs' = replicate (length late) (0, None)"
    using assms(3) write_all_closed [OF closed_close, of late t] by simp_all
  with write_all_open [OF opened [OF assms(1)] assms(2)]
  show "attempted u = attempted s @ map (frame (snd (open_it s))) ds"
    "sent u = sent s @ goes_out (frame (snd (open_it s))) ds rs"
    "length rs = length ds" "\<forall>(n, e) \<in> set rs. e = Some 0 \<and> 0 \<le> n \<or> e = Some 1 \<and> n = 0"
    "rs' = replicate (length late) (0, None)"
    by (simp_all add: logs_close logs_open)
qed

end

definition udp_closed :: "('a udp_st_scheme) \<Rightarrow> bool" where
  "udp_closed s \<longleftrightarrow> sock_fd s < 0"

text \<open>A datagram: the socket it is sent on, its destination and its bytes.\<close>

type_synonym datagram = "int \<times> sockaddr_in \<times> u8 list"

fun attempt_of :: "event \<Rightarrow> datagram list" where
  "attempt_of (Sock (Sendto fd buf len addr)) = [(fd, addr, take len buf)]"
| "attempt_of _ = []"

definition attempts :: "'a udp_st_scheme \<Rightarrow> datagram list" where
  "attempts s = concat (map attempt_of (trace s))"

text \<open>
  What reaches the network: of each call of \<open>sendto\<close> the bytes the socket layer answered to have sent, none
  when the answer is negative.  \<open>past\<close> are the events before.
\<close>

fun deliver :: "int \<Rightarrow> datagram \<Rightarrow> datagram list" where
  "deliver r (fd, addr, d) = (if r < 0 then [] else [(fd, addr, take (nat r) d)])"

primrec deliveries :: "net \<Rightarrow> event list \<Rightarrow> event list \<Rightarrow> datagram list" where
  "deliveries N past [] = []"
| "deliveries N past (e # es) =
     concat (map (deliver (sendto_answer N (past @ [e]))) (attempt_of e)) @ deliveries N (past @ [e]) es"

definition delivered :: "net \<Rightarrow> 'a udp_st_scheme \<Rightarrow> datagram list" where
  "delivered N s = deliveries N [] (trace s)"

lemma deliveries_append [simp]:
  "deliveries N past (es @ fs) = deliveries N past es @ deliveries N (past @ es) fs"
  by (induction es arbitrary: past) simp_all

definition udp_write :: "net \<Rightarrow> u8 list \<Rightarrow> 'a udp_st_scheme \<Rightarrow> (int \<times> u8 option) \<times> 'a udp_st_scheme" where
  "udp_write N d s = run_state (udp_transport_write N d (length d)) s"

definition udp_frame :: "'a udp_st_scheme \<Rightarrow> u8 list \<Rightarrow> datagram" where
  "udp_frame s d = (sock_fd s, agent_addr_sender s, d)"

lemma run_open [run_simps]:
  "run_state (udp_transport_open N) s =
     (let t1 = trace s @ [Sock Socket]; fd = socket_answer N t1;
          t2 = t1 @ [Sock (Bind fd (AF_INET N, htons N (ROS_UDP_PORT N), htonl N (INADDR_ANY N)))]
      in if fd < 0 then (False, s\<lparr>trace := t1, sock_fd := fd\<rparr>)
         else if bind_answer N t2 < 0
         then (False, s\<lparr>trace := t2 @ [Sock (Close fd)], sock_fd := fd, agent_addr_sender := agent_address N\<rparr>)
         else (True, s\<lparr>trace := t2, sock_fd := fd, agent_addr_sender := agent_address N\<rparr>))"
  by (simp add: udp_transport_open_def Let_def)

lemma run_close [run_simps]:
  "run_state udp_transport_close s =
     (True, if 0 \<le> sock_fd s then s\<lparr>trace := trace s @ [Sock (Close (sock_fd s))], sock_fd := -1\<rparr> else s)"
  by (simp add: udp_transport_close_def)

lemma run_write [run_simps]:
  "run_state (udp_transport_write N buf len) s =
     (if sock_fd s < 0 then ((0, None), s)
      else let t = trace s @ [Sock (Sendto (sock_fd s) buf len (agent_addr_sender s))];
               r = sendto_answer N t
           in ((if r < 0 then (0, Some 1) else (r, Some 0)), s\<lparr>trace := t\<rparr>))"
  by (simp add: udp_transport_write_def Let_def)

interpretation udp: datagram_transport udp_closed "run_state (udp_transport_open N)" "exec udp_transport_close"
  "udp_write N" attempts "delivered N" udp_frame for N
proof unfold_locales
  fix s t :: "'a udp_st_scheme" and d n e
  assume "\<not> udp_closed s" and "udp_write N d s = ((n, e), t)"
  then show "\<not> udp_closed t \<and> udp_frame t = udp_frame s \<and> attempts t = attempts s @ [udp_frame s d]
      \<and> (e = Some 0 \<and> 0 \<le> n \<and> delivered N t = delivered N s @ [udp_frame s (take (nat n) d)]
         \<or> e = Some 1 \<and> n = 0 \<and> delivered N t = delivered N s)"
    by (auto simp: udp_closed_def udp_write_def run_write Let_def udp_frame_def [abs_def] attempts_def delivered_def
        split: if_splits)
qed (auto simp: udp_closed_def udp_write_def attempts_def delivered_def exec_def run_simps Let_def)

section \<open>Properties\<close>

text \<open>
  C28: A session: when open succeeds, each write until close makes one call of \<open>sendto\<close> for its datagram,
  in order, on the socket just opened and to the agent's address.  A write reports flag 0 and a count exactly
  when the socket layer sent the datagram, and that many of its bytes reach the network; it reports flag 1 and
  0 when the socket layer refused, and then nothing does.  Writes after close do nothing and leave the
  caller's flag alone.
\<close>

theorem udp_session:
  assumes "fst (run_state (udp_transport_open N) s)"
    and "udp.write_all N ds (snd (run_state (udp_transport_open N) s)) = (rs, t)"
    and "udp.write_all N late (exec udp_transport_close t) = (rs', u)"
    and "fd = socket_answer N (trace s @ [Sock Socket])"
  shows "attempts u = attempts s @ map (\<lambda>d. (fd, agent_address N, d)) ds
       \<and> delivered N u = delivered N s
           @ concat (map2 (\<lambda>d (n, e). if e = Some 0 then [(fd, agent_address N, take (nat n) d)] else []) ds rs)
       \<and> length rs = length ds \<and> (\<forall>(n, e) \<in> set rs. e = Some 0 \<and> 0 \<le> n \<or> e = Some 1 \<and> n = 0)
       \<and> rs' = replicate (length late) (0, None)"
proof -
  have "udp_frame (snd (run_state (udp_transport_open N) s)) = (\<lambda>d. (fd, agent_address N, d))"
    using assms(1,4) by (auto simp: run_open Let_def udp_frame_def [abs_def] split: if_splits)
  with udp.session [OF assms(1-3)] show ?thesis
    by (simp only: udp.goes_out_def)
qed

text \<open>
  After a failed bind the transport is not closed: the global still holds the descriptor that
  open has just closed, so the next close closes it a second time, and a write before that sends on
  it.
\<close>

theorem failed_bind_closes_twice:
  assumes "0 \<le> socket_answer N (trace s @ [Sock Socket])" and "\<And>t. bind_answer N t < 0"
  shows "\<exists>es fd. run_state (udp_transport_open N) s =
             (False, s\<lparr>trace := trace s @ es @ [Sock (Close fd)], sock_fd := fd, agent_addr_sender := agent_address N\<rparr>)
         \<and> 0 \<le> fd \<and> Sock (Close fd) \<notin> set es
         \<and> trace (exec (do { _ \<leftarrow> udp_transport_open N; udp_transport_close }) s)
             = trace s @ es @ [Sock (Close fd), Sock (Close fd)]
         \<and> (\<forall>d. Sock (Sendto fd d (length d) (agent_address N))
               \<in> set (trace (exec (do { _ \<leftarrow> udp_transport_open N; udp_transport_write N d (length d) }) s)))"
proof -
  let ?fd = "socket_answer N (trace s @ [Sock Socket])"
  let ?es = "[Sock Socket, Sock (Bind ?fd (AF_INET N, htons N (ROS_UDP_PORT N), htonl N (INADDR_ANY N)))]"
  show ?thesis
    by (rule exI [of _ ?es], rule exI [of _ ?fd])
       (use assms in \<open>simp add: run_open run_close run_write exec_def result_def Let_def\<close>)
qed

text \<open>
  What a caller of write and read is told: nothing at all (the error flag keeps the caller's
  value) on a closed transport, 1 and a count of zero on a failure, and 0 and the count otherwise; the
  count is then what the socket layer answered.
\<close>

theorem udp_error_reporting:
  "result (udp_transport_write N buf len) s =
     (if sock_fd s < 0 then (0, None)
      else let r = sendto_answer N (trace s @ [Sock (Sendto (sock_fd s) buf len (agent_addr_sender s))])
           in if r < 0 then (0, Some 1) else (r, Some 0))
   \<and> (sock_fd s < 0 \<longrightarrow> run_state (udp_transport_write N buf len) s = ((0, None), s)
        \<and> run_state (udp_transport_read N buf len timeout) s = ((0, buf, None), s))
   \<and> (0 \<le> sock_fd s \<longrightarrow>
        (let r = recv_answer N (trace s @ [Sock (Setsockopt_rcvtimeo (sock_fd s) (c_div timeout 1000)
                   (c_mod timeout 1000 * 1000)), Sock (Recv (sock_fd s) len)])
         in fst (result (udp_transport_read N buf len timeout) s) = max 0 (fst r)
          \<and> snd (snd (result (udp_transport_read N buf len timeout) s)) = Some (if fst r < 0 then 1 else 0)))"
  by (simp add: result_def run_write udp_transport_read_def run_simps Let_def)

text \<open>
  The receive timeout given to the socket is exactly the one asked for: seconds and microseconds
  add up to the milliseconds, the microseconds stay below one second in magnitude, and for a timeout
  that is not negative both parts are not negative.
\<close>

theorem udp_read_timeout:
  assumes "0 \<le> sock_fd s"
  shows "\<exists>sec usec. Sock (Setsockopt_rcvtimeo (sock_fd s) sec usec)
             \<in> set (trace (exec (udp_transport_read N buf len timeout) s))
           \<and> sec * 1000000 + usec = timeout * 1000 \<and> \<bar>usec\<bar> < 1000000
           \<and> (0 \<le> timeout \<longrightarrow> 0 \<le> sec \<and> 0 \<le> usec)"
proof (intro exI conjI impI)
  let ?sec = "c_div timeout 1000" and ?usec = "c_mod timeout 1000 * 1000"
  show "Sock (Setsockopt_rcvtimeo (sock_fd s) ?sec ?usec)
      \<in> set (trace (exec (udp_transport_read N buf len timeout) s))"
    using assms by (simp add: exec_def udp_transport_read_def run_simps Let_def)
  show "?sec * 1000000 + ?usec = timeout * 1000"
    using c_div_mod [of timeout 1000] by linarith
  show "\<bar>?usec\<bar> < 1000000"
    using abs_c_mod_less [of 1000 timeout] by (simp add: abs_mult)
  assume "0 \<le> timeout"
  then show "0 \<le> ?sec" and "0 \<le> ?usec" by simp_all
qed

text \<open>
  A receive never reports more than the socket layer answered and stores at most that many bytes:
  the rest of the caller's buffer is unchanged, and with an answer within the requested length nothing
  is stored outside the buffer.
\<close>

theorem udp_read_stays_in_buffer:
  assumes "\<And>t. fst (recv_answer N t) \<le> int len" and "len \<le> length buf"
    and "run_state (udp_transport_read N buf len timeout) s = ((n, buf', e), t)"
  shows "n \<le> int len \<and> ub t = ub s \<and> length buf' = length buf \<and> drop (nat n) buf' = drop (nat n) buf"
proof (cases "sock_fd s < 0")
  case True
  with assms(2,3) show ?thesis by (auto simp: udp_transport_read_def)
next
  case False
  let ?r = "recv_answer N (trace s @ [Sock (Setsockopt_rcvtimeo (sock_fd s) (c_div timeout 1000)
                   (c_mod timeout 1000 * 1000)), Sock (Recv (sock_fd s) len)])"
  have drop: "drop k (patch buf (take k d)) = drop k buf" for k d
    by (rule nth_equalityI) (auto simp: nth_patch)
  show ?thesis
    using False assms(3) assms(1) [of "trace s @ [Sock (Setsockopt_rcvtimeo (sock_fd s) (c_div timeout 1000)
                   (c_mod timeout 1000 * 1000)), Sock (Recv (sock_fd s) len)]"] assms(2)
    by (cases "fst ?r < 0") (auto simp: udp_transport_read_def run_simps Let_def drop)
qed

section \<open>Closed instances\<close>

definition demo_net :: net where
  "demo_net = \<lparr>AF_INET = 2, ROS_UDP_PORT = 8888, INADDR_ANY = 0, htons = (\<lambda>p. p), htonl = (\<lambda>a. a),
     agent_aton = Some 0xC0A80001, socket_answer = (\<lambda>t. 3), bind_answer = (\<lambda>t. 0),
     sendto_answer = (\<lambda>t. 2), recv_answer = (\<lambda>t. (2, [7, 8]))\<rparr>"

definition demo_udp :: udp_st where
  "demo_udp = \<lparr>trace = [], ub = False, sock_fd = -1, agent_addr_sender = (0, 0, 0)\<rparr>"

theorem udp_session_witness:
  "\<exists>u rs'. udp.write_all demo_net [[9]] (exec udp_transport_close
       (snd (udp.write_all demo_net [[1, 2, 3], [4]] (snd (run_state (udp_transport_open demo_net) demo_udp))))) = (rs', u)
     \<and> delivered demo_net u = [(3, agent_address demo_net, [1, 2]), (3, agent_address demo_net, [4])]"
proof -
  let ?o = "snd (run_state (udp_transport_open demo_net) demo_udp)"
  obtain t where t: "udp.write_all demo_net [[1, 2, 3], [4]] ?o = ([(2, Some 0), (2, Some 0)], t)"
    by (simp add: udp_write_def run_open run_write Let_def demo_net_def demo_udp_def)
  obtain rs' u where u: "udp.write_all demo_net [[9]] (exec udp_transport_close t) = (rs', u)"
    by fastforce
  have "fst (run_state (udp_transport_open demo_net) demo_udp)"
    by (simp add: run_open Let_def demo_net_def)
  from udp_session [OF this t u refl]
  have "delivered demo_net u = [(3, agent_address demo_net, [1, 2]), (3, agent_address demo_net, [4])]"
    by (simp add: demo_net_def demo_udp_def delivered_def)
  with t u show ?thesis by simp
qed

theorem failed_bind_closes_twice_witness:
  "\<exists>es fd. trace (exec (do { _ \<leftarrow> udp_transport_open (demo_net\<lparr>bind_answer := \<lambda>t. -1\<rparr>); udp_transport_close })
       demo_udp) = es @ [Sock (Close fd), Sock (Close fd)]"
  using failed_bind_closes_twice [of "demo_net\<lparr>bind_answer := \<lambda>t. -1\<rparr>" demo_udp]
  by (auto simp: demo_net_def demo_udp_def)

theorem udp_error_reporting_witness:
  "run_state (udp_transport_write demo_net [1] 1) demo_udp = ((0, None), demo_udp)"
  using udp_error_reporting [of demo_net "[1]" 1 demo_udp 0] by (simp add: demo_udp_def)

theorem udp_read_timeout_witness:
  "\<exists>sec usec. Sock (Setsockopt_rcvtimeo 3 sec usec)
       \<in> set (trace (exec (udp_transport_read demo_net [0] 1 1500) (demo_udp\<lparr>sock_fd := 3\<rparr>)))
     \<and> sec * 1000000 + usec = 1500000"
  using udp_read_timeout [of "demo_udp\<lparr>sock_fd := 3\<rparr>" demo_net "[0]" 1 1500] by auto

theorem udp_read_stays_in_buffer_witness:
  "drop 2 (fst (snd (result (udp_transport_read demo_net [0, 0, 5] 2 0) (demo_udp\<lparr>sock_fd := 3\<rparr>)))) = [5]"
  using udp_read_stays_in_buffer [of demo_net 2 "[0, 0, 5]" 0 "demo_udp\<lparr>sock_fd := 3\<rparr>" 2 "[7, 8, 5]" "Some 0"]
  by (simp add: demo_net_def demo_udp_def udp_transport_read_def result_def run_simps Let_def patch_def)

end
