(* ===== verification/Posix_Time.thy ===== *)
theory Posix_Time
  imports Platform
begin

text \<open>
  \<open>source/posix_time.c\<close>: the POSIX clock functions micro-ROS links against, on the microsecond
  timer of the board.  \<open>time_t\<close> has 64 bits and \<open>long\<close> has 32.
\<close>

record timespec =
  tv_sec :: u64
  tv_nsec :: u32

definition clock_gettime :: "env \<Rightarrow> nat \<Rightarrow> ('a world_scheme, int \<times> timespec) state" where
  "clock_gettime E clk_id = do {
     us \<leftarrow> call (Time Time_us_64) (clock_answer E);
     return (0, \<lparr>tv_sec = us div 1000000, tv_nsec = ucast ((us mod 1000000) * 1000)\<rparr>)
   }"

definition clock_settime :: "nat \<Rightarrow> timespec \<Rightarrow> ('a world_scheme, int) state" where
  "clock_settime clk_id tp = return 0"

definition usleep :: "u64 \<Rightarrow> ('a world_scheme, unit) state" where
  "usleep us = emit (Time (Sleep_us us))"

definition to_nanoseconds :: "timespec \<Rightarrow> nat" where
  "to_nanoseconds tp = unat (tv_sec tp) * 1000000000 + unat (tv_nsec tp)"

text \<open>The timespec \<open>clock_gettime\<close> makes of a timer value.\<close>

definition timespec_of :: "u64 \<Rightarrow> timespec" where
  "timespec_of us = \<lparr>tv_sec = us div 1000000, tv_nsec = ucast ((us mod 1000000) * 1000)\<rparr>"

lemma run_clock_gettime [run_simps]:
  "run_state (clock_gettime E clk) s =
     (let t = trace s @ [Time Time_us_64] in ((0, timespec_of (clock_answer E t)), s\<lparr>trace := t\<rparr>))"
  by (simp add: clock_gettime_def timespec_of_def Let_def)

lemma nsec_exact: "unat (tv_nsec (timespec_of us)) = unat us mod 1000000 * 1000"
proof -
  have "unat (us mod 1000000) = unat us mod 1000000" by (simp add: unat_mod)
  then have lt: "unat (us mod 1000000) * 1000 < 1000000000" by simp
  then have "unat (us mod 1000000 * 1000) = unat (us mod 1000000) * 1000"
    by (simp add: unat_word_ariths unat_mod)
  with lt show ?thesis
    by (simp add: timespec_of_def unsigned_ucast_eq take_bit_nat_eq_self_iff unat_mod)
qed

lemma sec_exact: "unat (tv_sec (timespec_of us)) = unat us div 1000000"
  by (simp add: timespec_of_def unat_div)

text \<open>
  C30: \<open>clock_gettime\<close> reads the timer once, whatever clock is asked for, and loses nothing: for every
  64-bit timer value the nanoseconds stay below one second (so the 32-bit field cannot overflow) and
  the time is the timer value in nanoseconds exactly.
\<close>

theorem clock_gettime_exact:
  "\<exists>us. result (clock_gettime E clk) s = (0, timespec_of us)
      \<and> exec (clock_gettime E clk) s = s\<lparr>trace := trace s @ [Time Time_us_64]\<rparr>
      \<and> us = clock_answer E (trace s @ [Time Time_us_64])
      \<and> unat (tv_nsec (timespec_of us)) < 1000000000
      \<and> to_nanoseconds (timespec_of us) = unat us * 1000"
proof (intro exI conjI)
  let ?us = "clock_answer E (trace s @ [Time Time_us_64])"
  show "result (clock_gettime E clk) s = (0, timespec_of ?us)"
    and "exec (clock_gettime E clk) s = s\<lparr>trace := trace s @ [Time Time_us_64]\<rparr>"
    by (simp_all add: result_def exec_def run_clock_gettime Let_def)
  show "unat (tv_nsec (timespec_of ?us)) < 1000000000" by (simp add: nsec_exact)
  show "to_nanoseconds (timespec_of ?us) = unat ?us * 1000"
    unfolding to_nanoseconds_def nsec_exact sec_exact
    using div_mult_mod_eq [of "unat ?us" 1000000] by linarith
qed simp

text \<open>
  The clock follows the timer: two timer values are in order exactly when the two times are, by
  seconds first and nanoseconds second.
\<close>

theorem clock_monotone:
  "u \<le> v \<longleftrightarrow> (tv_sec (timespec_of u) < tv_sec (timespec_of v)
                 \<or> tv_sec (timespec_of u) = tv_sec (timespec_of v)
                   \<and> tv_nsec (timespec_of u) \<le> tv_nsec (timespec_of v))"
proof -
  let ?m = "unat u" and ?n = "unat v"
  have "?m \<le> ?n \<longleftrightarrow> ?m div 1000000 < ?n div 1000000
      \<or> ?m div 1000000 = ?n div 1000000 \<and> ?m mod 1000000 * 1000 \<le> ?n mod 1000000 * 1000"
  proof -
    have "?m = ?m div 1000000 * 1000000 + ?m mod 1000000" "?n = ?n div 1000000 * 1000000 + ?n mod 1000000"
      "?m mod 1000000 < 1000000" "?n mod 1000000 < 1000000" by simp_all
    then show ?thesis by linarith
  qed
  then show ?thesis
    by (simp add: word_le_nat_alt word_less_nat_alt word_unat_eq_iff nsec_exact sec_exact del: mult_le_cancel2)
qed

text \<open>
  Setting the clock reports success and changes nothing: whatever value is set, a later
  \<open>clock_gettime\<close> answers as if it had not been called.
\<close>

theorem clock_settime_has_no_effect:
  "result (clock_settime clk tp) s = 0
   \<and> run_state (do { _ \<leftarrow> clock_settime clk tp; clock_gettime E clk' }) s = run_state (clock_gettime E clk') s"
  by (simp add: clock_settime_def)

end
