(* ===== verification/Rcutils.thy ===== *)
theory Rcutils
  imports Prelude
begin

text \<open>
  The boundary of the rcutils macro layer (\<open>libmicroros/include/rcutils\<close>): what its macros call in
  the precompiled library or take from their user, the compile-time configuration, and the state
  they keep.  Every call that leaves the headers is an \<open>rc_call\<close>, recorded in \<open>calls\<close>; its answer
  is a component of \<open>rc_env\<close>, a function of the calls made so far.  The macros keep state of their
  own only in function-level \<open>static\<close> variables: one \<open>site_statics\<close> per place a macro is used.
\<close>

section \<open>Calls leaving the headers\<close>

record rcutils_log_location_t =
  function_name :: string
  file_name :: string
  line_number :: nat

datatype rc_call =
    Set_error_state string string nat
  | Get_error_string
  | Reset_error
  | Fwrite_stderr string
  | Snprintf nat string "string list"
  | Printf string
  | Logging_initialize
  | Logger_is_enabled_for "string option" int
  | Rcutils_log_internal rcutils_log_location_t int "string option" string
  | Rcutils_log rcutils_log_location_t int string string
  | Get_time_point
  | Log_filter
  | Log_expression
  | Fault_set_count int
  | Fault_get_count
  | Fault_maybe_fail
  | Fault_is_test_complete
  | Exit int
  | Rmw_allocate nat
  | Rmw_free bool
  | Cerr string

text \<open>
  The preprocessor symbols that select between versions of a macro.  \<open>rcutils/configuration_flags.h\<close>
  of the board defines the first two; fault injection is off and no minimum severity is defined, so
  \<open>logging_macros.h\<close> sets it to \<open>RCUTILS_LOG_MIN_SEVERITY_NONE\<close>.
\<close>

record rc_config =
  RCUTILS_NO_FILESYSTEM :: bool
  RCUTILS_AVOID_DYNAMIC_ALLOCATION :: bool
  RCUTILS_ENABLE_FAULT_INJECTION :: bool
  RCUTILS_LOG_MIN_SEVERITY_flag :: "nat option"

definition configuration_flags :: rc_config where
  "configuration_flags = \<lparr>RCUTILS_NO_FILESYSTEM = True, RCUTILS_AVOID_DYNAMIC_ALLOCATION = True,
     RCUTILS_ENABLE_FAULT_INJECTION = False, RCUTILS_LOG_MIN_SEVERITY_flag = None\<rparr>"

text \<open>The configuration of a hosted build, with every facility compiled in.\<close>

definition full_configuration :: rc_config where
  "full_configuration = \<lparr>RCUTILS_NO_FILESYSTEM = False, RCUTILS_AVOID_DYNAMIC_ALLOCATION = False,
     RCUTILS_ENABLE_FAULT_INJECTION = True, RCUTILS_LOG_MIN_SEVERITY_flag = Some 0\<rparr>"

record rc_env =
  error_string :: "rc_call list \<Rightarrow> string"
  snprintf_answer :: "rc_call list \<Rightarrow> int \<times> string"
  g_rcutils_logging_initialized :: "rc_call list \<Rightarrow> bool"
  initialize_answer :: "rc_call list \<Rightarrow> int"
  is_enabled_answer :: "rc_call list \<Rightarrow> bool"
  fault_count_answer :: "rc_call list \<Rightarrow> int"
  maybe_fail_answer :: "rc_call list \<Rightarrow> int"
  test_complete_answer :: "rc_call list \<Rightarrow> bool"

section \<open>State\<close>

record site_statics =
  logging_once :: int
  logging_first :: bool
  logging_duration :: "int option"
  logging_last_logged :: int

text \<open>
  The values the static variables are declared with.  The initial value of the duration is an expression,
  evaluated when control first passes the declaration; until then it is \<open>None\<close>.
\<close>

definition initial_statics :: site_statics where
  "initial_statics = \<lparr>logging_once = 0, logging_first = True, logging_duration = None, logging_last_logged = 0\<rparr>"

record rc_st =
  calls :: "rc_call list"
  statics :: "nat \<Rightarrow> site_statics"
  overflowed :: bool

definition initial_rc :: rc_st where
  "initial_rc = \<lparr>calls = [], statics = (\<lambda>_. initial_statics), overflowed = False\<rparr>"

type_synonym 'a rc = "(rc_st, 'a) state"

definition rc_emit :: "rc_call \<Rightarrow> unit rc" where
  "rc_emit c = State (\<lambda>s. ((), s\<lparr>calls := calls s @ [c]\<rparr>))"

definition rc_ask :: "rc_call \<Rightarrow> (rc_call list \<Rightarrow> 'r) \<Rightarrow> 'r rc" where
  "rc_ask c f = State (\<lambda>s. (f (calls s @ [c]), s\<lparr>calls := calls s @ [c]\<rparr>))"

lemma run_rc_emit [simp, run_simps]: "run_state (rc_emit c) s = ((), s\<lparr>calls := calls s @ [c]\<rparr>)"
  by (simp add: rc_emit_def)

lemma run_rc_ask [simp, run_simps]:
  "run_state (rc_ask c f) s = (f (calls s @ [c]), s\<lparr>calls := calls s @ [c]\<rparr>)"
  by (simp add: rc_ask_def)

lemma exec_rc_emit [simp]: "exec (rc_emit c) s = s\<lparr>calls := calls s @ [c]\<rparr>"
  and exec_rc_ask [simp]: "exec (rc_ask c f) s = s\<lparr>calls := calls s @ [c]\<rparr>"
  and result_rc_ask [simp]: "result (rc_ask c f) s = f (calls s @ [c])"
  by (simp_all add: exec_def result_def)

text \<open>
  Signed 64-bit arithmetic of the macros.  A result outside the range is undefined behaviour; the
  monitor \<open>overflowed\<close> records it.
\<close>

definition in_int64 :: "int \<Rightarrow> bool" where
  "in_int64 x \<longleftrightarrow> - (2 ^ 63) \<le> x \<and> x < 2 ^ 63"

definition int64 :: "int \<Rightarrow> int rc" where
  "int64 x = State (\<lambda>s. (x, s\<lparr>overflowed := overflowed s \<or> \<not> in_int64 x\<rparr>))"

lemma run_int64 [simp, run_simps]:
  "run_state (int64 x) s = (x, s\<lparr>overflowed := overflowed s \<or> \<not> in_int64 x\<rparr>)"
  by (simp add: int64_def)

lemma exec_int64 [simp]: "exec (int64 x) s = s\<lparr>overflowed := overflowed s \<or> \<not> in_int64 x\<rparr>"
  and result_int64 [simp]: "result (int64 x) s = x"
  by (simp_all add: exec_def result_def)

section \<open>Text\<close>

text \<open>
  \<open>snprintf\<close>'s formatting as far as the headers use it: \<open>%s\<close> takes the next argument, \<open>%%\<close> is a
  percent sign.  \<open>%p\<close> is treated like \<open>%s\<close>, with the pointer already printed.  \<open>None\<close> is a
  directive without an argument, which is undefined behaviour, or one the headers do not use.
\<close>

fun format :: "string \<Rightarrow> string list \<Rightarrow> string option" where
  "format [] args = Some []"
| "format (c # cs) args =
     (if c = CHR ''%'' then
        (case cs of
           [] \<Rightarrow> None
         | d # ds \<Rightarrow>
             if d = CHR ''%'' then map_option (Cons d) (format ds args)
             else if d = CHR ''s'' \<or> d = CHR ''p'' then
               (case args of [] \<Rightarrow> None | a # as \<Rightarrow> map_option ((@) a) (format ds as))
             else None)
      else map_option (Cons c) (format cs args))"

definition literal :: "string \<Rightarrow> bool" where
  "literal s \<longleftrightarrow> CHR ''%'' \<notin> set s"

lemma format_literal_append:
  "literal s \<Longrightarrow> format (s @ t) args = map_option ((@) s) (format t args)"
  by (induction s) (cases "format t args"; auto simp: literal_def)+

lemma format_literal [simp]: "literal s \<Longrightarrow> format s args = Some s"
  using format_literal_append [of s "[]"] by simp

end
