(* ===== verification/Rcutils_Error.thy ===== *)
theory Rcutils_Error
  imports Rcutils
begin

text \<open>
  The error-handling macros of \<open>rcutils/error_handling.h\<close> and the fault-injection macros of
  \<open>rcutils/testing/fault_injection.h\<close> and \<open>rcutils/macros.h\<close>, in every configuration the
  preprocessor symbols allow.  A macro that can make the function around it return is a program
  with an optional result: \<open>Some r\<close> when that function has returned \<open>r\<close>.
\<close>

section \<open>Sizes\<close>

definition RCUTILS_ERROR_STATE_LINE_NUMBER_STR_MAX_LENGTH :: "rc_config \<Rightarrow> nat" where
  "RCUTILS_ERROR_STATE_LINE_NUMBER_STR_MAX_LENGTH C = (if RCUTILS_AVOID_DYNAMIC_ALLOCATION C then 1 else 20)"

definition RCUTILS_ERROR_FORMATTING_CHARACTERS :: "rc_config \<Rightarrow> nat" where
  "RCUTILS_ERROR_FORMATTING_CHARACTERS C = (if RCUTILS_AVOID_DYNAMIC_ALLOCATION C then 1 else 6)"

definition RCUTILS_ERROR_MESSAGE_MAX_LENGTH :: "rc_config \<Rightarrow> nat" where
  "RCUTILS_ERROR_MESSAGE_MAX_LENGTH C = (if RCUTILS_AVOID_DYNAMIC_ALLOCATION C then 1 else 1024)"

definition RCUTILS_ERROR_STATE_MESSAGE_MAX_LENGTH :: "rc_config \<Rightarrow> nat" where
  "RCUTILS_ERROR_STATE_MESSAGE_MAX_LENGTH C = (if RCUTILS_AVOID_DYNAMIC_ALLOCATION C then 1 else 768)"

definition RCUTILS_ERROR_STATE_FILE_MAX_LENGTH :: "rc_config \<Rightarrow> nat" where
  "RCUTILS_ERROR_STATE_FILE_MAX_LENGTH C =
     (if RCUTILS_AVOID_DYNAMIC_ALLOCATION C then 1
      else RCUTILS_ERROR_MESSAGE_MAX_LENGTH C - RCUTILS_ERROR_STATE_MESSAGE_MAX_LENGTH C
           - RCUTILS_ERROR_STATE_LINE_NUMBER_STR_MAX_LENGTH C - RCUTILS_ERROR_FORMATTING_CHARACTERS C - 1)"

lemmas error_sizes =
  RCUTILS_ERROR_STATE_LINE_NUMBER_STR_MAX_LENGTH_def RCUTILS_ERROR_FORMATTING_CHARACTERS_def
  RCUTILS_ERROR_MESSAGE_MAX_LENGTH_def RCUTILS_ERROR_STATE_MESSAGE_MAX_LENGTH_def
  RCUTILS_ERROR_STATE_FILE_MAX_LENGTH_def

text \<open>The C string a \<open>char[n]\<close> field holds of a text: what fits before the terminating null.\<close>

definition in_field :: "nat \<Rightarrow> string \<Rightarrow> string" where
  "in_field n t = take (n - 1) t"

record rcutils_error_state_t =
  error_message :: string
  error_file :: string
  error_line_number :: u64

section \<open>Writing to standard error\<close>

definition RCUTILS_SAFE_FWRITE_TO_STDERR :: "rc_config \<Rightarrow> string \<Rightarrow> unit rc" where
  "RCUTILS_SAFE_FWRITE_TO_STDERR C msg =
     (if RCUTILS_NO_FILESYSTEM C then skip else rc_emit (Fwrite_stderr msg))"

definition RCUTILS_SAFE_FWRITE_TO_STDERR_WITH_FORMAT_STRING ::
    "rc_config \<Rightarrow> rc_env \<Rightarrow> string \<Rightarrow> string list \<Rightarrow> unit rc" where
  "RCUTILS_SAFE_FWRITE_TO_STDERR_WITH_FORMAT_STRING C L format_string args =
     (if RCUTILS_AVOID_DYNAMIC_ALLOCATION C then skip
      else do {
        (ret, output_msg) \<leftarrow> rc_ask (Snprintf (RCUTILS_ERROR_MESSAGE_MAX_LENGTH C) format_string args)
                               (snprintf_answer L);
        if ret < 0
        then RCUTILS_SAFE_FWRITE_TO_STDERR C (''Failed to call snprintf for error message formatting'' @ [CHR 0x0A])
        else RCUTILS_SAFE_FWRITE_TO_STDERR C output_msg
      })"

section \<open>Setting the error\<close>

definition RCUTILS_SET_ERROR_MSG :: "rc_config \<Rightarrow> rcutils_log_location_t \<Rightarrow> string \<Rightarrow> unit rc" where
  "RCUTILS_SET_ERROR_MSG C loc msg =
     (if RCUTILS_AVOID_DYNAMIC_ALLOCATION C then skip
      else rc_emit (Set_error_state msg (file_name loc) (line_number loc)))"

definition RCUTILS_CHECK_FOR_NULL_WITH_MSG ::
    "rc_config \<Rightarrow> rcutils_log_location_t \<Rightarrow> 'v option \<Rightarrow> string \<Rightarrow> 'r option rc \<Rightarrow> 'r option rc" where
  "RCUTILS_CHECK_FOR_NULL_WITH_MSG C loc val msg error_statement =
     (if val = None then do { RCUTILS_SET_ERROR_MSG C loc msg; error_statement } else return None)"

definition RCUTILS_CHECK_ARGUMENT_FOR_NULL ::
    "rc_config \<Rightarrow> rcutils_log_location_t \<Rightarrow> string \<Rightarrow> 'v option \<Rightarrow> 'r \<Rightarrow> 'r option rc" where
  "RCUTILS_CHECK_ARGUMENT_FOR_NULL C loc argument_text argument error_return_type =
     RCUTILS_CHECK_FOR_NULL_WITH_MSG C loc argument (argument_text @ '' argument is null'')
       (return (Some error_return_type))"

definition RCUTILS_SET_ERROR_MSG_WITH_FORMAT_STRING ::
    "rc_config \<Rightarrow> rc_env \<Rightarrow> rcutils_log_location_t \<Rightarrow> string \<Rightarrow> string list \<Rightarrow> unit rc" where
  "RCUTILS_SET_ERROR_MSG_WITH_FORMAT_STRING C L loc format_string args =
     (if RCUTILS_AVOID_DYNAMIC_ALLOCATION C then skip
      else do {
        (ret, output_msg) \<leftarrow> rc_ask (Snprintf (RCUTILS_ERROR_MESSAGE_MAX_LENGTH C) format_string args)
                               (snprintf_answer L);
        if ret < 0
        then RCUTILS_SAFE_FWRITE_TO_STDERR C (''Failed to call snprintf for error message formatting'' @ [CHR 0x0A])
        else RCUTILS_SET_ERROR_MSG C loc output_msg
      })"

definition RCUTILS_SET_ERROR_MSG_AND_APPEND_PREV_ERROR ::
    "rc_config \<Rightarrow> rc_env \<Rightarrow> rcutils_log_location_t \<Rightarrow> string \<Rightarrow> unit rc" where
  "RCUTILS_SET_ERROR_MSG_AND_APPEND_PREV_ERROR C L loc msg = do {
     str \<leftarrow> rc_ask Get_error_string (error_string L);
     rc_emit Reset_error;
     RCUTILS_SET_ERROR_MSG_WITH_FORMAT_STRING C L loc (msg @ '': %s'') [str]
   }"

definition RCUTILS_SET_ERROR_MSG_WITH_FORMAT_STRING_AND_APPEND_PREV_ERROR ::
    "rc_config \<Rightarrow> rc_env \<Rightarrow> rcutils_log_location_t \<Rightarrow> string \<Rightarrow> string list \<Rightarrow> unit rc" where
  "RCUTILS_SET_ERROR_MSG_WITH_FORMAT_STRING_AND_APPEND_PREV_ERROR C L loc format_string args = do {
     str \<leftarrow> rc_ask Get_error_string (error_string L);
     rc_emit Reset_error;
     RCUTILS_SET_ERROR_MSG_WITH_FORMAT_STRING C L loc (format_string @ '': %s'') (args @ [str])
   }"

definition RCUTILS_SAFE_FWRITE_TO_STDERR_AND_APPEND_PREV_ERROR ::
    "rc_config \<Rightarrow> rc_env \<Rightarrow> string \<Rightarrow> unit rc" where
  "RCUTILS_SAFE_FWRITE_TO_STDERR_AND_APPEND_PREV_ERROR C L msg = do {
     str \<leftarrow> rc_ask Get_error_string (error_string L);
     rc_emit Reset_error;
     RCUTILS_SAFE_FWRITE_TO_STDERR C msg;
     RCUTILS_SAFE_FWRITE_TO_STDERR_WITH_FORMAT_STRING C L '': %s'' [str]
   }"

definition RCUTILS_SAFE_FWRITE_TO_STDERR_WITH_FORMAT_STRING_AND_APPEND_PREV_ERROR ::
    "rc_config \<Rightarrow> rc_env \<Rightarrow> string \<Rightarrow> string list \<Rightarrow> unit rc" where
  "RCUTILS_SAFE_FWRITE_TO_STDERR_WITH_FORMAT_STRING_AND_APPEND_PREV_ERROR C L format_string args = do {
     str \<leftarrow> rc_ask Get_error_string (error_string L);
     rc_emit Reset_error;
     RCUTILS_SAFE_FWRITE_TO_STDERR_WITH_FORMAT_STRING C L format_string args;
     RCUTILS_SAFE_FWRITE_TO_STDERR_WITH_FORMAT_STRING C L '': %s'' [str]
   }"

section \<open>Fault injection\<close>

definition RCUTILS_FAULT_INJECTION_NEVER_FAIL :: int where
  "RCUTILS_FAULT_INJECTION_NEVER_FAIL = -1"

definition RCUTILS_FAULT_INJECTION_FAIL_NOW :: int where
  "RCUTILS_FAULT_INJECTION_FAIL_NOW = 0"

definition RCUTILS_FAULT_INJECTION_MAYBE_RETURN_ERROR ::
    "rc_config \<Rightarrow> rc_env \<Rightarrow> rcutils_log_location_t \<Rightarrow> string \<Rightarrow> 'r \<Rightarrow> 'r option rc" where
  "RCUTILS_FAULT_INJECTION_MAYBE_RETURN_ERROR C L loc value_text return_value_on_error =
     (if RCUTILS_ENABLE_FAULT_INJECTION C
      then do {
        n \<leftarrow> rc_ask Fault_maybe_fail (maybe_fail_answer L);
        if n = RCUTILS_FAULT_INJECTION_FAIL_NOW
        then do {
          rc_emit (Printf (file_name loc @ '':'' @ decimal (line_number loc)
                    @ '' Injecting fault and returning '' @ value_text @ [CHR 0x0A]));
          return (Some return_value_on_error)
        }
        else return None
      }
      else return None)"

definition RCUTILS_FAULT_INJECTION_MAYBE_FAIL ::
    "rc_config \<Rightarrow> rc_env \<Rightarrow> rcutils_log_location_t \<Rightarrow> string \<Rightarrow> 'r option rc \<Rightarrow> 'r option rc" where
  "RCUTILS_FAULT_INJECTION_MAYBE_FAIL C L loc code_text failure_code =
     (if RCUTILS_ENABLE_FAULT_INJECTION C
      then do {
        n \<leftarrow> rc_ask Fault_maybe_fail (maybe_fail_answer L);
        if n = RCUTILS_FAULT_INJECTION_FAIL_NOW
        then do {
          rc_emit (Printf (file_name loc @ '':'' @ decimal (line_number loc)
                    @ '' Injecting fault and executing '' @ code_text @ [CHR 0x0A]));
          failure_code
        }
        else return None
      }
      else return None)"

definition RCUTILS_CAN_RETURN_WITH_ERROR_OF ::
    "rc_config \<Rightarrow> rc_env \<Rightarrow> rcutils_log_location_t \<Rightarrow> string \<Rightarrow> 'r \<Rightarrow> 'r option rc" where
  "RCUTILS_CAN_RETURN_WITH_ERROR_OF C L loc value_text error_return_value =
     (if RCUTILS_ENABLE_FAULT_INJECTION C
      then RCUTILS_FAULT_INJECTION_MAYBE_RETURN_ERROR C L loc value_text error_return_value
      else return None)"

definition RCUTILS_CAN_FAIL_WITH ::
    "rc_config \<Rightarrow> rc_env \<Rightarrow> rcutils_log_location_t \<Rightarrow> string \<Rightarrow> 'r option rc \<Rightarrow> 'r option rc" where
  "RCUTILS_CAN_FAIL_WITH C L loc code_text failure_code =
     (if RCUTILS_ENABLE_FAULT_INJECTION C
      then RCUTILS_FAULT_INJECTION_MAYBE_FAIL C L loc code_text failure_code
      else return None)"

definition RCUTILS_CAN_SET_MSG_AND_RETURN_WITH_ERROR_OF ::
    "rc_config \<Rightarrow> rc_env \<Rightarrow> rcutils_log_location_t \<Rightarrow> string \<Rightarrow> string \<Rightarrow> 'r \<Rightarrow> 'r option rc" where
  "RCUTILS_CAN_SET_MSG_AND_RETURN_WITH_ERROR_OF C L loc code_text value_text error_return_value =
     RCUTILS_CAN_FAIL_WITH C L loc code_text (do {
       RCUTILS_SET_ERROR_MSG C loc (''Injecting '' @ value_text);
       return (Some error_return_value)
     })"

text \<open>
  The loop of \<open>RCUTILS_FAULT_INJECTION_TEST\<close> may run for ever, so its model has fuel: the result is
  \<open>True\<close> when the loop was left.  \<open>fault_injection_test_ends\<close> gives the fuel that is enough.
\<close>

fun fault_injection_loop :: "rc_env \<Rightarrow> nat \<Rightarrow> int \<Rightarrow> unit rc \<Rightarrow> bool rc" where
  "fault_injection_loop L 0 fault_injection_count code = return False"
| "fault_injection_loop L (Suc fuel) fault_injection_count code = do {
     rc_emit (Fault_set_count fault_injection_count);
     code;
     complete \<leftarrow> rc_ask Fault_is_test_complete (test_complete_answer L);
     if complete then return True else fault_injection_loop L fuel (fault_injection_count + 1) code
   }"

definition RCUTILS_FAULT_INJECTION_TEST :: "rc_config \<Rightarrow> rc_env \<Rightarrow> nat \<Rightarrow> unit rc \<Rightarrow> bool rc" where
  "RCUTILS_FAULT_INJECTION_TEST C L fuel code =
     (if RCUTILS_ENABLE_FAULT_INJECTION C
      then do {
        left \<leftarrow> fault_injection_loop L fuel 0 code;
        when_do left (rc_emit (Fault_set_count RCUTILS_FAULT_INJECTION_NEVER_FAIL));
        return left
      }
      else return True)"

definition RCUTILS_NO_FAULT_INJECTION :: "rc_config \<Rightarrow> rc_env \<Rightarrow> unit rc \<Rightarrow> unit rc" where
  "RCUTILS_NO_FAULT_INJECTION C L code =
     (if RCUTILS_ENABLE_FAULT_INJECTION C
      then do {
        no_fault_injection_count \<leftarrow> rc_ask Fault_get_count (fault_count_answer L);
        rc_emit (Fault_set_count RCUTILS_FAULT_INJECTION_NEVER_FAIL);
        code;
        rc_emit (Fault_set_count no_fault_injection_count)
      }
      else skip)"

end
