(* ===== verification/Rcutils_Log.thy ===== *)
theory Rcutils_Log
  imports Rcutils_Error
begin

text \<open>
  The building blocks of \<open>rcutils/logging_macros.h\<close>: the severities, the automatic initialisation,
  \<open>RCUTILS_LOG_COND_NAMED\<close>, on which every logging macro rests, and the conditions.  A condition of
  the header is a pair of macros put before and after the logging call; here it is a function that
  wraps the call.  A \<open>call_site\<close> is one place a macro is used: it has its own static variables.
  The functions a macro is given (filter, clock) and its expression answer as functions of the
  calls made so far.
\<close>

section \<open>Severities\<close>

datatype RCUTILS_LOG_SEVERITY =
    RCUTILS_LOG_SEVERITY_UNSET
  | RCUTILS_LOG_SEVERITY_DEBUG
  | RCUTILS_LOG_SEVERITY_INFO
  | RCUTILS_LOG_SEVERITY_WARN
  | RCUTILS_LOG_SEVERITY_ERROR
  | RCUTILS_LOG_SEVERITY_FATAL

fun severity_value :: "RCUTILS_LOG_SEVERITY \<Rightarrow> int" where
  "severity_value RCUTILS_LOG_SEVERITY_UNSET = 0"
| "severity_value RCUTILS_LOG_SEVERITY_DEBUG = 10"
| "severity_value RCUTILS_LOG_SEVERITY_INFO = 20"
| "severity_value RCUTILS_LOG_SEVERITY_WARN = 30"
| "severity_value RCUTILS_LOG_SEVERITY_ERROR = 40"
| "severity_value RCUTILS_LOG_SEVERITY_FATAL = 50"

lemma severity_value_inject [simp]: "severity_value a = severity_value b \<longleftrightarrow> a = b"
  by (cases a; cases b) simp_all

instantiation RCUTILS_LOG_SEVERITY :: linorder
begin

definition less_eq_RCUTILS_LOG_SEVERITY :: "RCUTILS_LOG_SEVERITY \<Rightarrow> RCUTILS_LOG_SEVERITY \<Rightarrow> bool" where
  "less_eq_RCUTILS_LOG_SEVERITY a b \<longleftrightarrow> severity_value a \<le> severity_value b"

definition less_RCUTILS_LOG_SEVERITY :: "RCUTILS_LOG_SEVERITY \<Rightarrow> RCUTILS_LOG_SEVERITY \<Rightarrow> bool" where
  "less_RCUTILS_LOG_SEVERITY a b \<longleftrightarrow> severity_value a < severity_value b"

instance
  by standard (auto simp: less_eq_RCUTILS_LOG_SEVERITY_def less_RCUTILS_LOG_SEVERITY_def)

end

definition RCUTILS_LOG_MIN_SEVERITY_DEBUG :: nat where "RCUTILS_LOG_MIN_SEVERITY_DEBUG = 0"
definition RCUTILS_LOG_MIN_SEVERITY_INFO :: nat where "RCUTILS_LOG_MIN_SEVERITY_INFO = 1"
definition RCUTILS_LOG_MIN_SEVERITY_WARN :: nat where "RCUTILS_LOG_MIN_SEVERITY_WARN = 2"
definition RCUTILS_LOG_MIN_SEVERITY_ERROR :: nat where "RCUTILS_LOG_MIN_SEVERITY_ERROR = 3"
definition RCUTILS_LOG_MIN_SEVERITY_FATAL :: nat where "RCUTILS_LOG_MIN_SEVERITY_FATAL = 4"
definition RCUTILS_LOG_MIN_SEVERITY_NONE :: nat where "RCUTILS_LOG_MIN_SEVERITY_NONE = 5"

lemmas min_severities =
  RCUTILS_LOG_MIN_SEVERITY_DEBUG_def RCUTILS_LOG_MIN_SEVERITY_INFO_def RCUTILS_LOG_MIN_SEVERITY_WARN_def
  RCUTILS_LOG_MIN_SEVERITY_ERROR_def RCUTILS_LOG_MIN_SEVERITY_FATAL_def RCUTILS_LOG_MIN_SEVERITY_NONE_def

definition RCUTILS_LOG_MIN_SEVERITY :: "rc_config \<Rightarrow> nat" where
  "RCUTILS_LOG_MIN_SEVERITY C =
     (case RCUTILS_LOG_MIN_SEVERITY_flag C of Some n \<Rightarrow> n | None \<Rightarrow> RCUTILS_LOG_MIN_SEVERITY_NONE)"

section \<open>The logging call\<close>

record call_site =
  site_id :: nat
  site_location :: rcutils_log_location_t

definition RCUTILS_RET_OK :: int where
  "RCUTILS_RET_OK = 0"

definition RCUTILS_LOGGING_AUTOINIT :: "rc_config \<Rightarrow> rc_env \<Rightarrow> rcutils_log_location_t \<Rightarrow> unit rc" where
  "RCUTILS_LOGGING_AUTOINIT C L loc = do {
     initialized \<leftarrow> gets (\<lambda>s. g_rcutils_logging_initialized L (calls s));
     when_do (\<not> initialized) (do {
       ret \<leftarrow> rc_ask Logging_initialize (initialize_answer L);
       when_do (ret \<noteq> RCUTILS_RET_OK) (do {
         RCUTILS_SAFE_FWRITE_TO_STDERR C (''[rcutils|'' @ file_name loc @ '':'' @ decimal (line_number loc)
            @ ''] error initializing logging: '');
         when_do (\<not> RCUTILS_NO_FILESYSTEM C) (do {
           str \<leftarrow> rc_ask Get_error_string (error_string L);
           RCUTILS_SAFE_FWRITE_TO_STDERR C str
         });
         RCUTILS_SAFE_FWRITE_TO_STDERR C [CHR 0x0A];
         rc_emit Reset_error
       })
     })
   }"

type_synonym log_condition = "unit rc \<Rightarrow> unit rc"

definition RCUTILS_LOG_COND_NAMED ::
    "rc_config \<Rightarrow> rc_env \<Rightarrow> call_site \<Rightarrow> RCUTILS_LOG_SEVERITY \<Rightarrow> log_condition \<Rightarrow> string option \<Rightarrow> string \<Rightarrow> unit rc" where
  "RCUTILS_LOG_COND_NAMED C L site severity condition name msg = do {
     RCUTILS_LOGGING_AUTOINIT C L (site_location site);
     enabled \<leftarrow> rc_ask (Logger_is_enabled_for name (severity_value severity)) (is_enabled_answer L);
     when_do enabled
       (condition (rc_emit (Rcutils_log_internal (site_location site) (severity_value severity) name msg)))
   }"

section \<open>Conditions\<close>

definition my_statics :: "call_site \<Rightarrow> rc_st \<Rightarrow> site_statics" where
  "my_statics site s = statics s (site_id site)"

definition set_statics :: "call_site \<Rightarrow> (site_statics \<Rightarrow> site_statics) \<Rightarrow> unit rc" where
  "set_statics site f =
     modify (\<lambda>s. s\<lparr>statics := (statics s)(site_id site := f (statics s (site_id site)))\<rparr>)"

definition RCUTILS_LOG_CONDITION_EMPTY :: log_condition where
  "RCUTILS_LOG_CONDITION_EMPTY log = log"

definition RCUTILS_LOG_CONDITION_ONCE :: "call_site \<Rightarrow> log_condition" where
  "RCUTILS_LOG_CONDITION_ONCE site log = do {
     once \<leftarrow> gets (\<lambda>s. logging_once (my_statics site s));
     when_do (0 = once) (do {
       set_statics site (\<lambda>v. v\<lparr>logging_once := 1\<rparr>);
       log
     })
   }"

definition RCUTILS_LOG_CONDITION_EXPRESSION :: "(rc_call list \<Rightarrow> bool) \<Rightarrow> log_condition" where
  "RCUTILS_LOG_CONDITION_EXPRESSION expression log = do {
     b \<leftarrow> rc_ask Log_expression expression;
     when_do b log
   }"

type_synonym RclLogFilter = "rc_call list \<Rightarrow> bool"

definition RCUTILS_LOG_CONDITION_FUNCTION :: "RclLogFilter \<Rightarrow> log_condition" where
  "RCUTILS_LOG_CONDITION_FUNCTION function log = do {
     b \<leftarrow> rc_ask Log_filter function;
     when_do b log
   }"

definition RCUTILS_LOG_CONDITION_SKIPFIRST :: "call_site \<Rightarrow> log_condition" where
  "RCUTILS_LOG_CONDITION_SKIPFIRST site log = do {
     first \<leftarrow> gets (\<lambda>s. logging_first (my_statics site s));
     if first then set_statics site (\<lambda>v. v\<lparr>logging_first := False\<rparr>) else log
   }"

definition RCUTILS_MS_TO_NS :: "int \<Rightarrow> int rc" where
  "RCUTILS_MS_TO_NS milliseconds = int64 (milliseconds * (1000 * 1000))"

text \<open>A clock: the return code, and the value stored through the pointer unless it stored none.\<close>

type_synonym time_source = "rc_call list \<Rightarrow> int \<times> int option"

text \<open>The static duration, initialised once.\<close>

definition static_duration :: "call_site \<Rightarrow> int \<Rightarrow> int rc" where
  "static_duration site duration = do {
     known \<leftarrow> gets (\<lambda>s. logging_duration (my_statics site s));
     (case known of
        Some d \<Rightarrow> return d
      | None \<Rightarrow> do {
          d \<leftarrow> RCUTILS_MS_TO_NS duration;
          set_statics site (\<lambda>v. v\<lparr>logging_duration := Some d\<rparr>);
          return d
        })
   }"

definition RCUTILS_LOG_CONDITION_THROTTLE :: "call_site \<Rightarrow> time_source \<Rightarrow> int \<Rightarrow> log_condition" where
  "RCUTILS_LOG_CONDITION_THROTTLE site get_time_point_value duration log = do {
     duration_ns \<leftarrow> static_duration site duration;
     (ret, stored) \<leftarrow> rc_ask Get_time_point get_time_point_value;
     let now = (case stored of None \<Rightarrow> 0 | Some t \<Rightarrow> t);
     condition \<leftarrow>
       if ret \<noteq> RCUTILS_RET_OK
       then do {
         rc_emit (Rcutils_log (site_location site) (severity_value RCUTILS_LOG_SEVERITY_ERROR) []
           (function_name (site_location site) @ ''() at '' @ file_name (site_location site) @ '':''
            @ decimal (line_number (site_location site)) @ '' getting current steady time failed'' @ [CHR 0x0A]));
         return True
       }
       else do {
         last_logged \<leftarrow> gets (\<lambda>s. logging_last_logged (my_statics site s));
         next_time \<leftarrow> int64 (last_logged + duration_ns);
         return (next_time \<le> now)
       };
     when_do condition (do {
       set_statics site (\<lambda>v. v\<lparr>logging_last_logged := now\<rparr>);
       log
     })
   }"

end
