(* ===== verification/Rcutils_Log_Macros.thy ===== *)
theory Rcutils_Log_Macros
  imports Rcutils_Log
begin

text \<open>
  The seventy logging macros of \<open>rcutils/logging_macros.h\<close>, in the order of the header: for each
  severity, the message alone or under a condition, for the root logger or a named one.
\<close>

section \<open>Severity DEBUG\<close>

text \<open>Compiled out, every macro of severity DEBUG is empty.\<close>

definition compile_DEBUG :: "rc_config \<Rightarrow> unit rc \<Rightarrow> unit rc" where
  "compile_DEBUG C macro = (if RCUTILS_LOG_MIN_SEVERITY C > RCUTILS_LOG_MIN_SEVERITY_DEBUG then skip else macro)"

definition RCUTILS_LOG_DEBUG ::
    "rc_config \<Rightarrow> rc_env \<Rightarrow> call_site \<Rightarrow> string \<Rightarrow> unit rc" where
  "RCUTILS_LOG_DEBUG C L site msg =
     compile_DEBUG C (RCUTILS_LOG_COND_NAMED C L site RCUTILS_LOG_SEVERITY_DEBUG
       RCUTILS_LOG_CONDITION_EMPTY None msg)"

definition RCUTILS_LOG_DEBUG_NAMED ::
    "rc_config \<Rightarrow> rc_env \<Rightarrow> call_site \<Rightarrow> string \<Rightarrow> string \<Rightarrow> unit rc" where
  "RCUTILS_LOG_DEBUG_NAMED C L site name msg =
     compile_DEBUG C (RCUTILS_LOG_COND_NAMED C L site RCUTILS_LOG_SEVERITY_DEBUG
       RCUTILS_LOG_CONDITION_EMPTY (Some name) msg)"

definition RCUTILS_LOG_DEBUG_ONCE ::
    "rc_config \<Rightarrow> rc_env \<Rightarrow> call_site \<Rightarrow> string \<Rightarrow> unit rc" where
  "RCUTILS_LOG_DEBUG_ONCE C L site msg =
     compile_DEBUG C (RCUTILS_LOG_COND_NAMED C L site RCUTILS_LOG_SEVERITY_DEBUG
       (RCUTILS_LOG_CONDITION_ONCE site) None msg)"

definition RCUTILS_LOG_DEBUG_ONCE_NAMED ::
    "rc_config \<Rightarrow> rc_env \<Rightarrow> call_site \<Rightarrow> string \<Rightarrow> string \<Rightarrow> unit rc" where
  "RCUTILS_LOG_DEBUG_ONCE_NAMED C L site name msg =
     compile_DEBUG C (RCUTILS_LOG_COND_NAMED C L site RCUTILS_LOG_SEVERITY_DEBUG
       (RCUTILS_LOG_CONDITION_ONCE site) (Some name) msg)"

definition RCUTILS_LOG_DEBUG_EXPRESSION ::
    "rc_config \<Rightarrow> rc_env \<Rightarrow> call_site \<Rightarrow> (rc_call list \<Rightarrow> bool) \<Rightarrow> string \<Rightarrow> unit rc" where
  "RCUTILS_LOG_DEBUG_EXPRESSION C L site expression msg =
     compile_DEBUG C (RCUTILS_LOG_COND_NAMED C L site RCUTILS_LOG_SEVERITY_DEBUG
       (RCUTILS_LOG_CONDITION_EXPRESSION expression) None msg)"

definition RCUTILS_LOG_DEBUG_EXPRESSION_NAMED ::
    "rc_config \<Rightarrow> rc_env \<Rightarrow> call_site \<Rightarrow> (rc_call list \<Rightarrow> bool) \<Rightarrow> string \<Rightarrow> string \<Rightarrow> unit rc" where
  "RCUTILS_LOG_DEBUG_EXPRESSION_NAMED C L site expression name msg =
     compile_DEBUG C (RCUTILS_LOG_COND_NAMED C L site RCUTILS_LOG_SEVERITY_DEBUG
       (RCUTILS_LOG_CONDITION_EXPRESSION expression) (Some name) msg)"

definition RCUTILS_LOG_DEBUG_FUNCTION ::
    "rc_config \<Rightarrow> rc_env \<Rightarrow> call_site \<Rightarrow> RclLogFilter \<Rightarrow> string \<Rightarrow> unit rc" where
  "RCUTILS_LOG_DEBUG_FUNCTION C L site function msg =
     compile_DEBUG C (RCUTILS_LOG_COND_NAMED C L site RCUTILS_LOG_SEVERITY_DEBUG
       (RCUTILS_LOG_CONDITION_FUNCTION function) None msg)"

definition RCUTILS_LOG_DEBUG_FUNCTION_NAMED ::
    "rc_config \<Rightarrow> rc_env \<Rightarrow> call_site \<Rightarrow> RclLogFilter \<Rightarrow> string \<Rightarrow> string \<Rightarrow> unit rc" where
  "RCUTILS_LOG_DEBUG_FUNCTION_NAMED C L site function name msg =
     compile_DEBUG C (RCUTILS_LOG_COND_NAMED C L site RCUTILS_LOG_SEVERITY_DEBUG
       (RCUTILS_LOG_CONDITION_FUNCTION function) (Some name) msg)"

definition RCUTILS_LOG_DEBUG_SKIPFIRST ::
    "rc_config \<Rightarrow> rc_env \<Rightarrow> call_site \<Rightarrow> string \<Rightarrow> unit rc" where
  "RCUTILS_LOG_DEBUG_SKIPFIRST C L site msg =
     compile_DEBUG C (RCUTILS_LOG_COND_NAMED C L site RCUTILS_LOG_SEVERITY_DEBUG
       (RCUTILS_LOG_CONDITION_SKIPFIRST site) None msg)"

definition RCUTILS_LOG_DEBUG_SKIPFIRST_NAMED ::
    "rc_config \<Rightarrow> rc_env \<Rightarrow> call_site \<Rightarrow> string \<Rightarrow> string \<Rightarrow> unit rc" where
  "RCUTILS_LOG_DEBUG_SKIPFIRST_NAMED C L site name msg =
     compile_DEBUG C (RCUTILS_LOG_COND_NAMED C L site RCUTILS_LOG_SEVERITY_DEBUG
       (RCUTILS_LOG_CONDITION_SKIPFIRST site) (Some name) msg)"

definition RCUTILS_LOG_DEBUG_THROTTLE ::
    "rc_config \<Rightarrow> rc_env \<Rightarrow> call_site \<Rightarrow> time_source \<Rightarrow> int \<Rightarrow> string \<Rightarrow> unit rc" where
  "RCUTILS_LOG_DEBUG_THROTTLE C L site get_time_point_value duration msg =
     compile_DEBUG C (RCUTILS_LOG_COND_NAMED C L site RCUTILS_LOG_SEVERITY_DEBUG
       (RCUTILS_LOG_CONDITION_THROTTLE site get_time_point_value duration) None msg)"

definition RCUTILS_LOG_DEBUG_SKIPFIRST_THROTTLE ::
    "rc_config \<Rightarrow> rc_env \<Rightarrow> call_site \<Rightarrow> time_source \<Rightarrow> int \<Rightarrow> string \<Rightarrow> unit rc" where
  "RCUTILS_LOG_DEBUG_SKIPFIRST_THROTTLE C L site get_time_point_value duration msg =
     compile_DEBUG C (RCUTILS_LOG_COND_NAMED C L site RCUTILS_LOG_SEVERITY_DEBUG
       (\<lambda>log. RCUTILS_LOG_CONDITION_THROTTLE site get_time_point_value duration (RCUTILS_LOG_CONDITION_SKIPFIRST site log)) None msg)"

definition RCUTILS_LOG_DEBUG_THROTTLE_NAMED ::
    "rc_config \<Rightarrow> rc_env \<Rightarrow> call_site \<Rightarrow> time_source \<Rightarrow> int \<Rightarrow> string \<Rightarrow> string \<Rightarrow> unit rc" where
  "RCUTILS_LOG_DEBUG_THROTTLE_NAMED C L site get_time_point_value duration name msg =
     compile_DEBUG C (RCUTILS_LOG_COND_NAMED C L site RCUTILS_LOG_SEVERITY_DEBUG
       (RCUTILS_LOG_CONDITION_THROTTLE site get_time_point_value duration) (Some name) msg)"

definition RCUTILS_LOG_DEBUG_SKIPFIRST_THROTTLE_NAMED ::
    "rc_config \<Rightarrow> rc_env \<Rightarrow> call_site \<Rightarrow> time_source \<Rightarrow> int \<Rightarrow> string \<Rightarrow> string \<Rightarrow> unit rc" where
  "RCUTILS_LOG_DEBUG_SKIPFIRST_THROTTLE_NAMED C L site get_time_point_value duration name msg =
     compile_DEBUG C (RCUTILS_LOG_COND_NAMED C L site RCUTILS_LOG_SEVERITY_DEBUG
       (\<lambda>log. RCUTILS_LOG_CONDITION_THROTTLE site get_time_point_value duration (RCUTILS_LOG_CONDITION_SKIPFIRST site log)) (Some name) msg)"

section \<open>Severity INFO\<close>

text \<open>Compiled out, every macro of severity INFO is empty.\<close>

definition compile_INFO :: "rc_config \<Rightarrow> unit rc \<Rightarrow> unit rc" where
  "compile_INFO C macro = (if RCUTILS_LOG_MIN_SEVERITY C > RCUTILS_LOG_MIN_SEVERITY_INFO then skip else macro)"

definition RCUTILS_LOG_INFO ::
    "rc_config \<Rightarrow> rc_env \<Rightarrow> call_site \<Rightarrow> string \<Rightarrow> unit rc" where
  "RCUTILS_LOG_INFO C L site msg =
     compile_INFO C (RCUTILS_LOG_COND_NAMED C L site RCUTILS_LOG_SEVERITY_INFO
       RCUTILS_LOG_CONDITION_EMPTY None msg)"

definition RCUTILS_LOG_INFO_NAMED ::
    "rc_config \<Rightarrow> rc_env \<Rightarrow> call_site \<Rightarrow> string \<Rightarrow> string \<Rightarrow> unit rc" where
  "RCUTILS_LOG_INFO_NAMED C L site name msg =
     compile_INFO C (RCUTILS_LOG_COND_NAMED C L site RCUTILS_LOG_SEVERITY_INFO
       RCUTILS_LOG_CONDITION_EMPTY (Some name) msg)"

definition RCUTILS_LOG_INFO_ONCE ::
    "rc_config \<Rightarrow> rc_env \<Rightarrow> call_site \<Rightarrow> string \<Rightarrow> unit rc" where
  "RCUTILS_LOG_INFO_ONCE C L site msg =
     compile_INFO C (RCUTILS_LOG_COND_NAMED C L site RCUTILS_LOG_SEVERITY_INFO
       (RCUTILS_LOG_CONDITION_ONCE site) None msg)"

definition RCUTILS_LOG_INFO_ONCE_NAMED ::
    "rc_config \<Rightarrow> rc_env \<Rightarrow> call_site \<Rightarrow> string \<Rightarrow> string \<Rightarrow> unit rc" where
  "RCUTILS_LOG_INFO_ONCE_NAMED C L site name msg =
     compile_INFO C (RCUTILS_LOG_COND_NAMED C L site RCUTILS_LOG_SEVERITY_INFO
       (RCUTILS_LOG_CONDITION_ONCE site) (Some name) msg)"

definition RCUTILS_LOG_INFO_EXPRESSION ::
    "rc_config \<Rightarrow> rc_env \<Rightarrow> call_site \<Rightarrow> (rc_call list \<Rightarrow> bool) \<Rightarrow> string \<Rightarrow> unit rc" where
  "RCUTILS_LOG_INFO_EXPRESSION C L site expression msg =
     compile_INFO C (RCUTILS_LOG_COND_NAMED C L site RCUTILS_LOG_SEVERITY_INFO
       (RCUTILS_LOG_CONDITION_EXPRESSION expression) None msg)"

definition RCUTILS_LOG_INFO_EXPRESSION_NAMED ::
    "rc_config \<Rightarrow> rc_env \<Rightarrow> call_site \<Rightarrow> (rc_call list \<Rightarrow> bool) \<Rightarrow> string \<Rightarrow> string \<Rightarrow> unit rc" where
  "RCUTILS_LOG_INFO_EXPRESSION_NAMED C L site expression name msg =
     compile_INFO C (RCUTILS_LOG_COND_NAMED C L site RCUTILS_LOG_SEVERITY_INFO
       (RCUTILS_LOG_CONDITION_EXPRESSION expression) (Some name) msg)"

definition RCUTILS_LOG_INFO_FUNCTION ::
    "rc_config \<Rightarrow> rc_env \<Rightarrow> call_site \<Rightarrow> RclLogFilter \<Rightarrow> string \<Rightarrow> unit rc" where
  "RCUTILS_LOG_INFO_FUNCTION C L site function msg =
     compile_INFO C (RCUTILS_LOG_COND_NAMED C L site RCUTILS_LOG_SEVERITY_INFO
       (RCUTILS_LOG_CONDITION_FUNCTION function) None msg)"

definition RCUTILS_LOG_INFO_FUNCTION_NAMED ::
    "rc_config \<Rightarrow> rc_env \<Rightarrow> call_site \<Rightarrow> RclLogFilter \<Rightarrow> string \<Rightarrow> string \<Rightarrow> unit rc" where
  "RCUTILS_LOG_INFO_FUNCTION_NAMED C L site function name msg =
     compile_INFO C (RCUTILS_LOG_COND_NAMED C L site RCUTILS_LOG_SEVERITY_INFO
       (RCUTILS_LOG_CONDITION_FUNCTION function) (Some name) msg)"

definition RCUTILS_LOG_INFO_SKIPFIRST ::
    "rc_config \<Rightarrow> rc_env \<Rightarrow> call_site \<Rightarrow> string \<Rightarrow> unit rc" where
  "RCUTILS_LOG_INFO_SKIPFIRST C L site msg =
     compile_INFO C (RCUTILS_LOG_COND_NAMED C L site RCUTILS_LOG_SEVERITY_INFO
       (RCUTILS_LOG_CONDITION_SKIPFIRST site) None msg)"

definition RCUTILS_LOG_INFO_SKIPFIRST_NAMED ::
    "rc_config \<Rightarrow> rc_env \<Rightarrow> call_site \<Rightarrow> string \<Rightarrow> string \<Rightarrow> unit rc" where
  "RCUTILS_LOG_INFO_SKIPFIRST_NAMED C L site name msg =
     compile_INFO C (RCUTILS_LOG_COND_NAMED C L site RCUTILS_LOG_SEVERITY_INFO
       (RCUTILS_LOG_CONDITION_SKIPFIRST site) (Some name) msg)"

definition RCUTILS_LOG_INFO_THROTTLE ::
    "rc_config \<Rightarrow> rc_env \<Rightarrow> call_site \<Rightarrow> time_source \<Rightarrow> int \<Rightarrow> string \<Rightarrow> unit rc" where
  "RCUTILS_LOG_INFO_THROTTLE C L site get_time_point_value duration msg =
     compile_INFO C (RCUTILS_LOG_COND_NAMED C L site RCUTILS_LOG_SEVERITY_INFO
       (RCUTILS_LOG_CONDITION_THROTTLE site get_time_point_value duration) None msg)"

definition RCUTILS_LOG_INFO_SKIPFIRST_THROTTLE ::
    "rc_config \<Rightarrow> rc_env \<Rightarrow> call_site \<Rightarrow> time_source \<Rightarrow> int \<Rightarrow> string \<Rightarrow> unit rc" where
  "RCUTILS_LOG_INFO_SKIPFIRST_THROTTLE C L site get_time_point_value duration msg =
     compile_INFO C (RCUTILS_LOG_COND_NAMED C L site RCUTILS_LOG_SEVERITY_INFO
       (\<lambda>log. RCUTILS_LOG_CONDITION_THROTTLE site get_time_point_value duration (RCUTILS_LOG_CONDITION_SKIPFIRST site log)) None msg)"

definition RCUTILS_LOG_INFO_THROTTLE_NAMED ::
    "rc_config \<Rightarrow> rc_env \<Rightarrow> call_site \<Rightarrow> time_source \<Rightarrow> int \<Rightarrow> string \<Rightarrow> string \<Rightarrow> unit rc" where
  "RCUTILS_LOG_INFO_THROTTLE_NAMED C L site get_time_point_value duration name msg =
     compile_INFO C (RCUTILS_LOG_COND_NAMED C L site RCUTILS_LOG_SEVERITY_INFO
       (RCUTILS_LOG_CONDITION_THROTTLE site get_time_point_value duration) (Some name) msg)"

definition RCUTILS_LOG_INFO_SKIPFIRST_THROTTLE_NAMED ::
    "rc_config \<Rightarrow> rc_env \<Rightarrow> call_site \<Rightarrow> time_source \<Rightarrow> int \<Rightarrow> string \<Rightarrow> string \<Rightarrow> unit rc" where
  "RCUTILS_LOG_INFO_SKIPFIRST_THROTTLE_NAMED C L site get_time_point_value duration name msg =
     compile_INFO C (RCUTILS_LOG_COND_NAMED C L site RCUTILS_LOG_SEVERITY_INFO
       (\<lambda>log. RCUTILS_LOG_CONDITION_THROTTLE site get_time_point_value duration (RCUTILS_LOG_CONDITION_SKIPFIRST site log)) (Some name) msg)"

section \<open>Severity WARN\<close>

text \<open>Compiled out, every macro of severity WARN is empty.\<close>

definition compile_WARN :: "rc_config \<Rightarrow> unit rc \<Rightarrow> unit rc" where
  "compile_WARN C macro = (if RCUTILS_LOG_MIN_SEVERITY C > RCUTILS_LOG_MIN_SEVERITY_WARN then skip else macro)"

definition RCUTILS_LOG_WARN ::
    "rc_config \<Rightarrow> rc_env \<Rightarrow> call_site \<Rightarrow> string \<Rightarrow> unit rc" where
  "RCUTILS_LOG_WARN C L site msg =
     compile_WARN C (RCUTILS_LOG_COND_NAMED C L site RCUTILS_LOG_SEVERITY_WARN
       RCUTILS_LOG_CONDITION_EMPTY None msg)"

definition RCUTILS_LOG_WARN_NAMED ::
    "rc_config \<Rightarrow> rc_env \<Rightarrow> call_site \<Rightarrow> string \<Rightarrow> string \<Rightarrow> unit rc" where
  "RCUTILS_LOG_WARN_NAMED C L site name msg =
     compile_WARN C (RCUTILS_LOG_COND_NAMED C L site RCUTILS_LOG_SEVERITY_WARN
       RCUTILS_LOG_CONDITION_EMPTY (Some name) msg)"

definition RCUTILS_LOG_WARN_ONCE ::
    "rc_config \<Rightarrow> rc_env \<Rightarrow> call_site \<Rightarrow> string \<Rightarrow> unit rc" where
  "RCUTILS_LOG_WARN_ONCE C L site msg =
     compile_WARN C (RCUTILS_LOG_COND_NAMED C L site RCUTILS_LOG_SEVERITY_WARN
       (RCUTILS_LOG_CONDITION_ONCE site) None msg)"

definition RCUTILS_LOG_WARN_ONCE_NAMED ::
    "rc_config \<Rightarrow> rc_env \<Rightarrow> call_site \<Rightarrow> string \<Rightarrow> string \<Rightarrow> unit rc" where
  "RCUTILS_LOG_WARN_ONCE_NAMED C L site name msg =
     compile_WARN C (RCUTILS_LOG_COND_NAMED C L site RCUTILS_LOG_SEVERITY_WARN
       (RCUTILS_LOG_CONDITION_ONCE site) (Some name) msg)"

definition RCUTILS_LOG_WARN_EXPRESSION ::
    "rc_config \<Rightarrow> rc_env \<Rightarrow> call_site \<Rightarrow> (rc_call list \<Rightarrow> bool) \<Rightarrow> string \<Rightarrow> unit rc" where
  "RCUTILS_LOG_WARN_EXPRESSION C L site expression msg =
     compile_WARN C (RCUTILS_LOG_COND_NAMED C L site RCUTILS_LOG_SEVERITY_WARN
       (RCUTILS_LOG_CONDITION_EXPRESSION expression) None msg)"

definition RCUTILS_LOG_WARN_EXPRESSION_NAMED ::
    "rc_config \<Rightarrow> rc_env \<Rightarrow> call_site \<Rightarrow> (rc_call list \<Rightarrow> bool) \<Rightarrow> string \<Rightarrow> string \<Rightarrow> unit rc" where
  "RCUTILS_LOG_WARN_EXPRESSION_NAMED C L site expression name msg =
     compile_WARN C (RCUTILS_LOG_COND_NAMED C L site RCUTILS_LOG_SEVERITY_WARN
       (RCUTILS_LOG_CONDITION_EXPRESSION expression) (Some name) msg)"

definition RCUTILS_LOG_WARN_FUNCTION ::
    "rc_config \<Rightarrow> rc_env \<Rightarrow> call_site \<Rightarrow> RclLogFilter \<Rightarrow> string \<Rightarrow> unit rc" where
  "RCUTILS_LOG_WARN_FUNCTION C L site function msg =
     compile_WARN C (RCUTILS_LOG_COND_NAMED C L site RCUTILS_LOG_SEVERITY_WARN
       (RCUTILS_LOG_CONDITION_FUNCTION function) None msg)"

definition RCUTILS_LOG_WARN_FUNCTION_NAMED ::
    "rc_config \<Rightarrow> rc_env \<Rightarrow> call_site \<Rightarrow> RclLogFilter \<Rightarrow> string \<Rightarrow> string \<Rightarrow> unit rc" where
  "RCUTILS_LOG_WARN_FUNCTION_NAMED C L site function name msg =
     compile_WARN C (RCUTILS_LOG_COND_NAMED C L site RCUTILS_LOG_SEVERITY_WARN
       (RCUTILS_LOG_CONDITION_FUNCTION function) (Some name) msg)"

definition RCUTILS_LOG_WARN_SKIPFIRST ::
    "rc_config \<Rightarrow> rc_env \<Rightarrow> call_site \<Rightarrow> string \<Rightarrow> unit rc" where
  "RCUTILS_LOG_WARN_SKIPFIRST C L site msg =
     compile_WARN C (RCUTILS_LOG_COND_NAMED C L site RCUTILS_LOG_SEVERITY_WARN
       (RCUTILS_LOG_CONDITION_SKIPFIRST site) None msg)"

definition RCUTILS_LOG_WARN_SKIPFIRST_NAMED ::
    "rc_config \<Rightarrow> rc_env \<Rightarrow> call_site \<Rightarrow> string \<Rightarrow> string \<Rightarrow> unit rc" where
  "RCUTILS_LOG_WARN_SKIPFIRST_NAMED C L site name msg =
     compile_WARN C (RCUTILS_LOG_COND_NAMED C L site RCUTILS_LOG_SEVERITY_WARN
       (RCUTILS_LOG_CONDITION_SKIPFIRST site) (Some name) msg)"

definition RCUTILS_LOG_WARN_THROTTLE ::
    "rc_config \<Rightarrow> rc_env \<Rightarrow> call_site \<Rightarrow> time_source \<Rightarrow> int \<Rightarrow> string \<Rightarrow> unit rc" where
  "RCUTILS_LOG_WARN_THROTTLE C L site get_time_point_value duration msg =
     compile_WARN C (RCUTILS_LOG_COND_NAMED C L site RCUTILS_LOG_SEVERITY_WARN
       (RCUTILS_LOG_CONDITION_THROTTLE site get_time_point_value duration) None msg)"

definition RCUTILS_LOG_WARN_SKIPFIRST_THROTTLE ::
    "rc_config \<Rightarrow> rc_env \<Rightarrow> call_site \<Rightarrow> time_source \<Rightarrow> int \<Rightarrow> string \<Rightarrow> unit rc" where
  "RCUTILS_LOG_WARN_SKIPFIRST_THROTTLE C L site get_time_point_value duration msg =
     compile_WARN C (RCUTILS_LOG_COND_NAMED C L site RCUTILS_LOG_SEVERITY_WARN
       (\<lambda>log. RCUTILS_LOG_CONDITION_THROTTLE site get_time_point_value duration (RCUTILS_LOG_CONDITION_SKIPFIRST site log)) None msg)"

definition RCUTILS_LOG_WARN_THROTTLE_NAMED ::
    "rc_config \<Rightarrow> rc_env \<Rightarrow> call_site \<Rightarrow> time_source \<Rightarrow> int \<Rightarrow> string \<Rightarrow> string \<Rightarrow> unit rc" where
  "RCUTILS_LOG_WARN_THROTTLE_NAMED C L site get_time_point_value duration name msg =
     compile_WARN C (RCUTILS_LOG_COND_NAMED C L site RCUTILS_LOG_SEVERITY_WARN
       (RCUTILS_LOG_CONDITION_THROTTLE site get_time_point_value duration) (Some name) msg)"

definition RCUTILS_LOG_WARN_SKIPFIRST_THROTTLE_NAMED ::
    "rc_config \<Rightarrow> rc_env \<Rightarrow> call_site \<Rightarrow> time_source \<Rightarrow> int \<Rightarrow> string \<Rightarrow> string \<Rightarrow> unit rc" where
  "RCUTILS_LOG_WARN_SKIPFIRST_THROTTLE_NAMED C L site get_time_point_value duration name msg =
     compile_WARN C (RCUTILS_LOG_COND_NAMED C L site RCUTILS_LOG_SEVERITY_WARN
       (\<lambda>log. RCUTILS_LOG_CONDITION_THROTTLE site get_time_point_value duration (RCUTILS_LOG_CONDITION_SKIPFIRST site log)) (Some name) msg)"

section \<open>Severity ERROR\<close>

text \<open>Compiled out, every macro of severity ERROR is empty.\<close>

definition compile_ERROR :: "rc_config \<Rightarrow> unit rc \<Rightarrow> unit rc" where
  "compile_ERROR C macro = (if RCUTILS_LOG_MIN_SEVERITY C > RCUTILS_LOG_MIN_SEVERITY_ERROR then skip else macro)"

definition RCUTILS_LOG_ERROR ::
    "rc_config \<Rightarrow> rc_env \<Rightarrow> call_site \<Rightarrow> string \<Rightarrow> unit rc" where
  "RCUTILS_LOG_ERROR C L site msg =
     compile_ERROR C (RCUTILS_LOG_COND_NAMED C L site RCUTILS_LOG_SEVERITY_ERROR
       RCUTILS_LOG_CONDITION_EMPTY None msg)"

definition RCUTILS_LOG_ERROR_NAMED ::
    "rc_config \<Rightarrow> rc_env \<Rightarrow> call_site \<Rightarrow> string \<Rightarrow> string \<Rightarrow> unit rc" where
  "RCUTILS_LOG_ERROR_NAMED C L site name msg =
     compile_ERROR C (RCUTILS_LOG_COND_NAMED C L site RCUTILS_LOG_SEVERITY_ERROR
       RCUTILS_LOG_CONDITION_EMPTY (Some name) msg)"

definition RCUTILS_LOG_ERROR_ONCE ::
    "rc_config \<Rightarrow> rc_env \<Rightarrow> call_site \<Rightarrow> string \<Rightarrow> unit rc" where
  "RCUTILS_LOG_ERROR_ONCE C L site msg =
     compile_ERROR C (RCUTILS_LOG_COND_NAMED C L site RCUTILS_LOG_SEVERITY_ERROR
       (RCUTILS_LOG_CONDITION_ONCE site) None msg)"

definition RCUTILS_LOG_ERROR_ONCE_NAMED ::
    "rc_config \<Rightarrow> rc_env \<Rightarrow> call_site \<Rightarrow> string \<Rightarrow> string \<Rightarrow> unit rc" where
  "RCUTILS_LOG_ERROR_ONCE_NAMED C L site name msg =
     compile_ERROR C (RCUTILS_LOG_COND_NAMED C L site RCUTILS_LOG_SEVERITY_ERROR
       (RCUTILS_LOG_CONDITION_ONCE site) (Some name) msg)"

definition RCUTILS_LOG_ERROR_EXPRESSION ::
    "rc_config \<Rightarrow> rc_env \<Rightarrow> call_site \<Rightarrow> (rc_call list \<Rightarrow> bool) \<Rightarrow> string \<Rightarrow> unit rc" where
  "RCUTILS_LOG_ERROR_EXPRESSION C L site expression msg =
     compile_ERROR C (RCUTILS_LOG_COND_NAMED C L site RCUTILS_LOG_SEVERITY_ERROR
       (RCUTILS_LOG_CONDITION_EXPRESSION expression) None msg)"

definition RCUTILS_LOG_ERROR_EXPRESSION_NAMED ::
    "rc_config \<Rightarrow> rc_env \<Rightarrow> call_site \<Rightarrow> (rc_call list \<Rightarrow> bool) \<Rightarrow> string \<Rightarrow> string \<Rightarrow> unit rc" where
  "RCUTILS_LOG_ERROR_EXPRESSION_NAMED C L site expression name msg =
     compile_ERROR C (RCUTILS_LOG_COND_NAMED C L site RCUTILS_LOG_SEVERITY_ERROR
       (RCUTILS_LOG_CONDITION_EXPRESSION expression) (Some name) msg)"

definition RCUTILS_LOG_ERROR_FUNCTION ::
    "rc_config \<Rightarrow> rc_env \<Rightarrow> call_site \<Rightarrow> RclLogFilter \<Rightarrow> string \<Rightarrow> unit rc" where
  "RCUTILS_LOG_ERROR_FUNCTION C L site function msg =
     compile_ERROR C (RCUTILS_LOG_COND_NAMED C L site RCUTILS_LOG_SEVERITY_ERROR
       (RCUTILS_LOG_CONDITION_FUNCTION function) None msg)"

definition RCUTILS_LOG_ERROR_FUNCTION_NAMED ::
    "rc_config \<Rightarrow> rc_env \<Rightarrow> call_site \<Rightarrow> RclLogFilter \<Rightarrow> string \<Rightarrow> string \<Rightarrow> unit rc" where
  "RCUTILS_LOG_ERROR_FUNCTION_NAMED C L site function name msg =
     compile_ERROR C (RCUTILS_LOG_COND_NAMED C L site RCUTILS_LOG_SEVERITY_ERROR
       (RCUTILS_LOG_CONDITION_FUNCTION function) (Some name) msg)"

definition RCUTILS_LOG_ERROR_SKIPFIRST ::
    "rc_config \<Rightarrow> rc_env \<Rightarrow> call_site \<Rightarrow> string \<Rightarrow> unit rc" where
  "RCUTILS_LOG_ERROR_SKIPFIRST C L site msg =
     compile_ERROR C (RCUTILS_LOG_COND_NAMED C L site RCUTILS_LOG_SEVERITY_ERROR
       (RCUTILS_LOG_CONDITION_SKIPFIRST site) None msg)"

definition RCUTILS_LOG_ERROR_SKIPFIRST_NAMED ::
    "rc_config \<Rightarrow> rc_env \<Rightarrow> call_site \<Rightarrow> string \<Rightarrow> string \<Rightarrow> unit rc" where
  "RCUTILS_LOG_ERROR_SKIPFIRST_NAMED C L site name msg =
     compile_ERROR C (RCUTILS_LOG_COND_NAMED C L site RCUTILS_LOG_SEVERITY_ERROR
       (RCUTILS_LOG_CONDITION_SKIPFIRST site) (Some name) msg)"

definition RCUTILS_LOG_ERROR_THROTTLE ::
    "rc_config \<Rightarrow> rc_env \<Rightarrow> call_site \<Rightarrow> time_source \<Rightarrow> int \<Rightarrow> string \<Rightarrow> unit rc" where
  "RCUTILS_LOG_ERROR_THROTTLE C L site get_time_point_value duration msg =
     compile_ERROR C (RCUTILS_LOG_COND_NAMED C L site RCUTILS_LOG_SEVERITY_ERROR
       (RCUTILS_LOG_CONDITION_THROTTLE site get_time_point_value duration) None msg)"

definition RCUTILS_LOG_ERROR_SKIPFIRST_THROTTLE ::
    "rc_config \<Rightarrow> rc_env \<Rightarrow> call_site \<Rightarrow> time_source \<Rightarrow> int \<Rightarrow> string \<Rightarrow> unit rc" where
  "RCUTILS_LOG_ERROR_SKIPFIRST_THROTTLE C L site get_time_point_value duration msg =
     compile_ERROR C (RCUTILS_LOG_COND_NAMED C L site RCUTILS_LOG_SEVERITY_ERROR
       (\<lambda>log. RCUTILS_LOG_CONDITION_THROTTLE site get_time_point_value duration (RCUTILS_LOG_CONDITION_SKIPFIRST site log)) None msg)"

definition RCUTILS_LOG_ERROR_THROTTLE_NAMED ::
    "rc_config \<Rightarrow> rc_env \<Rightarrow> call_site \<Rightarrow> time_source \<Rightarrow> int \<Rightarrow> string \<Rightarrow> string \<Rightarrow> unit rc" where
  "RCUTILS_LOG_ERROR_THROTTLE_NAMED C L site get_time_point_value duration name msg =
     compile_ERROR C (RCUTILS_LOG_COND_NAMED C L site RCUTILS_LOG_SEVERITY_ERROR
       (RCUTILS_LOG_CONDITION_THROTTLE site get_time_point_value duration) (Some name) msg)"

definition RCUTILS_LOG_ERROR_SKIPFIRST_THROTTLE_NAMED ::
    "rc_config \<Rightarrow> rc_env \<Rightarrow> call_site \<Rightarrow> time_source \<Rightarrow> int \<Rightarrow> string \<Rightarrow> string \<Rightarrow> unit rc" where
  "RCUTILS_LOG_ERROR_SKIPFIRST_THROTTLE_NAMED C L site get_time_point_value duration name msg =
     compile_ERROR C (RCUTILS_LOG_COND_NAMED C L site RCUTILS_LOG_SEVERITY_ERROR
       (\<lambda>log. RCUTILS_LOG_CONDITION_THROTTLE site get_time_point_value duration (RCUTILS_LOG_CONDITION_SKIPFIRST site log)) (Some name) msg)"

section \<open>Severity FATAL\<close>

text \<open>Compiled out, every macro of severity FATAL is empty.\<close>

definition compile_FATAL :: "rc_config \<Rightarrow> unit rc \<Rightarrow> unit rc" where
  "compile_FATAL C macro = (if RCUTILS_LOG_MIN_SEVERITY C > RCUTILS_LOG_MIN_SEVERITY_FATAL then skip else macro)"

definition RCUTILS_LOG_FATAL ::
    "rc_config \<Rightarrow> rc_env \<Rightarrow> call_site \<Rightarrow> string \<Rightarrow> unit rc" where
  "RCUTILS_LOG_FATAL C L site msg =
     compile_FATAL C (RCUTILS_LOG_COND_NAMED C L site RCUTILS_LOG_SEVERITY_FATAL
       RCUTILS_LOG_CONDITION_EMPTY None msg)"

definition RCUTILS_LOG_FATAL_NAMED ::
    "rc_config \<Rightarrow> rc_env \<Rightarrow> call_site \<Rightarrow> string \<Rightarrow> string \<Rightarrow> unit rc" where
  "RCUTILS_LOG_FATAL_NAMED C L site name msg =
     compile_FATAL C (RCUTILS_LOG_COND_NAMED C L site RCUTILS_LOG_SEVERITY_FATAL
       RCUTILS_LOG_CONDITION_EMPTY (Some name) msg)"

definition RCUTILS_LOG_FATAL_ONCE ::
    "rc_config \<Rightarrow> rc_env \<Rightarrow> call_site \<Rightarrow> string \<Rightarrow> unit rc" where
  "RCUTILS_LOG_FATAL_ONCE C L site msg =
     compile_FATAL C (RCUTILS_LOG_COND_NAMED C L site RCUTILS_LOG_SEVERITY_FATAL
       (RCUTILS_LOG_CONDITION_ONCE site) None msg)"

definition RCUTILS_LOG_FATAL_ONCE_NAMED ::
    "rc_config \<Rightarrow> rc_env \<Rightarrow> call_site \<Rightarrow> string \<Rightarrow> string \<Rightarrow> unit rc" where
  "RCUTILS_LOG_FATAL_ONCE_NAMED C L site name msg =
     compile_FATAL C (RCUTILS_LOG_COND_NAMED C L site RCUTILS_LOG_SEVERITY_FATAL
       (RCUTILS_LOG_CONDITION_ONCE site) (Some name) msg)"

definition RCUTILS_LOG_FATAL_EXPRESSION ::
    "rc_config \<Rightarrow> rc_env \<Rightarrow> call_site \<Rightarrow> (rc_call list \<Rightarrow> bool) \<Rightarrow> string \<Rightarrow> unit rc" where
  "RCUTILS_LOG_FATAL_EXPRESSION C L site expression msg =
     compile_FATAL C (RCUTILS_LOG_COND_NAMED C L site RCUTILS_LOG_SEVERITY_FATAL
       (RCUTILS_LOG_CONDITION_EXPRESSION expression) None msg)"

definition RCUTILS_LOG_FATAL_EXPRESSION_NAMED ::
    "rc_config \<Rightarrow> rc_env \<Rightarrow> call_site \<Rightarrow> (rc_call list \<Rightarrow> bool) \<Rightarrow> string \<Rightarrow> string \<Rightarrow> unit rc" where
  "RCUTILS_LOG_FATAL_EXPRESSION_NAMED C L site expression name msg =
     compile_FATAL C (RCUTILS_LOG_COND_NAMED C L site RCUTILS_LOG_SEVERITY_FATAL
       (RCUTILS_LOG_CONDITION_EXPRESSION expression) (Some name) msg)"

definition RCUTILS_LOG_FATAL_FUNCTION ::
    "rc_config \<Rightarrow> rc_env \<Rightarrow> call_site \<Rightarrow> RclLogFilter \<Rightarrow> string \<Rightarrow> unit rc" where
  "RCUTILS_LOG_FATAL_FUNCTION C L site function msg =
     compile_FATAL C (RCUTILS_LOG_COND_NAMED C L site RCUTILS_LOG_SEVERITY_FATAL
       (RCUTILS_LOG_CONDITION_FUNCTION function) None msg)"

definition RCUTILS_LOG_FATAL_FUNCTION_NAMED ::
    "rc_config \<Rightarrow> rc_env \<Rightarrow> call_site \<Rightarrow> RclLogFilter \<Rightarrow> string \<Rightarrow> string \<Rightarrow> unit rc" where
  "RCUTILS_LOG_FATAL_FUNCTION_NAMED C L site function name msg =
     compile_FATAL C (RCUTILS_LOG_COND_NAMED C L site RCUTILS_LOG_SEVERITY_FATAL
       (RCUTILS_LOG_CONDITION_FUNCTION function) (Some name) msg)"

definition RCUTILS_LOG_FATAL_SKIPFIRST ::
    "rc_config \<Rightarrow> rc_env \<Rightarrow> call_site \<Rightarrow> string \<Rightarrow> unit rc" where
  "RCUTILS_LOG_FATAL_SKIPFIRST C L site msg =
     compile_FATAL C (RCUTILS_LOG_COND_NAMED C L site RCUTILS_LOG_SEVERITY_FATAL
       (RCUTILS_LOG_CONDITION_SKIPFIRST site) None msg)"

definition RCUTILS_LOG_FATAL_SKIPFIRST_NAMED ::
    "rc_config \<Rightarrow> rc_env \<Rightarrow> call_site \<Rightarrow> string \<Rightarrow> string \<Rightarrow> unit rc" where
  "RCUTILS_LOG_FATAL_SKIPFIRST_NAMED C L site name msg =
     compile_FATAL C (RCUTILS_LOG_COND_NAMED C L site RCUTILS_LOG_SEVERITY_FATAL
       (RCUTILS_LOG_CONDITION_SKIPFIRST site) (Some name) msg)"

definition RCUTILS_LOG_FATAL_THROTTLE ::
    "rc_config \<Rightarrow> rc_env \<Rightarrow> call_site \<Rightarrow> time_source \<Rightarrow> int \<Rightarrow> string \<Rightarrow> unit rc" where
  "RCUTILS_LOG_FATAL_THROTTLE C L site get_time_point_value duration msg =
     compile_FATAL C (RCUTILS_LOG_COND_NAMED C L site RCUTILS_LOG_SEVERITY_FATAL
       (RCUTILS_LOG_CONDITION_THROTTLE site get_time_point_value duration) None msg)"

definition RCUTILS_LOG_FATAL_SKIPFIRST_THROTTLE ::
    "rc_config \<Rightarrow> rc_env \<Rightarrow> call_site \<Rightarrow> time_source \<Rightarrow> int \<Rightarrow> string \<Rightarrow> unit rc" where
  "RCUTILS_LOG_FATAL_SKIPFIRST_THROTTLE C L site get_time_point_value duration msg =
     compile_FATAL C (RCUTILS_LOG_COND_NAMED C L site RCUTILS_LOG_SEVERITY_FATAL
       (\<lambda>log. RCUTILS_LOG_CONDITION_THROTTLE site get_time_point_value duration (RCUTILS_LOG_CONDITION_SKIPFIRST site log)) None msg)"

definition RCUTILS_LOG_FATAL_THROTTLE_NAMED ::
    "rc_config \<Rightarrow> rc_env \<Rightarrow> call_site \<Rightarrow> time_source \<Rightarrow> int \<Rightarrow> string \<Rightarrow> string \<Rightarrow> unit rc" where
  "RCUTILS_LOG_FATAL_THROTTLE_NAMED C L site get_time_point_value duration name msg =
     compile_FATAL C (RCUTILS_LOG_COND_NAMED C L site RCUTILS_LOG_SEVERITY_FATAL
       (RCUTILS_LOG_CONDITION_THROTTLE site get_time_point_value duration) (Some name) msg)"

definition RCUTILS_LOG_FATAL_SKIPFIRST_THROTTLE_NAMED ::
    "rc_config \<Rightarrow> rc_env \<Rightarrow> call_site \<Rightarrow> time_source \<Rightarrow> int \<Rightarrow> string \<Rightarrow> string \<Rightarrow> unit rc" where
  "RCUTILS_LOG_FATAL_SKIPFIRST_THROTTLE_NAMED C L site get_time_point_value duration name msg =
     compile_FATAL C (RCUTILS_LOG_COND_NAMED C L site RCUTILS_LOG_SEVERITY_FATAL
       (\<lambda>log. RCUTILS_LOG_CONDITION_THROTTLE site get_time_point_value duration (RCUTILS_LOG_CONDITION_SKIPFIRST site log)) (Some name) msg)"

section \<open>The macros by severity, condition and name\<close>

datatype cond =
    Cond_none
  | Cond_once
  | Cond_expression "rc_call list \<Rightarrow> bool"
  | Cond_function RclLogFilter
  | Cond_skipfirst
  | Cond_throttle time_source int
  | Cond_skipfirst_throttle time_source int

text \<open>
  The macro of the header for a severity, a condition and an optional logger name.  There is none
  for \<open>RCUTILS_LOG_SEVERITY_UNSET\<close>.
\<close>

fun log_macro ::
    "rc_config \<Rightarrow> rc_env \<Rightarrow> call_site \<Rightarrow> RCUTILS_LOG_SEVERITY \<Rightarrow> cond \<Rightarrow> string option \<Rightarrow> string \<Rightarrow> unit rc" where
  "log_macro C L site RCUTILS_LOG_SEVERITY_UNSET cnd name msg = skip"
| "log_macro C L site RCUTILS_LOG_SEVERITY_DEBUG Cond_none None msg =
     RCUTILS_LOG_DEBUG C L site msg"
| "log_macro C L site RCUTILS_LOG_SEVERITY_DEBUG Cond_none (Some name) msg =
     RCUTILS_LOG_DEBUG_NAMED C L site name msg"
| "log_macro C L site RCUTILS_LOG_SEVERITY_DEBUG Cond_once None msg =
     RCUTILS_LOG_DEBUG_ONCE C L site msg"
| "log_macro C L site RCUTILS_LOG_SEVERITY_DEBUG Cond_once (Some name) msg =
     RCUTILS_LOG_DEBUG_ONCE_NAMED C L site name msg"
| "log_macro C L site RCUTILS_LOG_SEVERITY_DEBUG (Cond_expression expression) None msg =
     RCUTILS_LOG_DEBUG_EXPRESSION C L site expression msg"
| "log_macro C L site RCUTILS_LOG_SEVERITY_DEBUG (Cond_expression expression) (Some name) msg =
     RCUTILS_LOG_DEBUG_EXPRESSION_NAMED C L site expression name msg"
| "log_macro C L site RCUTILS_LOG_SEVERITY_DEBUG (Cond_function function) None msg =
     RCUTILS_LOG_DEBUG_FUNCTION C L site function msg"
| "log_macro C L site RCUTILS_LOG_SEVERITY_DEBUG (Cond_function function) (Some name) msg =
     RCUTILS_LOG_DEBUG_FUNCTION_NAMED C L site function name msg"
| "log_macro C L site RCUTILS_LOG_SEVERITY_DEBUG Cond_skipfirst None msg =
     RCUTILS_LOG_DEBUG_SKIPFIRST C L site msg"
| "log_macro C L site RCUTILS_LOG_SEVERITY_DEBUG Cond_skipfirst (Some name) msg =
     RCUTILS_LOG_DEBUG_SKIPFIRST_NAMED C L site name msg"
| "log_macro C L site RCUTILS_LOG_SEVERITY_DEBUG (Cond_throttle get_time_point_value duration) None msg =
     RCUTILS_LOG_DEBUG_THROTTLE C L site get_time_point_value duration msg"
| "log_macro C L site RCUTILS_LOG_SEVERITY_DEBUG (Cond_skipfirst_throttle get_time_point_value duration) None msg =
     RCUTILS_LOG_DEBUG_SKIPFIRST_THROTTLE C L site get_time_point_value duration msg"
| "log_macro C L site RCUTILS_LOG_SEVERITY_DEBUG (Cond_throttle get_time_point_value duration) (Some name) msg =
     RCUTILS_LOG_DEBUG_THROTTLE_NAMED C L site get_time_point_value duration name msg"
| "log_macro C L site RCUTILS_LOG_SEVERITY_DEBUG (Cond_skipfirst_throttle get_time_point_value duration) (Some name) msg =
     RCUTILS_LOG_DEBUG_SKIPFIRST_THROTTLE_NAMED C L site get_time_point_value duration name msg"
| "log_macro C L site RCUTILS_LOG_SEVERITY_INFO Cond_none None msg =
     RCUTILS_LOG_INFO C L site msg"
| "log_macro C L site RCUTILS_LOG_SEVERITY_INFO Cond_none (Some name) msg =
     RCUTILS_LOG_INFO_NAMED C L site name msg"
| "log_macro C L site RCUTILS_LOG_SEVERITY_INFO Cond_once None msg =
     RCUTILS_LOG_INFO_ONCE C L site msg"
| "log_macro C L site RCUTILS_LOG_SEVERITY_INFO Cond_once (Some name) msg =
     RCUTILS_LOG_INFO_ONCE_NAMED C L site name msg"
| "log_macro C L site RCUTILS_LOG_SEVERITY_INFO (Cond_expression expression) None msg =
     RCUTILS_LOG_INFO_EXPRESSION C L site expression msg"
| "log_macro C L site RCUTILS_LOG_SEVERITY_INFO (Cond_expression expression) (Some name) msg =
     RCUTILS_LOG_INFO_EXPRESSION_NAMED C L site expression name msg"
| "log_macro C L site RCUTILS_LOG_SEVERITY_INFO (Cond_function function) None msg =
     RCUTILS_LOG_INFO_FUNCTION C L site function msg"
| "log_macro C L site RCUTILS_LOG_SEVERITY_INFO (Cond_function function) (Some name) msg =
     RCUTILS_LOG_INFO_FUNCTION_NAMED C L site function name msg"
| "log_macro C L site RCUTILS_LOG_SEVERITY_INFO Cond_skipfirst None msg =
     RCUTILS_LOG_INFO_SKIPFIRST C L site msg"
| "log_macro C L site RCUTILS_LOG_SEVERITY_INFO Cond_skipfirst (Some name) msg =
     RCUTILS_LOG_INFO_SKIPFIRST_NAMED C L site name msg"
| "log_macro C L site RCUTILS_LOG_SEVERITY_INFO (Cond_throttle get_time_point_value duration) None msg =
     RCUTILS_LOG_INFO_THROTTLE C L site get_time_point_value duration msg"
| "log_macro C L site RCUTILS_LOG_SEVERITY_INFO (Cond_skipfirst_throttle get_time_point_value duration) None msg =
     RCUTILS_LOG_INFO_SKIPFIRST_THROTTLE C L site get_time_point_value duration msg"
| "log_macro C L site RCUTILS_LOG_SEVERITY_INFO (Cond_throttle get_time_point_value duration) (Some name) msg =
     RCUTILS_LOG_INFO_THROTTLE_NAMED C L site get_time_point_value duration name msg"
| "log_macro C L site RCUTILS_LOG_SEVERITY_INFO (Cond_skipfirst_throttle get_time_point_value duration) (Some name) msg =
     RCUTILS_LOG_INFO_SKIPFIRST_THROTTLE_NAMED C L site get_time_point_value duration name msg"
| "log_macro C L site RCUTILS_LOG_SEVERITY_WARN Cond_none None msg =
     RCUTILS_LOG_WARN C L site msg"
| "log_macro C L site RCUTILS_LOG_SEVERITY_WARN Cond_none (Some name) msg =
     RCUTILS_LOG_WARN_NAMED C L site name msg"
| "log_macro C L site RCUTILS_LOG_SEVERITY_WARN Cond_once None msg =
     RCUTILS_LOG_WARN_ONCE C L site msg"
| "log_macro C L site RCUTILS_LOG_SEVERITY_WARN Cond_once (Some name) msg =
     RCUTILS_LOG_WARN_ONCE_NAMED C L site name msg"
| "log_macro C L site RCUTILS_LOG_SEVERITY_WARN (Cond_expression expression) None msg =
     RCUTILS_LOG_WARN_EXPRESSION C L site expression msg"
| "log_macro C L site RCUTILS_LOG_SEVERITY_WARN (Cond_expression expression) (Some name) msg =
     RCUTILS_LOG_WARN_EXPRESSION_NAMED C L site expression name msg"
| "log_macro C L site RCUTILS_LOG_SEVERITY_WARN (Cond_function function) None msg =
     RCUTILS_LOG_WARN_FUNCTION C L site function msg"
| "log_macro C L site RCUTILS_LOG_SEVERITY_WARN (Cond_function function) (Some name) msg =
     RCUTILS_LOG_WARN_FUNCTION_NAMED C L site function name msg"
| "log_macro C L site RCUTILS_LOG_SEVERITY_WARN Cond_skipfirst None msg =
     RCUTILS_LOG_WARN_SKIPFIRST C L site msg"
| "log_macro C L site RCUTILS_LOG_SEVERITY_WARN Cond_skipfirst (Some name) msg =
     RCUTILS_LOG_WARN_SKIPFIRST_NAMED C L site name msg"
| "log_macro C L site RCUTILS_LOG_SEVERITY_WARN (Cond_throttle get_time_point_value duration) None msg =
     RCUTILS_LOG_WARN_THROTTLE C L site get_time_point_value duration msg"
| "log_macro C L site RCUTILS_LOG_SEVERITY_WARN (Cond_skipfirst_throttle get_time_point_value duration) None msg =
     RCUTILS_LOG_WARN_SKIPFIRST_THROTTLE C L site get_time_point_value duration msg"
| "log_macro C L site RCUTILS_LOG_SEVERITY_WARN (Cond_throttle get_time_point_value duration) (Some name) msg =
     RCUTILS_LOG_WARN_THROTTLE_NAMED C L site get_time_point_value duration name msg"
| "log_macro C L site RCUTILS_LOG_SEVERITY_WARN (Cond_skipfirst_throttle get_time_point_value duration) (Some name) msg =
     RCUTILS_LOG_WARN_SKIPFIRST_THROTTLE_NAMED C L site get_time_point_value duration name msg"
| "log_macro C L site RCUTILS_LOG_SEVERITY_ERROR Cond_none None msg =
     RCUTILS_LOG_ERROR C L site msg"
| "log_macro C L site RCUTILS_LOG_SEVERITY_ERROR Cond_none (Some name) msg =
     RCUTILS_LOG_ERROR_NAMED C L site name msg"
| "log_macro C L site RCUTILS_LOG_SEVERITY_ERROR Cond_once None msg =
     RCUTILS_LOG_ERROR_ONCE C L site msg"
| "log_macro C L site RCUTILS_LOG_SEVERITY_ERROR Cond_once (Some name) msg =
     RCUTILS_LOG_ERROR_ONCE_NAMED C L site name msg"
| "log_macro C L site RCUTILS_LOG_SEVERITY_ERROR (Cond_expression expression) None msg =
     RCUTILS_LOG_ERROR_EXPRESSION C L site expression msg"
| "log_macro C L site RCUTILS_LOG_SEVERITY_ERROR (Cond_expression expression) (Some name) msg =
     RCUTILS_LOG_ERROR_EXPRESSION_NAMED C L site expression name msg"
| "log_macro C L site RCUTILS_LOG_SEVERITY_ERROR (Cond_function function) None msg =
     RCUTILS_LOG_ERROR_FUNCTION C L site function msg"
| "log_macro C L site RCUTILS_LOG_SEVERITY_ERROR (Cond_function function) (Some name) msg =
     RCUTILS_LOG_ERROR_FUNCTION_NAMED C L site function name msg"
| "log_macro C L site RCUTILS_LOG_SEVERITY_ERROR Cond_skipfirst None msg =
     RCUTILS_LOG_ERROR_SKIPFIRST C L site msg"
| "log_macro C L site RCUTILS_LOG_SEVERITY_ERROR Cond_skipfirst (Some name) msg =
     RCUTILS_LOG_ERROR_SKIPFIRST_NAMED C L site name msg"
| "log_macro C L site RCUTILS_LOG_SEVERITY_ERROR (Cond_throttle get_time_point_value duration) None msg =
     RCUTILS_LOG_ERROR_THROTTLE C L site get_time_point_value duration msg"
| "log_macro C L site RCUTILS_LOG_SEVERITY_ERROR (Cond_skipfirst_throttle get_time_point_value duration) None msg =
     RCUTILS_LOG_ERROR_SKIPFIRST_THROTTLE C L site get_time_point_value duration msg"
| "log_macro C L site RCUTILS_LOG_SEVERITY_ERROR (Cond_throttle get_time_point_value duration) (Some name) msg =
     RCUTILS_LOG_ERROR_THROTTLE_NAMED C L site get_time_point_value duration name msg"
| "log_macro C L site RCUTILS_LOG_SEVERITY_ERROR (Cond_skipfirst_throttle get_time_point_value duration) (Some name) msg =
     RCUTILS_LOG_ERROR_SKIPFIRST_THROTTLE_NAMED C L site get_time_point_value duration name msg"
| "log_macro C L site RCUTILS_LOG_SEVERITY_FATAL Cond_none None msg =
     RCUTILS_LOG_FATAL C L site msg"
| "log_macro C L site RCUTILS_LOG_SEVERITY_FATAL Cond_none (Some name) msg =
     RCUTILS_LOG_FATAL_NAMED C L site name msg"
| "log_macro C L site RCUTILS_LOG_SEVERITY_FATAL Cond_once None msg =
     RCUTILS_LOG_FATAL_ONCE C L site msg"
| "log_macro C L site RCUTILS_LOG_SEVERITY_FATAL Cond_once (Some name) msg =
     RCUTILS_LOG_FATAL_ONCE_NAMED C L site name msg"
| "log_macro C L site RCUTILS_LOG_SEVERITY_FATAL (Cond_expression expression) None msg =
     RCUTILS_LOG_FATAL_EXPRESSION C L site expression msg"
| "log_macro C L site RCUTILS_LOG_SEVERITY_FATAL (Cond_expression expression) (Some name) msg =
     RCUTILS_LOG_FATAL_EXPRESSION_NAMED C L site expression name msg"
| "log_macro C L site RCUTILS_LOG_SEVERITY_FATAL (Cond_function function) None msg =
     RCUTILS_LOG_FATAL_FUNCTION C L site function msg"
| "log_macro C L site RCUTILS_LOG_SEVERITY_FATAL (Cond_function function) (Some name) msg =
     RCUTILS_LOG_FATAL_FUNCTION_NAMED C L site function name msg"
| "log_macro C L site RCUTILS_LOG_SEVERITY_FATAL Cond_skipfirst None msg =
     RCUTILS_LOG_FATAL_SKIPFIRST C L site msg"
| "log_macro C L site RCUTILS_LOG_SEVERITY_FATAL Cond_skipfirst (Some name) msg =
     RCUTILS_LOG_FATAL_SKIPFIRST_NAMED C L site name msg"
| "log_macro C L site RCUTILS_LOG_SEVERITY_FATAL (Cond_throttle get_time_point_value duration) None msg =
     RCUTILS_LOG_FATAL_THROTTLE C L site get_time_point_value duration msg"
| "log_macro C L site RCUTILS_LOG_SEVERITY_FATAL (Cond_skipfirst_throttle get_time_point_value duration) None msg =
     RCUTILS_LOG_FATAL_SKIPFIRST_THROTTLE C L site get_time_point_value duration msg"
| "log_macro C L site RCUTILS_LOG_SEVERITY_FATAL (Cond_throttle get_time_point_value duration) (Some name) msg =
     RCUTILS_LOG_FATAL_THROTTLE_NAMED C L site get_time_point_value duration name msg"
| "log_macro C L site RCUTILS_LOG_SEVERITY_FATAL (Cond_skipfirst_throttle get_time_point_value duration) (Some name) msg =
     RCUTILS_LOG_FATAL_SKIPFIRST_THROTTLE_NAMED C L site get_time_point_value duration name msg"

lemmas log_macro_defs =
  RCUTILS_LOG_DEBUG_def
  RCUTILS_LOG_DEBUG_NAMED_def
  RCUTILS_LOG_DEBUG_ONCE_def
  RCUTILS_LOG_DEBUG_ONCE_NAMED_def
  RCUTILS_LOG_DEBUG_EXPRESSION_def
  RCUTILS_LOG_DEBUG_EXPRESSION_NAMED_def
  RCUTILS_LOG_DEBUG_FUNCTION_def
  RCUTILS_LOG_DEBUG_FUNCTION_NAMED_def
  RCUTILS_LOG_DEBUG_SKIPFIRST_def
  RCUTILS_LOG_DEBUG_SKIPFIRST_NAMED_def
  RCUTILS_LOG_DEBUG_THROTTLE_def
  RCUTILS_LOG_DEBUG_SKIPFIRST_THROTTLE_def
  RCUTILS_LOG_DEBUG_THROTTLE_NAMED_def
  RCUTILS_LOG_DEBUG_SKIPFIRST_THROTTLE_NAMED_def
  RCUTILS_LOG_INFO_def
  RCUTILS_LOG_INFO_NAMED_def
  RCUTILS_LOG_INFO_ONCE_def
  RCUTILS_LOG_INFO_ONCE_NAMED_def
  RCUTILS_LOG_INFO_EXPRESSION_def
  RCUTILS_LOG_INFO_EXPRESSION_NAMED_def
  RCUTILS_LOG_INFO_FUNCTION_def
  RCUTILS_LOG_INFO_FUNCTION_NAMED_def
  RCUTILS_LOG_INFO_SKIPFIRST_def
  RCUTILS_LOG_INFO_SKIPFIRST_NAMED_def
  RCUTILS_LOG_INFO_THROTTLE_def
  RCUTILS_LOG_INFO_SKIPFIRST_THROTTLE_def
  RCUTILS_LOG_INFO_THROTTLE_NAMED_def
  RCUTILS_LOG_INFO_SKIPFIRST_THROTTLE_NAMED_def
  RCUTILS_LOG_WARN_def
  RCUTILS_LOG_WARN_NAMED_def
  RCUTILS_LOG_WARN_ONCE_def
  RCUTILS_LOG_WARN_ONCE_NAMED_def
  RCUTILS_LOG_WARN_EXPRESSION_def
  RCUTILS_LOG_WARN_EXPRESSION_NAMED_def
  RCUTILS_LOG_WARN_FUNCTION_def
  RCUTILS_LOG_WARN_FUNCTION_NAMED_def
  RCUTILS_LOG_WARN_SKIPFIRST_def
  RCUTILS_LOG_WARN_SKIPFIRST_NAMED_def
  RCUTILS_LOG_WARN_THROTTLE_def
  RCUTILS_LOG_WARN_SKIPFIRST_THROTTLE_def
  RCUTILS_LOG_WARN_THROTTLE_NAMED_def
  RCUTILS_LOG_WARN_SKIPFIRST_THROTTLE_NAMED_def
  RCUTILS_LOG_ERROR_def
  RCUTILS_LOG_ERROR_NAMED_def
  RCUTILS_LOG_ERROR_ONCE_def
  RCUTILS_LOG_ERROR_ONCE_NAMED_def
  RCUTILS_LOG_ERROR_EXPRESSION_def
  RCUTILS_LOG_ERROR_EXPRESSION_NAMED_def
  RCUTILS_LOG_ERROR_FUNCTION_def
  RCUTILS_LOG_ERROR_FUNCTION_NAMED_def
  RCUTILS_LOG_ERROR_SKIPFIRST_def
  RCUTILS_LOG_ERROR_SKIPFIRST_NAMED_def
  RCUTILS_LOG_ERROR_THROTTLE_def
  RCUTILS_LOG_ERROR_SKIPFIRST_THROTTLE_def
  RCUTILS_LOG_ERROR_THROTTLE_NAMED_def
  RCUTILS_LOG_ERROR_SKIPFIRST_THROTTLE_NAMED_def
  RCUTILS_LOG_FATAL_def
  RCUTILS_LOG_FATAL_NAMED_def
  RCUTILS_LOG_FATAL_ONCE_def
  RCUTILS_LOG_FATAL_ONCE_NAMED_def
  RCUTILS_LOG_FATAL_EXPRESSION_def
  RCUTILS_LOG_FATAL_EXPRESSION_NAMED_def
  RCUTILS_LOG_FATAL_FUNCTION_def
  RCUTILS_LOG_FATAL_FUNCTION_NAMED_def
  RCUTILS_LOG_FATAL_SKIPFIRST_def
  RCUTILS_LOG_FATAL_SKIPFIRST_NAMED_def
  RCUTILS_LOG_FATAL_THROTTLE_def
  RCUTILS_LOG_FATAL_SKIPFIRST_THROTTLE_def
  RCUTILS_LOG_FATAL_THROTTLE_NAMED_def
  RCUTILS_LOG_FATAL_SKIPFIRST_THROTTLE_NAMED_def
  compile_DEBUG_def compile_INFO_def compile_WARN_def compile_ERROR_def compile_FATAL_def

end
