(* ===== verification/Rcutils_Error_Props.thy ===== *)
theory Rcutils_Error_Props
  imports Rcutils_Error
begin

text \<open>
  What the error macros achieve, given the documented behaviour of the functions they call: the
  thread's error state (\<open>rcutils_set_error_state\<close>, \<open>rcutils_get_error_string\<close>,
  \<open>rcutils_reset_error\<close>), \<open>rcutils_snprintf\<close> and the fault-injection counter.  The contracts read
  the state of those functions off the calls made so far.
\<close>

section \<open>Contracts of the library\<close>

type_synonym stored_error = "string \<times> string \<times> nat"

fun error_step :: "stored_error option \<Rightarrow> rc_call \<Rightarrow> stored_error option" where
  "error_step st (Set_error_state msg file line) = Some (in_field 768 msg, in_field 229 file, line)"
| "error_step st Reset_error = None"
| "error_step st _ = st"

definition error_state_of :: "rc_call list \<Rightarrow> stored_error option" where
  "error_state_of h = foldl error_step None h"

fun error_text :: "stored_error option \<Rightarrow> string" where
  "error_text None = ''error not set''"
| "error_text (Some (msg, file, line)) = msg @ '', at '' @ file @ '':'' @ decimal line"

definition error_contract :: "rc_env \<Rightarrow> bool" where
  "error_contract L \<longleftrightarrow> (\<forall>h. error_string L (h @ [Get_error_string]) = error_text (error_state_of h))"

definition snprintf_contract :: "rc_env \<Rightarrow> bool" where
  "snprintf_contract L \<longleftrightarrow>
     (\<forall>h n f args t. format f args = Some t \<longrightarrow>
        snprintf_answer L (h @ [Snprintf n f args]) = (int (length t), in_field n t))"

lemma error_state_append [simp]: "error_state_of (h @ es) = foldl error_step (error_state_of h) es"
  by (simp add: error_state_of_def)

lemma error_stringD: "error_contract L \<Longrightarrow> error_string L (h @ [Get_error_string]) = error_text (error_state_of h)"
  by (simp add: error_contract_def)

lemma snprintfD:
  "\<lbrakk> snprintf_contract L; format f args = Some t \<rbrakk>
     \<Longrightarrow> snprintf_answer L (h @ [Snprintf n f args]) = (int (length t), in_field n t)"
  by (simp add: snprintf_contract_def)

lemma format_append_prev: "literal msg \<Longrightarrow> format (msg @ '': %s'') [str] = Some (msg @ '': '' @ str)"
  by (simp add: format_literal_append)

section \<open>The error message\<close>

lemma length_decimal: "n < 10 ^ Suc k \<Longrightarrow> length (decimal n) \<le> Suc k"
proof (induction k arbitrary: n)
  case 0
  then show ?case by (subst decimal.simps) simp
next
  case (Suc k)
  then have "n div 10 < 10 ^ Suc k" by (simp add: less_mult_imp_div_less)
  from Suc.IH [OF this] show ?case by (subst decimal.simps) simp
qed

lemma stored_fields:
  assumes "error_state_of h = Some (m, f, l)"
  shows "length m \<le> 767 \<and> length f \<le> 228 \<and> (\<exists>m' f'. Set_error_state m' f' l \<in> set h)"
  using assms
proof (induction h rule: rev_induct)
  case Nil
  then show ?case by (simp add: error_state_of_def)
next
  case (snoc c h)
  then show ?case by (cases c) (auto simp: in_field_def)
qed

text \<open>
  The buffer sizes of the error macros are consistent: the static assertion of the header holds,
  and whatever messages, files and 64-bit line numbers were given to the library before, the error
  string made of the stored fields, with its terminating null, fits in
  \<open>RCUTILS_ERROR_MESSAGE_MAX_LENGTH\<close> characters.
\<close>

theorem error_string_fits:
  assumes "\<not> RCUTILS_AVOID_DYNAMIC_ALLOCATION C"
    and "\<And>m f l. Set_error_state m f l \<in> set h \<Longrightarrow> l < 2 ^ 64"
  shows "RCUTILS_ERROR_MESSAGE_MAX_LENGTH C =
           RCUTILS_ERROR_STATE_MESSAGE_MAX_LENGTH C + RCUTILS_ERROR_STATE_FILE_MAX_LENGTH C
           + RCUTILS_ERROR_STATE_LINE_NUMBER_STR_MAX_LENGTH C + RCUTILS_ERROR_FORMATTING_CHARACTERS C + 1
       \<and> length (error_text (error_state_of h)) + 1 \<le> RCUTILS_ERROR_MESSAGE_MAX_LENGTH C"
proof
  show "RCUTILS_ERROR_MESSAGE_MAX_LENGTH C =
           RCUTILS_ERROR_STATE_MESSAGE_MAX_LENGTH C + RCUTILS_ERROR_STATE_FILE_MAX_LENGTH C
           + RCUTILS_ERROR_STATE_LINE_NUMBER_STR_MAX_LENGTH C + RCUTILS_ERROR_FORMATTING_CHARACTERS C + 1"
    using assms(1) by (simp add: error_sizes)
  show "length (error_text (error_state_of h)) + 1 \<le> RCUTILS_ERROR_MESSAGE_MAX_LENGTH C"
  proof (cases "error_state_of h")
    case None
    then show ?thesis using assms(1) by (simp add: error_sizes)
  next
    case (Some e)
    obtain m f l where e: "e = (m, f, l)" by (cases e)
    from stored_fields [of h m f l] Some e assms(2)
    have "length m \<le> 767" "length f \<le> 228" "l < 2 ^ 64" by auto
    moreover from \<open>l < 2 ^ 64\<close> have "length (decimal l) \<le> Suc 19" by (intro length_decimal) simp
    ultimately show ?thesis using assms(1) Some e by (simp add: error_sizes)
  qed
qed

text \<open>
  \<open>RCUTILS_SET_ERROR_MSG_AND_APPEND_PREV_ERROR\<close> replaces the thread's error by the new message
  followed by the previous error's text, cut to what the buffers hold, with the place of the new
  error.  Without a previous error the text appended is ``error not set'', so the message is not the
  one \<open>RCUTILS_SET_ERROR_MSG\<close> would have stored.
\<close>

theorem append_prev_error:
  assumes "\<not> RCUTILS_AVOID_DYNAMIC_ALLOCATION C" and "error_contract L" and "snprintf_contract L"
    and "literal msg"
  shows "error_state_of (calls (exec (RCUTILS_SET_ERROR_MSG_AND_APPEND_PREV_ERROR C L loc msg) s)) =
           Some (in_field 768 (in_field 1024 (msg @ '': '' @ error_text (error_state_of (calls s)))),
                 in_field 229 (file_name loc), line_number loc)
       \<and> (error_state_of (calls s) = None \<longrightarrow>
         error_state_of (calls (exec (RCUTILS_SET_ERROR_MSG_AND_APPEND_PREV_ERROR C L loc msg) s)) =
           Some (in_field 768 (msg @ '': error not set''), in_field 229 (file_name loc), line_number loc))"
proof (intro conjI impI)
  let ?t = "msg @ '': '' @ error_text (error_state_of (calls s))"
  have "exec (RCUTILS_SET_ERROR_MSG_AND_APPEND_PREV_ERROR C L loc msg) s
      = s\<lparr>calls := calls s @ [Get_error_string, Reset_error,
            Snprintf 1024 (msg @ '': %s'') [error_text (error_state_of (calls s))],
            Set_error_state (in_field 1024 ?t) (file_name loc) (line_number loc)]\<rparr>"
    using assms(1) snprintfD [OF assms(3) format_append_prev [OF assms(4)],
        of "calls s @ [Get_error_string, Reset_error]" 1024]
    by (simp add: RCUTILS_SET_ERROR_MSG_AND_APPEND_PREV_ERROR_def RCUTILS_SET_ERROR_MSG_def
        RCUTILS_SET_ERROR_MSG_WITH_FORMAT_STRING_def error_stringD [OF assms(2)] error_sizes
        split_beta)
  then show g: "error_state_of (calls (exec (RCUTILS_SET_ERROR_MSG_AND_APPEND_PREV_ERROR C L loc msg) s)) =
           Some (in_field 768 (in_field 1024 ?t), in_field 229 (file_name loc), line_number loc)"
    by simp
  show "error_state_of (calls (exec (RCUTILS_SET_ERROR_MSG_AND_APPEND_PREV_ERROR C L loc msg) s)) =
           Some (in_field 768 (msg @ '': error not set''), in_field 229 (file_name loc), line_number loc)"
    if "error_state_of (calls s) = None"
    using g that by (simp add: in_field_def min_def)
qed

text \<open>
  With the configuration of the board (no dynamic allocation, no file system) a failed argument
  check still makes the function return its error code, but nothing is recorded: no macro sets an
  error or writes to standard error, and the two that append a previous error discard it.
\<close>

theorem board_errors_are_silent:
  "run_state (RCUTILS_CHECK_ARGUMENT_FOR_NULL configuration_flags loc what None r) s = (Some r, s)
      \<and> run_state (RCUTILS_CHECK_ARGUMENT_FOR_NULL configuration_flags loc what (Some v) r) s = (None, s)
      \<and> exec (RCUTILS_SET_ERROR_MSG_WITH_FORMAT_STRING configuration_flags L loc fmt args) s = s
      \<and> exec (RCUTILS_SET_ERROR_MSG_AND_APPEND_PREV_ERROR configuration_flags L loc msg) s
           = s\<lparr>calls := calls s @ [Get_error_string, Reset_error]\<rparr>
      \<and> error_state_of (calls (exec (RCUTILS_SET_ERROR_MSG_AND_APPEND_PREV_ERROR configuration_flags L loc msg) s)) = None
      \<and> exec (RCUTILS_SAFE_FWRITE_TO_STDERR_WITH_FORMAT_STRING_AND_APPEND_PREV_ERROR configuration_flags L fmt args) s
           = s\<lparr>calls := calls s @ [Get_error_string, Reset_error]\<rparr>"
  by (simp add: configuration_flags_def RCUTILS_CHECK_ARGUMENT_FOR_NULL_def
      RCUTILS_CHECK_FOR_NULL_WITH_MSG_def RCUTILS_SET_ERROR_MSG_def RCUTILS_SET_ERROR_MSG_WITH_FORMAT_STRING_def
      RCUTILS_SET_ERROR_MSG_AND_APPEND_PREV_ERROR_def
      RCUTILS_SAFE_FWRITE_TO_STDERR_WITH_FORMAT_STRING_AND_APPEND_PREV_ERROR_def
      RCUTILS_SAFE_FWRITE_TO_STDERR_WITH_FORMAT_STRING_def)

section \<open>Fault injection\<close>

fun fault_step :: "int \<Rightarrow> rc_call \<Rightarrow> int" where
  "fault_step c (Fault_set_count n) = n"
| "fault_step c Fault_maybe_fail = (if c < 0 then c else c - 1)"
| "fault_step c _ = c"

definition fault_counter :: "rc_call list \<Rightarrow> int" where
  "fault_counter h = foldl fault_step RCUTILS_FAULT_INJECTION_NEVER_FAIL h"

text \<open>
  The counter as documented: \<open>maybe_fail\<close> answers with the count and decrements it unless it is
  negative; a test is complete when the count it set was not used up.
\<close>

definition fault_contract :: "rc_env \<Rightarrow> bool" where
  "fault_contract L \<longleftrightarrow>
     (\<forall>h. maybe_fail_answer L (h @ [Fault_maybe_fail]) = fault_counter h
        \<and> fault_count_answer L (h @ [Fault_get_count]) = fault_counter h
        \<and> test_complete_answer L (h @ [Fault_is_test_complete])
            = (fault_counter h > RCUTILS_FAULT_INJECTION_NEVER_FAIL))"

lemma fault_counter_append [simp]: "fault_counter (h @ es) = foldl fault_step (fault_counter h) es"
  by (simp add: fault_counter_def)

text \<open>A function that consists of fault points: it returns the error of the first that fails.\<close>

fun fault_points :: "rc_config \<Rightarrow> rc_env \<Rightarrow> (rcutils_log_location_t \<times> string \<times> 'r) list \<Rightarrow> 'r option rc" where
  "fault_points C L [] = return None"
| "fault_points C L ((loc, what, r) # ps) = do {
     v \<leftarrow> RCUTILS_CAN_RETURN_WITH_ERROR_OF C L loc what r;
     case v of None \<Rightarrow> fault_points C L ps | Some r \<Rightarrow> return (Some r)
   }"

lemma can_return_unfold:
  assumes "RCUTILS_ENABLE_FAULT_INJECTION C" and "fault_contract L"
  shows "result (RCUTILS_CAN_RETURN_WITH_ERROR_OF C L loc what r) s
           = (if fault_counter (calls s) = 0 then Some r else None)"
    and "fault_counter (calls s) \<noteq> 0 \<Longrightarrow>
         exec (RCUTILS_CAN_RETURN_WITH_ERROR_OF C L loc what r) s = s\<lparr>calls := calls s @ [Fault_maybe_fail]\<rparr>"
  using assms
  by (simp_all add: RCUTILS_CAN_RETURN_WITH_ERROR_OF_def RCUTILS_FAULT_INJECTION_MAYBE_RETURN_ERROR_def
      RCUTILS_FAULT_INJECTION_FAIL_NOW_def fault_contract_def)

text \<open>
  With the fault counter at \<open>c\<close>, a function made of fault points returns the error of its
  \<open>c\<close>-th point (counting from 0) and of no other; with a counter that is negative, or not below the
  number of points, none fails.
\<close>

theorem fault_points_fail_once:
  assumes "RCUTILS_ENABLE_FAULT_INJECTION C" and "fault_contract L"
  shows "result (fault_points C L points) s =
           (let c = fault_counter (calls s) in
            if 0 \<le> c \<and> nat c < length points then Some (snd (snd (points ! nat c))) else None)"
proof (induction points arbitrary: s)
  case Nil
  then show ?case by (simp add: Let_def)
next
  case (Cons p ps)
  obtain loc what r where p: "p = (loc, what, r)" by (cases p)
  show ?case
  proof (cases "fault_counter (calls s) = 0")
    case True
    then show ?thesis by (simp add: p can_return_unfold(1) [OF assms])
  next
    case False
    define t where "t = exec (RCUTILS_CAN_RETURN_WITH_ERROR_OF C L loc what r) s"
    have c: "fault_counter (calls t) =
        (if fault_counter (calls s) < 0 then fault_counter (calls s) else fault_counter (calls s) - 1)"
      by (simp add: t_def can_return_unfold(2) [OF assms False])
    have "result (fault_points C L (p # ps)) s = result (fault_points C L ps) t"
      using False by (simp add: p t_def can_return_unfold(1) [OF assms])
    with Cons.IH [of t] False show ?thesis
      by (auto simp: Let_def c nth_Cons' nat_less_iff nat_diff_distrib)
  qed
qed

definition is_set_count :: "rc_call \<Rightarrow> bool" where
  "is_set_count c \<longleftrightarrow> (case c of Fault_set_count _ \<Rightarrow> True | _ \<Rightarrow> False)"

text \<open>Code under test: it appends calls, sets no count and reaches at most \<open>n\<close> fault points.\<close>

definition fault_points_below :: "nat \<Rightarrow> unit rc \<Rightarrow> bool" where
  "fault_points_below n code \<longleftrightarrow>
     (\<forall>s. \<exists>es. calls (exec code s) = calls s @ es \<and> (\<forall>c \<in> set es. \<not> is_set_count c)
              \<and> length (filter (\<lambda>c. c = Fault_maybe_fail) es) \<le> n)"

lemma counter_lower_bound:
  assumes "\<forall>c \<in> set es. \<not> is_set_count c" and "length (filter (\<lambda>c. c = Fault_maybe_fail) es) \<le> nat c"
    and "0 \<le> c"
  shows "c - int (length (filter (\<lambda>c. c = Fault_maybe_fail) es)) \<le> foldl fault_step c es"
  using assms
proof (induction es arbitrary: c)
  case Nil
  then show ?case by simp
next
  case (Cons e es)
  show ?case
  proof (cases "e = Fault_maybe_fail")
    case True
    with Cons.prems have "0 \<le> c - 1" "length (filter (\<lambda>c. c = Fault_maybe_fail) es) \<le> nat (c - 1)" by auto
    with Cons.IH [of "c - 1"] Cons.prems True show ?thesis by simp
  next
    case False
    then have "fault_step c e = c" using Cons.prems by (cases e) (auto simp: is_set_count_def)
    with Cons False show ?thesis by simp
  qed
qed

lemma loop_leaves:
  assumes "fault_contract L" and "fault_points_below n code" and "n < nat c + fuel" and "0 \<le> c"
  shows "result (fault_injection_loop L fuel c code) s \<or> fuel = 0"
  using assms(3,4)
proof (induction fuel arbitrary: c s)
  case 0
  then show ?case by simp
next
  case (Suc fuel)
  define t where "t = s\<lparr>calls := calls s @ [Fault_set_count c]\<rparr>"
  obtain es where es: "calls (exec code t) = calls t @ es" "\<forall>c \<in> set es. \<not> is_set_count c"
      "length (filter (\<lambda>c. c = Fault_maybe_fail) es) \<le> n"
    using assms(2) unfolding fault_points_below_def by blast
  have cnt: "fault_counter (calls (exec code t)) = foldl fault_step c es"
    by (simp only: es(1)) (simp add: t_def)
  show ?case
  proof (cases "test_complete_answer L (calls (exec code t) @ [Fault_is_test_complete])")
    case True
    then show ?thesis by (simp add: t_def)
  next
    case False
    then have "foldl fault_step c es \<le> -1"
      using assms(1) cnt by (simp add: fault_contract_def RCUTILS_FAULT_INJECTION_NEVER_FAIL_def)
    then have "\<not> n \<le> nat c"
      using counter_lower_bound [OF es(2), of c] es(3) Suc.prems(2) by linarith
    then have lt: "n < nat (c + 1) + fuel" "fuel \<noteq> 0" using Suc.prems by auto
    with Suc.IH [of "c + 1"] Suc.prems(2)
    have more: "result (fault_injection_loop L fuel (c + 1) code) u" for u by auto
    with False show ?thesis by (simp add: t_def more)
  qed
qed

text \<open>
  \<open>RCUTILS_FAULT_INJECTION_TEST\<close> ends: when the code under test reaches at most \<open>n\<close> fault points
  in any run and sets no count itself, \<open>n + 1\<close> rounds are enough, and afterwards faults are disabled.
\<close>

theorem fault_injection_test_ends:
  assumes "RCUTILS_ENABLE_FAULT_INJECTION C" and "fault_contract L" and "fault_points_below n code"
    and "n < fuel"
  shows "result (RCUTILS_FAULT_INJECTION_TEST C L fuel code) s
       \<and> fault_counter (calls (exec (RCUTILS_FAULT_INJECTION_TEST C L fuel code) s))
           = RCUTILS_FAULT_INJECTION_NEVER_FAIL"
proof -
  have "result (fault_injection_loop L fuel 0 code) s"
    using loop_leaves [OF assms(2,3), of 0 fuel s] assms(4) by auto
  then show ?thesis
    using assms(1) by (simp_all add: RCUTILS_FAULT_INJECTION_TEST_def)
qed

section \<open>The hypotheses can be met\<close>

text \<open>An environment that answers as documented.\<close>

definition demo_rc :: rc_env where
  "demo_rc = \<lparr>error_string = (\<lambda>h. error_text (error_state_of (butlast h))),
     snprintf_answer = (\<lambda>h. case last h of
        Snprintf n f args \<Rightarrow> (case format f args of Some t \<Rightarrow> (int (length t), in_field n t) | None \<Rightarrow> (-1, []))
      | _ \<Rightarrow> (-1, [])),
     g_rcutils_logging_initialized = (\<lambda>h. Logging_initialize \<in> set h), initialize_answer = (\<lambda>h. 0),
     is_enabled_answer = (\<lambda>h. True),
     fault_count_answer = (\<lambda>h. fault_counter (butlast h)),
     maybe_fail_answer = (\<lambda>h. fault_counter (butlast h)),
     test_complete_answer = (\<lambda>h. fault_counter (butlast h) > RCUTILS_FAULT_INJECTION_NEVER_FAIL)\<rparr>"

lemma demo_rc_contracts: "error_contract demo_rc" "snprintf_contract demo_rc" "fault_contract demo_rc"
  by (simp_all add: demo_rc_def error_contract_def snprintf_contract_def fault_contract_def)

lemma full_configuration_simps [simp]:
  "\<not> RCUTILS_AVOID_DYNAMIC_ALLOCATION full_configuration"
  "RCUTILS_ENABLE_FAULT_INJECTION full_configuration"
  by (simp_all add: full_configuration_def)

lemma error_string_fits_witness:
  "length (error_text (error_state_of [Set_error_state ''failed'' ''a.c'' 42])) + 1
     \<le> RCUTILS_ERROR_MESSAGE_MAX_LENGTH full_configuration"
  using error_string_fits [of full_configuration "[Set_error_state ''failed'' ''a.c'' 42]"] by simp

lemma append_prev_error_witness:
  "error_state_of (calls (exec (RCUTILS_SET_ERROR_MSG_AND_APPEND_PREV_ERROR full_configuration demo_rc
       \<lparr>function_name = ''f'', file_name = ''a.c'', line_number = 7\<rparr> ''open'') initial_rc))
     = Some (in_field 768 (''open'' @ '': error not set''), in_field 229 ''a.c'', 7)"
  using append_prev_error [where C = full_configuration and L = demo_rc and msg = "''open''"
      and loc = "\<lparr>function_name = ''f'', file_name = ''a.c'', line_number = 7\<rparr>" and s = initial_rc]
    demo_rc_contracts
  by (simp add: literal_def initial_rc_def error_state_of_def in_field_def)

lemma fault_points_fail_once_witness:
  "result (fault_points full_configuration demo_rc
       [(\<lparr>function_name = ''f'', file_name = ''a.c'', line_number = 7\<rparr>, ''1'', 1),
        (\<lparr>function_name = ''f'', file_name = ''a.c'', line_number = 8\<rparr>, ''2'', 2::int)])
      (initial_rc\<lparr>calls := [Fault_set_count 1]\<rparr>) = Some 2"
  by (subst fault_points_fail_once) (simp_all add: demo_rc_contracts fault_counter_def Let_def)

definition demo_code :: "unit rc" where
  "demo_code = do { rc_emit Fault_maybe_fail; rc_emit Fault_maybe_fail }"

lemma fault_injection_test_ends_witness:
  "result (RCUTILS_FAULT_INJECTION_TEST full_configuration demo_rc 3 demo_code) initial_rc"
proof -
  have "fault_points_below 2 demo_code"
    by (auto simp: fault_points_below_def demo_code_def is_set_count_def)
  then show ?thesis
    using fault_injection_test_ends [of full_configuration demo_rc 2 demo_code 3 initial_rc]
    by (simp add: demo_rc_contracts)
qed

end
