(* ===== verification/Rcutils_Log_Props.thy ===== *)
theory Rcutils_Log_Props
  imports Rcutils_Log_Macros Rcutils_Error_Props
begin

text \<open>
  Properties of the logging macros: they follow one scheme, what each condition lets through over
  any number of uses, and what the configuration compiles out.
\<close>

section \<open>One scheme\<close>

fun severity_index :: "RCUTILS_LOG_SEVERITY \<Rightarrow> nat option" where
  "severity_index RCUTILS_LOG_SEVERITY_UNSET = None"
| "severity_index RCUTILS_LOG_SEVERITY_DEBUG = Some RCUTILS_LOG_MIN_SEVERITY_DEBUG"
| "severity_index RCUTILS_LOG_SEVERITY_INFO = Some RCUTILS_LOG_MIN_SEVERITY_INFO"
| "severity_index RCUTILS_LOG_SEVERITY_WARN = Some RCUTILS_LOG_MIN_SEVERITY_WARN"
| "severity_index RCUTILS_LOG_SEVERITY_ERROR = Some RCUTILS_LOG_MIN_SEVERITY_ERROR"
| "severity_index RCUTILS_LOG_SEVERITY_FATAL = Some RCUTILS_LOG_MIN_SEVERITY_FATAL"

definition compiled_in :: "rc_config \<Rightarrow> RCUTILS_LOG_SEVERITY \<Rightarrow> bool" where
  "compiled_in C sev \<longleftrightarrow> (case severity_index sev of None \<Rightarrow> False | Some i \<Rightarrow> RCUTILS_LOG_MIN_SEVERITY C \<le> i)"

fun condition_of :: "call_site \<Rightarrow> cond \<Rightarrow> log_condition" where
  "condition_of site Cond_none = RCUTILS_LOG_CONDITION_EMPTY"
| "condition_of site Cond_once = RCUTILS_LOG_CONDITION_ONCE site"
| "condition_of site (Cond_expression e) = RCUTILS_LOG_CONDITION_EXPRESSION e"
| "condition_of site (Cond_function f) = RCUTILS_LOG_CONDITION_FUNCTION f"
| "condition_of site Cond_skipfirst = RCUTILS_LOG_CONDITION_SKIPFIRST site"
| "condition_of site (Cond_throttle clock d) = RCUTILS_LOG_CONDITION_THROTTLE site clock d"
| "condition_of site (Cond_skipfirst_throttle clock d) =
     (\<lambda>log. RCUTILS_LOG_CONDITION_THROTTLE site clock d (RCUTILS_LOG_CONDITION_SKIPFIRST site log))"

text \<open>
  All seventy macros are instances of one scheme: the macro for a severity, a condition and a
  name logs with exactly that severity, condition and name, and is empty when its severity is below
  the configured minimum.
\<close>

theorem log_macros_uniform:
  "log_macro C L site sev cnd name msg =
     (if compiled_in C sev
      then RCUTILS_LOG_COND_NAMED C L site sev (condition_of site cnd) name msg else skip)"
  by (cases sev; cases cnd; cases name)
     (simp_all add: compiled_in_def log_macro_defs not_le)

section \<open>One use of a macro\<close>

text \<open>
  The specification of the conditions: from the static variables of the site and the calls made
  when the condition is reached, whether the message passes and the new static variables.
\<close>

definition duration_of :: "int \<Rightarrow> site_statics \<Rightarrow> int" where
  "duration_of d v = (case logging_duration v of None \<Rightarrow> d * 1000000 | Some ns \<Rightarrow> ns)"

fun throttle_spec :: "time_source \<Rightarrow> int \<Rightarrow> site_statics \<Rightarrow> rc_call list \<Rightarrow> bool \<times> site_statics" where
  "throttle_spec clock d v h =
     (let (ret, stored) = clock h; now = (case stored of None \<Rightarrow> 0 | Some t \<Rightarrow> t);
          pass = (ret \<noteq> RCUTILS_RET_OK \<or> logging_last_logged v + duration_of d v \<le> now);
          w = v\<lparr>logging_duration := Some (duration_of d v)\<rparr>
      in (pass, if pass then w\<lparr>logging_last_logged := now\<rparr> else w))"

fun cond_spec :: "cond \<Rightarrow> site_statics \<Rightarrow> rc_call list \<Rightarrow> bool \<times> site_statics" where
  "cond_spec Cond_none v h = (True, v)"
| "cond_spec Cond_once v h = (logging_once v = 0, if logging_once v = 0 then v\<lparr>logging_once := 1\<rparr> else v)"
| "cond_spec (Cond_expression e) v h = (e (h @ [Log_expression]), v)"
| "cond_spec (Cond_function f) v h = (f (h @ [Log_filter]), v)"
| "cond_spec Cond_skipfirst v h = (\<not> logging_first v, v\<lparr>logging_first := False\<rparr>)"
| "cond_spec (Cond_throttle clock d) v h = throttle_spec clock d v (h @ [Get_time_point])"
| "cond_spec (Cond_skipfirst_throttle clock d) v h =
     (let (pass, w) = throttle_spec clock d v (h @ [Get_time_point])
      in if pass then (\<not> logging_first w, w\<lparr>logging_first := False\<rparr>) else (False, w))"

text \<open>The calls a condition makes, and when its 64-bit arithmetic overflows.\<close>

definition clock_error :: "rcutils_log_location_t \<Rightarrow> rc_call" where
  "clock_error loc = Rcutils_log loc (severity_value RCUTILS_LOG_SEVERITY_ERROR) []
     (function_name loc @ ''() at '' @ file_name loc @ '':'' @ decimal (line_number loc)
      @ '' getting current steady time failed'' @ [CHR 0x0A])"

fun cond_calls :: "rcutils_log_location_t \<Rightarrow> cond \<Rightarrow> rc_call list \<Rightarrow> rc_call list" where
  "cond_calls loc (Cond_expression e) h = [Log_expression]"
| "cond_calls loc (Cond_function f) h = [Log_filter]"
| "cond_calls loc (Cond_throttle clock d) h =
     Get_time_point # (if fst (clock (h @ [Get_time_point])) \<noteq> RCUTILS_RET_OK then [clock_error loc] else [])"
| "cond_calls loc (Cond_skipfirst_throttle clock d) h =
     Get_time_point # (if fst (clock (h @ [Get_time_point])) \<noteq> RCUTILS_RET_OK then [clock_error loc] else [])"
| "cond_calls loc _ h = []"

definition throttle_overflow :: "time_source \<Rightarrow> int \<Rightarrow> site_statics \<Rightarrow> rc_call list \<Rightarrow> bool" where
  "throttle_overflow clock d v h \<longleftrightarrow>
     logging_duration v = None \<and> \<not> in_int64 (d * 1000000)
     \<or> fst (clock h) = RCUTILS_RET_OK \<and> \<not> in_int64 (logging_last_logged v + duration_of d v)"

fun cond_overflow :: "cond \<Rightarrow> site_statics \<Rightarrow> rc_call list \<Rightarrow> bool" where
  "cond_overflow (Cond_throttle clock d) v h = throttle_overflow clock d v (h @ [Get_time_point])"
| "cond_overflow (Cond_skipfirst_throttle clock d) v h = throttle_overflow clock d v (h @ [Get_time_point])"
| "cond_overflow _ v h = False"

text \<open>The messages handed to the output handlers from one source location: severity, logger name and text.\<close>

type_synonym log_entry = "int \<times> string option \<times> string"

fun message_at :: "rcutils_log_location_t \<Rightarrow> rc_call \<Rightarrow> log_entry list" where
  "message_at loc (Rcutils_log_internal l sev name msg) = (if l = loc then [(sev, name, msg)] else [])"
| "message_at loc _ = []"

definition logged_at :: "rcutils_log_location_t \<Rightarrow> rc_call list \<Rightarrow> log_entry list" where
  "logged_at loc h = concat (map (message_at loc) h)"

lemma logged_at_simps [simp]:
  "logged_at loc [] = []"
  "logged_at loc (c # h) = message_at loc c @ logged_at loc h"
  "logged_at loc (h @ h') = logged_at loc h @ logged_at loc h'"
  by (simp_all add: logged_at_def)

lemma logged_at_cond_calls [simp]: "logged_at l (cond_calls loc cnd h) = []"
  by (cases cnd) (simp_all add: clock_error_def)

lemma run_FWRITE [run_simps]:
  "run_state (RCUTILS_SAFE_FWRITE_TO_STDERR C t) s =
     ((), s\<lparr>calls := calls s @ (if RCUTILS_NO_FILESYSTEM C then [] else [Fwrite_stderr t])\<rparr>)"
  by (simp add: RCUTILS_SAFE_FWRITE_TO_STDERR_def)

text \<open>How often a clock has been asked.\<close>

definition queries :: "rc_call list \<Rightarrow> nat" where
  "queries h = length (filter (\<lambda>c. c = Get_time_point) h)"

lemma queries_simps [simp]:
  "queries [] = 0" "queries (h @ h') = queries h + queries h'"
  "queries (c # h) = (if c = Get_time_point then 1 else 0) + queries h"
  by (simp_all add: queries_def)

text \<open>The calls the automatic initialisation makes.\<close>

definition init_calls :: "rc_config \<Rightarrow> rc_env \<Rightarrow> rcutils_log_location_t \<Rightarrow> rc_st \<Rightarrow> rc_call list" where
  "init_calls C L loc s = drop (length (calls s)) (calls (exec (RCUTILS_LOGGING_AUTOINIT C L loc) s))"

lemma exec_AUTOINIT:
  "\<exists>es. exec (RCUTILS_LOGGING_AUTOINIT C L loc) s = s\<lparr>calls := calls s @ es\<rparr> \<and> (\<forall>l. logged_at l es = []) \<and> queries es = 0"
proof (cases "g_rcutils_logging_initialized L (calls s)")
  case True
  then show ?thesis
    by (intro exI [of _ "[]"]) (simp add: RCUTILS_LOGGING_AUTOINIT_def)
next
  case False
  let ?r = "initialize_answer L (calls s @ [Logging_initialize])"
  show ?thesis
  proof (cases "?r = RCUTILS_RET_OK")
    case True
    with False show ?thesis
      by (intro exI [of _ "[Logging_initialize]"]) (simp add: RCUTILS_LOGGING_AUTOINIT_def)
  next
    case fail: False
    with False show ?thesis
      by (intro exI [of _ "drop (length (calls s)) (calls (exec (RCUTILS_LOGGING_AUTOINIT C L loc) s))"])
         (simp add: RCUTILS_LOGGING_AUTOINIT_def RCUTILS_SAFE_FWRITE_TO_STDERR_def when_do_def)
  qed
qed

lemma AUTOINIT_init_calls:
  "exec (RCUTILS_LOGGING_AUTOINIT C L loc) s = s\<lparr>calls := calls s @ init_calls C L loc s\<rparr>"
  "logged_at l (init_calls C L loc s) = []"
  "queries (init_calls C L loc s) = 0"
proof -
  obtain es where es: "exec (RCUTILS_LOGGING_AUTOINIT C L loc) s = s\<lparr>calls := calls s @ es\<rparr>"
      "\<forall>l. logged_at l es = []" "queries es = 0"
    using exec_AUTOINIT by blast
  then have "init_calls C L loc s = es" by (simp add: init_calls_def)
  with es show "exec (RCUTILS_LOGGING_AUTOINIT C L loc) s = s\<lparr>calls := calls s @ init_calls C L loc s\<rparr>"
    "logged_at l (init_calls C L loc s) = []" "queries (init_calls C L loc s) = 0" by simp_all
qed

text \<open>What a condition does, when it is reached in a state with the calls \<open>h\<close>.\<close>

definition cond_result :: "call_site \<Rightarrow> cond \<Rightarrow> rc_call \<Rightarrow> rc_st \<Rightarrow> rc_st" where
  "cond_result site cnd c s =
     (let v = my_statics site s; (pass, w) = cond_spec cnd v (calls s)
      in s\<lparr>calls := calls s @ cond_calls (site_location site) cnd (calls s) @ (if pass then [c] else []),
           statics := (statics s)(site_id site := w),
           overflowed := overflowed s \<or> cond_overflow cnd v (calls s)\<rparr>)"

lemma exec_set_statics [simp]:
  "exec (set_statics site f) s = s\<lparr>statics := (statics s)(site_id site := f (statics s (site_id site)))\<rparr>"
  by (simp add: set_statics_def)

lemma exec_RCUTILS_MS_TO_NS [simp]:
  "exec (RCUTILS_MS_TO_NS d) s = s\<lparr>overflowed := overflowed s \<or> \<not> in_int64 (d * 1000000)\<rparr>"
  "result (RCUTILS_MS_TO_NS d) s = d * 1000000"
  by (simp_all add: RCUTILS_MS_TO_NS_def)

lemma static_duration_effect:
  "result (static_duration site d) s = duration_of d (my_statics site s)"
  "exec (static_duration site d) s = s\<lparr>
     statics := (statics s)(site_id site := (my_statics site s)\<lparr>logging_duration := Some (duration_of d (my_statics site s))\<rparr>),
     overflowed := overflowed s \<or> logging_duration (my_statics site s) = None \<and> \<not> in_int64 (d * 1000000)\<rparr>"
proof -
  show "result (static_duration site d) s = duration_of d (my_statics site s)"
    by (cases "logging_duration (my_statics site s)") (simp_all add: static_duration_def duration_of_def)
  have same: "(statics s)(site_id site := my_statics site s) = statics s"
    by (simp add: my_statics_def)
  have keep: "v\<lparr>logging_duration := Some ns\<rparr> = v" if "logging_duration v = Some ns" for v ns
    using that by (cases v) simp
  show "exec (static_duration site d) s = s\<lparr>
     statics := (statics s)(site_id site := (my_statics site s)\<lparr>logging_duration := Some (duration_of d (my_statics site s))\<rparr>),
     overflowed := overflowed s \<or> logging_duration (my_statics site s) = None \<and> \<not> in_int64 (d * 1000000)\<rparr>"
  proof (cases "logging_duration (my_statics site s)")
    case None
    then show ?thesis by (simp add: static_duration_def duration_of_def) (simp add: my_statics_def)
  next
    case (Some ns)
    then show ?thesis by (simp add: static_duration_def duration_of_def keep same)
  qed
qed

lemma exec_throttle:
  "exec (RCUTILS_LOG_CONDITION_THROTTLE site clock d log) s =
     (let h = calls s @ [Get_time_point]; (pass, w) = throttle_spec clock d (my_statics site s) h;
          t = s\<lparr>calls := calls s @ cond_calls (site_location site) (Cond_throttle clock d) (calls s),
                statics := (statics s)(site_id site := w),
                overflowed := overflowed s \<or> throttle_overflow clock d (my_statics site s) h\<rparr>
      in if pass then exec log t else t)"
  by (cases s) (auto simp: RCUTILS_LOG_CONDITION_THROTTLE_def static_duration_effect my_statics_def when_do_def
      Let_def split_beta clock_error_def throttle_overflow_def)

lemma condition_effect:
  "exec (condition_of site cnd (rc_emit c)) s = cond_result site cnd c s"
proof (cases cnd)
  case Cond_none
  then show ?thesis
    by (simp add: cond_result_def RCUTILS_LOG_CONDITION_EMPTY_def my_statics_def)
next
  case Cond_once
  then show ?thesis
    by (cases s) (simp add: cond_result_def RCUTILS_LOG_CONDITION_ONCE_def my_statics_def when_do_def)
next
  case (Cond_expression e)
  then show ?thesis
    by (cases s) (simp add: cond_result_def RCUTILS_LOG_CONDITION_EXPRESSION_def my_statics_def when_do_def)
next
  case (Cond_function f)
  then show ?thesis
    by (cases s) (simp add: cond_result_def RCUTILS_LOG_CONDITION_FUNCTION_def my_statics_def when_do_def)
next
  case Cond_skipfirst
  then show ?thesis
    by (cases s) (auto simp: cond_result_def RCUTILS_LOG_CONDITION_SKIPFIRST_def my_statics_def)
next
  case (Cond_throttle clock d)
  then show ?thesis
    by (cases s) (simp add: cond_result_def exec_throttle my_statics_def Let_def split_beta)
next
  case (Cond_skipfirst_throttle clock d)
  have keep: "v\<lparr>logging_first := False\<rparr> = v" if "\<not> logging_first v" for v :: site_statics
    using that by (cases v) simp
  from Cond_skipfirst_throttle show ?thesis
    by (cases s) (simp add: cond_result_def exec_throttle RCUTILS_LOG_CONDITION_SKIPFIRST_def
        my_statics_def Let_def split_beta keep)
qed

text \<open>The calls made when a compiled-in macro has asked whether its severity is enabled.\<close>

definition query_calls ::
    "rc_config \<Rightarrow> rc_env \<Rightarrow> call_site \<Rightarrow> RCUTILS_LOG_SEVERITY \<Rightarrow> string option \<Rightarrow> rc_st \<Rightarrow> rc_call list" where
  "query_calls C L site sev name s =
     calls s @ init_calls C L (site_location site) s @ [Logger_is_enabled_for name (severity_value sev)]"

lemma exec_COND_NAMED:
  "exec (RCUTILS_LOG_COND_NAMED C L site sev condition name msg) s =
     (let h = query_calls C L site sev name s in
      if is_enabled_answer L h
      then exec (condition (rc_emit (Rcutils_log_internal (site_location site) (severity_value sev) name msg)))
             (s\<lparr>calls := h\<rparr>)
      else s\<lparr>calls := h\<rparr>)"
  by (simp add: RCUTILS_LOG_COND_NAMED_def AUTOINIT_init_calls query_calls_def Let_def when_do_def)

text \<open>One use of a macro, with whatever the 64-bit arithmetic gives.\<close>

lemma log_use:
  "exec (log_macro C L site sev cnd name msg) s =
     (let h = query_calls C L site sev name s in
      if \<not> compiled_in C sev then s
      else if \<not> is_enabled_answer L h then s\<lparr>calls := h\<rparr>
      else cond_result site cnd (Rcutils_log_internal (site_location site) (severity_value sev) name msg) (s\<lparr>calls := h\<rparr>))"
  by (simp add: log_macros_uniform exec_COND_NAMED condition_effect Let_def)


section \<open>Programs of log statements\<close>

record log_stmt =
  stmt_site :: call_site
  stmt_severity :: RCUTILS_LOG_SEVERITY
  stmt_cond :: cond
  stmt_name :: "string option"
  stmt_msg :: string

definition log_stmt :: "rc_config \<Rightarrow> rc_env \<Rightarrow> log_stmt \<Rightarrow> unit rc" where
  "log_stmt C L st =
     log_macro C L (stmt_site st) (stmt_severity st) (stmt_cond st) (stmt_name st) (stmt_msg st)"

definition log_program :: "rc_config \<Rightarrow> rc_env \<Rightarrow> log_stmt list \<Rightarrow> unit rc" where
  "log_program C L prog = for_each prog (log_stmt C L)"

text \<open>A statement either does nothing visible, or has the effect of its condition.\<close>

lemma log_stmt_cases:
  obtains (silent) "statics (exec (log_stmt C L st) s) = statics s"
      "\<And>l. logged_at l (calls (exec (log_stmt C L st) s)) = logged_at l (calls s)"
  | (asked) h where
      "statics (exec (log_stmt C L st) s) =
         (statics s)(site_id (stmt_site st) := snd (cond_spec (stmt_cond st) (my_statics (stmt_site st) s) h))"
      "\<And>l. logged_at l (calls (exec (log_stmt C L st) s)) = logged_at l (calls s) @
         (if fst (cond_spec (stmt_cond st) (my_statics (stmt_site st) s) h) \<and> l = site_location (stmt_site st)
          then [(severity_value (stmt_severity st), stmt_name st, stmt_msg st)] else [])"
proof -
  let ?h = "query_calls C L (stmt_site st) (stmt_severity st) (stmt_name st) s"
  have "logged_at l ?h = logged_at l (calls s)" for l
    by (simp add: query_calls_def AUTOINIT_init_calls)
  with log_use [of C L "stmt_site st" "stmt_severity st" "stmt_cond st" "stmt_name st" "stmt_msg st" s]
  show thesis
    using silent asked [of ?h]
    by (auto simp: log_stmt_def Let_def cond_result_def my_statics_def split_beta split: if_splits)
qed

text \<open>The statements of a program at one location belong to one expansion of a macro.\<close>

definition one_expansion :: "rcutils_log_location_t \<Rightarrow> nat \<Rightarrow> cond \<Rightarrow> log_stmt list \<Rightarrow> bool" where
  "one_expansion loc k cnd prog \<longleftrightarrow>
     (\<forall>st \<in> set prog. site_location (stmt_site st) = loc \<longleftrightarrow> site_id (stmt_site st) = k)
   \<and> (\<forall>st \<in> set prog. site_id (stmt_site st) = k \<longrightarrow> stmt_cond st = cnd)"

lemma once_step:
  assumes "one_expansion loc k Cond_once (st # prog)"
    and "t = exec (log_stmt C L st) s"
  shows "length (logged_at loc (calls t)) + (if logging_once (statics t k) = 0 then 1 else 0)
       \<le> length (logged_at loc (calls s)) + (if logging_once (statics s k) = 0 then 1 else 0)"
  using assms by (cases rule: log_stmt_cases [where C = C and L = L and st = st and s = s])
     (auto simp: one_expansion_def my_statics_def)

text \<open>
  In any program of log statements, at any severities and with other statements in between, a
  macro with the \<open>once\<close> condition logs at most one message, and none once it has logged.
\<close>

theorem once_logs_at_most_once:
  assumes "one_expansion loc k Cond_once prog"
  shows "length (logged_at loc (calls (exec (log_program C L prog) s)))
       \<le> length (logged_at loc (calls s)) + (if logging_once (statics s k) = 0 then 1 else 0)"
  using assms unfolding log_program_def
proof (induction prog arbitrary: s)
  case Nil
  then show ?case by simp
next
  case (Cons st prog)
  let ?t = "exec (log_stmt C L st) s"
  have "one_expansion loc k Cond_once prog" using Cons.prems by (simp add: one_expansion_def)
  from Cons.IH [OF this, of ?t] once_step [OF Cons.prems refl, of C L s] show ?case by simp
qed

section \<open>Repeated uses of one macro\<close>

definition log_repeatedly ::
    "rc_config \<Rightarrow> rc_env \<Rightarrow> call_site \<Rightarrow> RCUTILS_LOG_SEVERITY \<Rightarrow> cond \<Rightarrow> string option \<Rightarrow> string list \<Rightarrow> unit rc" where
  "log_repeatedly C L site sev cnd name msgs = for_each msgs (log_macro C L site sev cnd name)"

text \<open>The severity is enabled throughout.\<close>

definition logging_enabled :: "rc_config \<Rightarrow> rc_env \<Rightarrow> RCUTILS_LOG_SEVERITY \<Rightarrow> bool" where
  "logging_enabled C L sev \<longleftrightarrow> compiled_in C sev \<and> (\<forall>h. is_enabled_answer L h)"

lemma enabled_use:
  assumes "logging_enabled C L sev" and "t = exec (log_macro C L site sev cnd name msg) s"
  shows "my_statics site t = snd (cond_spec cnd (my_statics site s) (query_calls C L site sev name s))"
    and "logged_at (site_location site) (calls t) = logged_at (site_location site) (calls s) @
           (if fst (cond_spec cnd (my_statics site s) (query_calls C L site sev name s))
            then [(severity_value sev, name, msg)] else [])"
    and "overflowed t = (overflowed s \<or> cond_overflow cnd (my_statics site s) (query_calls C L site sev name s))"
proof -
  have "logged_at l (query_calls C L site sev name s) = logged_at l (calls s)" for l
    by (simp add: query_calls_def AUTOINIT_init_calls)
  then show "my_statics site t = snd (cond_spec cnd (my_statics site s) (query_calls C L site sev name s))"
    and "logged_at (site_location site) (calls t) = logged_at (site_location site) (calls s) @
           (if fst (cond_spec cnd (my_statics site s) (query_calls C L site sev name s))
            then [(severity_value sev, name, msg)] else [])"
    and "overflowed t = (overflowed s \<or> cond_overflow cnd (my_statics site s) (query_calls C L site sev name s))"
    using assms by (simp_all add: log_use Let_def logging_enabled_def my_statics_def cond_result_def split_beta)
qed

lemma skipfirst_rest:
  assumes "logging_enabled C L sev" and "\<not> logging_first (my_statics site s)"
  shows "logged_at (site_location site) (calls (exec (log_repeatedly C L site sev Cond_skipfirst name msgs) s))
           = logged_at (site_location site) (calls s) @ map (\<lambda>m. (severity_value sev, name, m)) msgs"
  using assms(2) unfolding log_repeatedly_def
proof (induction msgs arbitrary: s)
  case Nil
  then show ?case by simp
next
  case (Cons m msgs)
  let ?t = "exec (log_macro C L site sev Cond_skipfirst name m) s"
  note use = enabled_use [OF assms(1) refl, of site Cond_skipfirst name m s]
  from Cons.IH [of ?t] use Cons.prems show ?case by simp
qed

text \<open>
  A macro with the \<open>skipfirst\<close> condition, used again and again while its severity is enabled,
  drops the first message and logs every later one, in order.
\<close>

theorem skipfirst_drops_exactly_first:
  assumes "logging_enabled C L sev" and "logging_first (my_statics site s)"
  shows "logged_at (site_location site) (calls (exec (log_repeatedly C L site sev Cond_skipfirst name msgs) s))
           = logged_at (site_location site) (calls s) @ map (\<lambda>m. (severity_value sev, name, m)) (tl msgs)"
proof (cases msgs)
  case Nil
  then show ?thesis by (simp add: log_repeatedly_def)
next
  case (Cons m ms)
  let ?t = "exec (log_macro C L site sev Cond_skipfirst name m) s"
  note use = enabled_use [OF assms(1) refl, of site Cond_skipfirst name m s]
  have "exec (log_repeatedly C L site sev Cond_skipfirst name msgs) s
      = exec (log_repeatedly C L site sev Cond_skipfirst name ms) ?t"
    by (simp add: log_repeatedly_def Cons)
  with skipfirst_rest [OF assms(1), of site ?t name ms] use assms(2) show ?thesis
    by (simp add: Cons)
qed

section \<open>Throttling\<close>

text \<open>A clock that never fails and answers its \<open>n\<close>-th query with \<open>ticks n\<close>.\<close>

definition clock_of :: "(nat \<Rightarrow> int) \<Rightarrow> time_source" where
  "clock_of ticks h = (RCUTILS_RET_OK, Some (ticks (queries h - 1)))"

text \<open>Which of a sequence of timed messages a throttle of \<open>d\<close> nanoseconds keeps.\<close>

fun throttled :: "int \<Rightarrow> int \<Rightarrow> (int \<times> 'm) list \<Rightarrow> (int \<times> 'm) list" where
  "throttled prev d [] = []"
| "throttled prev d ((t, m) # ms) =
     (if prev + d \<le> t then (t, m) # throttled t d ms else throttled prev d ms)"

lemma throttled_gaps:
  "successively (\<lambda>a b. fst a + d \<le> fst b) (throttled prev d ms)
   \<and> (throttled prev d ms \<noteq> [] \<longrightarrow> prev + d \<le> fst (hd (throttled prev d ms)))"
proof (induction ms arbitrary: prev)
  case Nil
  then show ?case by simp
next
  case (Cons tm ms)
  obtain t m where tm: "tm = (t, m)" by (cases tm)
  show ?case using Cons [of t] Cons [of prev]
    by (auto simp: tm successively_Cons)
qed

definition throttling :: "cond \<Rightarrow> time_source \<Rightarrow> int \<Rightarrow> bool" where
  "throttling cnd clock d \<longleftrightarrow> cnd = Cond_throttle clock d \<or> cnd = Cond_skipfirst_throttle clock d"

lemma queries_use:
  assumes "logging_enabled C L sev" and "throttling cnd clock d"
  shows "queries (calls (exec (log_macro C L site sev cnd name msg) s)) = Suc (queries (calls s))"
proof -
  have "queries (query_calls C L site sev name s) = queries (calls s)"
    by (simp add: query_calls_def AUTOINIT_init_calls)
  then show ?thesis
    using assms
    by (auto simp: log_use logging_enabled_def Let_def throttling_def cond_result_def split_beta clock_error_def)
qed

lemma clock_of_use [simp]:
  "clock_of ticks (query_calls C L site sev name s @ [Get_time_point]) = (RCUTILS_RET_OK, Some (ticks (queries (calls s))))"
  by (simp add: clock_of_def query_calls_def AUTOINIT_init_calls)

text \<open>The messages with the times the clock answers for them.\<close>

definition timed :: "(nat \<Rightarrow> int) \<Rightarrow> nat \<Rightarrow> 'm list \<Rightarrow> (int \<times> 'm) list" where
  "timed ticks n ms = zip (map ticks [n..<n + length ms]) ms"

lemma timed_simps [simp]:
  "timed ticks n [] = []" "timed ticks n (m # ms) = (ticks n, m) # timed ticks (Suc n) ms"
  by (simp_all add: timed_def upt_conv_Cons del: upt_Suc)

lemma duration_of_simps [simp]:
  "duration_of d (v\<lparr>logging_duration := Some ns\<rparr>) = ns" "duration_of d (v\<lparr>logging_last_logged := t\<rparr>) = duration_of d v"
  "duration_of d (v\<lparr>logging_first := b\<rparr>) = duration_of d v"
  by (simp_all add: duration_of_def)

text \<open>The arithmetic of the throttle stays in 64 bits for the answers of the clock.\<close>

definition fits :: "int \<Rightarrow> int \<Rightarrow> (int \<times> 'm) list \<Rightarrow> bool" where
  "fits D prev ms \<longleftrightarrow> in_int64 D \<and> in_int64 (prev + D) \<and> (\<forall>(t, m) \<in> set ms. in_int64 (t + D))"

text \<open>The duration of the site is not yet known, or known to be that of the macro.\<close>

lemma throttle_run:
  assumes "logging_enabled C L sev" and "duration_of d (my_statics site s) = d * 1000000"
    and "fits (d * 1000000) (logging_last_logged (my_statics site s)) (timed ticks (queries (calls s)) msgs)"
  shows "logged_at (site_location site)
           (calls (exec (log_repeatedly C L site sev (Cond_throttle (clock_of ticks) d) name msgs) s))
         = logged_at (site_location site) (calls s) @
           map (\<lambda>(t, m). (severity_value sev, name, m)) (throttled (logging_last_logged (my_statics site s)) (d * 1000000)
                      (timed ticks (queries (calls s)) msgs))
       \<and> overflowed (exec (log_repeatedly C L site sev (Cond_throttle (clock_of ticks) d) name msgs) s) = overflowed s"
  using assms(2,3) unfolding log_repeatedly_def
proof (induction msgs arbitrary: s)
  case Nil
  then show ?case by simp
next
  case (Cons m msgs)
  let ?cnd = "Cond_throttle (clock_of ticks) d"
  let ?t = "exec (log_macro C L site sev ?cnd name m) s"
  note use = enabled_use [OF assms(1) refl, of site ?cnd name m s]
  have q: "queries (calls ?t) = Suc (queries (calls s))"
    by (rule queries_use [OF assms(1)]) (simp add: throttling_def)
  have "\<not> throttle_overflow (clock_of ticks) d (my_statics site s) (query_calls C L site sev name s @ [Get_time_point])"
    using Cons.prems by (simp add: throttle_overflow_def fits_def)
  moreover have "duration_of d (my_statics site ?t) = d * 1000000"
    "fits (d * 1000000) (logging_last_logged (my_statics site ?t)) (timed ticks (queries (calls ?t)) msgs)"
    using Cons.prems use(1) q by (simp_all add: Let_def duration_of_simps fits_def split: if_splits)
  ultimately show ?case
    using use q Cons.IH [of ?t] Cons.prems(1) by (simp add: Let_def)
qed

lemma skipfirst_throttle_run:
  assumes "logging_enabled C L sev" and "duration_of d (my_statics site s) = d * 1000000"
    and "fits (d * 1000000) (logging_last_logged (my_statics site s)) (timed ticks (queries (calls s)) msgs)"
  shows "logged_at (site_location site)
           (calls (exec (log_repeatedly C L site sev (Cond_skipfirst_throttle (clock_of ticks) d) name msgs) s))
         = logged_at (site_location site) (calls s) @
           (let ms = throttled (logging_last_logged (my_statics site s)) (d * 1000000)
                       (timed ticks (queries (calls s)) msgs)
            in map (\<lambda>(t, m). (severity_value sev, name, m)) (if logging_first (my_statics site s) then tl ms else ms))
       \<and> overflowed (exec (log_repeatedly C L site sev (Cond_skipfirst_throttle (clock_of ticks) d) name msgs) s) = overflowed s"
  using assms(2,3) unfolding log_repeatedly_def
proof (induction msgs arbitrary: s)
  case Nil
  then show ?case by simp
next
  case (Cons m msgs)
  let ?cnd = "Cond_skipfirst_throttle (clock_of ticks) d"
  let ?t = "exec (log_macro C L site sev ?cnd name m) s"
  note use = enabled_use [OF assms(1) refl, of site ?cnd name m s]
  have q: "queries (calls ?t) = Suc (queries (calls s))"
    by (rule queries_use [OF assms(1)]) (simp add: throttling_def)
  have "\<not> throttle_overflow (clock_of ticks) d (my_statics site s) (query_calls C L site sev name s @ [Get_time_point])"
    using Cons.prems by (simp add: throttle_overflow_def fits_def)
  moreover have "duration_of d (my_statics site ?t) = d * 1000000"
    "fits (d * 1000000) (logging_last_logged (my_statics site ?t)) (timed ticks (queries (calls ?t)) msgs)"
    using Cons.prems use(1) q by (simp_all add: Let_def duration_of_simps fits_def split: if_splits)
  ultimately show ?case
    using use q Cons.IH [of ?t] Cons.prems(1) by (simp add: Let_def split: if_splits)
qed

text \<open>
  C35: A throttled macro, used again and again while its severity is enabled and its clock does not
  fail, logs exactly the messages a throttle keeps that starts with a message at time 0, with the severity
  and the name of the macro: any two successive messages are at least the duration apart, and no message
  comes before the duration has passed on the clock.  A message exactly the duration after the last is logged,
  where the header's description has it ignored.  With \<open>skipfirst\<close> as well, the first of those messages is
  dropped, and the interval still starts with it.  The duration in nanoseconds, and its sum with every
  answer of the clock, has to fit into 64 bits; then no arithmetic overflows.
\<close>

theorem throttle_spaces_messages:
  fixes D :: int and s :: rc_st
  assumes "logging_enabled C L sev" and "my_statics site s = initial_statics"
    and "D = d * 1000000" and "kept = throttled 0 D (timed ticks (queries (calls s)) msgs)"
    and "in_int64 D" and "\<forall>(t, m) \<in> set (timed ticks (queries (calls s)) msgs). in_int64 (t + D)"
  shows "logged_at (site_location site)
           (calls (exec (log_repeatedly C L site sev (Cond_throttle (clock_of ticks) d) name msgs) s))
         = logged_at (site_location site) (calls s) @ map (\<lambda>(t, m). (severity_value sev, name, m)) kept
       \<and> logged_at (site_location site)
           (calls (exec (log_repeatedly C L site sev (Cond_skipfirst_throttle (clock_of ticks) d) name msgs) s))
         = logged_at (site_location site) (calls s) @ map (\<lambda>(t, m). (severity_value sev, name, m)) (tl kept)
       \<and> overflowed (exec (log_repeatedly C L site sev (Cond_throttle (clock_of ticks) d) name msgs) s) = overflowed s
       \<and> overflowed (exec (log_repeatedly C L site sev (Cond_skipfirst_throttle (clock_of ticks) d) name msgs) s) = overflowed s
       \<and> successively (\<lambda>a b. fst a + D \<le> fst b) kept
       \<and> (kept \<noteq> [] \<longrightarrow> D \<le> fst (hd kept))"
proof -
  have start: "duration_of d (my_statics site s) = d * 1000000"
    "fits (d * 1000000) (logging_last_logged (my_statics site s)) (timed ticks (queries (calls s)) msgs)"
    using assms(2,3,5,6) by (simp_all add: duration_of_def initial_statics_def fits_def)
  show ?thesis
    using throttled_gaps [of D 0 "timed ticks (queries (calls s)) msgs"]
      throttle_run [OF assms(1) start, of name] skipfirst_throttle_run [OF assms(1) start, of name] assms(2-4)
    by (simp add: initial_statics_def)
qed

text \<open>
  With the board's configuration, which sets no minimum severity, every logging macro is empty:
  no logger is asked, no condition is evaluated and nothing is logged.
\<close>

theorem board_logs_nothing:
  "log_macro configuration_flags L site sev cnd name msg = skip"
  by (cases sev) (simp_all add: log_macros_uniform compiled_in_def RCUTILS_LOG_MIN_SEVERITY_def
      configuration_flags_def min_severities)

text \<open>
  A failing clock disables a throttle and resets it: the message is logged, and the time kept for
  the next use is 0 (the clock stored none), so the next use passes as soon as the clock
  works again, however short the time since the last message.
\<close>

theorem failing_clock_resets_throttle:
  assumes "logging_enabled C L sev"
    and "clock (query_calls C L site sev name s @ [Get_time_point]) = (ret, None)" and "ret \<noteq> RCUTILS_RET_OK"
    and "s' = exec (log_macro C L site sev (Cond_throttle clock d) name msg) s"
  shows "logged_at (site_location site) (calls s')
       = logged_at (site_location site) (calls s) @ [(severity_value sev, name, msg)]"
    and "logging_last_logged (my_statics site s') = 0"
    and "\<lbrakk> clock (query_calls C L site sev name s' @ [Get_time_point]) = (RCUTILS_RET_OK, Some t);
           duration_of d (my_statics site s) \<le> t \<rbrakk> \<Longrightarrow>
         logged_at (site_location site)
           (calls (exec (log_macro C L site sev (Cond_throttle clock d) name msg') s'))
         = logged_at (site_location site) (calls s') @ [(severity_value sev, name, msg')]"
  using enabled_use [OF assms(1,4)] enabled_use [OF assms(1) refl, of site "Cond_throttle clock d" name msg' s']
    assms(2,3)
  by (simp_all add: Let_def)

section \<open>The hypotheses can be met\<close>

lemma demo_logging_enabled: "logging_enabled full_configuration demo_rc RCUTILS_LOG_SEVERITY_INFO"
  by (simp add: logging_enabled_def compiled_in_def full_configuration_def demo_rc_def
      RCUTILS_LOG_MIN_SEVERITY_def)

definition demo_site :: call_site where
  "demo_site = \<lparr>site_id = 3, site_location = \<lparr>function_name = ''main'', file_name = ''main.c'', line_number = 12\<rparr>\<rparr>"

lemma demo_statics [simp]: "my_statics demo_site initial_rc = initial_statics" "calls initial_rc = []"
  by (simp_all add: my_statics_def initial_rc_def)

definition demo_stmt :: "string \<Rightarrow> log_stmt" where
  "demo_stmt msg = \<lparr>stmt_site = demo_site, stmt_severity = RCUTILS_LOG_SEVERITY_INFO, stmt_cond = Cond_once,
     stmt_name = None, stmt_msg = msg\<rparr>"

lemma once_logs_at_most_once_witness:
  "length (logged_at (site_location demo_site)
     (calls (exec (log_program full_configuration demo_rc [demo_stmt ''a'', demo_stmt ''b'']) initial_rc))) \<le> 1"
  using once_logs_at_most_once [where C = full_configuration and L = demo_rc and s = initial_rc
      and k = 3 and prog = "[demo_stmt ''a'', demo_stmt ''b'']" and loc = "site_location demo_site"]
  by (simp add: one_expansion_def demo_stmt_def demo_site_def initial_rc_def initial_statics_def)

lemma skipfirst_drops_exactly_first_witness:
  "logged_at (site_location demo_site) (calls (exec (log_repeatedly full_configuration demo_rc demo_site
     RCUTILS_LOG_SEVERITY_INFO Cond_skipfirst None [''a'', ''b'', ''c'']) initial_rc)) = [(20, None, ''b''), (20, None, ''c'')]"
  using skipfirst_drops_exactly_first [OF demo_logging_enabled, of demo_site initial_rc]
  by (simp add: initial_statics_def)

lemma throttle_spaces_messages_witness:
  "logged_at (site_location demo_site) (calls (exec (log_repeatedly full_configuration demo_rc demo_site
     RCUTILS_LOG_SEVERITY_INFO (Cond_throttle (clock_of (\<lambda>n. 600000000 * int n)) 1000) None
     [''a'', ''b'', ''c'', ''d'']) initial_rc)) = [(20, None, ''c'')]"
  using throttle_spaces_messages [OF demo_logging_enabled demo_statics(1) refl refl,
      where ticks = "\<lambda>n. 600000000 * int n" and d = 1000 and msgs = "[''a'', ''b'', ''c'', ''d'']" and name = None]
  by (simp add: in_int64_def)

lemma failing_clock_resets_throttle_witness:
  "logged_at (site_location demo_site) (calls (exec (log_macro full_configuration demo_rc demo_site
     RCUTILS_LOG_SEVERITY_INFO (Cond_throttle (\<lambda>h. (2, None)) 1000) None ''a'') initial_rc)) = [(20, None, ''a'')]"
  using failing_clock_resets_throttle(1) [OF demo_logging_enabled _ _ refl,
      of "\<lambda>h. (2, None)" demo_site None initial_rc 2]
  by (simp add: RCUTILS_RET_OK_def)

end
