(* ===== verification/Rcutils_Atomic.thy ===== *)
theory Rcutils_Atomic
  imports Prelude
begin

text \<open>
  The atomic operations of rcutils: \<open>rcutils/stdatomic_helper.h\<close> and the two versions of
  \<open>stdatomic.h\<close> under it, the \<open>__sync\<close> fallback of \<open>gcc/stdatomic.h\<close> and \<open>win32/stdatomic.h\<close>.
  Memory is little-endian bytes, so that an access of the wrong size is visible.  The compilers'
  intrinsics (\<open>__sync_val_compare_and_swap\<close>, \<open>InterlockedExchange64\<close>, \<open>\<dots>\<close>) are single steps on
  it, and the memory barriers between such steps change nothing.  The result \<open>None\<close> is
  \<open>exit(-1)\<close> (win32, unsupported size) or the use of a null pointer.
\<close>

section \<open>Memory\<close>

type_synonym mem = "nat \<Rightarrow> u8"

fun load :: "nat \<Rightarrow> mem \<Rightarrow> nat \<Rightarrow> u64" where
  "load 0 m a = 0"
| "load (Suc n) m a = ucast (m a) OR push_bit 8 (load n m (Suc a))"

definition store :: "nat \<Rightarrow> mem \<Rightarrow> nat \<Rightarrow> u64 \<Rightarrow> mem" where
  "store n m a v = (\<lambda>x. if a \<le> x \<and> x < a + n then ucast (drop_bit (8 * (x - a)) v) else m x)"

text \<open>The type of the variable an operation puts its result in.\<close>

datatype ctype = C_bool | C_int nat

fun sizeof :: "ctype \<Rightarrow> nat" where
  "sizeof C_bool = 1"
| "sizeof (C_int n) = n"

fun convert :: "ctype \<Rightarrow> u64 \<Rightarrow> u64" where
  "convert C_bool v = (if v = 0 then 0 else 1)"
| "convert (C_int n) v = take_bit (8 * n) v"

definition bytes :: "nat \<Rightarrow> u64 \<Rightarrow> u64" where
  "bytes n v = take_bit (8 * n) v"

section \<open>Intrinsics\<close>

definition compare_and_swap :: "nat \<Rightarrow> mem \<Rightarrow> nat \<Rightarrow> u64 \<Rightarrow> u64 \<Rightarrow> u64 \<times> mem" where
  "compare_and_swap n m a old new =
     (let v = load n m a in (v, if v = bytes n old then store n m a new else m))"

definition read_modify_write :: "nat \<Rightarrow> (u64 \<Rightarrow> u64 \<Rightarrow> u64) \<Rightarrow> mem \<Rightarrow> nat \<Rightarrow> u64 \<Rightarrow> u64 \<times> mem" where
  "read_modify_write n f m a operand = (let v = load n m a in (v, store n m a (f v operand)))"

section \<open>gcc/stdatomic.h: the fallback on __sync intrinsics\<close>

datatype memory_order =
    memory_order_relaxed
  | memory_order_consume
  | memory_order_acquire
  | memory_order_release
  | memory_order_acq_rel
  | memory_order_seq_cst

fun memory_order_value :: "memory_order \<Rightarrow> nat" where
  "memory_order_value memory_order_relaxed = 0"
| "memory_order_value memory_order_consume = 1"
| "memory_order_value memory_order_acquire = 2"
| "memory_order_value memory_order_release = 3"
| "memory_order_value memory_order_acq_rel = 4"
| "memory_order_value memory_order_seq_cst = 5"

text \<open>An atomic object of \<open>n\<close> bytes; \<open>expected\<close> is a pointer to a value of the same size.\<close>

definition atomic_init :: "nat \<Rightarrow> mem \<Rightarrow> nat \<Rightarrow> u64 \<Rightarrow> mem" where
  "atomic_init n m obj val = store n m obj val"

definition atomic_is_lock_free :: "nat \<Rightarrow> nat \<Rightarrow> bool" where
  "atomic_is_lock_free sizeof_ptr n \<longleftrightarrow> n \<le> sizeof_ptr"

definition atomic_compare_exchange_strong_explicit ::
    "nat \<Rightarrow> mem \<Rightarrow> nat \<Rightarrow> nat \<Rightarrow> u64 \<Rightarrow> memory_order \<Rightarrow> memory_order \<Rightarrow> (bool \<times> mem) option" where
  "atomic_compare_exchange_strong_explicit n m object expected desired success failure =
     (if expected = 0 then None
      else let (v, m1) = compare_and_swap n m object (load n m expected) desired;
               r = (load n m1 expected = v)
           in Some (r, store n m1 expected v))"

definition atomic_compare_exchange_weak_explicit ::
    "nat \<Rightarrow> mem \<Rightarrow> nat \<Rightarrow> nat \<Rightarrow> u64 \<Rightarrow> memory_order \<Rightarrow> memory_order \<Rightarrow> (bool \<times> mem) option" where
  "atomic_compare_exchange_weak_explicit n m object expected desired success failure =
     atomic_compare_exchange_strong_explicit n m object expected desired success failure"

definition atomic_exchange_explicit :: "nat \<Rightarrow> mem \<Rightarrow> nat \<Rightarrow> u64 \<Rightarrow> memory_order \<Rightarrow> u64 \<times> mem" where
  "atomic_exchange_explicit n m object desired order = read_modify_write n (\<lambda>v d. d) m object desired"

definition atomic_fetch_add_explicit :: "nat \<Rightarrow> mem \<Rightarrow> nat \<Rightarrow> u64 \<Rightarrow> memory_order \<Rightarrow> u64 \<times> mem" where
  "atomic_fetch_add_explicit n m object operand order = read_modify_write n (+) m object operand"

definition atomic_fetch_and_explicit :: "nat \<Rightarrow> mem \<Rightarrow> nat \<Rightarrow> u64 \<Rightarrow> memory_order \<Rightarrow> u64 \<times> mem" where
  "atomic_fetch_and_explicit n m object operand order = read_modify_write n (AND) m object operand"

definition atomic_fetch_or_explicit :: "nat \<Rightarrow> mem \<Rightarrow> nat \<Rightarrow> u64 \<Rightarrow> memory_order \<Rightarrow> u64 \<times> mem" where
  "atomic_fetch_or_explicit n m object operand order = read_modify_write n (OR) m object operand"

definition atomic_fetch_sub_explicit :: "nat \<Rightarrow> mem \<Rightarrow> nat \<Rightarrow> u64 \<Rightarrow> memory_order \<Rightarrow> u64 \<times> mem" where
  "atomic_fetch_sub_explicit n m object operand order = read_modify_write n (-) m object operand"

definition atomic_fetch_xor_explicit :: "nat \<Rightarrow> mem \<Rightarrow> nat \<Rightarrow> u64 \<Rightarrow> memory_order \<Rightarrow> u64 \<times> mem" where
  "atomic_fetch_xor_explicit n m object operand order = read_modify_write n (XOR) m object operand"

definition atomic_load_explicit :: "nat \<Rightarrow> mem \<Rightarrow> nat \<Rightarrow> memory_order \<Rightarrow> u64 \<times> mem" where
  "atomic_load_explicit n m object order = read_modify_write n (+) m object 0"

definition atomic_store_explicit :: "nat \<Rightarrow> mem \<Rightarrow> nat \<Rightarrow> u64 \<Rightarrow> memory_order \<Rightarrow> mem" where
  "atomic_store_explicit n m object desired order = store n m object desired"

definition atomic_compare_exchange_strong ::
    "nat \<Rightarrow> mem \<Rightarrow> nat \<Rightarrow> nat \<Rightarrow> u64 \<Rightarrow> (bool \<times> mem) option" where
  "atomic_compare_exchange_strong n m object expected desired =
     atomic_compare_exchange_strong_explicit n m object expected desired
       memory_order_seq_cst memory_order_seq_cst"

definition atomic_compare_exchange_weak ::
    "nat \<Rightarrow> mem \<Rightarrow> nat \<Rightarrow> nat \<Rightarrow> u64 \<Rightarrow> (bool \<times> mem) option" where
  "atomic_compare_exchange_weak n m object expected desired =
     atomic_compare_exchange_weak_explicit n m object expected desired
       memory_order_seq_cst memory_order_seq_cst"

definition atomic_exchange :: "nat \<Rightarrow> mem \<Rightarrow> nat \<Rightarrow> u64 \<Rightarrow> u64 \<times> mem" where
  "atomic_exchange n m object desired = atomic_exchange_explicit n m object desired memory_order_seq_cst"

definition atomic_fetch_add :: "nat \<Rightarrow> mem \<Rightarrow> nat \<Rightarrow> u64 \<Rightarrow> u64 \<times> mem" where
  "atomic_fetch_add n m object operand = atomic_fetch_add_explicit n m object operand memory_order_seq_cst"

definition atomic_fetch_and :: "nat \<Rightarrow> mem \<Rightarrow> nat \<Rightarrow> u64 \<Rightarrow> u64 \<times> mem" where
  "atomic_fetch_and n m object operand = atomic_fetch_and_explicit n m object operand memory_order_seq_cst"

definition atomic_fetch_or :: "nat \<Rightarrow> mem \<Rightarrow> nat \<Rightarrow> u64 \<Rightarrow> u64 \<times> mem" where
  "atomic_fetch_or n m object operand = atomic_fetch_or_explicit n m object operand memory_order_seq_cst"

definition atomic_fetch_sub :: "nat \<Rightarrow> mem \<Rightarrow> nat \<Rightarrow> u64 \<Rightarrow> u64 \<times> mem" where
  "atomic_fetch_sub n m object operand = atomic_fetch_sub_explicit n m object operand memory_order_seq_cst"

definition atomic_fetch_xor :: "nat \<Rightarrow> mem \<Rightarrow> nat \<Rightarrow> u64 \<Rightarrow> u64 \<times> mem" where
  "atomic_fetch_xor n m object operand = atomic_fetch_xor_explicit n m object operand memory_order_seq_cst"

definition atomic_load :: "nat \<Rightarrow> mem \<Rightarrow> nat \<Rightarrow> u64 \<times> mem" where
  "atomic_load n m object = atomic_load_explicit n m object memory_order_seq_cst"

definition atomic_store :: "nat \<Rightarrow> mem \<Rightarrow> nat \<Rightarrow> u64 \<Rightarrow> mem" where
  "atomic_store n m object desired = atomic_store_explicit n m object desired memory_order_seq_cst"

text \<open>
  An \<open>atomic_flag\<close> is an \<open>atomic_bool\<close>, one byte.  \<open>atomic_flag_test_and_set\<close> passes the constant 0
  where a pointer to the expected value belongs.
\<close>

definition atomic_flag_clear_explicit :: "mem \<Rightarrow> nat \<Rightarrow> memory_order \<Rightarrow> mem" where
  "atomic_flag_clear_explicit m object order = atomic_store_explicit 1 m object 0 order"

definition atomic_flag_test_and_set_explicit :: "mem \<Rightarrow> nat \<Rightarrow> memory_order \<Rightarrow> (bool \<times> mem) option" where
  "atomic_flag_test_and_set_explicit m object order =
     atomic_compare_exchange_strong_explicit 1 m object 0 1 order order"

definition atomic_flag_clear :: "mem \<Rightarrow> nat \<Rightarrow> mem" where
  "atomic_flag_clear m object = atomic_flag_clear_explicit m object memory_order_seq_cst"

definition atomic_flag_test_and_set :: "mem \<Rightarrow> nat \<Rightarrow> (bool \<times> mem) option" where
  "atomic_flag_test_and_set m object = atomic_flag_test_and_set_explicit m object memory_order_seq_cst"

section \<open>win32/stdatomic.h\<close>

text \<open>The \<open>switch\<close> on the size of the result variable; \<open>None\<close> is its default branch.\<close>

definition win32_switch :: "ctype \<Rightarrow> (nat \<Rightarrow> u64 \<times> mem) \<Rightarrow> (u64 \<times> mem) option" where
  "win32_switch out f =
     (if sizeof out \<in> {8, 4, 2, 1} then (let (v, m) = f (sizeof out) in Some (convert out v, m)) else None)"

definition rcutils_win32_atomic_compare_exchange_strong ::
    "mem \<Rightarrow> nat \<Rightarrow> ctype \<Rightarrow> u64 \<Rightarrow> u64 \<Rightarrow> (u64 \<times> mem) option" where
  "rcutils_win32_atomic_compare_exchange_strong m object out expected desired =
     win32_switch out (\<lambda>n. compare_and_swap n m object expected desired)"

definition rcutils_win32_atomic_compare_exchange_weak ::
    "mem \<Rightarrow> nat \<Rightarrow> ctype \<Rightarrow> u64 \<Rightarrow> u64 \<Rightarrow> (u64 \<times> mem) option" where
  "rcutils_win32_atomic_compare_exchange_weak m object out expected desired =
     rcutils_win32_atomic_compare_exchange_strong m object out expected desired"

definition rcutils_win32_atomic_exchange :: "mem \<Rightarrow> nat \<Rightarrow> ctype \<Rightarrow> u64 \<Rightarrow> (u64 \<times> mem) option" where
  "rcutils_win32_atomic_exchange m object out desired =
     win32_switch out (\<lambda>n. read_modify_write n (\<lambda>v d. d) m object desired)"

definition rcutils_win32_atomic_fetch_add :: "mem \<Rightarrow> nat \<Rightarrow> ctype \<Rightarrow> u64 \<Rightarrow> (u64 \<times> mem) option" where
  "rcutils_win32_atomic_fetch_add m object out operand =
     win32_switch out (\<lambda>n. read_modify_write n (+) m object operand)"

definition rcutils_win32_atomic_fetch_and :: "mem \<Rightarrow> nat \<Rightarrow> ctype \<Rightarrow> u64 \<Rightarrow> (u64 \<times> mem) option" where
  "rcutils_win32_atomic_fetch_and m object out operand =
     win32_switch out (\<lambda>n. read_modify_write n (AND) m object operand)"

definition rcutils_win32_atomic_fetch_or :: "mem \<Rightarrow> nat \<Rightarrow> ctype \<Rightarrow> u64 \<Rightarrow> (u64 \<times> mem) option" where
  "rcutils_win32_atomic_fetch_or m object out operand =
     win32_switch out (\<lambda>n. read_modify_write n (OR) m object operand)"

definition rcutils_win32_atomic_fetch_sub :: "mem \<Rightarrow> nat \<Rightarrow> ctype \<Rightarrow> u64 \<Rightarrow> (u64 \<times> mem) option" where
  "rcutils_win32_atomic_fetch_sub m object out operand =
     rcutils_win32_atomic_fetch_add m object out (- operand)"

definition rcutils_win32_atomic_fetch_xor :: "mem \<Rightarrow> nat \<Rightarrow> ctype \<Rightarrow> u64 \<Rightarrow> (u64 \<times> mem) option" where
  "rcutils_win32_atomic_fetch_xor m object out operand =
     win32_switch out (\<lambda>n. read_modify_write n (XOR) m object operand)"

definition rcutils_win32_atomic_load :: "mem \<Rightarrow> nat \<Rightarrow> ctype \<Rightarrow> (u64 \<times> mem) option" where
  "rcutils_win32_atomic_load m object out = win32_switch out (\<lambda>n. read_modify_write n (+) m object 0)"

definition rcutils_win32_atomic_store :: "nat \<Rightarrow> mem \<Rightarrow> nat \<Rightarrow> u64 \<Rightarrow> mem" where
  "rcutils_win32_atomic_store n m object desired = store n m object desired"

section \<open>stdatomic_helper.h\<close>

datatype platform = Gcc | Win32

text \<open>
  The selection of the header: the object has \<open>n\<close> bytes, the result variable the type \<open>out\<close>.  The
  expected value is passed by address.
\<close>

definition rcutils_atomic_load :: "platform \<Rightarrow> nat \<Rightarrow> mem \<Rightarrow> nat \<Rightarrow> ctype \<Rightarrow> (u64 \<times> mem) option" where
  "rcutils_atomic_load P n m object out =
     (case P of
        Gcc \<Rightarrow> (let (v, m1) = atomic_load n m object in Some (convert out v, m1))
      | Win32 \<Rightarrow> rcutils_win32_atomic_load m object out)"

definition rcutils_atomic_compare_exchange_strong ::
    "platform \<Rightarrow> nat \<Rightarrow> mem \<Rightarrow> nat \<Rightarrow> ctype \<Rightarrow> nat \<Rightarrow> u64 \<Rightarrow> (u64 \<times> mem) option" where
  "rcutils_atomic_compare_exchange_strong P n m object out expected desired =
     (case P of
        Gcc \<Rightarrow> (case atomic_compare_exchange_strong n m object expected desired of
                  None \<Rightarrow> None | Some (r, m1) \<Rightarrow> Some (convert out (of_bool r), m1))
      | Win32 \<Rightarrow> rcutils_win32_atomic_compare_exchange_strong m object out (load n m expected) desired)"

definition rcutils_atomic_exchange ::
    "platform \<Rightarrow> nat \<Rightarrow> mem \<Rightarrow> nat \<Rightarrow> ctype \<Rightarrow> u64 \<Rightarrow> (u64 \<times> mem) option" where
  "rcutils_atomic_exchange P n m object out desired =
     (case P of
        Gcc \<Rightarrow> (let (v, m1) = atomic_exchange n m object desired in Some (convert out v, m1))
      | Win32 \<Rightarrow> rcutils_win32_atomic_exchange m object out desired)"

definition rcutils_atomic_store :: "platform \<Rightarrow> nat \<Rightarrow> mem \<Rightarrow> nat \<Rightarrow> u64 \<Rightarrow> mem" where
  "rcutils_atomic_store P n m object desired =
     (case P of Gcc \<Rightarrow> atomic_store n m object desired
      | Win32 \<Rightarrow> rcutils_win32_atomic_store n m object desired)"

definition rcutils_atomic_fetch_add ::
    "platform \<Rightarrow> nat \<Rightarrow> mem \<Rightarrow> nat \<Rightarrow> ctype \<Rightarrow> u64 \<Rightarrow> (u64 \<times> mem) option" where
  "rcutils_atomic_fetch_add P n m object out arg =
     (case P of
        Gcc \<Rightarrow> (let (v, m1) = atomic_fetch_add n m object arg in Some (convert out v, m1))
      | Win32 \<Rightarrow> rcutils_win32_atomic_fetch_add m object out arg)"

text \<open>The typed helpers.  \<open>ptr\<close> is the size of \<open>uintptr_t\<close>: 4 or 8.\<close>

definition rcutils_atomic_load_bool :: "platform \<Rightarrow> mem \<Rightarrow> nat \<Rightarrow> (u64 \<times> mem) option" where
  "rcutils_atomic_load_bool P m a_bool = rcutils_atomic_load P 1 m a_bool C_bool"

definition rcutils_atomic_load_int64_t :: "platform \<Rightarrow> mem \<Rightarrow> nat \<Rightarrow> (u64 \<times> mem) option" where
  "rcutils_atomic_load_int64_t P m a_int64_t = rcutils_atomic_load P 8 m a_int64_t (C_int 8)"

definition rcutils_atomic_load_uint64_t :: "platform \<Rightarrow> mem \<Rightarrow> nat \<Rightarrow> (u64 \<times> mem) option" where
  "rcutils_atomic_load_uint64_t P m a_uint64_t = rcutils_atomic_load P 8 m a_uint64_t (C_int 8)"

definition rcutils_atomic_load_uintptr_t :: "nat \<Rightarrow> platform \<Rightarrow> mem \<Rightarrow> nat \<Rightarrow> (u64 \<times> mem) option" where
  "rcutils_atomic_load_uintptr_t ptr P m a_uintptr_t = rcutils_atomic_load P ptr m a_uintptr_t (C_int ptr)"

definition rcutils_atomic_compare_exchange_strong_uint_least64_t ::
    "platform \<Rightarrow> mem \<Rightarrow> nat \<Rightarrow> nat \<Rightarrow> u64 \<Rightarrow> (u64 \<times> mem) option" where
  "rcutils_atomic_compare_exchange_strong_uint_least64_t P m a_uint_least64_t expected desired =
     rcutils_atomic_compare_exchange_strong P 8 m a_uint_least64_t C_bool expected desired"

definition rcutils_atomic_exchange_bool :: "platform \<Rightarrow> mem \<Rightarrow> nat \<Rightarrow> u64 \<Rightarrow> (u64 \<times> mem) option" where
  "rcutils_atomic_exchange_bool P m a_bool desired = rcutils_atomic_exchange P 1 m a_bool C_bool desired"

definition rcutils_atomic_exchange_int64_t :: "platform \<Rightarrow> mem \<Rightarrow> nat \<Rightarrow> u64 \<Rightarrow> (u64 \<times> mem) option" where
  "rcutils_atomic_exchange_int64_t P m a_int64_t desired =
     rcutils_atomic_exchange P 8 m a_int64_t (C_int 8) desired"

definition rcutils_atomic_exchange_uint64_t :: "platform \<Rightarrow> mem \<Rightarrow> nat \<Rightarrow> u64 \<Rightarrow> (u64 \<times> mem) option" where
  "rcutils_atomic_exchange_uint64_t P m a_uint64_t desired =
     rcutils_atomic_exchange P 8 m a_uint64_t (C_int 8) desired"

definition rcutils_atomic_exchange_uintptr_t ::
    "nat \<Rightarrow> platform \<Rightarrow> mem \<Rightarrow> nat \<Rightarrow> u64 \<Rightarrow> (u64 \<times> mem) option" where
  "rcutils_atomic_exchange_uintptr_t ptr P m a_uintptr_t desired =
     rcutils_atomic_exchange P ptr m a_uintptr_t (C_int ptr) desired"

definition rcutils_atomic_fetch_add_uint64_t :: "platform \<Rightarrow> mem \<Rightarrow> nat \<Rightarrow> u64 \<Rightarrow> (u64 \<times> mem) option" where
  "rcutils_atomic_fetch_add_uint64_t P m a_uint64_t arg =
     rcutils_atomic_fetch_add P 8 m a_uint64_t (C_int 8) arg"

section \<open>Memory lemmas\<close>

lemma bit_load: "bit (load n m a) k \<longleftrightarrow> k < 64 \<and> k < 8 * n \<and> bit (m (a + k div 8)) (k mod 8)"
proof (induction n arbitrary: a k)
  case 0
  then show ?case by simp
next
  case (Suc n)
  show ?case
  proof (cases "k < 8")
    case True
    then show ?thesis by (auto simp: bit_or_iff bit_ucast_iff bit_push_bit_iff)
  next
    case False
    then have "k div 8 = Suc ((k - 8) div 8)" "k mod 8 = (k - 8) mod 8"
      by (simp_all add: le_div_geq le_mod_geq not_less)
    moreover have "\<not> bit (m a) k" using False bit_imp_le_length [of "m a" k] by auto
    ultimately show ?thesis using False Suc.IH [of "Suc a" "k - 8"]
      by (auto simp: bit_or_iff bit_ucast_iff bit_push_bit_iff)
  qed
qed

lemma load_store_same: "n \<le> 8 \<Longrightarrow> load n (store n m a v) a = bytes n v"
proof (rule bit_word_eqI)
  fix k assume n: "n \<le> 8" and k: "k < LENGTH(64)"
  have "k < 8 * n \<Longrightarrow> k div 8 < n" by (simp add: less_mult_imp_div_less mult.commute)
  moreover have "8 * (k div 8) + k mod 8 = k" by simp
  ultimately show "bit (load n (store n m a v) a) k = bit (bytes n v) k"
    using n k by (auto simp: bit_load store_def bytes_def bit_take_bit_iff bit_ucast_iff bit_drop_bit_eq)
qed

lemma load_cong: "(\<And>x. a \<le> x \<Longrightarrow> x < a + n \<Longrightarrow> m x = m' x) \<Longrightarrow> load n m a = load n m' a"
  by (induction n arbitrary: a) simp_all

definition disjoint :: "nat \<Rightarrow> nat \<Rightarrow> nat \<Rightarrow> nat \<Rightarrow> bool" where
  "disjoint n a k b \<longleftrightarrow> a + n \<le> b \<or> b + k \<le> a"

lemma load_store_other: "disjoint k b n a \<Longrightarrow> load k (store n m a v) b = load k m b"
  by (rule load_cong) (auto simp: store_def disjoint_def)

lemma store_same: "n \<le> 8 \<Longrightarrow> store n m a (load n m a) = m"
proof
  fix x assume "n \<le> 8"
  have "(8 * (x - a) + k) div 8 = x - a" "(8 * (x - a) + k) mod 8 = k" if "k < 8" for k
    using that by simp_all
  with \<open>n \<le> 8\<close> show "store n m a (load n m a) x = m x"
    by (auto intro!: bit_word_eqI simp: store_def bit_ucast_iff bit_drop_bit_eq bit_load)
qed

lemma bytes_load: "bytes n (load n m a) = load n m a"
  by (rule bit_word_eqI) (simp add: bytes_def bit_take_bit_iff bit_load)

lemma take_bit_64 [simp]: "take_bit 64 (v :: u64) = v"
  by (rule bit_word_eqI) (simp add: bit_take_bit_iff)

lemma bytes_8 [simp]: "bytes 8 v = v"
  by (simp add: bytes_def)

lemma load_store_8 [simp]: "load 8 (store 8 m a v) a = v"
  by (simp add: load_store_same)

lemmas gcc_defs =
  atomic_compare_exchange_strong_explicit_def atomic_compare_exchange_weak_explicit_def
  atomic_exchange_explicit_def atomic_fetch_add_explicit_def atomic_load_explicit_def
  atomic_store_explicit_def atomic_compare_exchange_strong_def atomic_compare_exchange_weak_def
  atomic_exchange_def atomic_fetch_add_def atomic_load_def atomic_store_def
  compare_and_swap_def read_modify_write_def

lemmas win32_defs =
  win32_switch_def rcutils_win32_atomic_compare_exchange_strong_def rcutils_win32_atomic_exchange_def
  rcutils_win32_atomic_fetch_add_def rcutils_win32_atomic_load_def rcutils_win32_atomic_store_def
  compare_and_swap_def read_modify_write_def

lemmas helper_defs =
  rcutils_atomic_load_def rcutils_atomic_compare_exchange_strong_def rcutils_atomic_exchange_def
  rcutils_atomic_fetch_add_def rcutils_atomic_load_bool_def rcutils_atomic_load_int64_t_def
  rcutils_atomic_load_uint64_t_def rcutils_atomic_load_uintptr_t_def
  rcutils_atomic_compare_exchange_strong_uint_least64_t_def rcutils_atomic_exchange_bool_def
  rcutils_atomic_exchange_int64_t_def rcutils_atomic_exchange_uint64_t_def
  rcutils_atomic_exchange_uintptr_t_def rcutils_atomic_fetch_add_uint64_t_def

lemma bit_u8: "bit (w :: u8) n \<Longrightarrow> n < 8"
  using bit_imp_le_length [of w n] by simp

lemma ucast_u64_eq: "(ucast x :: u64) = ucast y \<longleftrightarrow> x = (y :: u8)"
proof
  assume eq: "(ucast x :: u64) = ucast y"
  show "x = y"
  proof (rule bit_word_eqI)
    fix k assume "k < LENGTH(8)"
    with arg_cong [OF eq, of "\<lambda>w. bit w k"] show "bit x k = bit y k" by (simp add: bit_ucast_iff)
  qed
qed simp

lemma ucast_u64_0: "(ucast x :: u64) = 0 \<longleftrightarrow> x = (0 :: u8)"
  using ucast_u64_eq [of x 0] by simp

section \<open>Properties\<close>

text \<open>
  The \<open>__sync\<close> fallback of \<open>atomic_compare_exchange_strong\<close> is the operation of the C standard:
  it succeeds exactly when object and expected value are equal, then stores the desired value and
  otherwise leaves the object alone; the expected value becomes the object's previous value either
  way, and no other byte changes.
\<close>

theorem gcc_compare_exchange_is_c11:
  fixes m :: mem
  assumes "n \<le> 8" and "expected \<noteq> 0" and "disjoint n object n expected"
    and "old = load n m object" and "e = load n m expected"
  shows "\<exists>m'. atomic_compare_exchange_strong n m object expected desired = Some (old = e, m')
     \<and> load n m' object = (if old = e then bytes n desired else old)
     \<and> load n m' expected = old
     \<and> (\<forall>x. disjoint 1 x n object \<and> disjoint 1 x n expected \<longrightarrow> m' x = m x)"
proof (intro exI conjI allI impI)
  have d: "disjoint n expected n object" using assms(3) by (auto simp: disjoint_def)
  define m1 where "m1 = (if old = e then store n m object desired else m)"
  have e1: "load n m1 expected = e"
    by (simp add: m1_def assms(5) load_store_other [OF d])
  have be: "bytes n e = e" by (simp add: assms(5) bytes_load)
  show "atomic_compare_exchange_strong n m object expected desired = Some (old = e, store n m1 expected old)"
    using assms(2) e1 be
    by (auto simp: gcc_defs Let_def m1_def assms(4,5))
  show "load n (store n m1 expected old) object = (if old = e then bytes n desired else old)"
    using assms(1) by (simp add: load_store_other [OF assms(3)] m1_def load_store_same assms(4))
  show "load n (store n m1 expected old) expected = old"
    using assms(1) by (simp add: load_store_same assms(4) bytes_load)
  show "store n m1 expected old x = m x" if "disjoint 1 x n object \<and> disjoint 1 x n expected" for x
    using that by (auto simp: store_def m1_def disjoint_def)
qed

text \<open>
  The helpers that load, exchange and add to 64-bit and pointer-sized objects do so exactly, on
  both platforms: the result is the previous value, the object gets the new one (addition modulo
  \<open>2 ^ 64\<close>), and a load leaves memory as it was.
\<close>

theorem helpers_exact:
  "rcutils_atomic_load_uint64_t P m a = Some (load 8 m a, m)"
  "rcutils_atomic_load_int64_t P m a = Some (load 8 m a, m)"
  "rcutils_atomic_load_bool P m a = Some (if m a = 0 then 0 else 1, m)"
  "rcutils_atomic_exchange_uint64_t P m a d = Some (load 8 m a, store 8 m a d)"
  "rcutils_atomic_exchange_int64_t P m a d = Some (load 8 m a, store 8 m a d)"
  "rcutils_atomic_exchange_bool P m a d = Some (if m a = 0 then 0 else 1, store 1 m a d)"
  "rcutils_atomic_fetch_add_uint64_t P m a d = Some (load 8 m a, store 8 m a (load 8 m a + d))"
  "rcutils_atomic_load_uintptr_t 4 P m a = Some (load 4 m a, m)"
  "rcutils_atomic_load_uintptr_t 8 P m a = Some (load 8 m a, m)"
proof -
  have one: "load (Suc 0) m a = ucast (m a)" "load 1 m a = ucast (m a)" by simp_all
  have b4: "take_bit 32 (load 4 m a) = load 4 m a"
    using bytes_load [of 4 m a] by (simp add: bytes_def)
  have st: "store (Suc 0) m a (ucast (m a)) = m" using store_same [of 1 m a] by simp
  note unfold = helper_defs gcc_defs win32_defs
  show "rcutils_atomic_load_uint64_t P m a = Some (load 8 m a, m)"
    by (cases P) (simp_all add: unfold Let_def store_same)
  show "rcutils_atomic_load_int64_t P m a = Some (load 8 m a, m)"
    by (cases P) (simp_all add: unfold Let_def store_same)
  show "rcutils_atomic_load_bool P m a = Some (if m a = 0 then 0 else 1, m)"
    by (cases P) (simp_all add: unfold Let_def st one ucast_u64_0)
  show "rcutils_atomic_exchange_uint64_t P m a d = Some (load 8 m a, store 8 m a d)"
    by (cases P) (simp_all add: unfold Let_def)
  show "rcutils_atomic_exchange_int64_t P m a d = Some (load 8 m a, store 8 m a d)"
    by (cases P) (simp_all add: unfold Let_def)
  show "rcutils_atomic_exchange_bool P m a d = Some (if m a = 0 then 0 else 1, store 1 m a d)"
    by (cases P) (simp_all add: unfold Let_def one ucast_u64_0)
  show "rcutils_atomic_fetch_add_uint64_t P m a d = Some (load 8 m a, store 8 m a (load 8 m a + d))"
    by (cases P) (simp_all add: unfold Let_def)
  show "rcutils_atomic_load_uintptr_t 4 P m a = Some (load 4 m a, m)"
    by (cases P) (simp_all add: unfold Let_def store_same b4)
  show "rcutils_atomic_load_uintptr_t 8 P m a = Some (load 8 m a, m)"
    by (cases P) (simp_all add: unfold Let_def store_same)
qed

text \<open>Fetch-and-add operations one after the other, in whatever order their threads are scheduled.\<close>

fun fetch_adds :: "platform \<Rightarrow> mem \<Rightarrow> nat \<Rightarrow> u64 list \<Rightarrow> (u64 list \<times> mem) option" where
  "fetch_adds P m a [] = Some ([], m)"
| "fetch_adds P m a (d # ds) =
     (case rcutils_atomic_fetch_add_uint64_t P m a d of
        None \<Rightarrow> None
      | Some (v, m1) \<Rightarrow> map_option (\<lambda>(vs, m2). (v # vs, m2)) (fetch_adds P m1 a ds))"

text \<open>The values \<open>k\<close> increments take.\<close>

definition tickets :: "mem \<Rightarrow> nat \<Rightarrow> nat \<Rightarrow> u64 list" where
  "tickets m a k = map (\<lambda>i. load 8 m a + of_nat i) [0..<k]"

text \<open>
  A 64-bit counter advanced with \<open>rcutils_atomic_fetch_add_uint64_t\<close> hands out tickets: \<open>k\<close>
  increments return \<open>k\<close> consecutive values from the counter's old value on, all different for
  \<open>k\<close> up to \<open>2 ^ 64\<close> in spite of the wrap-around, and leave the counter advanced by \<open>k\<close>.
\<close>

theorem fetch_add_tickets:
  shows "(\<exists>m'. fetch_adds P m a (replicate k 1) = Some (tickets m a k, m')
           \<and> load 8 m' a = load 8 m a + of_nat k)
       \<and> (k \<le> 2 ^ 64 \<longrightarrow> distinct (tickets m a k))"
  unfolding tickets_def
proof (intro conjI impI)
  show "\<exists>m'. fetch_adds P m a (replicate k 1) = Some (map (\<lambda>i. load 8 m a + of_nat i) [0..<k], m')
      \<and> load 8 m' a = load 8 m a + of_nat k"
  proof (induction k arbitrary: m)
    case 0
    then show ?case by simp
  next
    case (Suc k)
    obtain m' where m': "fetch_adds P (store 8 m a (load 8 m a + 1)) a (replicate k 1)
          = Some (map (\<lambda>i. load 8 m a + 1 + of_nat i) [0..<k], m')"
        "load 8 m' a = load 8 m a + 1 + of_nat k"
      using Suc [of "store 8 m a (load 8 m a + 1)"] by auto
    have "[0..<Suc k] = 0 # map Suc [0..<k]" by (simp add: map_Suc_upt upt_conv_Cons)
    then show ?case using m'
      by (intro exI [of _ m']) (simp add: helpers_exact comp_def add.assoc del: upt_Suc)
  qed
  show "distinct (map (\<lambda>i. load 8 m a + of_nat i) [0..<k])" if "k \<le> 2 ^ 64"
  proof -
    have "inj_on (\<lambda>i. load 8 m a + of_nat i) {0..<k}"
    proof (rule inj_onI)
      fix i j assume "i \<in> {0..<k}" "j \<in> {0..<k}" "load 8 m a + of_nat i = load 8 m a + of_nat j"
      then have "(of_nat i :: u64) = of_nat j" "i < 2 ^ 64" "j < 2 ^ 64" using that by auto
      then show "i = j" by (simp add: word_of_nat_eq_iff take_bit_nat_eq_self_iff take_bit_nat_eq_self)
    qed
    then show ?thesis by (simp add: distinct_map)
  qed
qed

text \<open>
  On win32 the compare-and-exchange helper for 64-bit objects does something else: its result
  variable is one byte wide, so it compares and exchanges only the lowest byte; it reports whether
  that byte of the old value was nonzero instead of success; and the expected value is never
  updated.
\<close>

theorem win32_compare_exchange_is_one_byte:
  fixes m :: mem
  assumes "disjoint 8 object 8 expected"
  shows "\<exists>m'. rcutils_atomic_compare_exchange_strong_uint_least64_t Win32 m object expected desired
           = Some (if m object = 0 then 0 else 1, m')
         \<and> m' = (if m object = m expected then m(object := ucast desired) else m)
         \<and> load 8 m' expected = load 8 m expected"
proof -
  have l1: "load 1 m object = ucast (m object)" by simp
  have low: "bytes 1 (load 8 m expected) = ucast (m expected)"
  proof (rule bit_word_eqI)
    fix k assume "k < LENGTH(64)"
    show "bit (bytes 1 (load 8 m expected)) k = bit (ucast (m expected) :: u64) k"
    proof (cases "k < 8")
      case True
      then show ?thesis by (simp add: bytes_def bit_take_bit_iff bit_load bit_ucast_iff)
    next
      case False
      then show ?thesis by (auto simp: bytes_def bit_take_bit_iff bit_ucast_iff dest: bit_u8)
    qed
  qed
  have st: "store 1 m object desired = m(object := ucast desired)"
    by (auto simp: store_def)
  have "load 8 (m(object := ucast desired)) expected = load 8 m expected"
    using assms by (intro load_cong) (auto simp: disjoint_def)
  then show ?thesis
    by (auto simp: helper_defs win32_defs Let_def low l1 ucast_u64_eq ucast_u64_0 st simp del: load.simps One_nat_def)
qed

text \<open>
  \<open>atomic_flag_test_and_set\<close> of the fallback never works: it dereferences a null pointer on
  every use, while clearing a flag is fine.
\<close>

theorem atomic_flag_test_and_set_dereferences_null:
  "atomic_flag_test_and_set m object = None \<and> atomic_flag_clear m object object = 0"
  by (simp add: atomic_flag_test_and_set_def atomic_flag_test_and_set_explicit_def gcc_defs
      atomic_flag_clear_def atomic_flag_clear_explicit_def store_def)

section \<open>The hypotheses can be met\<close>

definition demo_mem :: mem where
  "demo_mem = (\<lambda>x. if x = 16 then 7 else if x = 32 then 7 else 0)"

lemma gcc_compare_exchange_is_c11_witness:
  "\<exists>m'. atomic_compare_exchange_strong 8 demo_mem 16 32 9
          = Some (load 8 demo_mem 16 = load 8 demo_mem 32, m') \<and> load 8 m' 32 = load 8 demo_mem 16"
  using gcc_compare_exchange_is_c11 [of 8 32 16 "load 8 demo_mem 16" demo_mem "load 8 demo_mem 32" 9]
  by (auto simp: disjoint_def)

lemma fetch_add_tickets_witness:
  "distinct (tickets demo_mem 16 1000)"
  using fetch_add_tickets [of Gcc demo_mem 16 1000] by simp

lemma win32_compare_exchange_is_one_byte_witness:
  "\<exists>m'. rcutils_atomic_compare_exchange_strong_uint_least64_t Win32 demo_mem 16 32 9 = Some (1, m')
      \<and> m' = demo_mem(16 := 9)"
  using win32_compare_exchange_is_one_byte [of 16 32 demo_mem 9]
  by (auto simp: disjoint_def demo_mem_def)

end
