(* ===== verification/Tinydir.thy ===== *)
theory Tinydir
  imports Prelude "HOL-Library.Multiset"
begin

text \<open>
  The directory reader \<open>tinydir/tinydir.h\<close>, in its POSIX version on \<open>readdir\<close> (the default).  The
  file system, the allocator, \<open>qsort\<close>, \<open>dirname\<close> and \<open>basename\<close> are parameters (\<open>td_env\<close>); calls are
  recorded, answers depend on the calls so far.  C strings are lists of characters without the
  null; \<open>td_ub\<close> records a copy that does not fit its buffer or an index outside an array.  A null
  pointer argument is \<open>None\<close>.  The loops over a directory have fuel: \<open>None\<close> is a loop that was cut off.
\<close>

section \<open>Constants and data\<close>

definition TINYDIR_PATH_MAX :: nat where "TINYDIR_PATH_MAX = 4096"
definition TINYDIR_PATH_EXTRA :: nat where "TINYDIR_PATH_EXTRA = 0"
definition TINYDIR_FILENAME_MAX :: nat where "TINYDIR_FILENAME_MAX = 256"

lemmas td_sizes = TINYDIR_PATH_MAX_def TINYDIR_PATH_EXTRA_def TINYDIR_FILENAME_MAX_def

text \<open>
  The extension of a file is a pointer into a name buffer: the one of the caller's own structure,
  or of an element of the array \<open>_files\<close>; with the offset in it.
\<close>

datatype name_buffer = Own_name | Name_of_element nat

record tinydir_file =
  file_path :: string
  file_name :: string
  file_extension :: "name_buffer \<times> nat"
  file_is_dir :: int
  file_is_reg :: int

text \<open>\<open>_d\<close> is 0 when no directory is open; \<open>_e\<close> is the name of the current entry.\<close>

record tinydir_dir =
  dir_path :: string
  dir_has_next :: bool
  dir_n_files :: nat
  dir_files :: "tinydir_file list option"
  dir_d :: nat
  dir_e :: "string option"

datatype td_errno = E_unset | EINVAL | ENAMETOOLONG | ENOENT

datatype fs_call =
    Opendir string
  | Readdir nat
  | Closedir nat
  | Stat string
  | Malloc nat
  | Free bool

record td_env =
  opendir_answer :: "fs_call list \<Rightarrow> nat"
  readdir_answer :: "fs_call list \<Rightarrow> string option"
  stat_answer :: "fs_call list \<Rightarrow> (int \<times> int) option"
  malloc_answer :: "fs_call list \<Rightarrow> bool"
  sizeof_file :: nat
  size_bits :: nat
  qsort :: "(tinydir_file \<Rightarrow> tinydir_file \<Rightarrow> int) \<Rightarrow> tinydir_file list \<Rightarrow> tinydir_file list"
  dirname :: "string \<Rightarrow> string"
  basename :: "string \<Rightarrow> string"

record td_st =
  fs_calls :: "fs_call list"
  td_errno :: td_errno
  td_ub :: bool

type_synonym 'a td = "(td_st, 'a) state"

definition td_emit :: "fs_call \<Rightarrow> unit td" where
  "td_emit c = State (\<lambda>s. ((), s\<lparr>fs_calls := fs_calls s @ [c]\<rparr>))"

definition td_ask :: "fs_call \<Rightarrow> (fs_call list \<Rightarrow> 'r) \<Rightarrow> 'r td" where
  "td_ask c f = State (\<lambda>s. (f (fs_calls s @ [c]), s\<lparr>fs_calls := fs_calls s @ [c]\<rparr>))"

definition set_errno :: "td_errno \<Rightarrow> unit td" where
  "set_errno e = State (\<lambda>s. ((), s\<lparr>td_errno := e\<rparr>))"

definition td_check :: "bool \<Rightarrow> unit td" where
  "td_check ok = State (\<lambda>s. ((), s\<lparr>td_ub := td_ub s \<or> \<not> ok\<rparr>))"

text \<open>\<open>strcpy\<close> and \<open>strcat\<close> into a buffer of the given size.\<close>

definition strcpy_into :: "nat \<Rightarrow> string \<Rightarrow> string td" where
  "strcpy_into n t = do { td_check (length t < n); return t }"

section \<open>Strings\<close>

fun strncmp :: "nat \<Rightarrow> string \<Rightarrow> string \<Rightarrow> int" where
  "strncmp 0 s t = 0"
| "strncmp (Suc n) [] [] = 0"
| "strncmp (Suc n) [] (d # t) = - int (of_char d)"
| "strncmp (Suc n) (c # s) [] = int (of_char c)"
| "strncmp (Suc n) (c # s) (d # t) = (if c = d then (if c = CHR 0x00 then 0 else strncmp n s t)
                                      else int (of_char c) - int (of_char d))"

text \<open>The position of the last occurrence of a character.\<close>

fun strrchr :: "string \<Rightarrow> char \<Rightarrow> nat option" where
  "strrchr [] c = None"
| "strrchr (d # s) c =
     (case strrchr s c of Some i \<Rightarrow> Some (Suc i) | None \<Rightarrow> if d = c then Some 0 else None)"

section \<open>Operations\<close>

definition tinydir_get_ext :: "name_buffer \<Rightarrow> tinydir_file \<Rightarrow> tinydir_file" where
  "tinydir_get_ext b file =
     file\<lparr>file_extension := (b, case strrchr (file_name file) (CHR ''.'') of
        None \<Rightarrow> length (file_name file) | Some period \<Rightarrow> period + 1)\<rparr>"

definition tinydir_file_cmp :: "tinydir_file \<Rightarrow> tinydir_file \<Rightarrow> int" where
  "tinydir_file_cmp fa fb =
     (if file_is_dir fa \<noteq> file_is_dir fb then - (file_is_dir fa - file_is_dir fb)
      else strncmp TINYDIR_FILENAME_MAX (file_name fa) (file_name fb))"

definition close_dir :: "tinydir_dir \<Rightarrow> tinydir_dir td" where
  "close_dir dir = do {
     td_emit (Free (dir_files dir \<noteq> None));
     when_do (dir_d dir \<noteq> 0) (td_emit (Closedir (dir_d dir)));
     return (dir\<lparr>dir_path := [], dir_has_next := False, dir_n_files := 0, dir_files := None,
                dir_d := 0, dir_e := None\<rparr>)
   }"

definition tinydir_close :: "tinydir_dir option \<Rightarrow> tinydir_dir option td" where
  "tinydir_close dir = (case dir of None \<Rightarrow> return None | Some d \<Rightarrow> do { d1 \<leftarrow> close_dir d; return (Some d1) })"

text \<open>
  The loop meant to remove trailing slashes, on the path buffer (the path and the null after it),
  with \<open>pathp\<close> as an index.
\<close>

definition is_slash :: "char \<Rightarrow> bool" where
  "is_slash c \<longleftrightarrow> c = CHR 0x5C \<or> c = CHR ''/''"

function trailing_slashes :: "string \<Rightarrow> nat \<Rightarrow> string" where
  "trailing_slashes buf pathp =
     (if pathp \<noteq> 0 \<and> pathp < length buf \<and> is_slash (buf ! pathp)
      then trailing_slashes (buf[pathp := CHR 0x00]) (pathp + 1) else buf)"
  by auto
termination by (relation "measure (\<lambda>(buf, pathp). length buf - pathp)") auto

declare trailing_slashes.simps [simp del]

definition c_string :: "string \<Rightarrow> string" where
  "c_string buf = takeWhile (\<lambda>c. c \<noteq> CHR 0x00) buf"

definition open_dir :: "td_env \<Rightarrow> tinydir_dir \<Rightarrow> string \<Rightarrow> (int \<times> tinydir_dir) td" where
  "open_dir E dir path =
     (if path = [] then do { set_errno EINVAL; return (-1, dir) }
      else if length path + TINYDIR_PATH_EXTRA \<ge> TINYDIR_PATH_MAX
      then do { set_errno ENAMETOOLONG; return (-1, dir) }
      else do {
        dir \<leftarrow> close_dir (dir\<lparr>dir_files := None, dir_d := 0\<rparr>);
        p \<leftarrow> strcpy_into TINYDIR_PATH_MAX path;
        let dir = dir\<lparr>dir_path := c_string (trailing_slashes (p @ [CHR 0x00]) (length p - 1))\<rparr>;
        d \<leftarrow> td_ask (Opendir path) (opendir_answer E);
        let dir = dir\<lparr>dir_d := d\<rparr>;
        if d = 0 then do { dir \<leftarrow> close_dir dir; return (-1, dir) }
        else do {
          e \<leftarrow> td_ask (Readdir d) (readdir_answer E);
          return (0, dir\<lparr>dir_e := e, dir_has_next := (e \<noteq> None)\<rparr>)
        }
      })"

definition tinydir_open ::
    "td_env \<Rightarrow> tinydir_dir option \<Rightarrow> string option \<Rightarrow> (int \<times> tinydir_dir option) td" where
  "tinydir_open E dir path =
     (case (dir, path) of
        (Some d, Some p) \<Rightarrow> do { (r, d1) \<leftarrow> open_dir E d p; return (r, Some d1) }
      | _ \<Rightarrow> do { set_errno EINVAL; return (-1, dir) })"

definition next_entry :: "td_env \<Rightarrow> tinydir_dir \<Rightarrow> (int \<times> tinydir_dir) td" where
  "next_entry E dir =
     (if \<not> dir_has_next dir then do { set_errno ENOENT; return (-1, dir) }
      else do {
        e \<leftarrow> td_ask (Readdir (dir_d dir)) (readdir_answer E);
        let dir = dir\<lparr>dir_e := e\<rparr>;
        return (0, if e = None then dir\<lparr>dir_has_next := False\<rparr> else dir)
      })"

definition tinydir_next :: "td_env \<Rightarrow> tinydir_dir option \<Rightarrow> (int \<times> tinydir_dir option) td" where
  "tinydir_next E dir =
     (case dir of None \<Rightarrow> do { set_errno EINVAL; return (-1, None) }
      | Some d \<Rightarrow> do { (r, d1) \<leftarrow> next_entry E d; return (r, Some d1) })"

text \<open>\<open>b\<close> says where the file structure is stored.\<close>

definition read_file ::
    "td_env \<Rightarrow> name_buffer \<Rightarrow> tinydir_dir \<Rightarrow> tinydir_file \<Rightarrow> (int \<times> tinydir_file) td" where
  "read_file E b dir file =
     (case dir_e dir of
        None \<Rightarrow> do { set_errno ENOENT; return (-1, file) }
      | Some d_name \<Rightarrow>
          if length (dir_path dir) + length d_name + 1 + TINYDIR_PATH_EXTRA \<ge> TINYDIR_PATH_MAX
          then do { set_errno ENAMETOOLONG; return (-1, file) }
          else if length d_name \<ge> TINYDIR_FILENAME_MAX
          then do { set_errno ENAMETOOLONG; return (-1, file) }
          else do {
            p0 \<leftarrow> strcpy_into TINYDIR_PATH_MAX (dir_path dir);
            p1 \<leftarrow> strcpy_into TINYDIR_PATH_MAX (p0 @ ''/'');
            nm \<leftarrow> strcpy_into TINYDIR_FILENAME_MAX d_name;
            p2 \<leftarrow> strcpy_into TINYDIR_PATH_MAX (p1 @ nm);
            let file = file\<lparr>file_path := p2, file_name := nm\<rparr>;
            st \<leftarrow> td_ask (Stat p2) (stat_answer E);
            (case st of
               None \<Rightarrow> return (-1, file)
             | Some (isdir, isreg) \<Rightarrow>
                 return (0, (tinydir_get_ext b file)\<lparr>file_is_dir := isdir, file_is_reg := isreg\<rparr>))
          })"

definition tinydir_readfile ::
    "td_env \<Rightarrow> tinydir_dir option \<Rightarrow> tinydir_file option \<Rightarrow> (int \<times> tinydir_file option) td" where
  "tinydir_readfile E dir file =
     (case (dir, file) of
        (Some d, Some f) \<Rightarrow> do { (r, f1) \<leftarrow> read_file E Own_name d f; return (r, Some f1) }
      | _ \<Rightarrow> do { set_errno EINVAL; return (-1, file) })"

text \<open>Element \<open>i\<close> of the array of files.\<close>

definition element :: "tinydir_dir \<Rightarrow> nat \<Rightarrow> tinydir_file td" where
  "element dir i =
     (let fs = (case dir_files dir of None \<Rightarrow> [] | Some fs \<Rightarrow> fs)
      in do { td_check (i < length fs);
              return (if i < length fs then fs ! i
                      else \<lparr>file_path = [], file_name = [], file_extension = (Own_name, 0),
                            file_is_dir = 0, file_is_reg = 0\<rparr>) })"

definition tinydir_readfile_n ::
    "tinydir_dir option \<Rightarrow> tinydir_file option \<Rightarrow> nat \<Rightarrow> (int \<times> tinydir_file option) td" where
  "tinydir_readfile_n dir file i =
     (case (dir, file) of
        (Some d, Some f) \<Rightarrow>
          if i \<ge> dir_n_files d then do { set_errno ENOENT; return (-1, file) }
          else do { g \<leftarrow> element d i; return (0, Some (tinydir_get_ext Own_name g)) }
      | _ \<Rightarrow> do { set_errno EINVAL; return (-1, file) })"

text \<open>The two loops of \<open>tinydir_open_sorted\<close>: counting the entries, then reading them.\<close>

fun count_files :: "td_env \<Rightarrow> nat \<Rightarrow> tinydir_dir \<Rightarrow> nat \<Rightarrow> (int \<times> tinydir_dir \<times> nat) option td" where
  "count_files E 0 dir n_files = return None"
| "count_files E (Suc fuel) dir n_files =
     (if \<not> dir_has_next dir then return (Some (0, dir, n_files))
      else do {
        (r, dir1) \<leftarrow> next_entry E dir;
        if r = -1 then return (Some (-1, dir1, n_files + 1))
        else count_files E fuel dir1 (n_files + 1)
      })"

fun fill_files :: "td_env \<Rightarrow> nat \<Rightarrow> tinydir_dir \<Rightarrow> nat \<Rightarrow> (int \<times> tinydir_dir) option td" where
  "fill_files E 0 dir n_files = return None"
| "fill_files E (Suc fuel) dir n_files =
     (if \<not> dir_has_next dir then return (Some (0, dir))
      else do {
        let k = dir_n_files dir;
        let dir1 = dir\<lparr>dir_n_files := k + 1\<rparr>;
        p_file \<leftarrow> element dir1 k;
        (r, file) \<leftarrow> read_file E (Name_of_element k) dir1 p_file;
        let dir2 = dir1\<lparr>dir_files := map_option (\<lambda>fs. fs[k := file]) (dir_files dir1)\<rparr>;
        if r = -1 then return (Some (-1, dir2))
        else do {
          (r1, dir3) \<leftarrow> next_entry E dir2;
          if r1 = -1 then return (Some (-1, dir3))
          else if dir_n_files dir3 = n_files then return (Some (0, dir3))
          else fill_files E fuel dir3 n_files
        }
      })"

definition sort_files :: "td_env \<Rightarrow> tinydir_dir \<Rightarrow> tinydir_dir" where
  "sort_files E dir =
     dir\<lparr>dir_files := map_option (\<lambda>fs. qsort E tinydir_file_cmp (take (dir_n_files dir) fs)
                                        @ drop (dir_n_files dir) fs) (dir_files dir)\<rparr>"

text \<open>
  The argument of \<open>malloc\<close> is a product of type \<open>size_t\<close>: it wraps at \<open>2 ^ size_bits\<close>, and the array has only
  the elements that fit into what was asked for.  The counts of files are numbers, they do not wrap.
\<close>

definition array_bytes :: "td_env \<Rightarrow> nat \<Rightarrow> nat" where
  "array_bytes E n_files = (sizeof_file E * n_files) mod 2 ^ size_bits E"

text \<open>The elements of a freshly allocated array have no particular value.\<close>

definition uninitialised_file :: tinydir_file where
  "uninitialised_file = \<lparr>file_path = [], file_name = [], file_extension = (Own_name, 0),
     file_is_dir = 0, file_is_reg = 0\<rparr>"

definition open_sorted ::
    "td_env \<Rightarrow> nat \<Rightarrow> tinydir_dir \<Rightarrow> string \<Rightarrow> (int \<times> tinydir_dir) option td" where
  "open_sorted E fuel dir path = do {
     (r, dir1) \<leftarrow> open_dir E dir path;
     if r = -1 then return (Some (-1, dir1))
     else do {
       counted \<leftarrow> count_files E fuel dir1 0;
       (case counted of
          None \<Rightarrow> return None
        | Some (r, dir2, n_files) \<Rightarrow>
            if r = -1 then do { dir3 \<leftarrow> close_dir dir2; return (Some (-1, dir3)) }
            else do {
              dir3 \<leftarrow> close_dir dir2;
              if n_files = 0 then return (Some (-1, dir3))
              else do {
                (r, dir4) \<leftarrow> open_dir E dir3 path;
                if r = -1 then return (Some (-1, dir4))
                else do {
                  ok \<leftarrow> td_ask (Malloc (array_bytes E n_files)) (malloc_answer E);
                  let dir5 = dir4\<lparr>dir_n_files := 0,
                        dir_files := if ok then Some (replicate (array_bytes E n_files div sizeof_file E) uninitialised_file)
                                      else None\<rparr>;
                  if \<not> ok then do { dir6 \<leftarrow> close_dir dir5; return (Some (-1, dir6)) }
                  else do {
                    filled \<leftarrow> fill_files E fuel dir5 n_files;
                    (case filled of
                       None \<Rightarrow> return None
                     | Some (r, dir6) \<Rightarrow>
                         if r = -1 then do { dir7 \<leftarrow> close_dir dir6; return (Some (-1, dir7)) }
                         else return (Some (0, sort_files E dir6)))
                  }
                }
              }
            })
     }
   }"

definition tinydir_open_sorted ::
    "td_env \<Rightarrow> nat \<Rightarrow> tinydir_dir option \<Rightarrow> string option \<Rightarrow> (int \<times> tinydir_dir option) option td" where
  "tinydir_open_sorted E fuel dir path =
     (case (dir, path) of
        (Some d, Some p) \<Rightarrow> do { r \<leftarrow> open_sorted E fuel d p; return (map_option (\<lambda>(r, d1). (r, Some d1)) r) }
      | _ \<Rightarrow> do { set_errno EINVAL; return (Some (-1, dir)) })"

definition tinydir_open_subdir_n ::
    "td_env \<Rightarrow> nat \<Rightarrow> tinydir_dir option \<Rightarrow> nat \<Rightarrow> (int \<times> tinydir_dir option) option td" where
  "tinydir_open_subdir_n E fuel dir i =
     (case dir of
        None \<Rightarrow> do { set_errno EINVAL; return (Some (-1, None)) }
      | Some d \<Rightarrow>
          if i \<ge> dir_n_files d then do { set_errno ENOENT; return (Some (-1, Some d)) }
          else do {
            f \<leftarrow> element d i;
            if file_is_dir f = 0 then do { set_errno ENOENT; return (Some (-1, Some d)) }
            else do {
              path \<leftarrow> strcpy_into TINYDIR_PATH_MAX (file_path f);
              d1 \<leftarrow> close_dir d;
              tinydir_open_sorted E fuel (Some d1) (Some path)
            }
          })"

text \<open>\<open>tinydir_file_open\<close>: the parent directory is read up to the entry with the base name.\<close>

fun find_file ::
    "td_env \<Rightarrow> nat \<Rightarrow> tinydir_dir \<Rightarrow> tinydir_file \<Rightarrow> string \<Rightarrow> (int \<times> bool \<times> tinydir_dir \<times> tinydir_file) option td" where
  "find_file E 0 dir file base_name = return None"
| "find_file E (Suc fuel) dir file base_name =
     (if \<not> dir_has_next dir then return (Some (0, False, dir, file))
      else do {
        (r, file1) \<leftarrow> read_file E Own_name dir file;
        if r = -1 then return (Some (-1, False, dir, file1))
        else if file_name file1 = base_name then return (Some (0, True, dir, file1))
        else do {
          (_, dir1) \<leftarrow> next_entry E dir;
          find_file E fuel dir1 file1 base_name
        }
      })"

definition tinydir_file_open ::
    "td_env \<Rightarrow> nat \<Rightarrow> tinydir_dir \<Rightarrow> tinydir_file option \<Rightarrow> string option \<Rightarrow> (int \<times> tinydir_file option) option td" where
  "tinydir_file_open E fuel uninitialised_dir file path =
     (case (file, path) of
        (Some f, Some p) \<Rightarrow>
          if p = [] then do { set_errno EINVAL; return (Some (-1, file)) }
          else if length p + TINYDIR_PATH_EXTRA \<ge> TINYDIR_PATH_MAX
          then do { set_errno ENAMETOOLONG; return (Some (-1, file)) }
          else do {
            dir_name_buf \<leftarrow> strcpy_into TINYDIR_PATH_MAX p;
            file_name_buf \<leftarrow> strcpy_into TINYDIR_FILENAME_MAX p;
            (r, dir) \<leftarrow> open_dir E uninitialised_dir (dirname E dir_name_buf);
            if r = -1 then return (Some (-1, file))
            else do {
              res \<leftarrow> find_file E fuel dir f (basename E file_name_buf);
              (case res of
                 None \<Rightarrow> return None
               | Some (rv, found, dir1, f1) \<Rightarrow>
                   if rv = -1 then do { _ \<leftarrow> close_dir dir1; return (Some (-1, Some f1)) }
                   else if found then do { _ \<leftarrow> close_dir dir1; return (Some (0, Some f1)) }
                   else do { set_errno ENOENT; _ \<leftarrow> close_dir dir1; return (Some (-1, Some f1)) })
            }
          }
      | _ \<Rightarrow> do { set_errno EINVAL; return (Some (-1, file)) })"

end
