(* ===== verification/Tinydir_Props.thy ===== *)
theory Tinydir_Props
  imports Tinydir
begin

text \<open>
  What the directory reader guarantees: paths and buffers, the order of sorted listings, the
  handles it opens and closes, and the listing of a directory that does not change.
\<close>

lemma exec_td [simp]:
  "exec (td_emit c) s = s\<lparr>fs_calls := fs_calls s @ [c]\<rparr>"
  "exec (td_ask c f) s = s\<lparr>fs_calls := fs_calls s @ [c]\<rparr>"
  "exec (set_errno e) s = s\<lparr>td_errno := e\<rparr>"
  "exec (td_check b) s = s\<lparr>td_ub := td_ub s \<or> \<not> b\<rparr>"
  "exec (strcpy_into n t) s = s\<lparr>td_ub := td_ub s \<or> \<not> length t < n\<rparr>"
  by (simp_all add: exec_def td_emit_def td_ask_def set_errno_def td_check_def strcpy_into_def)

lemma result_td [simp]:
  "result (td_ask c f) s = f (fs_calls s @ [c])" "result (strcpy_into n t) s = t"
  by (simp_all add: result_def td_ask_def strcpy_into_def td_check_def)

section \<open>Reading one entry\<close>

lemma read_file_run:
  "run_state (read_file E b dir file) s =
     (case dir_e dir of
        None \<Rightarrow> ((-1, file), s\<lparr>td_errno := ENOENT\<rparr>)
      | Some d_name \<Rightarrow>
          if length (dir_path dir) + length d_name + 1 \<ge> 4096 \<or> length d_name \<ge> 256
          then ((-1, file), s\<lparr>td_errno := ENAMETOOLONG\<rparr>)
          else (let p = dir_path dir @ ''/'' @ d_name; h = fs_calls s @ [Stat p];
                    f = file\<lparr>file_path := p, file_name := d_name\<rparr>
                in (case stat_answer E h of
                      None \<Rightarrow> (-1, f)
                    | Some (isdir, isreg) \<Rightarrow>
                        (0, (tinydir_get_ext b f)\<lparr>file_is_dir := isdir, file_is_reg := isreg\<rparr>),
                    s\<lparr>fs_calls := h\<rparr>)))"
proof -
  have pair: "run_state m s = (result m s, exec m s)" for m :: "'r td"
    by (simp add: result_def exec_def)
  show ?thesis
    unfolding pair by (auto simp: read_file_def td_sizes Let_def split: option.splits)
qed

text \<open>The text an extension pointer of the given structure leads to.\<close>

definition extension_text :: "tinydir_file \<Rightarrow> string" where
  "extension_text f = drop (snd (file_extension f)) (file_name f)"

lemma strrchr_None: "strrchr s c = None \<longleftrightarrow> c \<notin> set s"
  by (induction s) (auto split: option.splits if_splits)

lemma strrchr_Some: "strrchr s c = Some i \<Longrightarrow> i < length s \<and> s ! i = c \<and> c \<notin> set (drop (Suc i) s)"
proof (induction s arbitrary: i)
  case Nil
  then show ?case by simp
next
  case (Cons d s)
  then show ?case
    by (cases "strrchr s c") (auto simp: strrchr_None split: if_splits)
qed

lemma takeWhile_stop: "\<lbrakk> c \<notin> set xs \<rbrakk> \<Longrightarrow> takeWhile (\<lambda>x. x \<noteq> c) (xs @ c # ys) = xs"
  by (induction xs) auto

lemma get_ext_text:
  "extension_text (tinydir_get_ext b f) =
     (if CHR ''.'' \<in> set (file_name f) then rev (takeWhile (\<lambda>c. c \<noteq> CHR ''.'') (rev (file_name f))) else [])"
proof (cases "strrchr (file_name f) (CHR ''.'')")
  case None
  then have "CHR ''.'' \<notin> set (file_name f)" by (simp add: strrchr_None)
  with None show ?thesis by (simp add: extension_text_def tinydir_get_ext_def)
next
  case (Some i)
  let ?n = "file_name f"
  from strrchr_Some [OF Some] have i: "i < length ?n" "?n ! i = CHR ''.''" "CHR ''.'' \<notin> set (drop (Suc i) ?n)"
    by auto
  then have split: "?n = take i ?n @ CHR ''.'' # drop (Suc i) ?n" by (metis id_take_nth_drop)
  have "takeWhile (\<lambda>c. c \<noteq> CHR ''.'') (rev ?n) = rev (drop (Suc i) ?n)"
    by (subst split) (use i(3) in \<open>simp add: takeWhile_stop\<close>)
  moreover have "CHR ''.'' \<in> set ?n" using i by (metis nth_mem)
  ultimately show ?thesis using Some by (simp add: extension_text_def tinydir_get_ext_def)
qed

text \<open>
  \<open>tinydir_readfile\<close> never writes outside its buffers, whatever the directory, the entry and the
  file system answer.  When it succeeds the path is the directory's path, a slash and the entry's
  name and fits the path buffer, and the extension points into this structure's own name, at what
  follows the last period (the empty string without one).
\<close>

theorem readfile_in_bounds:
  fixes s :: td_st
  assumes "run_state (tinydir_readfile E (Some dir) (Some f)) s = ((r, Some g), s')"
  shows "td_ub s' = td_ub s
    \<and> (r = 0 \<longrightarrow> (\<exists>d_name. dir_e dir = Some d_name \<and> file_name g = d_name
            \<and> file_path g = dir_path dir @ ''/'' @ d_name
            \<and> length (file_path g) < TINYDIR_PATH_MAX \<and> length d_name < TINYDIR_FILENAME_MAX
            \<and> fst (file_extension g) = Own_name
            \<and> extension_text g = (if CHR ''.'' \<in> set d_name
                 then rev (takeWhile (\<lambda>c. c \<noteq> CHR ''.'') (rev d_name)) else [])))"
proof (intro conjI impI)
  have run: "run_state (read_file E Own_name dir f) s = ((r, g), s')"
    using assms by (simp add: tinydir_readfile_def split_beta) (metis prod.collapse)
  show "td_ub s' = td_ub s"
    using run by (auto simp: read_file_run Let_def split: option.splits if_splits)
  assume "r = 0"
  with run obtain n a b where n: "dir_e dir = Some n" "\<not> length (dir_path dir) + length n + 1 \<ge> 4096"
      "length n < 256" "g = (tinydir_get_ext Own_name (f\<lparr>file_path := dir_path dir @ ''/'' @ n, file_name := n\<rparr>))
           \<lparr>file_is_dir := a, file_is_reg := b\<rparr>"
    by (auto simp: read_file_run Let_def split: option.splits if_splits)
  have "extension_text g = extension_text (tinydir_get_ext Own_name
          (f\<lparr>file_path := dir_path dir @ ''/'' @ n, file_name := n\<rparr>))"
    by (simp add: n(4) extension_text_def tinydir_get_ext_def)
  then have "extension_text g = (if CHR ''.'' \<in> set n
                 then rev (takeWhile (\<lambda>c. c \<noteq> CHR ''.'') (rev n)) else [])"
    by (simp only: get_ext_text) simp
  moreover have "fst (file_extension g) = Own_name" by (simp add: n(4) tinydir_get_ext_def)
  moreover have "file_name g = n" "file_path g = dir_path dir @ ''/'' @ n"
    by (simp_all add: n(4) tinydir_get_ext_def)
  ultimately show "\<exists>d_name. dir_e dir = Some d_name \<and> file_name g = d_name
            \<and> file_path g = dir_path dir @ ''/'' @ d_name
            \<and> length (file_path g) < TINYDIR_PATH_MAX \<and> length d_name < TINYDIR_FILENAME_MAX
            \<and> fst (file_extension g) = Own_name
            \<and> extension_text g = (if CHR ''.'' \<in> set d_name
                 then rev (takeWhile (\<lambda>c. c \<noteq> CHR ''.'') (rev d_name)) else [])"
    using n(1-3) by (intro exI [of _ n]) (simp add: td_sizes)
qed

section \<open>Opening\<close>

lemma trailing_slashes_path:
  assumes "path \<noteq> []" and "CHR 0x00 \<notin> set path"
  shows "c_string (trailing_slashes (path @ [CHR 0x00]) (length path - 1)) =
           (if length path > 1 \<and> is_slash (last path) then butlast path else path)"
proof -
  let ?b = "path @ [CHR 0x00]" and ?n = "length path"
  have lastc: "?b ! (?n - 1) = last path" using assms(1) by (simp add: nth_append last_conv_nth)
  have tw: "takeWhile (\<lambda>c. c \<noteq> CHR 0x00) (xs @ CHR 0x00 # ys) = xs" if "CHR 0x00 \<notin> set xs" for xs ys
    using that by (rule takeWhile_stop)
  show ?thesis
  proof (cases "?n > 1 \<and> is_slash (last path)")
    case True
    obtain ps c where path: "path = ps @ [c]" using assms(1) by (metis rev_exhaust)
    have upd: "?b[?n - 1 := CHR 0x00] = ps @ [CHR 0x00, CHR 0x00]"
      by (simp add: path list_update_append)
    have stop: "trailing_slashes (ps @ [CHR 0x00, CHR 0x00]) ?n = ps @ [CHR 0x00, CHR 0x00]"
      by (subst trailing_slashes.simps) (simp add: path nth_append is_slash_def)
    have "trailing_slashes ?b (?n - 1) = ps @ [CHR 0x00, CHR 0x00]"
      by (subst trailing_slashes.simps) (use True lastc upd stop in \<open>simp add: path\<close>)
    then show ?thesis using True assms(2) tw [of ps "[CHR 0x00]"] by (simp add: c_string_def path)
  next
    case False
    then have "trailing_slashes ?b (?n - 1) = ?b"
      by (subst trailing_slashes.simps) (use lastc in auto)
    then show ?thesis using False assms(2) tw [of path "[]"] by (auto simp: c_string_def)
  qed
qed

text \<open>The path \<open>tinydir_open\<close> keeps for the entries of a directory.\<close>

definition kept_path :: "string \<Rightarrow> string" where
  "kept_path path = (if length path > 1 \<and> is_slash (last path) then butlast path else path)"

lemma open_dir_run:
  assumes "path \<noteq> []" and "length path < 4096" and "CHR 0x00 \<notin> set path"
  shows "run_state (open_dir E dir path) s =
     (let h = fs_calls s @ [Free False, Opendir path]; d = opendir_answer E h
      in if d = 0
         then ((-1, dir\<lparr>dir_path := [], dir_has_next := False, dir_n_files := 0, dir_files := None,
                        dir_d := 0, dir_e := None\<rparr>), s\<lparr>fs_calls := h @ [Free False]\<rparr>)
         else (let e = readdir_answer E (h @ [Readdir d])
               in ((0, dir\<lparr>dir_path := kept_path path, dir_has_next := (e \<noteq> None), dir_n_files := 0,
                           dir_files := None, dir_d := d, dir_e := e\<rparr>),
                   s\<lparr>fs_calls := h @ [Readdir d]\<rparr>)))"
proof -
  have pair: "run_state m s = (result m s, exec m s)" for m :: "'r td"
    by (simp add: result_def exec_def)
  show ?thesis
    unfolding pair
    using assms trailing_slashes_path [OF assms(1,3)]
    by (simp add: open_dir_def close_dir_def td_sizes Let_def kept_path_def)
qed

text \<open>
  \<open>tinydir_open\<close> of a valid path opens exactly that path and reads the first entry; it removes
  one trailing slash or backslash from the path it keeps, not all of them, and leaves a path of one
  character alone.  When the directory cannot be opened the structure is left closed.
\<close>

theorem open_keeps_path:
  assumes "path \<noteq> []" and "length path < TINYDIR_PATH_MAX" and "CHR 0x00 \<notin> set path"
  shows "let h = fs_calls s @ [Free False, Opendir path]; d = opendir_answer E h;
             (r, dir') = result (tinydir_open E (Some dir) (Some path)) s
         in if d = 0 then r = -1 \<and> map_option dir_d dir' = Some 0
            else r = 0 \<and> map_option dir_d dir' = Some d \<and> map_option dir_path dir' =
                   Some (if length path > 1 \<and> is_slash (last path) then butlast path else path)"
proof -
  have "length path < 4096" using assms(2) by (simp add: td_sizes)
  from open_dir_run [OF assms(1) this assms(3), of E dir s]
  show ?thesis
    by (auto simp: tinydir_open_def result_def kept_path_def Let_def split_beta split: prod.splits)
qed

section \<open>The order of sorted listings\<close>

lemma strncmp_refl [simp]: "strncmp n s s = 0"
proof (induction n arbitrary: s)
  case (Suc n)
  then show ?case by (cases s) simp_all
qed simp

lemma strncmp_swap: "strncmp n t s = - strncmp n s t"
  by (induction n s t rule: strncmp.induct) auto

lemma strncmp_trans: "strncmp n s t \<le> 0 \<Longrightarrow> strncmp n t u \<le> 0 \<Longrightarrow> strncmp n s u \<le> 0"
proof (induction n arbitrary: s t u)
  case 0
  then show ?case by simp
next
  case (Suc n)
  note IH = Suc.IH and prems = Suc.prems
  show ?case
  proof (cases s)
    case Nil
    then show ?thesis by (cases u) simp_all
  next
    case s: (Cons a s')
    show ?thesis
    proof (cases t)
      case Nil
      then have "of_char a = (of_char (CHR 0x00) :: nat)" using prems(1) s by simp
      then have "a = CHR 0x00" by (simp only: of_char_eq_iff)
      then show ?thesis using s by (cases u) (auto split: if_splits)
    next
      case t: (Cons b t')
      show ?thesis
        using prems IH [of s' t'] by (cases u) (auto simp: s t split: if_splits)
    qed
  qed
qed

lemma file_cmp_swap: "sgn (tinydir_file_cmp b a) = - sgn (tinydir_file_cmp a b)"
  by (auto simp: tinydir_file_cmp_def strncmp_swap [of _ "file_name b"] sgn_if)

lemma file_cmp_trans:
  "\<lbrakk> tinydir_file_cmp a b \<le> 0; tinydir_file_cmp b c \<le> 0 \<rbrakk> \<Longrightarrow> tinydir_file_cmp a c \<le> 0"
  by (auto simp: tinydir_file_cmp_def split: if_splits intro: strncmp_trans)

text \<open>
  The comparison \<open>qsort\<close> is given is a consistent order: swapping the arguments swaps the sign,
  it is transitive, and it puts every directory before every other file and otherwise follows the
  names (up to 256 characters).
\<close>

theorem file_cmp_is_an_order:
  "sgn (tinydir_file_cmp b a) = - sgn (tinydir_file_cmp a b)"
  "\<lbrakk> tinydir_file_cmp a b \<le> 0; tinydir_file_cmp b c \<le> 0 \<rbrakk> \<Longrightarrow> tinydir_file_cmp a c \<le> 0"
  "file_is_dir a = 1 \<Longrightarrow> file_is_dir b = 0 \<Longrightarrow> tinydir_file_cmp a b < 0"
  "file_is_dir a = file_is_dir b \<Longrightarrow> tinydir_file_cmp a b = strncmp 256 (file_name a) (file_name b)"
  by (rule file_cmp_swap, rule file_cmp_trans) (simp_all add: tinydir_file_cmp_def td_sizes)

section \<open>Buffers of the whole operations\<close>

lemma pair_of_run: "run_state m s = (result m s, exec m s)"
  by (simp add: result_def exec_def)

lemma ub_close_dir [simp]: "td_ub (exec (close_dir dir) s) = td_ub s"
  by (simp add: close_dir_def when_do_def)

lemma ub_open_dir [simp]: "td_ub (exec (open_dir E dir path) s) = td_ub s"
  by (simp add: open_dir_def td_sizes Let_def)

lemma ub_next_entry [simp]: "td_ub (exec (next_entry E dir) s) = td_ub s"
  by (simp add: next_entry_def Let_def)

lemma ub_read_file [simp]: "td_ub (exec (read_file E b dir f) s) = td_ub s"
  using read_file_run [of E b dir f s, unfolded pair_of_run]
  by (auto simp: Let_def split: option.splits if_splits)

lemma ub_find_file [simp]: "td_ub (exec (find_file E fuel dir f name) s) = td_ub s"
  by (induction fuel arbitrary: dir f s) (simp_all add: split_beta Let_def)

text \<open>
  \<open>tinydir_file_open\<close> overflows its buffer for the file name exactly when the path has 256 to 4095
  characters: the path passes the length check of the function but is copied whole into a buffer of
  256 characters.
\<close>

theorem file_open_overflow:
  "td_ub (exec (tinydir_file_open E fuel dir (Some file) (Some path)) s) \<longleftrightarrow>
     td_ub s \<or> (TINYDIR_FILENAME_MAX \<le> length path \<and> length path < TINYDIR_PATH_MAX)"
  by (auto simp: tinydir_file_open_def td_sizes split_beta Let_def split: option.splits)

section \<open>Handles\<close>

text \<open>How many directories are open after the calls \<open>h\<close>: successful opens less closes.\<close>

definition handle_step :: "td_env \<Rightarrow> fs_call list \<Rightarrow> fs_call \<Rightarrow> int" where
  "handle_step E h c = (case c of
     Opendir _ \<Rightarrow> if opendir_answer E (h @ [c]) \<noteq> 0 then 1 else 0
   | Closedir _ \<Rightarrow> -1
   | _ \<Rightarrow> 0)"

definition handles :: "td_env \<Rightarrow> fs_call list \<Rightarrow> int" where
  "handles E h = (\<Sum>i < length h. handle_step E (take i h) (h ! i))"

lemma handles_snoc: "handles E (h @ [c]) = handles E h + handle_step E h c"
  by (simp add: handles_def nth_append)

lemma handles_snoc2: "handles E (h @ [c, c']) = handles E h + handle_step E h c + handle_step E (h @ [c]) c'"
  using handles_snoc [of E "h @ [c]" c'] by (simp add: handles_snoc)

lemma handles_snoc3:
  "handles E (h @ [c, c', c'']) = handles E (h @ [c, c']) + handle_step E (h @ [c, c']) c''"
  using handles_snoc [of E "h @ [c, c']" c''] by simp

lemmas handles_simps = handles_snoc handles_snoc2 handles_snoc3 handle_step_def

definition open_count :: "tinydir_dir \<Rightarrow> int" where
  "open_count dir = (if dir_d dir = 0 then 0 else 1)"

lemma handles_close_dir:
  "handles E (fs_calls (exec (close_dir dir) s)) = handles E (fs_calls s) - open_count dir"
  "dir_d (result (close_dir dir) s) = 0"
  by (simp_all add: close_dir_def when_do_def open_count_def handles_simps)

lemma handles_next_entry:
  "handles E (fs_calls (exec (next_entry E dir) s)) = handles E (fs_calls s)"
  "dir_d (snd (result (next_entry E dir) s)) = dir_d dir"
  by (simp_all add: next_entry_def Let_def handles_simps)

lemma handles_read_file:
  "handles E (fs_calls (exec (read_file E b dir f) s)) = handles E (fs_calls s)"
  using read_file_run [of E b dir f s, unfolded pair_of_run]
  by (auto simp: Let_def handles_simps split: option.splits if_splits)

lemma handles_open_dir:
  assumes "result (open_dir E dir path) s = (r, dir')"
  shows "r \<in> {0, -1}"
    and "r = 0 \<Longrightarrow> dir_d dir' \<noteq> 0 \<and> handles E (fs_calls (exec (open_dir E dir path) s)) = handles E (fs_calls s) + 1"
    and "r = -1 \<Longrightarrow> handles E (fs_calls (exec (open_dir E dir path) s)) = handles E (fs_calls s)"
proof -
  have "r \<in> {0, -1}
      \<and> (r = 0 \<longrightarrow> dir_d dir' \<noteq> 0 \<and> handles E (fs_calls (exec (open_dir E dir path) s)) = handles E (fs_calls s) + 1)
      \<and> (r = -1 \<longrightarrow> handles E (fs_calls (exec (open_dir E dir path) s)) = handles E (fs_calls s))"
    using assms
    by (auto simp: open_dir_def Let_def handles_close_dir close_dir_def when_do_def handles_simps open_count_def
        split: if_splits)
  then show "r \<in> {0, -1}"
    and "r = 0 \<Longrightarrow> dir_d dir' \<noteq> 0 \<and> handles E (fs_calls (exec (open_dir E dir path) s)) = handles E (fs_calls s) + 1"
    and "r = -1 \<Longrightarrow> handles E (fs_calls (exec (open_dir E dir path) s)) = handles E (fs_calls s)"
    by auto
qed

lemma handles_count_files:
  assumes "result (count_files E fuel dir n) s = Some (r, dir', n')"
  shows "handles E (fs_calls (exec (count_files E fuel dir n) s)) = handles E (fs_calls s) \<and> dir_d dir' = dir_d dir"
  using assms
proof (induction fuel arbitrary: dir n s)
  case 0
  then show ?case by simp
next
  case (Suc fuel)
  show ?case
  proof (cases "dir_has_next dir")
    case False
    with Suc.prems show ?thesis by simp
  next
    case True
    obtain q d where qd: "result (next_entry E dir) s = (q, d)" by fastforce
    with handles_next_entry [of E dir s] Suc.IH [of d "n + 1" "exec (next_entry E dir) s"] Suc.prems True
    show ?thesis by (auto split: if_splits)
  qed
qed

lemma handles_element [simp]:
  "fs_calls (exec (element dir i) s) = fs_calls s"
  by (simp add: element_def Let_def)

lemma handles_fill_files:
  assumes "result (fill_files E fuel dir n) s = Some (r, dir')"
  shows "handles E (fs_calls (exec (fill_files E fuel dir n) s)) = handles E (fs_calls s) \<and> dir_d dir' = dir_d dir"
  using assms
proof (induction fuel arbitrary: dir s)
  case 0
  then show ?case by simp
next
  case (Suc fuel)
  show ?case
  proof (cases "dir_has_next dir")
    case False
    with Suc.prems show ?thesis by simp
  next
    case True
    let ?d1 = "dir\<lparr>dir_n_files := dir_n_files dir + 1\<rparr>"
    let ?el = "element ?d1 (dir_n_files dir)"
    let ?rd = "read_file E (Name_of_element (dir_n_files dir)) ?d1 (result ?el s)"
    let ?s1 = "exec ?el s"
    obtain q f where qf: "result ?rd ?s1 = (q, f)" by fastforce
    let ?d2 = "?d1\<lparr>dir_files := map_option (\<lambda>fs. fs[dir_n_files dir := f]) (dir_files dir)\<rparr>"
    let ?s2 = "exec ?rd ?s1"
    obtain q' d3 where d3: "result (next_entry E ?d2) ?s2 = (q', d3)" by fastforce
    have h: "handles E (fs_calls ?s2) = handles E (fs_calls s)" by (simp add: handles_read_file)
    show ?thesis
      using Suc.prems True qf d3 h handles_next_entry [of E ?d2 ?s2]
        Suc.IH [of d3 "exec (next_entry E ?d2) ?s2"]
      by (auto simp: Let_def split: if_splits)
  qed
qed

lemma handles_find_file:
  assumes "result (find_file E fuel dir f name) s = Some (r, found, dir', f')"
  shows "handles E (fs_calls (exec (find_file E fuel dir f name) s)) = handles E (fs_calls s) \<and> dir_d dir' = dir_d dir"
  using assms
proof (induction fuel arbitrary: dir f s)
  case 0
  then show ?case by simp
next
  case (Suc fuel)
  show ?case
  proof (cases "dir_has_next dir")
    case False
    with Suc.prems show ?thesis by simp
  next
    case True
    obtain q g where qg: "result (read_file E Own_name dir f) s = (q, g)" by fastforce
    let ?s1 = "exec (read_file E Own_name dir f) s"
    obtain q' d3 where d3: "result (next_entry E dir) ?s1 = (q', d3)" by fastforce
    show ?thesis
      using Suc.prems True qg d3 handles_read_file [of E Own_name dir f s] handles_next_entry [of E dir ?s1]
        Suc.IH [of d3 g "exec (next_entry E dir) ?s1"]
      by (auto split: if_splits)
  qed
qed

lemma handles_open_sorted:
  assumes "result (open_sorted E fuel dir path) s = Some (r, dir')"
  shows "handles E (fs_calls (exec (open_sorted E fuel dir path) s))
           = handles E (fs_calls s) + (if r = 0 then 1 else 0)
       \<and> (r = 0 \<longrightarrow> dir_d dir' \<noteq> 0)"
proof -
  obtain r1 d1 where o1: "result (open_dir E dir path) s = (r1, d1)" by fastforce
  let ?s1 = "exec (open_dir E dir path) s"
  note h1 = handles_open_dir [OF o1]
  show ?thesis
  proof (cases "r1 = -1")
    case True
    with assms o1 h1 show ?thesis by (simp add: open_sorted_def)
  next
    case False
    with h1 have r1: "r1 = 0" "dir_d d1 \<noteq> 0" "handles E (fs_calls ?s1) = handles E (fs_calls s) + 1" by auto
    obtain rc d2 n where c: "result (count_files E fuel d1 0) ?s1 = Some (rc, d2, n)"
      using assms o1 r1 by (auto simp: open_sorted_def split: option.splits)
    let ?s2 = "exec (count_files E fuel d1 0) ?s1"
    note h2 = handles_count_files [OF c]
    let ?d3 = "result (close_dir d2) ?s2" and ?s3 = "exec (close_dir d2) ?s2"
    have h3: "handles E (fs_calls ?s3) = handles E (fs_calls s)"
      using handles_close_dir(1) [of E d2 ?s2] h2 r1 by (simp add: open_count_def)
    obtain r4 d4 where o4: "result (open_dir E ?d3 path) ?s3 = (r4, d4)" by fastforce
    let ?s4 = "exec (open_dir E ?d3 path) ?s3"
    note h4 = handles_open_dir [OF o4]
    show ?thesis
    proof (cases "rc = -1 \<or> n = 0 \<or> r4 = -1")
      case True
      then show ?thesis using assms o1 r1 c h3 o4 h4
        by (auto simp: open_sorted_def split: if_splits)
    next
      case False
      let ?s5 = "?s4\<lparr>fs_calls := fs_calls ?s4 @ [Malloc (array_bytes E n)]\<rparr>"
      have h5: "handles E (fs_calls ?s5) = handles E (fs_calls s) + 1" "dir_d d4 \<noteq> 0"
        using h4 h3 False by (auto simp: handles_simps)
      show ?thesis
      proof (cases "malloc_answer E (fs_calls ?s5)")
        case no: False
        then show ?thesis
          using assms o1 r1 c o4 False h5 handles_close_dir(1) [of E "d4\<lparr>dir_n_files := 0, dir_files := None\<rparr>" ?s5]
          by (auto simp: open_sorted_def open_count_def Let_def)
      next
        case yes: True
        let ?d5 = "d4\<lparr>dir_n_files := 0, dir_files := Some (replicate (array_bytes E n div sizeof_file E) uninitialised_file)\<rparr>"
        obtain r6 d6 where f6: "result (fill_files E fuel ?d5 n) ?s5 = Some (r6, d6)"
          using assms o1 r1 c o4 False yes by (auto simp: open_sorted_def Let_def split: option.splits)
        note h6 = handles_fill_files [OF f6]
        let ?s6 = "exec (fill_files E fuel ?d5 n) ?s5"
        show ?thesis
          using assms o1 r1 c o4 False yes f6 h5 h6 handles_close_dir(1) [of E d6 ?s6]
          by (auto simp: open_sorted_def open_count_def Let_def sort_files_def split: if_splits)
      qed
    qed
  qed
qed

section \<open>The loops end\<close>

text \<open>How often the handle \<open>d\<close> has been read since a directory was opened last.\<close>

definition reads_since :: "nat \<Rightarrow> fs_call list \<Rightarrow> nat" where
  "reads_since d h = length (filter (\<lambda>c. c = Readdir d) (takeWhile (\<lambda>c. \<forall>p. c \<noteq> Opendir p) (rev h)))"

lemma reads_since_snoc [simp]:
  "reads_since d [] = 0"
  "reads_since d (h @ [c]) =
     (case c of Opendir p \<Rightarrow> 0 | Readdir d' \<Rightarrow> (if d' = d then 1 else 0) + reads_since d h | _ \<Rightarrow> reads_since d h)"
  by (simp_all add: reads_since_def split: fs_call.split)

lemma reads_since_opened [simp]:
  "reads_since d (h @ [c, Opendir p]) = 0"
  "reads_since d (h @ [c, Opendir p, Readdir d']) = (if d' = d then 1 else 0)"
  by (simp_all add: reads_since_def)

text \<open>Every directory ends: after \<open>m\<close> entries \<open>readdir\<close> answers that there are no more.\<close>

definition directories_end :: "td_env \<Rightarrow> nat \<Rightarrow> bool" where
  "directories_end E m \<longleftrightarrow> (\<forall>h d. m \<le> reads_since d h \<longrightarrow> readdir_answer E (h @ [Readdir d]) = None)"

text \<open>A directory in the middle of a loop: \<open>fuel\<close> is enough for the entries that may be left.\<close>

definition reading :: "td_env \<Rightarrow> nat \<Rightarrow> nat \<Rightarrow> tinydir_dir \<Rightarrow> fs_call list \<Rightarrow> bool" where
  "reading E m fuel dir h \<longleftrightarrow>
     m + 1 < fuel + reads_since (dir_d dir) h \<and> 0 < fuel
   \<and> (dir_has_next dir \<longrightarrow> reads_since (dir_d dir) h \<le> m)"

lemma reading_next:
  assumes "directories_end E m" and "reading E m (Suc fuel) dir (fs_calls s)" and "dir_has_next dir"
  shows "reading E m fuel (snd (result (next_entry E dir) s)) (fs_calls (exec (next_entry E dir) s))"
    and "fst (result (next_entry E dir) s) = 0"
proof -
  let ?h = "fs_calls s @ [Readdir (dir_d dir)]" and ?k = "reads_since (dir_d dir) (fs_calls s)"
  have k: "m + 1 < Suc fuel + ?k" "?k \<le> m" using assms(2,3) by (simp_all add: reading_def)
  have run: "fs_calls (exec (next_entry E dir) s) = ?h"
    "dir_d (snd (result (next_entry E dir) s)) = dir_d dir"
    "dir_has_next (snd (result (next_entry E dir) s)) = (readdir_answer E ?h \<noteq> None)"
    using assms(3) by (simp_all add: next_entry_def Let_def)
  have "readdir_answer E ?h \<noteq> None \<Longrightarrow> ?k < m"
    using assms(1) unfolding directories_end_def by (metis not_less)
  with k show "reading E m fuel (snd (result (next_entry E dir) s)) (fs_calls (exec (next_entry E dir) s))"
    by (auto simp: reading_def run)
  show "fst (result (next_entry E dir) s) = 0"
    using assms(3) by (simp add: next_entry_def Let_def)
qed

lemma reading_cong:
  "reading E m fuel dir h \<Longrightarrow> dir_d dir' = dir_d dir \<Longrightarrow> dir_has_next dir' = dir_has_next dir
     \<Longrightarrow> reads_since (dir_d dir) h' = reads_since (dir_d dir) h \<Longrightarrow> reading E m fuel dir' h'"
  by (simp add: reading_def)

lemma reads_read_file: "reads_since d (fs_calls (exec (read_file E b dir f) s)) = reads_since d (fs_calls s)"
  using read_file_run [of E b dir f s, unfolded pair_of_run]
  by (auto simp: Let_def split: option.splits if_splits)

lemma reading_open:
  assumes "directories_end E m" and "m < fuel" and "result (open_dir E dir path) s = (r, dir')" and "r = 0"
  shows "reading E m fuel dir' (fs_calls (exec (open_dir E dir path) s))"
proof -
  have ok: "path \<noteq> []" "length path + TINYDIR_PATH_EXTRA < TINYDIR_PATH_MAX"
    using assms(3,4) by (auto simp: open_dir_def split: if_splits)
  let ?h = "fs_calls s @ [Free False, Opendir path]"
  define d where "d = opendir_answer E ?h"
  have "d \<noteq> 0"
    using assms(3,4) ok by (auto simp: open_dir_def close_dir_def Let_def d_def split: if_splits)
  then have run: "fs_calls (exec (open_dir E dir path) s) = ?h @ [Readdir d]" "dir_d dir' = d"
    "dir_has_next dir' = (readdir_answer E (?h @ [Readdir d]) \<noteq> None)"
    using assms(3,4) ok by (auto simp: open_dir_def close_dir_def Let_def d_def split: if_splits)
  have k: "reads_since d ?h = 0" by simp
  have "readdir_answer E (?h @ [Readdir d]) \<noteq> None \<Longrightarrow> 0 < m"
    using assms(1) k unfolding directories_end_def by (metis not_less)
  with assms(2) k show ?thesis
    unfolding reading_def run by auto
qed

lemma count_files_ends:
  "directories_end E m \<Longrightarrow> reading E m fuel dir (fs_calls s) \<Longrightarrow> result (count_files E fuel dir n) s \<noteq> None"
proof (induction fuel arbitrary: dir n s)
  case 0
  then show ?case by (simp add: reading_def)
next
  case (Suc fuel)
  show ?case
  proof (cases "dir_has_next dir")
    case True
    obtain q d where qd: "result (next_entry E dir) s = (q, d)" by fastforce
    with reading_next [OF Suc.prems True] Suc.IH [OF Suc.prems(1), of d "exec (next_entry E dir) s" "n + 1"] True
    show ?thesis by simp
  qed simp
qed

lemma fill_files_ends:
  "directories_end E m \<Longrightarrow> reading E m fuel dir (fs_calls s) \<Longrightarrow> result (fill_files E fuel dir n) s \<noteq> None"
proof (induction fuel arbitrary: dir s)
  case 0
  then show ?case by (simp add: reading_def)
next
  case (Suc fuel)
  show ?case
  proof (cases "dir_has_next dir")
    case True
    let ?d1 = "dir\<lparr>dir_n_files := dir_n_files dir + 1\<rparr>"
    let ?el = "element ?d1 (dir_n_files dir)"
    let ?rd = "read_file E (Name_of_element (dir_n_files dir)) ?d1 (result ?el s)"
    let ?s1 = "exec ?el s" and ?s2 = "exec ?rd (exec ?el s)"
    obtain q f where qf: "result ?rd ?s1 = (q, f)" by fastforce
    let ?d2 = "?d1\<lparr>dir_files := map_option (\<lambda>fs. fs[dir_n_files dir := f]) (dir_files dir)\<rparr>"
    have "reading E m (Suc fuel) ?d2 (fs_calls ?s2)"
      by (rule reading_cong [OF Suc.prems(2)]) (simp_all add: reads_read_file)
    from reading_next [OF Suc.prems(1) this] True
    have "reading E m fuel (snd (result (next_entry E ?d2) ?s2)) (fs_calls (exec (next_entry E ?d2) ?s2))" by simp
    moreover obtain q' d3 where d3: "result (next_entry E ?d2) ?s2 = (q', d3)" by fastforce
    ultimately show ?thesis
      using True qf Suc.IH [OF Suc.prems(1), of d3 "exec (next_entry E ?d2) ?s2"] by (simp add: Let_def)
  qed simp
qed

lemma find_file_ends:
  "directories_end E m \<Longrightarrow> reading E m fuel dir (fs_calls s) \<Longrightarrow> result (find_file E fuel dir f name) s \<noteq> None"
proof (induction fuel arbitrary: dir f s)
  case 0
  then show ?case by (simp add: reading_def)
next
  case (Suc fuel)
  show ?case
  proof (cases "dir_has_next dir")
    case True
    obtain q g where qg: "result (read_file E Own_name dir f) s = (q, g)" by fastforce
    let ?s1 = "exec (read_file E Own_name dir f) s"
    have "reading E m (Suc fuel) dir (fs_calls ?s1)"
      by (rule reading_cong [OF Suc.prems(2)]) (simp_all add: reads_read_file)
    from reading_next [OF Suc.prems(1) this True]
    have "reading E m fuel (snd (result (next_entry E dir) ?s1)) (fs_calls (exec (next_entry E dir) ?s1))" by simp
    moreover obtain q' d3 where d3: "result (next_entry E dir) ?s1 = (q', d3)" by fastforce
    ultimately show ?thesis
      using True qg Suc.IH [OF Suc.prems(1), of d3 "exec (next_entry E dir) ?s1" g] by auto
  qed simp
qed

lemma open_sorted_ends:
  assumes "directories_end E m" and "m < fuel"
  shows "result (open_sorted E fuel dir path) s \<noteq> None"
proof -
  obtain r1 d1 where o1: "result (open_dir E dir path) s = (r1, d1)" by fastforce
  let ?s1 = "exec (open_dir E dir path) s"
  show ?thesis
  proof (cases "r1 = -1")
    case True
    with o1 show ?thesis by (simp add: open_sorted_def)
  next
    case False
    with handles_open_dir(1) [OF o1] have r1: "r1 = 0" by simp
    obtain rc d2 n where c: "result (count_files E fuel d1 0) ?s1 = Some (rc, d2, n)"
      using count_files_ends [OF assms(1) reading_open [OF assms o1 r1], of 0] by auto
    let ?s2 = "exec (count_files E fuel d1 0) ?s1"
    let ?d3 = "result (close_dir d2) ?s2" and ?s3 = "exec (close_dir d2) ?s2"
    obtain r4 d4 where o4: "result (open_dir E ?d3 path) ?s3 = (r4, d4)" by fastforce
    let ?s4 = "exec (open_dir E ?d3 path) ?s3"
    show ?thesis
    proof (cases "rc = -1 \<or> n = 0 \<or> r4 = -1")
      case True
      then show ?thesis using o1 r1 c o4 by (auto simp: open_sorted_def)
    next
      case False
      with handles_open_dir(1) [OF o4] have r4: "r4 = 0" by simp
      let ?s5 = "?s4\<lparr>fs_calls := fs_calls ?s4 @ [Malloc (array_bytes E n)]\<rparr>"
      let ?d5 = "d4\<lparr>dir_n_files := 0, dir_files := Some (replicate (array_bytes E n div sizeof_file E) uninitialised_file)\<rparr>"
      have "reading E m fuel ?d5 (fs_calls ?s5)"
        by (rule reading_cong [OF reading_open [OF assms o4 r4]]) simp_all
      from fill_files_ends [OF assms(1) this, of n] obtain r6 d6 where "result (fill_files E fuel ?d5 n) ?s5 = Some (r6, d6)"
        by auto
      then show ?thesis
        using o1 r1 c o4 False r4 by (auto simp: open_sorted_def Let_def)
    qed
  qed
qed

lemma handles_file_open:
  assumes "result (tinydir_file_open E fuel dir (Some f) (Some path)) s = Some (r', f')"
  shows "handles E (fs_calls (exec (tinydir_file_open E fuel dir (Some f) (Some path)) s)) = handles E (fs_calls s)"
proof (cases "path = [] \<or> 4096 \<le> length path")
  case True
  then show ?thesis by (auto simp: tinydir_file_open_def td_sizes)
next
  case False
  define s1 where "s1 = exec (do { _ \<leftarrow> strcpy_into 4096 path; strcpy_into 256 path }) s"
  obtain r1 d1 where o1: "result (open_dir E dir (dirname E path)) s1 = (r1, d1)" by fastforce
  note h1 = handles_open_dir [OF o1]
  have s1: "fs_calls s1 = fs_calls s" by (simp add: s1_def)
  let ?s2 = "exec (open_dir E dir (dirname E path)) s1"
  let ?ff = "find_file E fuel d1 f (basename E path)"
  show ?thesis
  proof (cases "r1 = -1")
    case True
    with False o1 h1 s1 show ?thesis by (simp add: tinydir_file_open_def td_sizes s1_def)
  next
    case ok: False
    with h1 s1 have h2: "dir_d d1 \<noteq> 0" "handles E (fs_calls ?s2) = handles E (fs_calls s) + 1" by auto
    obtain rv found d2 g where ff: "result ?ff ?s2 = Some (rv, found, d2, g)"
      using assms False ok o1 by (auto simp: tinydir_file_open_def td_sizes s1_def split: option.splits)
    note h3 = handles_find_file [OF ff]
    from handles_close_dir(1) [of E d2] h3 h2 have "open_count d2 = 1" by (simp add: open_count_def)
    then show ?thesis
      using False ok o1 ff h3 h2 handles_close_dir(1) [of E d2 "exec ?ff ?s2"]
        handles_close_dir(1) [of E d2 "(exec ?ff ?s2)\<lparr>td_errno := ENOENT\<rparr>"]
      by (simp add: tinydir_file_open_def td_sizes s1_def)
  qed
qed

lemma file_open_ends:
  assumes "directories_end E m" and "m < fuel"
  shows "result (tinydir_file_open E fuel dir (Some f) (Some path)) s \<noteq> None"
proof (cases "path = [] \<or> 4096 \<le> length path")
  case True
  then show ?thesis by (auto simp: tinydir_file_open_def td_sizes)
next
  case False
  define s1 where "s1 = exec (do { _ \<leftarrow> strcpy_into 4096 path; strcpy_into 256 path }) s"
  obtain r1 d1 where o1: "result (open_dir E dir (dirname E path)) s1 = (r1, d1)" by fastforce
  show ?thesis
  proof (cases "r1 = -1")
    case True
    with False o1 show ?thesis by (simp add: tinydir_file_open_def td_sizes s1_def)
  next
    case ok: False
    with handles_open_dir(1) [OF o1] have r1: "r1 = 0" by simp
    let ?ff = "find_file E fuel d1 f (basename E path)"
    obtain rv found d2 g where "result ?ff (exec (open_dir E dir (dirname E path)) s1) = Some (rv, found, d2, g)"
      using find_file_ends [OF assms(1) reading_open [OF assms o1 r1], of f "basename E path"] by auto
    then show ?thesis
      using False ok o1 by (auto simp: tinydir_file_open_def td_sizes s1_def)
  qed
qed

text \<open>
  C34: No handle is leaked, and the loops end.  When no directory has more than \<open>m\<close> entries, fuel above
  \<open>m\<close> is enough for both operations to return.  After \<open>tinydir_open_sorted\<close> exactly one more directory is
  open if it succeeded (the caller's \<open>tinydir_close\<close> closes it) and none if it failed, wherever it failed;
  \<open>tinydir_file_open\<close> leaves no directory open, found or not.
\<close>

theorem no_handle_leaks:
  assumes "directories_end E m" and "m < fuel"
  shows "(\<exists>r dir'. result (tinydir_open_sorted E fuel (Some dir) (Some path)) s = Some (r, dir')
        \<and> handles E (fs_calls (exec (tinydir_open_sorted E fuel (Some dir) (Some path)) s))
            = handles E (fs_calls s) + (if r = 0 then 1 else 0))
      \<and> (\<exists>r f'. result (tinydir_file_open E fuel dir (Some f) (Some path)) s = Some (r, f')
        \<and> handles E (fs_calls (exec (tinydir_file_open E fuel dir (Some f) (Some path)) s))
            = handles E (fs_calls s))"
proof
  obtain r d1 where sorted: "result (open_sorted E fuel dir path) s = Some (r, d1)"
    using open_sorted_ends [OF assms, of dir path s] by auto
  then show "\<exists>r dir'. result (tinydir_open_sorted E fuel (Some dir) (Some path)) s = Some (r, dir')
        \<and> handles E (fs_calls (exec (tinydir_open_sorted E fuel (Some dir) (Some path)) s))
            = handles E (fs_calls s) + (if r = 0 then 1 else 0)"
    using handles_open_sorted [OF sorted] by (simp add: tinydir_open_sorted_def)
  obtain r' f' where "result (tinydir_file_open E fuel dir (Some f) (Some path)) s = Some (r', f')"
    using file_open_ends [OF assms, of dir f path s] by fastforce
  with handles_file_open [OF this]
  show "\<exists>r f'. result (tinydir_file_open E fuel dir (Some f) (Some path)) s = Some (r, f')
        \<and> handles E (fs_calls (exec (tinydir_file_open E fuel dir (Some f) (Some path)) s))
            = handles E (fs_calls s)" by blast
qed

end
