(* ===== verification/Tinydir_Listing.thy ===== *)
theory Tinydir_Listing
  imports Tinydir_Props
begin

text \<open>
  The listing \<open>tinydir_open_sorted\<close> makes of a directory that does not change while it is read, and
  an environment that behaves as the POSIX functions are documented to.
\<close>

section \<open>A directory that does not change\<close>

definition reads :: "nat \<Rightarrow> fs_call list \<Rightarrow> nat" where
  "reads d h = length (filter (\<lambda>c. c = Readdir d) h)"

lemma reads_simps [simp]:
  "reads d [] = 0" "reads d (c # h) = (if c = Readdir d then 1 else 0) + reads d h"
  "reads d (h @ h') = reads d h + reads d h'"
  by (simp_all add: reads_def)

text \<open>
  Opening \<open>path\<close> gives the handle \<open>d\<close>; after that the handle's \<open>k\<close>-th read gives the \<open>k\<close>-th of \<open>names\<close>
  and then the end, whatever other calls are made in between; \<open>stat\<close> answers for every path.
\<close>

definition fixed_directory ::
    "td_env \<Rightarrow> string \<Rightarrow> nat \<Rightarrow> string list \<Rightarrow> (string \<Rightarrow> int \<times> int) \<Rightarrow> bool" where
  "fixed_directory E path d names kind \<longleftrightarrow>
     d \<noteq> 0 \<and> (\<forall>h. opendir_answer E (h @ [Opendir path]) = d)
   \<and> (\<forall>h es. Opendir path \<notin> set es \<longrightarrow>
        readdir_answer E (h @ [Opendir path] @ es @ [Readdir d]) =
          (if reads d es < length names then Some (names ! reads d es) else None))
   \<and> (\<forall>h p. stat_answer E (h @ [Stat p]) = Some (kind p))
   \<and> (\<forall>h n. malloc_answer E (h @ [Malloc n]))"

text \<open>\<open>qsort\<close> sorts whatever a consistent comparison orders.\<close>

definition consistent :: "('f \<Rightarrow> 'f \<Rightarrow> int) \<Rightarrow> bool" where
  "consistent cmp \<longleftrightarrow> (\<forall>a b. sgn (cmp b a) = - sgn (cmp a b))
     \<and> (\<forall>a b c. cmp a b \<le> 0 \<longrightarrow> cmp b c \<le> 0 \<longrightarrow> cmp a c \<le> 0)"

definition qsort_contract :: "td_env \<Rightarrow> bool" where
  "qsort_contract E \<longleftrightarrow> (\<forall>cmp fs. consistent cmp \<longrightarrow>
     mset (qsort E cmp fs) = mset fs \<and> sorted_wrt (\<lambda>a b. cmp a b \<le> 0) (qsort E cmp fs))"

lemma tinydir_file_cmp_consistent: "consistent tinydir_file_cmp"
  unfolding consistent_def
  by (blast intro: file_cmp_swap file_cmp_trans)

section \<open>Reading it\<close>

text \<open>The handle has been read up to entry \<open>k\<close>, which is the current one.\<close>

definition at_entry ::
    "td_env \<Rightarrow> string \<Rightarrow> nat \<Rightarrow> string list \<Rightarrow> nat \<Rightarrow> tinydir_dir \<Rightarrow> fs_call list \<Rightarrow> bool" where
  "at_entry E path d names k dir h \<longleftrightarrow>
     dir_d dir = d \<and> dir_has_next dir = (k < length names)
   \<and> dir_e dir = (if k < length names then Some (names ! k) else None)
   \<and> (\<exists>h0 es. h = h0 @ [Opendir path] @ es \<and> Opendir path \<notin> set es \<and> reads d es = Suc k)"

lemma at_entry_cong:
  "\<lbrakk> at_entry E path d names k dir h; dir_d dir' = dir_d dir; dir_has_next dir' = dir_has_next dir;
     dir_e dir' = dir_e dir \<rbrakk> \<Longrightarrow> at_entry E path d names k dir' h"
  by (simp add: at_entry_def)

lemma at_entry_call:
  assumes "at_entry E path d names k dir h" and "c \<noteq> Opendir path" and "c \<noteq> Readdir d"
  shows "at_entry E path d names k dir (h @ [c])"
proof -
  from assms(1) obtain h0 es where "h = h0 @ [Opendir path] @ es" "Opendir path \<notin> set es" "reads d es = Suc k"
    by (auto simp: at_entry_def)
  then have "h @ [c] = h0 @ [Opendir path] @ (es @ [c]) \<and> Opendir path \<notin> set (es @ [c]) \<and> reads d (es @ [c]) = Suc k"
    using assms(2,3) by simp
  with assms(1) show ?thesis unfolding at_entry_def by blast
qed

lemma next_at_entry:
  assumes "fixed_directory E path d names kind" and "at_entry E path d names k dir (fs_calls s)"
    and "k < length names"
  shows "\<exists>dir'. result (next_entry E dir) s = (0, dir')
      \<and> exec (next_entry E dir) s = s\<lparr>fs_calls := fs_calls s @ [Readdir d]\<rparr>
      \<and> at_entry E path d names (Suc k) dir' (fs_calls s @ [Readdir d])
      \<and> dir_n_files dir' = dir_n_files dir \<and> dir_files dir' = dir_files dir \<and> dir_path dir' = dir_path dir"
proof -
  from assms(2) obtain h0 es where h: "fs_calls s = h0 @ [Opendir path] @ es" "Opendir path \<notin> set es"
      "reads d es = Suc k"
    by (auto simp: at_entry_def)
  have e: "readdir_answer E (fs_calls s @ [Readdir d]) =
      (if Suc k < length names then Some (names ! Suc k) else None)"
    using assms(1) h unfolding fixed_directory_def by (simp add: h(1))
  have "fs_calls s @ [Readdir d] = h0 @ [Opendir path] @ (es @ [Readdir d])
      \<and> Opendir path \<notin> set (es @ [Readdir d]) \<and> reads d (es @ [Readdir d]) = Suc (Suc k)"
    using h by simp
  then have *: "\<exists>h0 es. fs_calls s @ [Readdir d] = h0 @ [Opendir path] @ es \<and> Opendir path \<notin> set es
      \<and> reads d es = Suc (Suc k)" by blast
  show ?thesis
    using assms(2,3) e * by (auto simp: next_entry_def at_entry_def Let_def)
qed

lemma count_at_entry:
  assumes "fixed_directory E path d names kind" and "at_entry E path d names k dir (fs_calls s)"
    and "k \<le> length names" and "length names < fuel + k"
  shows "\<exists>dir' s'. run_state (count_files E fuel dir n) s = (Some (0, dir', n + (length names - k)), s')
      \<and> dir_d dir' = d \<and> td_ub s' = td_ub s"
  using assms(2-4)
proof (induction fuel arbitrary: k dir n s)
  case 0
  then show ?case by simp
next
  case (Suc fuel)
  show ?case
  proof (cases "k < length names")
    case False
    with Suc.prems show ?thesis by (simp add: at_entry_def)
  next
    case True
    obtain dir' where dir': "result (next_entry E dir) s = (0, dir')"
        "exec (next_entry E dir) s = s\<lparr>fs_calls := fs_calls s @ [Readdir d]\<rparr>"
        "at_entry E path d names (Suc k) dir' (fs_calls s @ [Readdir d])"
      using next_at_entry [OF assms(1) Suc.prems(1) True] by blast
    let ?s = "s\<lparr>fs_calls := fs_calls s @ [Readdir d]\<rparr>"
    have run: "run_state (next_entry E dir) s = ((0, dir'), ?s)"
      using dir' by (simp add: pair_of_run)
    have "dir_has_next dir" using Suc.prems(1) True by (simp add: at_entry_def)
    moreover obtain dir'' s' where "run_state (count_files E fuel dir' (n + 1)) ?s
          = (Some (0, dir'', n + 1 + (length names - Suc k)), s')" "dir_d dir'' = d" "td_ub s' = td_ub s"
      using Suc.IH [of "Suc k" dir' ?s "n + 1"] dir'(3) True Suc.prems(3) by fastforce
    moreover have "n + 1 + (length names - Suc k) = n + (length names - k)" using True by simp
    ultimately show ?thesis by (simp add: run)
  qed
qed

section \<open>The listing\<close>

text \<open>The entry of the listing for the \<open>i\<close>-th name of the directory kept as \<open>p\<close>.\<close>

definition listed :: "(string \<Rightarrow> int \<times> int) \<Rightarrow> string \<Rightarrow> nat \<Rightarrow> string \<Rightarrow> tinydir_file" where
  "listed kind p i n =
     tinydir_get_ext (Name_of_element i)
       \<lparr>file_path = p @ ''/'' @ n, file_name = n, file_extension = (Own_name, 0),
        file_is_dir = fst (kind (p @ ''/'' @ n)), file_is_reg = snd (kind (p @ ''/'' @ n))\<rparr>"

definition short_names :: "string \<Rightarrow> string list \<Rightarrow> bool" where
  "short_names p names \<longleftrightarrow>
     (\<forall>n \<in> set names. length n < TINYDIR_FILENAME_MAX \<and> length p + length n + 1 < TINYDIR_PATH_MAX)"

lemma read_at_entry:
  assumes "fixed_directory E path d names kind" and "at_entry E path d names k dir (fs_calls s)"
    and "k < length names" and "short_names (dir_path dir) names"
  shows "run_state (read_file E (Name_of_element k) dir f) s =
     ((0, listed kind (dir_path dir) k (names ! k)),
      s\<lparr>fs_calls := fs_calls s @ [Stat (dir_path dir @ ''/'' @ names ! k)]\<rparr>)"
proof -
  have e: "dir_e dir = Some (names ! k)" using assms(2,3) by (simp add: at_entry_def)
  have "length (names ! k) < 256 \<and> length (dir_path dir) + length (names ! k) + 1 < 4096"
    using assms(3,4) nth_mem [OF assms(3)] by (simp add: short_names_def td_sizes)
  moreover have "stat_answer E (fs_calls s @ [Stat p]) = Some (kind p)" for p
    using assms(1) by (simp add: fixed_directory_def)
  ultimately show ?thesis
    by (cases f) (simp add: read_file_run e Let_def listed_def tinydir_get_ext_def split: prod.splits option.splits)
qed

lemma fill_at_entry:
  assumes "fixed_directory E path d names kind" and "at_entry E path d names k dir (fs_calls s)"
    and "k < length names" and "length names < fuel + k" and "short_names (dir_path dir) names"
    and "dir_n_files dir = k" and "dir_files dir = Some fs" and "length fs = length names"
  shows "\<exists>dir' s'. run_state (fill_files E fuel dir (length names)) s = (Some (0, dir'), s')
      \<and> td_ub s' = td_ub s \<and> dir_n_files dir' = length names
      \<and> dir_files dir' = Some (take k fs @ map (\<lambda>i. listed kind (dir_path dir) i (names ! i)) [k..<length names])"
  using assms(2-)
proof (induction fuel arbitrary: k dir fs s)
  case 0
  then show ?case by simp
next
  case (Suc fuel)
  note dir = Suc.prems(5,6)
  let ?b = "listed kind (dir_path dir) k (names ! k)"
  let ?d1 = "dir\<lparr>dir_n_files := Suc k\<rparr>"
  let ?s1 = "s\<lparr>fs_calls := fs_calls s @ [Stat (dir_path dir @ ''/'' @ names ! k)]\<rparr>"
  let ?d2 = "?d1\<lparr>dir_files := Some (fs[k := ?b])\<rparr>"
  have has: "dir_has_next dir" using Suc.prems(1,2) by (simp add: at_entry_def)
  have el: "run_state (element ?d1 k) s = (fs ! k, s)"
    using Suc.prems(2,6,7) by (simp add: element_def td_check_def)
  have at1: "at_entry E path d names k ?d1 (fs_calls s)"
    using Suc.prems(1) by (rule at_entry_cong) simp_all
  have rd: "run_state (read_file E (Name_of_element k) ?d1 (fs ! k)) s = ((0, ?b), ?s1)"
    using read_at_entry [OF assms(1) at1 Suc.prems(2)] Suc.prems(4) by simp
  have at2: "at_entry E path d names k ?d2 (fs_calls ?s1)"
    using at_entry_cong [OF at_entry_call [OF at1, of "Stat (dir_path dir @ ''/'' @ names ! k)"], of ?d2]
    by simp
  obtain d3 where nx: "result (next_entry E ?d2) ?s1 = (0, d3)"
      "exec (next_entry E ?d2) ?s1 = ?s1\<lparr>fs_calls := fs_calls ?s1 @ [Readdir d]\<rparr>"
      "at_entry E path d names (Suc k) d3 (fs_calls ?s1 @ [Readdir d])"
      "dir_n_files d3 = Suc k" "dir_files d3 = Some (fs[k := ?b])" "dir_path d3 = dir_path dir"
    using next_at_entry [OF assms(1) at2 Suc.prems(2)] by auto
  let ?s2 = "?s1\<lparr>fs_calls := fs_calls ?s1 @ [Readdir d]\<rparr>"
  have nxr: "run_state (next_entry E ?d2) ?s1 = ((0, d3), ?s2)" using nx by (simp add: pair_of_run)
  have step: "run_state (fill_files E (Suc fuel) dir (length names)) s =
      (if Suc k = length names then (Some (0, d3), ?s2) else run_state (fill_files E fuel d3 (length names)) ?s2)"
    using has el rd nxr nx(4) dir Suc.prems(6) by (simp add: Let_def)
  have tk: "take (Suc k) (fs[k := ?b]) = take k fs @ [?b]"
    using Suc.prems(2,7) by (simp add: take_Suc_conv_app_nth)
  have upt: "[k..<length names] = k # [Suc k..<length names]" using Suc.prems(2) by (rule upt_conv_Cons)
  show ?case
  proof (cases "Suc k = length names")
    case True
    have "fs[k := ?b] = take k fs @ [?b]" using tk True Suc.prems(7) by simp
    with step nx True show ?thesis by (simp add: upt)
  next
    case False
    then have lt: "Suc k < length names" using Suc.prems(2) by simp
    have "at_entry E path d names (Suc k) d3 (fs_calls ?s2)" using nx(3) by simp
    then obtain dir' s' where "run_state (fill_files E fuel d3 (length names)) ?s2 = (Some (0, dir'), s')"
        "td_ub s' = td_ub ?s2" "dir_n_files dir' = length names"
        "dir_files dir' = Some (take (Suc k) (fs[k := ?b]) @
            map (\<lambda>i. listed kind (dir_path d3) i (names ! i)) [Suc k..<length names])"
      using Suc.IH [of "Suc k" d3 ?s2 "fs[k := ?b]"] lt Suc.prems(3,4,7) nx(4-6) by auto
    then show ?thesis using step False by (simp add: tk upt nx(6))
  qed
qed

lemma open_fixed:
  assumes "fixed_directory E path d names kind"
    and "path \<noteq> []" "length path < TINYDIR_PATH_MAX" "CHR 0x00 \<notin> set path"
  shows "\<exists>dir'. run_state (open_dir E dir path) s =
      ((0, dir'), s\<lparr>fs_calls := fs_calls s @ [Free False, Opendir path, Readdir d]\<rparr>)
    \<and> at_entry E path d names 0 dir' (fs_calls s @ [Free False, Opendir path, Readdir d])
    \<and> dir_path dir' = kept_path path"
proof -
  let ?h = "fs_calls s @ [Free False]"
  have op: "opendir_answer E (fs_calls s @ [Free False, Opendir path]) = d" and d: "d \<noteq> 0"
    using assms(1) unfolding fixed_directory_def by (metis append.assoc append_Cons append_Nil)+
  have "readdir_answer E (?h @ [Opendir path] @ [] @ [Readdir d]) =
      (if reads d [] < length names then Some (names ! reads d []) else None)"
    using assms(1) unfolding fixed_directory_def by (metis empty_iff list.set(1))
  then have e: "readdir_answer E (fs_calls s @ [Free False, Opendir path, Readdir d]) =
      (if 0 < length names then Some (names ! 0) else None)" by simp
  have "fs_calls s @ [Free False, Opendir path, Readdir d] = ?h @ [Opendir path] @ [Readdir d]
      \<and> Opendir path \<notin> set [Readdir d] \<and> reads d [Readdir d] = Suc 0" by simp
  then have *: "\<exists>h0 es. fs_calls s @ [Free False, Opendir path, Readdir d] = h0 @ [Opendir path] @ es
      \<and> Opendir path \<notin> set es \<and> reads d es = Suc 0" by blast
  have "length path < 4096" using assms(3) by (simp add: td_sizes)
  from open_dir_run [OF assms(2) this assms(4), of E dir s] show ?thesis
    using d e * by (auto simp: op Let_def at_entry_def)
qed

text \<open>
  C33: \<open>tinydir_open_sorted\<close> of a directory that does not change, whose names fit the buffers, returns
  0 with one entry for each name, path, name, type and extension as \<open>tinydir_readfile\<close> would give
  them, and the entries are in order: directories first, then by name.  The number of names plus two
  is fuel enough.  No buffer is overrun.  The size of the array has to fit into \<open>size_t\<close>: the product given
  to \<open>malloc\<close> is not checked.
\<close>

theorem open_sorted_lists_directory:
  assumes "fixed_directory E path d names kind" and "qsort_contract E"
    and "path \<noteq> []" "length path < TINYDIR_PATH_MAX" "CHR 0x00 \<notin> set path"
    and "names \<noteq> []" and "short_names (kept_path path) names" and "length names < fuel"
    and "0 < sizeof_file E" and "sizeof_file E * length names < 2 ^ size_bits E"
  shows "\<exists>dir' files s'. run_state (tinydir_open_sorted E fuel (Some dir) (Some path)) s = (Some (0, Some dir'), s')
     \<and> td_ub s' = td_ub s
     \<and> dir_n_files dir' = length names \<and> dir_files dir' = Some files
     \<and> mset files = mset (map (\<lambda>i. listed kind (kept_path path) i (names ! i)) [0..<length names])
     \<and> sorted_wrt (\<lambda>a b. tinydir_file_cmp a b \<le> 0) files"
proof -
  let ?n = "length names"
  let ?bytes = "array_bytes E ?n"
  have size: "?bytes div sizeof_file E = ?n"
    using assms(9,10) by (simp add: array_bytes_def)
  obtain d1 where o1: "run_state (open_dir E dir path) s =
      ((0, d1), s\<lparr>fs_calls := fs_calls s @ [Free False, Opendir path, Readdir d]\<rparr>)"
      "at_entry E path d names 0 d1 (fs_calls s @ [Free False, Opendir path, Readdir d])"
    using open_fixed [OF assms(1,3-5)] by blast
  let ?s1 = "s\<lparr>fs_calls := fs_calls s @ [Free False, Opendir path, Readdir d]\<rparr>"
  obtain d2 s2 where c: "run_state (count_files E fuel d1 0) ?s1 = (Some (0, d2, ?n), s2)" "td_ub s2 = td_ub s"
    using count_at_entry [OF assms(1), of 0 d1 ?s1 fuel 0] o1(2) assms(8) by auto
  define d3 where "d3 = result (close_dir d2) s2"
  define s3 where "s3 = exec (close_dir d2) s2"
  have cl: "run_state (close_dir d2) s2 = (d3, s3)" by (simp add: d3_def s3_def pair_of_run)
  have ub3: "td_ub s3 = td_ub s" by (simp add: s3_def c(2))
  let ?h4 = "fs_calls s3 @ [Free False, Opendir path, Readdir d]"
  obtain d4 where o4: "run_state (open_dir E d3 path) s3 = ((0, d4), s3\<lparr>fs_calls := ?h4\<rparr>)"
      "at_entry E path d names 0 d4 ?h4" "dir_path d4 = kept_path path"
    using open_fixed [OF assms(1,3-5)] by blast
  let ?s5 = "s3\<lparr>fs_calls := ?h4 @ [Malloc ?bytes]\<rparr>"
  have mal: "malloc_answer E (?h4 @ [Malloc ?bytes])" using assms(1) unfolding fixed_directory_def by blast
  let ?d5 = "d4\<lparr>dir_n_files := 0, dir_files := Some (replicate ?n uninitialised_file)\<rparr>"
  have at5: "at_entry E path d names 0 ?d5 (fs_calls ?s5)"
    using at_entry_cong [OF at_entry_call [OF o4(2), of "Malloc ?bytes"], of ?d5] by simp
  obtain d6 s6 where f: "run_state (fill_files E fuel ?d5 ?n) ?s5 = (Some (0, d6), s6)"
      "td_ub s6 = td_ub ?s5" "dir_n_files d6 = ?n"
      "dir_files d6 = Some (map (\<lambda>i. listed kind (kept_path path) i (names ! i)) [0..<?n])"
    using fill_at_entry [OF assms(1) at5, of fuel "replicate ?n uninitialised_file"] assms(6,7,8) o4(3) by auto
  have run: "run_state (tinydir_open_sorted E fuel (Some dir) (Some path)) s
      = (Some (0, Some (sort_files E d6)), s6)"
    using o1(1) c(1) cl o4(1) mal f(1) assms(6)
    by (simp add: tinydir_open_sorted_def open_sorted_def td_ask_def size)
  let ?fs = "map (\<lambda>i. listed kind (kept_path path) i (names ! i)) [0..<?n]"
  have srt: "dir_files (sort_files E d6) = Some (qsort E tinydir_file_cmp ?fs)"
    "dir_n_files (sort_files E d6) = ?n"
    by (simp_all add: sort_files_def f(3,4))
  have q: "mset (qsort E tinydir_file_cmp ?fs) = mset ?fs"
    "sorted_wrt (\<lambda>a b. tinydir_file_cmp a b \<le> 0) (qsort E tinydir_file_cmp ?fs)"
    using assms(2) tinydir_file_cmp_consistent by (auto simp: qsort_contract_def)
  show ?thesis
    using run srt q f(2) ub3
    by (intro exI [of _ "sort_files E d6"] exI [of _ "qsort E tinydir_file_cmp ?fs"] exI [of _ s6]) simp
qed

section \<open>The hypotheses can be met\<close>

fun insert_by :: "('f \<Rightarrow> 'f \<Rightarrow> int) \<Rightarrow> 'f \<Rightarrow> 'f list \<Rightarrow> 'f list" where
  "insert_by cmp x [] = [x]"
| "insert_by cmp x (y # ys) = (if cmp x y \<le> 0 then x # y # ys else y # insert_by cmp x ys)"

definition sort_by :: "('f \<Rightarrow> 'f \<Rightarrow> int) \<Rightarrow> 'f list \<Rightarrow> 'f list" where
  "sort_by cmp fs = foldr (insert_by cmp) fs []"

lemma mset_insert_by [simp]: "mset (insert_by cmp x ys) = add_mset x (mset ys)"
  by (induction ys) auto

lemma mset_sort_by [simp]: "mset (sort_by cmp fs) = mset fs"
  by (induction fs) (simp_all add: sort_by_def)

lemma set_insert_by [simp]: "set (insert_by cmp x ys) = insert x (set ys)"
  by (induction ys) auto

lemma consistent_total: "consistent cmp \<Longrightarrow> \<not> cmp a b \<le> 0 \<Longrightarrow> cmp b a \<le> 0"
  unfolding consistent_def by (metis linorder_not_le neg_0_le_iff_le sgn_pos sgn_greater zero_le_one less_le_not_le)

lemma sorted_insert_by:
  assumes "consistent cmp" and "sorted_wrt (\<lambda>a b. cmp a b \<le> 0) ys"
  shows "sorted_wrt (\<lambda>a b. cmp a b \<le> 0) (insert_by cmp x ys)"
  using assms(2)
proof (induction ys)
  case Nil
  then show ?case by simp
next
  case (Cons y ys)
  have "cmp x z \<le> 0" if "cmp x y \<le> 0" "z \<in> set ys" for z
    using assms(1) that Cons.prems unfolding consistent_def by auto
  with Cons show ?case using consistent_total [OF assms(1), of x y] by auto
qed

lemma sorted_sort_by: "consistent cmp \<Longrightarrow> sorted_wrt (\<lambda>a b. cmp a b \<le> 0) (sort_by cmp fs)"
  by (induction fs) (simp_all add: sort_by_def sorted_insert_by)

definition demo_names :: "string list" where
  "demo_names = [''b.txt'', ''a'']"

definition demo_td :: td_env where
  "demo_td = \<lparr>opendir_answer = (\<lambda>h. 7),
     readdir_answer = (\<lambda>h. let k = reads 7 (takeWhile (\<lambda>c. c \<noteq> Opendir ''/d/'') (rev (butlast h)))
                          in if k < length demo_names then Some (demo_names ! k) else None),
     stat_answer = (\<lambda>h. Some (0, 1)), malloc_answer = (\<lambda>h. True), sizeof_file = 4456, size_bits = 32, qsort = sort_by,
     dirname = (\<lambda>p. ''/d/''), basename = (\<lambda>p. ''a'')\<rparr>"

lemma reads_rev [simp]: "reads d (rev h) = reads d h"
  by (simp add: reads_def rev_filter [symmetric])

lemma takeWhile_until: "c \<notin> set xs \<Longrightarrow> takeWhile (\<lambda>x. x \<noteq> c) (xs @ c # ys) = xs"
  by (induction xs) auto

lemma demo_td_contracts:
  "fixed_directory demo_td ''/d/'' 7 demo_names (\<lambda>p. (0, 1))" "qsort_contract demo_td"
proof -
  have "readdir_answer demo_td (h @ [Opendir ''/d/''] @ es @ [Readdir 7]) =
          (if reads 7 es < length demo_names then Some (demo_names ! reads 7 es) else None)"
    if "Opendir ''/d/'' \<notin> set es" for h es
    using that takeWhile_until [of "Opendir ''/d/''" "rev es" "rev h"]
    by (simp add: demo_td_def butlast_append Let_def)
  then show "fixed_directory demo_td ''/d/'' 7 demo_names (\<lambda>p. (0, 1))"
    by (simp add: fixed_directory_def) (simp add: demo_td_def)
  show "qsort_contract demo_td"
    by (simp add: qsort_contract_def demo_td_def sorted_sort_by)
qed

lemma readdir_answer_demo:
  "readdir_answer demo_td h = (let k = reads 7 (takeWhile (\<lambda>c. c \<noteq> Opendir ''/d/'') (rev (butlast h)))
                          in if k < length demo_names then Some (demo_names ! k) else None)"
  by (simp add: demo_td_def)

definition demo_dir :: tinydir_dir where
  "demo_dir = \<lparr>dir_path = [], dir_has_next = False, dir_n_files = 0, dir_files = None, dir_d = 0, dir_e = Some ''b.txt''\<rparr>"

definition initial_td :: td_st where
  "initial_td = \<lparr>fs_calls = [], td_errno = E_unset, td_ub = False\<rparr>"

lemma open_sorted_lists_directory_witness:
  "\<exists>dir' files s'. run_state (tinydir_open_sorted demo_td 3 (Some demo_dir) (Some ''/d/'')) initial_td
      = (Some (0, Some dir'), s') \<and> dir_files dir' = Some files
      \<and> mset files = mset [listed (\<lambda>p. (0, 1)) ''/d'' 0 ''b.txt'', listed (\<lambda>p. (0, 1)) ''/d'' 1 ''a'']"
proof -
  have kept: "kept_path ''/d/'' = ''/d''" by (simp add: kept_path_def is_slash_def)
  have "short_names (kept_path ''/d/'') demo_names" by (simp add: kept short_names_def demo_names_def td_sizes)
  moreover have "sizeof_file demo_td = 4456" "size_bits demo_td = 32" by (simp_all add: demo_td_def)
  ultimately show ?thesis
    using open_sorted_lists_directory [OF demo_td_contracts, of 3 demo_dir initial_td]
    by (fastforce simp: demo_names_def kept td_sizes upt_rec)
qed

lemma readfile_in_bounds_witness:
  "td_ub (exec (tinydir_readfile demo_td (Some demo_dir) (Some uninitialised_file)) initial_td) = td_ub initial_td"
proof -
  obtain r g s' where run: "run_state (tinydir_readfile demo_td (Some demo_dir) (Some uninitialised_file)) initial_td
      = ((r, Some g), s')"
    by (simp add: tinydir_readfile_def read_file_run demo_dir_def demo_td_def Let_def)
  from readfile_in_bounds [OF run] run show ?thesis by (simp add: exec_def)
qed

lemma open_keeps_path_witness:
  "map_option dir_path (snd (result (tinydir_open demo_td (Some demo_dir) (Some ''a//'')) initial_td)) = Some ''a/''"
  using open_keeps_path [of "''a//''" initial_td demo_td demo_dir]
  by (simp add: td_sizes Let_def split_beta demo_td_def is_slash_def)

lemma file_cmp_is_an_order_witness:
  "tinydir_file_cmp (uninitialised_file\<lparr>file_is_dir := 1\<rparr>) uninitialised_file < 0"
  by (rule file_cmp_is_an_order(3)) (simp_all add: uninitialised_file_def)

text \<open>Directories of two entries, by the reads since the last opening.\<close>

definition two_entries :: td_env where
  "two_entries = demo_td\<lparr>readdir_answer := (\<lambda>h. case last h of
       Readdir d \<Rightarrow> if reads_since d (butlast h) < 2 then Some (demo_names ! reads_since d (butlast h)) else None
     | _ \<Rightarrow> None)\<rparr>"

lemma no_handle_leaks_witness:
  "\<exists>r f'. result (tinydir_file_open two_entries 3 demo_dir (Some uninitialised_file) (Some ''/d/a'')) initial_td = Some (r, f')
     \<and> handles two_entries (fs_calls (exec (tinydir_file_open two_entries 3 demo_dir (Some uninitialised_file)
          (Some ''/d/a'')) initial_td)) = 0"
proof -
  have "directories_end two_entries 2"
    by (simp add: directories_end_def two_entries_def)
  from no_handle_leaks [OF this, of 3 demo_dir "''/d/a''" initial_td uninitialised_file]
  show ?thesis by (simp add: initial_td_def handles_def)
qed

end
