(* ===== verification/Key_Value.thy ===== *)
theory Key_Value
  imports Prelude "HOL-Library.AList" "HOL-Library.Sublist"
begin

text \<open>
  \<open>rmw/impl/cpp/key_value.hpp\<close>: the parser of the \<open>key=value;\<close> pairs that participants announce in
  their user data.  The loop body is a step on the parser's variables; its outcome says whether the
  loop goes on, is left by \<open>break\<close>, or jumps to \<open>not_valid\<close>.  The \<open>std::map\<close> is an association list
  updated in place, the characters are bytes.
\<close>

type_synonym kv_map = "(u8 list \<times> u8 list) list"

record kv_st =
  kv_m :: kv_map
  keyfound :: bool
  kv_key :: "u8 list"
  kv_value :: "u8 list"
  kv_prev :: u8

datatype kv_outcome = Go_on kv_st | Break kv_st | Not_valid

abbreviation semicolon :: u8 where "semicolon \<equiv> 0x3B"
abbreviation equals :: u8 where "equals \<equiv> 0x3D"

text \<open>\<open>isalnum\<close> in the C locale.\<close>

definition isalnum :: "u8 \<Rightarrow> bool" where
  "isalnum c \<longleftrightarrow> 0x30 \<le> c \<and> c \<le> 0x39 \<or> 0x41 \<le> c \<and> c \<le> 0x5A \<or> 0x61 \<le> c \<and> c \<le> 0x7A"

text \<open>The part of the loop body under \<open>if (!keyfound)\<close>, with the assignment to \<open>prev\<close> after it.\<close>

definition kv_step_key :: "kv_st \<Rightarrow> u8 \<Rightarrow> kv_outcome" where
  "kv_step_key st c =
     (if c = equals then (if kv_key st = [] then Not_valid else Go_on (st\<lparr>keyfound := True, kv_prev := c\<rparr>))
      else if isalnum c then Go_on (st\<lparr>kv_key := kv_key st @ [c], kv_prev := c\<rparr>)
      else if c = 0 \<and> kv_key st = [] \<and> kv_m st \<noteq> [] then Break st
      else if kv_prev st \<noteq> semicolon \<or> kv_key st \<noteq> [] then Not_valid
      else Go_on (st\<lparr>kv_prev := c\<rparr>))"

definition kv_step :: "kv_st \<Rightarrow> u8 \<Rightarrow> kv_outcome" where
  "kv_step st c =
     (if keyfound st then
        (if c = semicolon \<and> kv_prev st \<noteq> semicolon then Go_on (st\<lparr>kv_prev := c\<rparr>)
         else if c \<noteq> semicolon \<and> kv_prev st = semicolon then
           (if kv_value st = [] then Not_valid
            else kv_step_key (st\<lparr>kv_m := AList.update (kv_key st) (kv_value st) (kv_m st),
                               kv_key := [], kv_value := [], keyfound := False\<rparr>) c)
         else Go_on (st\<lparr>kv_value := kv_value st @ [c], kv_prev := c\<rparr>))
      else kv_step_key st c)"

fun kv_loop :: "kv_st \<Rightarrow> u8 list \<Rightarrow> kv_outcome" where
  "kv_loop st [] = Go_on st"
| "kv_loop st (c # cs) = (case kv_step st c of Go_on st1 \<Rightarrow> kv_loop st1 cs | r \<Rightarrow> r)"

definition kv_init :: kv_st where
  "kv_init = \<lparr>kv_m = [], keyfound = False, kv_key = [], kv_value = [], kv_prev = 0\<rparr>"

text \<open>After the loop; a jump to \<open>not_valid\<close> returns the empty map.\<close>

definition kv_finish :: "kv_outcome \<Rightarrow> kv_map" where
  "kv_finish r =
     (let finish = (\<lambda>st. if keyfound st
                         then (if kv_value st = [] then []
                               else AList.update (kv_key st) (kv_value st) (kv_m st))
                         else if kv_key st \<noteq> [] then [] else kv_m st)
      in case r of Not_valid \<Rightarrow> [] | Break st \<Rightarrow> finish st | Go_on st \<Rightarrow> finish st)"

definition parse_key_value :: "u8 list \<Rightarrow> kv_map" where
  "parse_key_value kv = (if kv = [] then [] else kv_finish (kv_loop kv_init kv))"

section \<open>Properties\<close>

lemma kv_loop_append:
  "kv_loop st (cs @ ds) = (case kv_loop st cs of Go_on st1 \<Rightarrow> kv_loop st1 ds | r \<Rightarrow> r)"
  by (induction cs arbitrary: st) (simp_all split: kv_outcome.split)

text \<open>Keys and values a pair may consist of.\<close>

definition good_key :: "u8 list \<Rightarrow> bool" where
  "good_key k \<longleftrightarrow> k \<noteq> [] \<and> (\<forall>c \<in> set k. isalnum c)"

definition good_value :: "u8 list \<Rightarrow> bool" where
  "good_value v \<longleftrightarrow> v \<noteq> [] \<and> semicolon \<notin> set v"

definition kv_pair :: "u8 list \<times> u8 list \<Rightarrow> u8 list" where
  "kv_pair p = fst p @ [equals] @ snd p @ [semicolon]"

definition serialise :: "(u8 list \<times> u8 list) list \<Rightarrow> u8 list" where
  "serialise ps = concat (map kv_pair ps)"

lemma alnum_other [simp]: "\<not> isalnum equals" "\<not> isalnum semicolon" "\<not> isalnum 0"
  by (simp_all add: isalnum_def)

lemma alnum_neq: "isalnum c \<Longrightarrow> c \<noteq> equals \<and> c \<noteq> semicolon \<and> c \<noteq> 0"
  using alnum_other by metis

lemma loop_key:
  "\<lbrakk> \<forall>c \<in> set k. isalnum c; \<not> keyfound st \<rbrakk>
     \<Longrightarrow> kv_loop st k = Go_on (st\<lparr>kv_key := kv_key st @ k, kv_prev := if k = [] then kv_prev st else last k\<rparr>)"
proof (induction k arbitrary: st)
  case Nil
  then show ?case by simp
next
  case (Cons c k)
  then show ?case using alnum_neq [of c] by (simp add: kv_step_def kv_step_key_def)
qed

lemma loop_value:
  "\<lbrakk> semicolon \<notin> set v; keyfound st; kv_prev st \<noteq> semicolon \<rbrakk>
     \<Longrightarrow> kv_loop st v = Go_on (st\<lparr>kv_value := kv_value st @ v, kv_prev := if v = [] then kv_prev st else last v\<rparr>)"
proof (induction v arbitrary: st)
  case Nil
  then show ?case by simp
next
  case (Cons c v)
  then show ?case by (auto simp: kv_step_def)
qed

text \<open>A complete pair has been read and not yet entered.\<close>

definition pending :: "kv_map \<Rightarrow> u8 list \<Rightarrow> u8 list \<Rightarrow> kv_st" where
  "pending m k v = \<lparr>kv_m = m, keyfound = True, kv_key = k, kv_value = v, kv_prev = semicolon\<rparr>"

lemma last_not_semicolon: "good_value v \<Longrightarrow> last v \<noteq> semicolon"
  unfolding good_value_def by (metis last_in_set)

lemma loop_pair:
  assumes "good_key k" and "good_value v" and "\<not> keyfound st" and "kv_key st = []" and "kv_value st = []"
  shows "kv_loop st (kv_pair (k, v)) = Go_on (pending (kv_m st) k v)"
proof -
  let ?s = "\<lambda>f k' v' c. st\<lparr>keyfound := f, kv_key := k', kv_value := v', kv_prev := c\<rparr>"
  have start: "kv_loop st k = Go_on (?s False k [] (last k))"
    using assms loop_key [of k st] by (cases st) (simp add: good_key_def)
  have eq: "kv_step (?s False k [] (last k)) equals = Go_on (?s True k [] equals)"
    using assms by (simp add: kv_step_def kv_step_key_def good_key_def)
  have val: "kv_loop (?s True k [] equals) v = Go_on (?s True k v (last v))"
    using loop_value [of v "?s True k [] equals"] assms(2) by (simp add: good_value_def)
  have fin: "kv_step (?s True k v (last v)) semicolon = Go_on (pending (kv_m st) k v)"
    using last_not_semicolon [OF assms(2)] by (simp add: kv_step_def pending_def)
  show ?thesis unfolding kv_pair_def fst_conv snd_conv kv_loop_append start append.simps kv_loop.simps
      kv_outcome.case eq val fin ..
qed

lemma loop_pair_pending:
  assumes "good_key k'" and "good_value v'" and "v \<noteq> []"
  shows "kv_loop (pending m k v) (kv_pair (k', v')) = Go_on (pending (AList.update k v m) k' v')"
proof -
  let ?s = "\<lparr>kv_m = AList.update k v m, keyfound = False, kv_key = [], kv_value = [], kv_prev = semicolon\<rparr>"
  obtain c ks where k': "k' = c # ks" "isalnum c" using assms(1) by (cases k') (auto simp: good_key_def)
  have "kv_step (pending m k v) c = kv_step ?s c"
    using alnum_neq [OF k'(2)] assms(3) by (simp add: pending_def kv_step_def)
  then have "kv_loop (pending m k v) (kv_pair (k', v')) = kv_loop ?s (kv_pair (k', v'))"
    by (simp add: kv_pair_def k')
  then show ?thesis using loop_pair [OF assms(1,2), of ?s] by simp
qed

lemma loop_pairs_pending:
  assumes "\<forall>p \<in> set ps. good_key (fst p) \<and> good_value (snd p)" and "v \<noteq> []"
  shows "\<exists>m' k' v'. kv_loop (pending m k v) (serialise ps) = Go_on (pending m' k' v') \<and> v' \<noteq> []
       \<and> map_of (AList.update k' v' m') = map_of (AList.update k v m) ++ map_of (rev ps)"
  using assms
proof (induction ps arbitrary: m k v)
  case Nil
  then show ?case by (auto simp: serialise_def)
next
  case (Cons p ps)
  obtain k1 v1 where p: "p = (k1, v1)" by (cases p)
  with Cons.prems have g: "good_key k1" "good_value v1" "v1 \<noteq> []" by (auto simp: good_value_def)
  obtain m' k' v' where *: "kv_loop (pending (AList.update k v m) k1 v1) (serialise ps) = Go_on (pending m' k' v')"
      "v' \<noteq> []" "map_of (AList.update k' v' m')
         = map_of (AList.update k1 v1 (AList.update k v m)) ++ map_of (rev ps)"
    using Cons.IH [of v1 "AList.update k v m" k1] Cons.prems g(3) by auto
  have "kv_loop (pending m k v) (serialise (p # ps))
      = kv_loop (pending (AList.update k v m) k1 v1) (serialise ps)"
    using loop_pair_pending [OF g(1,2) Cons.prems(2)] by (simp add: serialise_def p kv_loop_append)
  moreover have "map_of (AList.update k' v' m') = map_of (AList.update k v m) ++ map_of (rev (p # ps))"
    using *(3) by (simp add: p update_conv' map_of_append map_add_assoc del: map_add_assoc)
      (simp add: map_add_def fun_eq_iff update_conv' split: option.split)
  ultimately show ?case using *(1,2) by auto
qed

lemma finish_pending: "v \<noteq> [] \<Longrightarrow> kv_finish (Go_on (pending m k v)) = AList.update k v m"
  by (simp add: kv_finish_def pending_def)

lemma update_not_Nil [simp]: "AList.update k v m \<noteq> []"
  by (cases m) auto

lemma loop_trailing_zeros:
  "v \<noteq> [] \<Longrightarrow> kv_finish (kv_loop (pending m k v) (replicate n 0)) = AList.update k v m"
  by (cases n) (simp_all add: finish_pending, simp add: pending_def kv_step_def kv_step_key_def kv_finish_def)

text \<open>
  C39: What is written as \<open>key=value;\<close> pairs is read back: for alphanumeric keys and values that are
  not empty and hold no semicolon (they may hold equals signs, zeros and any other byte), the parser
  returns exactly the map of the pairs, the last value of a key winning, also with zeros after it.
\<close>

theorem key_value_round_trip:
  assumes "ps \<noteq> []" and "\<forall>p \<in> set ps. good_key (fst p) \<and> good_value (snd p)"
  shows "map_of (parse_key_value (serialise ps @ replicate n 0)) = map_of (rev ps)"
proof -
  obtain k v qs where ps: "ps = (k, v) # qs" using assms(1) by (metis list.exhaust surj_pair)
  with assms(2) have g: "good_key k" "good_value v" "v \<noteq> []" by (auto simp: good_value_def)
  have one: "kv_loop kv_init (kv_pair (k, v)) = Go_on (pending [] k v)"
    using loop_pair [OF g(1,2), of kv_init] by (simp add: kv_init_def)
  obtain m' k' v' where *: "kv_loop (pending [] k v) (serialise qs) = Go_on (pending m' k' v')" "v' \<noteq> []"
      "map_of (AList.update k' v' m') = map_of (AList.update k v []) ++ map_of (rev qs)"
    using loop_pairs_pending [of qs v "[]" k] assms(2) g(3) ps by auto
  have "kv_loop kv_init (serialise ps @ replicate n 0) = kv_loop (pending m' k' v') (replicate n 0)"
    using one *(1) by (simp add: ps serialise_def kv_loop_append)
  moreover have "serialise ps \<noteq> []" by (simp add: ps serialise_def kv_pair_def)
  ultimately have "parse_key_value (serialise ps @ replicate n 0) = AList.update k' v' m'"
    using loop_trailing_zeros [OF *(2)] by (simp add: parse_key_value_def)
  then show ?thesis using *(3) by (simp add: ps)
qed

text \<open>Two keys and a byte of padding, with a value that holds an equals sign.\<close>

lemma key_value_round_trip_witness:
  "map_of (parse_key_value (serialise [([0x61], [0x62, 0x3D]), ([0x63], [0x64]), ([0x61], [0x65])] @ replicate 1 0))
     = map_of [([0x61], [0x65]), ([0x63], [0x64]), ([0x61], [0x62, 0x3D])]"
  using key_value_round_trip [of "[([0x61], [0x62, 0x3D]), ([0x63], [0x64]), ([0x61], [0x65])]" 1]
  by (simp add: good_key_def good_value_def isalnum_def)

section \<open>What is returned stands in the input\<close>

text \<open>A pair that may be entered after the bytes \<open>pre\<close>: key and value occur there, joined by an equals sign.\<close>

definition kv_entry_ok :: "u8 list \<Rightarrow> u8 list \<times> u8 list \<Rightarrow> bool" where
  "kv_entry_ok pre p \<longleftrightarrow>
     good_key (fst p) \<and> snd p \<noteq> [] \<and> sublist (fst p @ [equals] @ snd p) pre"

definition kv_map_ok :: "u8 list \<Rightarrow> kv_map \<Rightarrow> bool" where
  "kv_map_ok pre m \<longleftrightarrow> distinct (map fst m) \<and> list_all (kv_entry_ok pre) m"

text \<open>The invariant of the loop: what the variables hold after the bytes \<open>pre\<close>.\<close>

definition kv_inv :: "u8 list \<Rightarrow> kv_st \<Rightarrow> bool" where
  "kv_inv pre st \<longleftrightarrow> kv_map_ok pre (kv_m st) \<and> (\<forall>c \<in> set (kv_key st). isalnum c) \<and>
     (if keyfound st
      then kv_key st \<noteq> [] \<and> suffix (kv_key st @ [equals] @ kv_value st
             @ (if kv_prev st = semicolon then [semicolon] else [])) pre
      else kv_value st = [] \<and> suffix (kv_key st) pre)"

lemma kv_entry_ok_mono: "sublist pre pre' \<Longrightarrow> kv_entry_ok pre p \<Longrightarrow> kv_entry_ok pre' p"
  by (auto simp: kv_entry_ok_def intro: sublist_order.order.trans)

lemma kv_map_ok_mono: "sublist pre pre' \<Longrightarrow> kv_map_ok pre m \<Longrightarrow> kv_map_ok pre' m"
  by (auto simp: kv_map_ok_def list_all_iff intro: kv_entry_ok_mono)

lemma kv_map_ok_Nil [simp]: "kv_map_ok pre []"
  by (simp add: kv_map_ok_def)

lemma set_update_subset: "set (AList.update k v m) \<subseteq> insert (k, v) (set m)"
  by (induction m) (auto split: if_splits)

lemma kv_map_ok_update: "kv_map_ok pre m \<Longrightarrow> kv_entry_ok pre (k, v) \<Longrightarrow> kv_map_ok pre (AList.update k v m)"
  unfolding kv_map_ok_def list_all_iff
  using set_update_subset [of k v m] distinct_update [of m k v] by blast

text \<open>The pair that is being read may be entered once its value is not empty.\<close>

lemma kv_inv_entry:
  assumes "kv_inv pre st" and "keyfound st" and "kv_value st \<noteq> []"
  shows "kv_entry_ok pre (kv_key st, kv_value st)"
proof -
  obtain zs t where "pre = zs @ (kv_key st @ [equals] @ kv_value st) @ t"
    using assms(1,2) by (auto simp: kv_inv_def suffix_def)
  then have "sublist (kv_key st @ [equals] @ kv_value st) pre" using sublist_appendI by metis
  then show ?thesis using assms by (simp add: kv_inv_def kv_entry_ok_def good_key_def)
qed

lemma kv_step_key_inv:
  assumes "kv_map_ok pre (kv_m st)" and "\<forall>c \<in> set (kv_key st). isalnum c" and "\<not> keyfound st"
    and "kv_value st = []" and "suffix (kv_key st) pre" and "kv_step_key st c = Go_on st1"
  shows "kv_inv (pre @ [c]) st1"
proof -
  have "kv_map_ok (pre @ [c]) (kv_m st)" using kv_map_ok_mono [OF _ assms(1)] by simp
  then show ?thesis using assms
    by (auto simp: kv_step_key_def kv_inv_def suffix_def split: if_splits)
qed

lemma kv_step_inv:
  assumes "kv_inv pre st" and "kv_step st c = Go_on st1"
  shows "kv_inv (pre @ [c]) st1"
proof (cases "keyfound st \<and> \<not> (c \<noteq> semicolon \<and> kv_prev st = semicolon)")
  case True
  have "kv_map_ok (pre @ [c]) (kv_m st)" using kv_map_ok_mono [of pre "pre @ [c]"] assms(1) by (simp add: kv_inv_def)
  then show ?thesis using True assms
    by (auto simp: kv_step_def kv_inv_def suffix_def split: if_splits)
next
  case False
  show ?thesis
  proof (cases "keyfound st")
    case True
    with False assms(2) have v: "kv_value st \<noteq> []" and
      k: "kv_step_key (st\<lparr>kv_m := AList.update (kv_key st) (kv_value st) (kv_m st),
            kv_key := [], kv_value := [], keyfound := False\<rparr>) c = Go_on st1"
      by (simp_all add: kv_step_def split: if_splits)
    have "kv_map_ok pre (AList.update (kv_key st) (kv_value st) (kv_m st))"
      using kv_map_ok_update kv_inv_entry [OF assms(1) True v] assms(1) by (simp add: kv_inv_def)
    then show ?thesis using kv_step_key_inv [OF _ _ _ _ _ k] by simp
  next
    case False
    then show ?thesis
      using assms(1) assms(2) by (intro kv_step_key_inv [of pre st]) (simp_all add: kv_step_def kv_inv_def)
  qed
qed

lemma kv_step_break: "kv_step st c = Break st1 \<Longrightarrow> kv_inv pre st \<Longrightarrow> \<not> keyfound st1 \<and> kv_map_ok pre (kv_m st1)"
  using kv_map_ok_update kv_inv_entry
  by (auto simp: kv_step_def kv_step_key_def kv_inv_def split: if_splits)

lemma kv_finish_inv: "kv_inv pre st \<Longrightarrow> kv_map_ok pre (kv_finish (Go_on st))"
  using kv_map_ok_update kv_inv_entry by (auto simp: kv_finish_def kv_inv_def)

lemma kv_loop_inv: "kv_inv pre st \<Longrightarrow> kv_map_ok (pre @ cs) (kv_finish (kv_loop st cs))"
proof (induction cs arbitrary: pre st)
  case Nil
  then show ?case by (simp add: kv_finish_inv)
next
  case (Cons c cs)
  show ?case
  proof (cases "kv_step st c")
    case (Go_on st1)
    then show ?thesis using Cons.IH [OF kv_step_inv [OF Cons.prems Go_on]] by simp
  next
    case (Break st1)
    then have "kv_map_ok pre (kv_finish (Break st1))"
      using kv_step_break [OF Break Cons.prems] by (simp add: kv_finish_def)
    then show ?thesis using kv_map_ok_mono [of pre "pre @ c # cs"] Break by simp
  next
    case Not_valid
    then show ?thesis by (simp add: kv_finish_def)
  qed
qed

text \<open>
  Whatever bytes another participant announces, the map that is returned is well formed: its
  keys are distinct, not empty and alphanumeric, no value is empty, and each pair stands in the input,
  its key and its value joined by an equals sign.
\<close>

theorem key_values_are_well_formed: "kv_map_ok kv (parse_key_value kv)"
  using kv_loop_inv [of "[]" kv_init kv] by (simp add: parse_key_value_def kv_inv_def kv_init_def)

end
