(* ===== verification/Messages.thy ===== *)
theory Messages
  imports Prelude
begin

text \<open>
  The message types of \<open>sensor_msgs\<close> that the code under \<open>include/sensor_msgs/\<close> works on, with the
  fields of the generated structs.  A \<open>float\<close> is its 32 bits.  A vector is a list; a call that
  throws gives \<open>Throw\<close> with the exception, and \<open>Undefined\<close> stands for an access outside a vector or
  another step whose behaviour the language leaves undefined.
\<close>

record Time =
  sec :: "32 word"
  nanosec :: u32

record Header =
  stamp :: Time
  frame_id :: string

record Image =
  im_header :: Header
  im_height :: u32
  im_width :: u32
  im_encoding :: string
  im_is_bigendian :: u8
  im_step :: u32
  im_data :: "u8 list"

record PointField =
  pf_name :: string
  pf_offset :: u32
  pf_datatype :: u8
  pf_count :: u32

record PointCloud2 =
  pc2_header :: Header
  pc2_height :: u32
  pc2_width :: u32
  pc2_fields :: "PointField list"
  pc2_is_bigendian :: bool
  pc2_point_step :: u32
  pc2_row_step :: u32
  pc2_data :: "u8 list"
  pc2_is_dense :: bool

record Point32 =
  p_x :: u32
  p_y :: u32
  p_z :: u32

record ChannelFloat32 =
  ch_name :: string
  ch_values :: "u32 list"

record PointCloud =
  pc_header :: Header
  pc_points :: "Point32 list"
  pc_channels :: "ChannelFloat32 list"

text \<open>The values of \<open>PointField.datatype\<close>.\<close>

definition PF_INT8 :: u8 where "PF_INT8 = 1"
definition PF_UINT8 :: u8 where "PF_UINT8 = 2"
definition PF_INT16 :: u8 where "PF_INT16 = 3"
definition PF_UINT16 :: u8 where "PF_UINT16 = 4"
definition PF_INT32 :: u8 where "PF_INT32 = 5"
definition PF_UINT32 :: u8 where "PF_UINT32 = 6"
definition PF_FLOAT32 :: u8 where "PF_FLOAT32 = 7"
definition PF_FLOAT64 :: u8 where "PF_FLOAT64 = 8"

lemmas point_field_types = PF_INT8_def PF_UINT8_def PF_INT16_def PF_UINT16_def PF_INT32_def PF_UINT32_def
  PF_FLOAT32_def PF_FLOAT64_def

section \<open>Outcomes\<close>

datatype cpp_exception = Runtime_error string | Length_error

datatype ('s, 'a) cpp_outcome = Ok 'a | Throw cpp_exception 's | Undefined

text \<open>Calls one after the other: an exception leaves the rest out.\<close>

fun and_then :: "('s, 'a) cpp_outcome \<Rightarrow> ('a \<Rightarrow> ('s, 'b) cpp_outcome) \<Rightarrow> ('s, 'b) cpp_outcome" where
  "and_then (Ok a) f = f a"
| "and_then (Throw e s) f = Throw e s"
| "and_then Undefined f = Undefined"

definition vector_resize :: "'a \<Rightarrow> nat \<Rightarrow> 'a list \<Rightarrow> 'a list" where
  "vector_resize fresh n xs = take n xs @ replicate (n - length xs) fresh"

lemma length_vector_resize [simp]: "length (vector_resize fresh n xs) = n"
  by (simp add: vector_resize_def)

lemma take_vector_resize [simp]: "take (length xs) (vector_resize fresh n xs) = take n xs"
  by (auto simp: vector_resize_def min_def)

lemma nth_vector_resize:
  "i < n \<Longrightarrow> vector_resize fresh n xs ! i = (if i < length xs then xs ! i else fresh)"
  by (auto simp: vector_resize_def nth_append)

end
