(* ===== verification/Image_Encodings.thy ===== *)
theory Image_Encodings
  imports Messages
begin

text \<open>
  \<open>sensor_msgs/image_encodings.hpp\<close> and \<open>sensor_msgs/fill_image.hpp\<close>: the names of the encodings, the
  predicates on them, the number of channels and the depth of an encoding, and filling an image.
\<close>

definition RGB8 :: string where "RGB8 = ''rgb8''"
definition RGBA8 :: string where "RGBA8 = ''rgba8''"
definition RGB16 :: string where "RGB16 = ''rgb16''"
definition RGBA16 :: string where "RGBA16 = ''rgba16''"
definition BGR8 :: string where "BGR8 = ''bgr8''"
definition BGRA8 :: string where "BGRA8 = ''bgra8''"
definition BGR16 :: string where "BGR16 = ''bgr16''"
definition BGRA16 :: string where "BGRA16 = ''bgra16''"
definition MONO8 :: string where "MONO8 = ''mono8''"
definition MONO16 :: string where "MONO16 = ''mono16''"
definition BAYER_RGGB8 :: string where "BAYER_RGGB8 = ''bayer_rggb8''"
definition BAYER_BGGR8 :: string where "BAYER_BGGR8 = ''bayer_bggr8''"
definition BAYER_GBRG8 :: string where "BAYER_GBRG8 = ''bayer_gbrg8''"
definition BAYER_GRBG8 :: string where "BAYER_GRBG8 = ''bayer_grbg8''"
definition BAYER_RGGB16 :: string where "BAYER_RGGB16 = ''bayer_rggb16''"
definition BAYER_BGGR16 :: string where "BAYER_BGGR16 = ''bayer_bggr16''"
definition BAYER_GBRG16 :: string where "BAYER_GBRG16 = ''bayer_gbrg16''"
definition BAYER_GRBG16 :: string where "BAYER_GRBG16 = ''bayer_grbg16''"
definition YUV422 :: string where "YUV422 = ''yuv422''"
definition YUV422_YUY2 :: string where "YUV422_YUY2 = ''yuv422_yuy2''"
definition NV21 :: string where "NV21 = ''nv21''"
definition NV24 :: string where "NV24 = ''nv24''"

text \<open>The encodings named after OpenCV's matrix types, in the order of their declaration.\<close>

definition opencv_types :: "string list" where
  "opencv_types =
     [''8UC1'', ''8UC2'', ''8UC3'', ''8UC4'', ''8SC1'', ''8SC2'', ''8SC3'', ''8SC4'',
      ''16UC1'', ''16UC2'', ''16UC3'', ''16UC4'', ''16SC1'', ''16SC2'', ''16SC3'', ''16SC4'',
      ''32SC1'', ''32SC2'', ''32SC3'', ''32SC4'', ''32FC1'', ''32FC2'', ''32FC3'', ''32FC4'',
      ''64FC1'', ''64FC2'', ''64FC3'', ''64FC4'']"

definition ABSTRACT_ENCODING_PREFIXES :: "string list" where
  "ABSTRACT_ENCODING_PREFIXES = [''8UC'', ''8SC'', ''16UC'', ''16SC'', ''32SC'', ''32FC'', ''64FC'']"

lemmas encoding_names = RGB8_def RGBA8_def RGB16_def RGBA16_def BGR8_def BGRA8_def BGR16_def BGRA16_def
  MONO8_def MONO16_def BAYER_RGGB8_def BAYER_BGGR8_def BAYER_GBRG8_def BAYER_GRBG8_def BAYER_RGGB16_def
  BAYER_BGGR16_def BAYER_GBRG16_def BAYER_GRBG16_def YUV422_def YUV422_YUY2_def NV21_def NV24_def

definition isColor :: "string \<Rightarrow> bool" where
  "isColor encoding \<longleftrightarrow> encoding = RGB8 \<or> encoding = BGR8 \<or> encoding = RGBA8 \<or> encoding = BGRA8
     \<or> encoding = RGB16 \<or> encoding = BGR16 \<or> encoding = RGBA16 \<or> encoding = BGRA16"

definition isMono :: "string \<Rightarrow> bool" where
  "isMono encoding \<longleftrightarrow> encoding = MONO8 \<or> encoding = MONO16"

definition isBayer :: "string \<Rightarrow> bool" where
  "isBayer encoding \<longleftrightarrow> encoding = BAYER_RGGB8 \<or> encoding = BAYER_BGGR8 \<or> encoding = BAYER_GBRG8
     \<or> encoding = BAYER_GRBG8 \<or> encoding = BAYER_RGGB16 \<or> encoding = BAYER_BGGR16
     \<or> encoding = BAYER_GBRG16 \<or> encoding = BAYER_GRBG16"

definition hasAlpha :: "string \<Rightarrow> bool" where
  "hasAlpha encoding \<longleftrightarrow> encoding = RGBA8 \<or> encoding = BGRA8 \<or> encoding = RGBA16 \<or> encoding = BGRA16"

section \<open>\<open>atoi\<close>\<close>

text \<open>
  The C library's conversion: white space, a sign, digits, and anything after them is ignored.
  \<open>None\<close>: the number is not representable as an \<open>int\<close>, which the standard leaves undefined.
\<close>

definition is_space :: "char \<Rightarrow> bool" where
  "is_space c \<longleftrightarrow> c = CHR '' '' \<or> (9 \<le> (of_char c :: nat) \<and> (of_char c :: nat) \<le> 13)"

definition is_digit :: "char \<Rightarrow> bool" where
  "is_digit c \<longleftrightarrow> 48 \<le> (of_char c :: nat) \<and> (of_char c :: nat) \<le> 57"

fun digits_value :: "int \<Rightarrow> string \<Rightarrow> int" where
  "digits_value acc [] = acc"
| "digits_value acc (c # cs) =
     (if is_digit c then digits_value (10 * acc + (of_char c - 48)) cs else acc)"

definition signed_value :: "string \<Rightarrow> int" where
  "signed_value s =
     (case s of [] \<Rightarrow> 0
      | c # cs \<Rightarrow> if c = CHR ''-'' then - digits_value 0 cs
                  else if c = CHR ''+'' then digits_value 0 cs else digits_value 0 s)"

definition atoi :: "string \<Rightarrow> int option" where
  "atoi s = (let n = signed_value (dropWhile is_space s) in
     if - (2 ^ 31) \<le> n \<and> n < 2 ^ 31 then Some n else None)"

section \<open>Channels and depth\<close>

type_synonym enc_result = "(unit, int) cpp_outcome"

text \<open>
  The two loops over the abstract prefixes; \<open>None\<close> means that the loop ends without a \<open>return\<close>.
\<close>

fun channels_loop :: "string list \<Rightarrow> string \<Rightarrow> enc_result option" where
  "channels_loop [] encoding = None"
| "channels_loop (prefix # ps) encoding =
     (if take (length prefix) encoding \<noteq> prefix then channels_loop ps encoding
      else if length encoding = length prefix then Some (Ok 1)
      else (case atoi (drop (length prefix) encoding) of
              None \<Rightarrow> Some Undefined
            | Some n_channel \<Rightarrow>
                if n_channel \<noteq> 0 then Some (Ok n_channel) else channels_loop ps encoding))"

definition prefix_depth :: "string \<Rightarrow> enc_result" where
  "prefix_depth prefix = (case atoi prefix of None \<Rightarrow> Undefined | Some n \<Rightarrow> Ok n)"

fun depth_loop :: "string list \<Rightarrow> string \<Rightarrow> enc_result option" where
  "depth_loop [] encoding = None"
| "depth_loop (prefix # ps) encoding =
     (if take (length prefix) encoding \<noteq> prefix then depth_loop ps encoding
      else if length encoding = length prefix then Some (prefix_depth prefix)
      else (case atoi (drop (length prefix) encoding) of
              None \<Rightarrow> Some Undefined
            | Some n_channel \<Rightarrow>
                if n_channel \<noteq> 0 then Some (prefix_depth prefix) else depth_loop ps encoding))"

definition unknown_encoding :: "string \<Rightarrow> enc_result" where
  "unknown_encoding encoding = Throw (Runtime_error (''Unknown encoding '' @ encoding)) ()"

definition numChannels :: "string \<Rightarrow> enc_result" where
  "numChannels encoding =
     (if encoding = MONO8 \<or> encoding = MONO16 then Ok 1
      else if encoding = BGR8 \<or> encoding = RGB8 \<or> encoding = BGR16 \<or> encoding = RGB16 then Ok 3
      else if encoding = BGRA8 \<or> encoding = RGBA8 \<or> encoding = BGRA16 \<or> encoding = RGBA16 then Ok 4
      else if encoding = BAYER_RGGB8 \<or> encoding = BAYER_BGGR8 \<or> encoding = BAYER_GBRG8
        \<or> encoding = BAYER_GRBG8 \<or> encoding = BAYER_RGGB16 \<or> encoding = BAYER_BGGR16
        \<or> encoding = BAYER_GBRG16 \<or> encoding = BAYER_GRBG16 then Ok 1
      else (case channels_loop ABSTRACT_ENCODING_PREFIXES encoding of
              Some r \<Rightarrow> r
            | None \<Rightarrow>
                if encoding = YUV422 \<or> encoding = YUV422_YUY2 \<or> encoding = NV21 \<or> encoding = NV24 then Ok 2
                else unknown_encoding encoding))"

definition bitDepth :: "string \<Rightarrow> enc_result" where
  "bitDepth encoding =
     (if encoding = MONO16 then Ok 16
      else if encoding = MONO8 \<or> encoding = BGR8 \<or> encoding = RGB8 \<or> encoding = BGRA8 \<or> encoding = RGBA8
        \<or> encoding = BAYER_RGGB8 \<or> encoding = BAYER_BGGR8 \<or> encoding = BAYER_GBRG8
        \<or> encoding = BAYER_GRBG8 then Ok 8
      else if encoding = MONO16 \<or> encoding = BGR16 \<or> encoding = RGB16 \<or> encoding = BGRA16
        \<or> encoding = RGBA16 \<or> encoding = BAYER_RGGB16 \<or> encoding = BAYER_BGGR16
        \<or> encoding = BAYER_GBRG16 \<or> encoding = BAYER_GRBG16 then Ok 16
      else (case depth_loop ABSTRACT_ENCODING_PREFIXES encoding of
              Some r \<Rightarrow> r
            | None \<Rightarrow>
                if encoding = YUV422 \<or> encoding = YUV422_YUY2 \<or> encoding = NV21 \<or> encoding = NV24 then Ok 8
                else unknown_encoding encoding))"

section \<open>Filling an image\<close>

text \<open>
  \<open>src\<close> is the memory behind \<open>data_arg\<close>; the length of the data is computed in 32 bits and the bytes
  are copied with \<open>memcpy\<close>, which must not read past the end of \<open>src\<close>.
\<close>

definition fillImage ::
  "Image \<Rightarrow> string \<Rightarrow> u32 \<Rightarrow> u32 \<Rightarrow> u32 \<Rightarrow> u8 list \<Rightarrow> (Image, bool \<times> Image) cpp_outcome" where
  "fillImage img encoding_arg rows_arg cols_arg step_arg src =
     (let img1 = img\<lparr>im_encoding := encoding_arg, im_height := rows_arg, im_width := cols_arg,
                         im_step := step_arg\<rparr>;
          st0 = unat (step_arg * rows_arg);
          img2 = img1\<lparr>im_data := vector_resize 0 st0 (im_data img1)\<rparr>
      in if length src < st0 then Undefined
         else Ok (True, img2\<lparr>im_data := patch (im_data img2) (take st0 src), im_is_bigendian := 0\<rparr>))"

definition clearImage :: "Image \<Rightarrow> Image" where
  "clearImage img = img\<lparr>im_data := vector_resize 0 0 (im_data img)\<rparr>"

section \<open>Properties\<close>

lemma is_digit_char: "d < 10 \<Longrightarrow> is_digit (char_of (48 + d :: nat)) \<and> (of_char (char_of (48 + d :: nat)) :: int) = 48 + int d"
proof -
  assume "d < 10"
  then have "(of_char (char_of (48 + d :: nat)) :: nat) = 48 + d" by (simp add: of_char_of)
  moreover from this have "(of_char (char_of (48 + d :: nat)) :: int) = int (48 + d)"
    by (metis of_nat_of_char)
  ultimately show ?thesis using \<open>d < 10\<close> by (simp add: is_digit_def)
qed

lemma digits_value_append:
  "list_all is_digit cs \<Longrightarrow> digits_value acc (cs @ ds) = digits_value (digits_value acc cs) ds"
  by (induction cs arbitrary: acc) simp_all

definition no_digit_first :: "string \<Rightarrow> bool" where
  "no_digit_first s = (case s of [] \<Rightarrow> True | c # cs \<Rightarrow> \<not> is_digit c)"

lemma digits_value_stop [simp]: "no_digit_first s \<Longrightarrow> digits_value acc s = acc"
  by (cases s) (simp_all add: no_digit_first_def)

lemma decimal_small: "n < 10 \<Longrightarrow> decimal n = [char_of (48 + n)]"
  by (subst decimal.simps) simp

lemma decimal_large: "\<not> n < 10 \<Longrightarrow> decimal n = decimal (n div 10) @ [char_of (48 + n mod 10)]"
  by (subst decimal.simps) simp

lemma decimal_digits: "list_all is_digit (decimal n) \<and> decimal n \<noteq> []"
proof (induction n rule: less_induct)
  case (less n)
  show ?case
  proof (cases "n < 10")
    case True
    then show ?thesis using is_digit_char [of n] by (simp add: decimal_small)
  next
    case False
    have "is_digit (char_of (48 + n mod 10))" using is_digit_char [of "n mod 10"] by simp
    moreover have "list_all is_digit (decimal (n div 10))" using less.IH [of "n div 10"] False by simp
    ultimately show ?thesis unfolding decimal_large [OF False] list_all_append by simp
  qed
qed

lemma digits_value_decimal: "digits_value acc (decimal n) = acc * 10 ^ length (decimal n) + int n"
proof (induction n arbitrary: acc rule: less_induct)
  case (less n)
  show ?case
  proof (cases "n < 10")
    case True
    then show ?thesis using is_digit_char [of n] by (simp add: decimal_small)
  next
    case False
    then have *: "decimal n = decimal (n div 10) @ [char_of (48 + n mod 10)]" by (rule decimal_large)
    have "digits_value acc (decimal n)
        = 10 * (acc * 10 ^ length (decimal (n div 10)) + int (n div 10)) + int (n mod 10)"
      using less.IH [of "n div 10" acc] False decimal_digits [of "n div 10"] is_digit_char [of "n mod 10"]
      by (simp add: * digits_value_append)
    also have "\<dots> = acc * 10 ^ length (decimal n) + (10 * int (n div 10) + int (n mod 10))"
      by (simp add: *)
    also have "10 * int (n div 10) + int (n mod 10) = int n" by presburger
    finally show ?thesis .
  qed
qed

lemma digit_not_special: "is_digit c \<Longrightarrow> \<not> is_space c \<and> c \<noteq> CHR ''-'' \<and> c \<noteq> CHR ''+''"
  by (auto simp: is_digit_def is_space_def)

lemma atoi_decimal:
  assumes "k < 2 ^ 31" and "no_digit_first junk"
  shows "atoi (decimal k @ junk) = Some (int k)"
proof -
  obtain c cs where d: "decimal k = c # cs" using decimal_digits [of k] by (cases "decimal k") auto
  with decimal_digits [of k] have c: "is_digit c" "list_all is_digit (decimal k)" by auto
  have "signed_value (dropWhile is_space (decimal k @ junk)) = digits_value 0 (decimal k @ junk)"
    using digit_not_special [OF c(1)] by (simp add: d signed_value_def)
  also have "\<dots> = int k" using c(2) assms(2) digits_value_decimal [of 0 k] by (simp add: digits_value_append)
  finally show ?thesis using assms(1) by (simp add: atoi_def Let_def)
qed

lemma loops_agree: "list_all (\<lambda>p. \<exists>n. prefix_depth p = Ok n) ps \<Longrightarrow>
    (channels_loop ps e = None \<longleftrightarrow> depth_loop ps e = None)
    \<and> (\<forall>r. (\<forall>n. r \<noteq> Ok n) \<longrightarrow> (channels_loop ps e = Some r \<longleftrightarrow> depth_loop ps e = Some r))"
  by (induction ps) (auto split: option.split)

lemma prefix_depths: "map prefix_depth ABSTRACT_ENCODING_PREFIXES = [Ok 8, Ok 8, Ok 16, Ok 16, Ok 32, Ok 32, Ok 64]"
  by (simp add: ABSTRACT_ENCODING_PREFIXES_def prefix_depth_def atoi_def signed_value_def is_space_def is_digit_def)

lemma prefix_depth_known: "list_all (\<lambda>p. \<exists>n. prefix_depth p = Ok n) ABSTRACT_ENCODING_PREFIXES"
  using prefix_depths by (simp add: ABSTRACT_ENCODING_PREFIXES_def)

text \<open>The named encodings are decided before the loop; the others go through it.\<close>

lemmas class_defs = isMono_def isColor_def isBayer_def

lemma named_Ok:
  assumes "isMono e \<or> isColor e \<or> isBayer e"
  shows "(\<exists>n. numChannels e = Ok n) \<and> (\<exists>n. bitDepth e = Ok n)"
  using assms unfolding class_defs
  by (elim disjE; simp only:) (simp_all add: numChannels_def bitDepth_def encoding_names)

lemma not_named:
  assumes "\<not> isMono e" and "\<not> isColor e" and "\<not> isBayer e"
  shows "numChannels e = (case channels_loop ABSTRACT_ENCODING_PREFIXES e of Some r \<Rightarrow> r | None \<Rightarrow>
           if e = YUV422 \<or> e = YUV422_YUY2 \<or> e = NV21 \<or> e = NV24 then Ok 2 else unknown_encoding e)"
    and "bitDepth e = (case depth_loop ABSTRACT_ENCODING_PREFIXES e of Some r \<Rightarrow> r | None \<Rightarrow>
           if e = YUV422 \<or> e = YUV422_YUY2 \<or> e = NV21 \<or> e = NV24 then Ok 8 else unknown_encoding e)"
  using assms by (simp_all add: class_defs numChannels_def bitDepth_def)

text \<open>
  Channels and depth are defined for the same encodings: \<open>numChannels\<close> throws or is undefined
  exactly when \<open>bitDepth\<close> does, and with the same exception.
\<close>

theorem channels_and_depth_agree:
  "(numChannels e = Throw x s \<longleftrightarrow> bitDepth e = Throw x s) \<and> (numChannels e = Undefined \<longleftrightarrow> bitDepth e = Undefined)"
proof (cases "isMono e \<or> isColor e \<or> isBayer e")
  case True
  then show ?thesis using named_Ok [of e] by auto
next
  case False
  then have eqs: "\<not> isMono e" "\<not> isColor e" "\<not> isBayer e" by simp_all
  note agree = loops_agree [OF prefix_depth_known, of e]
  show ?thesis
  proof (cases "channels_loop ABSTRACT_ENCODING_PREFIXES e")
    case None
    with agree have "depth_loop ABSTRACT_ENCODING_PREFIXES e = None" by blast
    with None show ?thesis by (simp add: not_named [OF eqs])
  next
    case (Some r)
    with agree obtain r' where r': "depth_loop ABSTRACT_ENCODING_PREFIXES e = Some r'"
      and same: "\<forall>q. (\<forall>n. q \<noteq> Ok n) \<longrightarrow> (r = q \<longleftrightarrow> r' = q)" by auto
    have "r = Throw x s \<longleftrightarrow> r' = Throw x s" and "r = Undefined \<longleftrightarrow> r' = Undefined" using same by simp_all
    with Some r' show ?thesis by (simp add: not_named [OF eqs])
  qed
qed

lemma named_starts_with_letter: "isMono e \<or> isColor e \<or> isBayer e \<Longrightarrow> e \<noteq> [] \<and> \<not> is_digit (hd e)"
  unfolding class_defs by (elim disjE; simp only:) (simp_all add: encoding_names is_digit_def)

lemma prefix_starts_with_digit: "list_all (\<lambda>p. p \<noteq> [] \<and> is_digit (hd p)) ABSTRACT_ENCODING_PREFIXES"
  by (simp add: ABSTRACT_ENCODING_PREFIXES_def is_digit_def)

lemma generic_not_named:
  assumes "p \<in> set ABSTRACT_ENCODING_PREFIXES"
  shows "\<not> isMono (p @ s)" and "\<not> isColor (p @ s)" and "\<not> isBayer (p @ s)"
  using named_starts_with_letter [of "p @ s"] prefix_starts_with_digit assms by (auto simp: list_all_iff)

lemma prefix_loops:
  assumes "p \<in> set ABSTRACT_ENCODING_PREFIXES" and "atoi t = Some k" and "k \<noteq> 0" and "t \<noteq> []"
  shows "channels_loop ABSTRACT_ENCODING_PREFIXES (p @ t) = Some (Ok k)
       \<and> depth_loop ABSTRACT_ENCODING_PREFIXES (p @ t) = Some (prefix_depth p)"
  using assms unfolding ABSTRACT_ENCODING_PREFIXES_def list.set
  by (elim insertE emptyE; simp only:) simp_all

text \<open>
  An abstract encoding is read back: a prefix followed by a positive number \<open>k\<close> in decimal has
  \<open>k\<close> channels, and its depth is the number the prefix starts with; whatever follows the digits is
  ignored, so \<open>8UC3x\<close> passes as \<open>8UC3\<close>.
\<close>

theorem generic_encoding_channels:
  assumes "i < 7" and "0 < k" and "k < 2 ^ 31" and "no_digit_first junk"
  shows "numChannels (ABSTRACT_ENCODING_PREFIXES ! i @ decimal k @ junk) = Ok (int k)
       \<and> bitDepth (ABSTRACT_ENCODING_PREFIXES ! i @ decimal k @ junk) = Ok ([8, 8, 16, 16, 32, 32, 64] ! i)"
proof -
  let ?p = "ABSTRACT_ENCODING_PREFIXES ! i"
  have len: "length ABSTRACT_ENCODING_PREFIXES = 7" by (simp add: ABSTRACT_ENCODING_PREFIXES_def)
  have p: "?p \<in> set ABSTRACT_ENCODING_PREFIXES" using assms(1) len by (metis nth_mem)
  have "prefix_depth ?p = map prefix_depth ABSTRACT_ENCODING_PREFIXES ! i" using assms(1) len by simp
  also have "\<dots> = Ok ([8, 8, 16, 16, 32, 32, 64] ! i)"
    using assms(1) unfolding prefix_depths by (auto simp: less_Suc_eq numeral_eq_Suc)
  finally have depth: "prefix_depth ?p = Ok ([8, 8, 16, 16, 32, 32, 64] ! i)" .
  have t: "decimal k @ junk \<noteq> []" using decimal_digits [of k] by simp
  show ?thesis
    using prefix_loops [OF p atoi_decimal [OF assms(3,4)] _ t] assms(2) depth
    by (simp add: not_named [OF generic_not_named [OF p]])
qed

lemma generic_encoding_channels_witness:
  "numChannels (ABSTRACT_ENCODING_PREFIXES ! 2 @ decimal 3 @ ''x'') = Ok (int 3)
   \<and> bitDepth (ABSTRACT_ENCODING_PREFIXES ! 2 @ decimal 3 @ ''x'') = Ok ([8, 8, 16, 16, 32, 32, 64] ! 2)"
  by (rule generic_encoding_channels) (simp_all add: no_digit_first_def is_digit_def)

text \<open>
  The predicates tell the named encodings apart and agree with the channels: an encoding is at
  most one of colour, mono and Bayer, only colour encodings have an alpha channel, colour encodings
  have three channels, four with alpha, and the others one.
\<close>

theorem encoding_classes:
  "\<not> (isColor e \<and> isMono e) \<and> \<not> (isColor e \<and> isBayer e) \<and> \<not> (isMono e \<and> isBayer e)
   \<and> \<not> (hasAlpha e \<and> \<not> isColor e)
   \<and> (if isColor e then numChannels e = Ok (if hasAlpha e then 4 else 3)
      else if isMono e \<or> isBayer e then numChannels e = Ok 1 else True)"
proof (cases "isMono e \<or> isColor e \<or> isBayer e")
  case True
  then show ?thesis unfolding class_defs hasAlpha_def
    by (elim disjE; simp only:) (simp_all add: numChannels_def encoding_names)
next
  case False
  then show ?thesis by (auto simp: isColor_def hasAlpha_def)
qed

text \<open>A sign and an unknown suffix are accepted as well, and the depth is reported all the same.\<close>

lemma negative_channels: "numChannels ''8UC-3'' = Ok (- 3) \<and> bitDepth ''8UC-3'' = Ok 8"
  by (simp add: numChannels_def bitDepth_def encoding_names ABSTRACT_ENCODING_PREFIXES_def prefix_depth_def
      atoi_def signed_value_def is_space_def is_digit_def)

text \<open>
  A filled image holds exactly \<open>step * rows\<close> bytes of the source if and only if that product fits
  into 32 bits; otherwise the data is shorter than the geometry it is stored with.
\<close>

theorem fill_image_data:
  assumes "fillImage img enc rows cols st src = Ok (ok, img')"
  shows "im_data img' = take (unat (st * rows)) src \<and> im_height img' = rows \<and> im_width img' = cols \<and> im_step img' = st
    \<and> im_encoding img' = enc \<and> im_header img' = im_header img
    \<and> (length (im_data img') = unat st * unat rows \<longleftrightarrow> unat st * unat rows < 2 ^ 32)"
proof -
  from assms have len: "unat (st * rows) \<le> length src"
    by (simp add: fillImage_def Let_def split: if_splits)
  with assms have img': "img' = img\<lparr>im_encoding := enc, im_height := rows, im_width := cols, im_step := st,
      im_data := take (unat (st * rows)) src, im_is_bigendian := 0\<rparr>"
    by (simp add: fillImage_def Let_def patch_full split: if_splits)
  have "unat (st * rows) = unat st * unat rows mod 2 ^ 32" by (simp add: unat_word_ariths)
  then have "unat (st * rows) = unat st * unat rows \<longleftrightarrow> unat st * unat rows < 2 ^ 32"
    by (metis mod_less mod_less_divisor zero_less_numeral zero_less_power)
  then show ?thesis using len by (simp add: img')
qed

end
