(* ===== verification/Point_Cloud.thy ===== *)
theory Point_Cloud
  imports Messages
begin

text \<open>
  \<open>sensor_msgs/point_field_conversion.hpp\<close> and \<open>sensor_msgs/point_cloud_conversion.hpp\<close>: reading a
  value of a point field, and the two conversions between \<open>PointCloud\<close> and \<open>PointCloud2\<close>.  \<open>size_t\<close>
  has 32 bits and the processor is little-endian.  An access outside a vector makes the outcome
  \<open>Undefined\<close>.
\<close>

section \<open>Values in a byte buffer\<close>

definition float_bytes :: "u32 \<Rightarrow> u8 list" where
  "float_bytes w = [ucast w, ucast (drop_bit 8 w), ucast (drop_bit 16 w), ucast (drop_bit 24 w)]"

fun bytes_value :: "u8 list \<Rightarrow> int" where
  "bytes_value [] = 0"
| "bytes_value (b # bs) = uint b + 256 * bytes_value bs"

text \<open>The \<open>n\<close> bytes at an address, \<open>None\<close> outside the buffer.\<close>

definition load_bytes :: "nat \<Rightarrow> u8 list \<Rightarrow> u32 \<Rightarrow> u8 list option" where
  "load_bytes n data i = (if unat i + n \<le> length data then Some (take n (drop (unat i) data)) else None)"

definition store_bytes :: "u8 list \<Rightarrow> u8 list \<Rightarrow> u32 \<Rightarrow> u8 list option" where
  "store_bytes bs data i =
     (if unat i + length bs \<le> length data
      then Some (take (unat i) data @ bs @ drop (unat i + length bs) data) else None)"

text \<open>The types a field can have, and the two mappings between them and the values of \<open>datatype\<close>.\<close>

datatype field_type = Int8 | Uint8 | Int16 | Uint16 | Int32 | Uint32 | Float | Double

definition pointFieldTypeAsType :: "u8 \<Rightarrow> field_type option" where
  "pointFieldTypeAsType datatype =
     (if datatype = PF_INT8 then Some Int8
      else if datatype = PF_UINT8 then Some Uint8
      else if datatype = PF_INT16 then Some Int16
      else if datatype = PF_UINT16 then Some Uint16
      else if datatype = PF_INT32 then Some Int32
      else if datatype = PF_UINT32 then Some Uint32
      else if datatype = PF_FLOAT32 then Some Float
      else if datatype = PF_FLOAT64 then Some Double
      else None)"

fun typeAsPointFieldType :: "field_type \<Rightarrow> u8" where
  "typeAsPointFieldType Int8 = PF_INT8"
| "typeAsPointFieldType Uint8 = PF_UINT8"
| "typeAsPointFieldType Int16 = PF_INT16"
| "typeAsPointFieldType Uint16 = PF_UINT16"
| "typeAsPointFieldType Int32 = PF_INT32"
| "typeAsPointFieldType Uint32 = PF_UINT32"
| "typeAsPointFieldType Float = PF_FLOAT32"
| "typeAsPointFieldType Double = PF_FLOAT64"

text \<open>\<open>sizeof\<close> of a type, and the bytes of an object as its value, before any cast.\<close>

fun type_bytes :: "field_type \<Rightarrow> nat" where
  "type_bytes Int8 = 1"
| "type_bytes Uint8 = 1"
| "type_bytes Int16 = 2"
| "type_bytes Uint16 = 2"
| "type_bytes Int32 = 4"
| "type_bytes Uint32 = 4"
| "type_bytes Float = 4"
| "type_bytes Double = 8"

datatype scalar = Integer int | Float32 u32 | Float64 u64

fun type_value :: "field_type \<Rightarrow> u8 list \<Rightarrow> scalar" where
  "type_value Int8 bs = Integer (sint (word_of_int (bytes_value bs) :: u8))"
| "type_value Uint8 bs = Integer (uint (word_of_int (bytes_value bs) :: u8))"
| "type_value Int16 bs = Integer (sint (word_of_int (bytes_value bs) :: u16))"
| "type_value Uint16 bs = Integer (uint (word_of_int (bytes_value bs) :: u16))"
| "type_value Int32 bs = Integer (sint (word_of_int (bytes_value bs) :: u32))"
| "type_value Uint32 bs = Integer (uint (word_of_int (bytes_value bs) :: u32))"
| "type_value Float bs = Float32 (word_of_int (bytes_value bs))"
| "type_value Double bs = Float64 (word_of_int (bytes_value bs))"

text \<open>The version with the field type as template argument; \<open>conv\<close> is \<open>static_cast<T>\<close>.\<close>

definition readPointCloud2BufferValue_as :: "(scalar \<Rightarrow> 't) \<Rightarrow> field_type \<Rightarrow> u8 list \<Rightarrow> u32 \<Rightarrow> 't option" where
  "readPointCloud2BufferValue_as conv t data ptr =
     map_option (\<lambda>bs. conv (type_value t bs)) (load_bytes (type_bytes t) data ptr)"

text \<open>
  The version that switches on the datatype.  \<open>zero\<close> is \<open>T()\<close>, which is returned for an unknown
  datatype; the pointer must point into the data in any case.
\<close>

definition readPointCloud2BufferValue ::
  "(scalar \<Rightarrow> 't) \<Rightarrow> 't \<Rightarrow> u8 list \<Rightarrow> u32 \<Rightarrow> u8 \<Rightarrow> 't option" where
  "readPointCloud2BufferValue conv zero data ptr datatype =
     (if \<not> unat ptr < length data then None
      else case pointFieldTypeAsType datatype of
             None \<Rightarrow> Some zero
           | Some t \<Rightarrow> readPointCloud2BufferValue_as conv t data ptr)"

text \<open>The two mappings are inverse to each other.\<close>

lemma field_types_inverse [simp]: "pointFieldTypeAsType (typeAsPointFieldType t) = Some t"
  by (cases t) (simp_all add: pointFieldTypeAsType_def point_field_types)

lemma typeAsPointFieldType_eq: "pointFieldTypeAsType datatype = Some t \<longleftrightarrow> datatype = typeAsPointFieldType t"
proof
  assume "pointFieldTypeAsType datatype = Some t"
  then show "datatype = typeAsPointFieldType t"
    by (auto simp: pointFieldTypeAsType_def split: if_splits)
qed simp

section \<open>Conversion to \<open>PointCloud2\<close>\<close>

definition new_field :: PointField where
  "new_field = \<lparr>pf_name = [], pf_offset = 0, pf_datatype = 0, pf_count = 0\<rparr>"

text \<open>The loop over the fields that gives each its offset; the last value of \<open>offset\<close> is returned too.\<close>

fun set_layout :: "u32 \<Rightarrow> PointField list \<Rightarrow> PointField list \<times> u32" where
  "set_layout offset [] = ([], offset)"
| "set_layout offset (f # fs) =
     (let (fs', end_offset) = set_layout (offset + 4) fs
      in (f\<lparr>pf_offset := offset, pf_datatype := PF_FLOAT32, pf_count := 1\<rparr> # fs', end_offset))"

definition cloud_fields :: "ChannelFloat32 list \<Rightarrow> PointField list \<Rightarrow> PointField list \<times> u32" where
  "cloud_fields channels flds =
     (let f0 = vector_resize new_field (3 + length channels) flds;
          f1 = f0[0 := (f0 ! 0)\<lparr>pf_name := ''x''\<rparr>, 1 := (f0 ! 1)\<lparr>pf_name := ''y''\<rparr>,
                  2 := (f0 ! 2)\<lparr>pf_name := ''z''\<rparr>];
          (f2, offset) = set_layout 0 f1
      in (take 3 f2 @ map2 (\<lambda>f c. f\<lparr>pf_name := ch_name c\<rparr>) (drop 3 f2) channels, offset))"

text \<open>One pass of the loop over the points: the coordinates, then the channels of the right length.\<close>

fun store_channels ::
  "nat \<Rightarrow> nat \<Rightarrow> u32 \<Rightarrow> (PointField \<times> ChannelFloat32) list \<Rightarrow> u8 list \<Rightarrow> u8 list option" where
  "store_channels npoints cp base [] data = Some data"
| "store_channels npoints cp base ((f, c) # fcs) data =
     (if length (ch_values c) = npoints
      then Option.bind (store_bytes (float_bytes (ch_values c ! cp)) data (base + pf_offset f))
             (store_channels npoints cp base fcs)
      else store_channels npoints cp base fcs data)"

definition store_point ::
  "PointField list \<Rightarrow> ChannelFloat32 list \<Rightarrow> nat \<Rightarrow> u32 \<Rightarrow> nat \<Rightarrow> Point32 \<Rightarrow> u8 list \<Rightarrow> u8 list option" where
  "store_point flds channels npoints point_step cp p data =
     (let base = of_nat cp * point_step in
      Option.bind (store_bytes (float_bytes (p_x p)) data (base + pf_offset (flds ! 0))) (\<lambda>data.
      Option.bind (store_bytes (float_bytes (p_y p)) data (base + pf_offset (flds ! 1))) (\<lambda>data.
      Option.bind (store_bytes (float_bytes (p_z p)) data (base + pf_offset (flds ! 2))) (\<lambda>data.
      store_channels npoints cp base (zip (drop 3 flds) channels) data))))"

fun store_points ::
  "PointField list \<Rightarrow> ChannelFloat32 list \<Rightarrow> nat \<Rightarrow> u32 \<Rightarrow> nat \<Rightarrow> Point32 list \<Rightarrow> u8 list \<Rightarrow> u8 list option" where
  "store_points flds channels npoints point_step cp [] data = Some data"
| "store_points flds channels npoints point_step cp (p # ps) data =
     Option.bind (store_point flds channels npoints point_step cp p data)
       (store_points flds channels npoints point_step (Suc cp) ps)"

definition convertPointCloudToPointCloud2 ::
  "PointCloud \<Rightarrow> PointCloud2 \<Rightarrow> (PointCloud2, bool \<times> PointCloud2) cpp_outcome" where
  "convertPointCloudToPointCloud2 input output =
     (let n = length (pc_points input);
          (flds, offset) = cloud_fields (pc_channels input) (pc2_fields output);
          width = of_nat n;
          out = output\<lparr>pc2_header := pc_header input, pc2_width := width, pc2_height := 1,
                       pc2_fields := flds, pc2_point_step := offset, pc2_row_step := offset * width,
                       pc2_data := vector_resize 0 (unat (of_nat n * offset)) (pc2_data output),
                       pc2_is_bigendian := False, pc2_is_dense := False\<rparr>
      in case store_points flds (pc_channels input) n offset 0 (pc_points input) (pc2_data out) of
           None \<Rightarrow> Undefined
         | Some data \<Rightarrow> Ok (True, out\<lparr>pc2_data := data\<rparr>))"

section \<open>Conversion to \<open>PointCloud\<close>\<close>

fun field_index :: "int \<Rightarrow> PointField list \<Rightarrow> string \<Rightarrow> int" where
  "field_index d [] field_name = - 1"
| "field_index d (f # fs) field_name = (if pf_name f = field_name then d else field_index (d + 1) fs field_name)"

definition getPointCloud2FieldIndex :: "PointCloud2 \<Rightarrow> string \<Rightarrow> int" where
  "getPointCloud2FieldIndex cloud field_name = field_index 0 (pc2_fields cloud) field_name"

definition new_point :: Point32 where
  "new_point = \<lparr>p_x = 0, p_y = 0, p_z = 0\<rparr>"

definition new_channel :: ChannelFloat32 where
  "new_channel = \<lparr>ch_name = [], ch_values = []\<rparr>"

text \<open>The test of both loops over the fields: the field has the offset of a coordinate.\<close>

definition is_coordinate :: "u32 \<Rightarrow> u32 \<Rightarrow> u32 \<Rightarrow> PointField \<Rightarrow> bool" where
  "is_coordinate x_offset y_offset z_offset f \<longleftrightarrow>
     pf_offset f = x_offset \<or> pf_offset f = y_offset \<or> pf_offset f = z_offset"

text \<open>The loop that converts fields to channels; \<open>None\<close> when \<open>cur_c\<close> leaves the channels.\<close>

fun name_channels ::
  "(PointField \<Rightarrow> bool) \<Rightarrow> nat \<Rightarrow> PointField list \<Rightarrow> nat \<Rightarrow> ChannelFloat32 list \<Rightarrow> ChannelFloat32 list option" where
  "name_channels coord n [] cur_c channels = Some channels"
| "name_channels coord n (f # fs) cur_c channels =
     (if coord f then name_channels coord n fs cur_c channels
      else if \<not> cur_c < length channels then None
      else name_channels coord n fs (Suc cur_c)
             (channels[cur_c := \<lparr>ch_name = pf_name f,
                                ch_values = vector_resize 0 n (ch_values (channels ! cur_c))\<rparr>]))"

text \<open>The inner loop that copies the rest of the data of point \<open>cp\<close>; \<open>rd\<close> reads at an address.\<close>

fun copy_fields ::
  "(PointField \<Rightarrow> bool) \<Rightarrow> (u32 \<Rightarrow> u8 \<Rightarrow> u32 option) \<Rightarrow> nat \<Rightarrow> u32 \<Rightarrow> PointField list \<Rightarrow> nat
    \<Rightarrow> ChannelFloat32 list \<Rightarrow> ChannelFloat32 list option" where
  "copy_fields coord rd cp base [] cur_c channels = Some channels"
| "copy_fields coord rd cp base (f # fs) cur_c channels =
     (if coord f then copy_fields coord rd cp base fs cur_c channels
      else if \<not> (cur_c < length channels \<and> cp < length (ch_values (channels ! cur_c))) then None
      else case rd (base + pf_offset f) (pf_datatype f) of
             None \<Rightarrow> None
           | Some v \<Rightarrow> copy_fields coord rd cp base fs (Suc cur_c)
               (channels[cur_c := (channels ! cur_c)\<lparr>ch_values := (ch_values (channels ! cur_c))[cp := v]\<rparr>]))"

definition copy_point ::
  "PointField \<Rightarrow> PointField \<Rightarrow> PointField \<Rightarrow> (u32 \<Rightarrow> u8 \<Rightarrow> u32 option) \<Rightarrow> u32 \<Rightarrow> PointField list \<Rightarrow> nat
    \<Rightarrow> Point32 list \<times> ChannelFloat32 list \<Rightarrow> (Point32 list \<times> ChannelFloat32 list) option" where
  "copy_point fx fy fz rd point_step flds cp out =
     (let base = of_nat cp * point_step in
      Option.bind (rd (base + pf_offset fx) (pf_datatype fx)) (\<lambda>x.
      Option.bind (rd (base + pf_offset fy) (pf_datatype fy)) (\<lambda>y.
      Option.bind (rd (base + pf_offset fz) (pf_datatype fz)) (\<lambda>z.
      Option.bind (copy_fields (is_coordinate (pf_offset fx) (pf_offset fy) (pf_offset fz)) rd cp base
                     flds 0 (snd out)) (\<lambda>channels.
      Some ((fst out)[cp := \<lparr>p_x = x, p_y = y, p_z = z\<rparr>], channels))))))"

fun copy_points ::
  "(nat \<Rightarrow> Point32 list \<times> ChannelFloat32 list \<Rightarrow> (Point32 list \<times> ChannelFloat32 list) option)
    \<Rightarrow> nat list \<Rightarrow> Point32 list \<times> ChannelFloat32 list \<Rightarrow> (Point32 list \<times> ChannelFloat32 list) option" where
  "copy_points body [] out = Some out"
| "copy_points body (cp # cps) out = Option.bind (body cp out) (copy_points body cps)"

text \<open>
  \<open>conv\<close> is the cast of a value to \<open>float\<close>.  Fewer than three flds make the size of the channels
  wrap around to a length no vector can have.
\<close>

definition convertPointCloud2ToPointCloud ::
  "(scalar \<Rightarrow> u32) \<Rightarrow> PointCloud2 \<Rightarrow> PointCloud \<Rightarrow> (PointCloud, bool \<times> PointCloud) cpp_outcome" where
  "convertPointCloud2ToPointCloud conv input output =
     (let flds = pc2_fields input;
          n = unat (pc2_width input * pc2_height input);
          out1 = output\<lparr>pc_header := pc2_header input, pc_points := vector_resize new_point n (pc_points output)\<rparr>
      in if length flds < 3 then Throw Length_error out1
         else
           let channels = vector_resize new_channel (length flds - 3) (pc_channels output);
               out2 = out1\<lparr>pc_channels := channels\<rparr>;
               x_idx = getPointCloud2FieldIndex input ''x'';
               y_idx = getPointCloud2FieldIndex input ''y'';
               z_idx = getPointCloud2FieldIndex input ''z''
           in if x_idx = - 1 \<or> y_idx = - 1 \<or> z_idx = - 1 then Ok (False, out2)
              else
                let fx = flds ! nat x_idx; fy = flds ! nat y_idx; fz = flds ! nat z_idx;
                    coord = is_coordinate (pf_offset fx) (pf_offset fy) (pf_offset fz);
                    rd = readPointCloud2BufferValue conv 0 (pc2_data input)
                in case Option.bind (name_channels coord n flds 0 channels)
                          (\<lambda>cs. copy_points (copy_point fx fy fz rd (pc2_point_step input) flds) [0..<n]
                                  (pc_points out2, cs)) of
                     None \<Rightarrow> Undefined
                   | Some (ps, cs) \<Rightarrow> Ok (True, out2\<lparr>pc_points := ps, pc_channels := cs\<rparr>))"

end
