(* ===== verification/Point_Cloud_Layout.thy ===== *)
theory Point_Cloud_Layout
  imports Point_Cloud
begin

text \<open>
  The layout \<open>convertPointCloudToPointCloud2\<close> produces.  The interface \<open>fixed_width\<close> is what the
  reader relies on: records of one width, written one after the other, are found at multiples of that
  width.  The floats of a point and the rows of a cloud are its two instances.
\<close>

locale fixed_width =
  fixes enc :: "'a \<Rightarrow> u8 list" and ok :: "'a \<Rightarrow> bool" and width :: nat
  assumes length_enc: "ok a \<Longrightarrow> length (enc a) = width"
begin

lemma length_all: "list_all ok as \<Longrightarrow> length (concat (map enc as)) = width * length as"
  by (induction as) (simp_all add: length_enc)

lemma slot:
  "\<lbrakk> list_all ok as; i < length as \<rbrakk> \<Longrightarrow> take width (drop (width * i) (concat (map enc as))) = enc (as ! i)"
proof (induction as arbitrary: i)
  case Nil
  then show ?case by simp
next
  case (Cons a as)
  then show ?case by (cases i) (simp_all add: length_enc)
qed

end

lemma length_float_bytes [simp]: "length (float_bytes w) = 4"
  by (simp add: float_bytes_def)

interpretation floats: fixed_width float_bytes "\<lambda>_. True" 4
  by unfold_locales simp

interpretation rows: fixed_width "\<lambda>row. concat (map float_bytes row)" "\<lambda>row. length row = k" "4 * k" for k
  using floats.length_all by unfold_locales (simp add: list_all_iff)

lemma uint_byte: "uint (ucast (drop_bit k (w :: u32)) :: u8) = uint w div 2 ^ k mod 256"
proof -
  have "uint (drop_bit k w) = uint w div 2 ^ k" by (metis drop_bit_eq_div unsigned_drop_bit_eq unsigned_take_bit_eq take_bit_length_eq)
  moreover have "uint (ucast v :: u8) = uint v mod 256" for v :: u32
    by (simp add: unsigned_ucast_eq take_bit_eq_mod)
  ultimately show ?thesis by simp
qed

lemma four_bytes:
  fixes x :: int
  assumes "0 \<le> x" and "x < 2 ^ 32"
  shows "x mod 256 + 256 * (x div 2 ^ 8 mod 256 + 256 * (x div 2 ^ 16 mod 256 + 256 * (x div 2 ^ 24 mod 256))) = x"
proof -
  define a b c where "a = x div 256" and "b = a div 256" and "c = b div 256"
  define r s t where "r = x mod 256" and "s = a mod 256" and "t = b mod 256"
  have eqs: "r + 256 * a = x" "s + 256 * b = a" "t + 256 * c = b"
    by (simp_all add: a_def b_def c_def r_def s_def t_def)
  have "x div 2 ^ 8 = a" "x div 2 ^ 16 = b" "x div 2 ^ 24 = c"
    by (simp_all add: a_def b_def c_def zdiv_zmult2_eq [symmetric])
  moreover have "c mod 256 = c" using assms by (simp add: a_def b_def c_def zdiv_zmult2_eq [symmetric])
  ultimately have "x mod 256 + 256 * (x div 2 ^ 8 mod 256 + 256 * (x div 2 ^ 16 mod 256 + 256 * (x div 2 ^ 24 mod 256)))
      = r + 256 * (s + 256 * (t + 256 * c))"
    by (simp only: r_def s_def t_def)
  also have "\<dots> = x" by (simp only: eqs)
  finally show ?thesis .
qed

lemma bytes_value_float_bytes [simp]: "bytes_value (float_bytes w) = uint w"
proof -
  have low: "uint (ucast w :: u8) = uint w mod 256" using uint_byte [of 0 w] by simp
  have "bytes_value (float_bytes w) = uint w mod 256 + 256 * (uint w div 2 ^ 8 mod 256
     + 256 * (uint w div 2 ^ 16 mod 256 + 256 * (uint w div 2 ^ 24 mod 256)))"
    by (simp only: float_bytes_def bytes_value.simps uint_byte low mult_zero_right add_0_right)
  also have "\<dots> = uint w" by (rule four_bytes) (use uint_lt2p [of w] in simp_all)
  finally show ?thesis .
qed

section \<open>The fields\<close>

definition float_field :: "string \<Rightarrow> nat \<Rightarrow> PointField" where
  "float_field nm k = \<lparr>pf_name = nm, pf_offset = of_nat (4 * k), pf_datatype = PF_FLOAT32, pf_count = 1\<rparr>"

lemma pf_name_float_field [simp]: "pf_name (float_field nm k) = nm"
  by (simp add: float_field_def)

definition field_names :: "ChannelFloat32 list \<Rightarrow> string list" where
  "field_names channels = [''x'', ''y'', ''z''] @ map ch_name channels"

definition float_fields :: "ChannelFloat32 list \<Rightarrow> PointField list" where
  "float_fields channels = map2 float_field (field_names channels) [0..<3 + length channels]"

lemma length_field_names [simp]: "length (field_names channels) = 3 + length channels"
  by (simp add: field_names_def)

lemma length_float_fields [simp]: "length (float_fields channels) = 3 + length channels"
  by (simp add: float_fields_def)

lemma nth_field_names [simp]:
  "field_names channels ! 0 = ''x''" "field_names channels ! Suc 0 = ''y''" "field_names channels ! 2 = ''z''"
  by (simp_all add: field_names_def)

lemma nth_field_names_channel [simp]:
  assumes "3 \<le> i" and "i < 3 + length channels"
  shows "field_names channels ! i = ch_name (channels ! (i - 3))"
proof -
  have "field_names channels ! i = map ch_name channels ! (i - length [''x'', ''y'', ''z''])"
    unfolding field_names_def using assms(1) by (subst nth_append) simp
  then show ?thesis using assms by (simp add: numeral_3_eq_3)
qed

lemma nth_float_fields:
  "k < 3 + length channels \<Longrightarrow> float_fields channels ! k = float_field (field_names channels ! k) k"
  by (simp add: float_fields_def)

lemma set_layout_eq:
  "set_layout offset fs =
     (map2 (\<lambda>f k. f\<lparr>pf_offset := offset + of_nat (4 * k), pf_datatype := PF_FLOAT32, pf_count := 1\<rparr>)
        fs [0..<length fs], offset + of_nat (4 * length fs))"
proof (induction fs arbitrary: offset)
  case Nil
  then show ?case by simp
next
  case (Cons f fs)
  have "map2 g fs [Suc 0..<Suc (length fs)] = map2 (\<lambda>f k. g f (Suc k)) fs [0..<length fs]" for g :: "PointField \<Rightarrow> nat \<Rightarrow> PointField"
    by (rule nth_equalityI) (simp_all del: upt_Suc)
  then show ?case by (simp add: Cons.IH upt_conv_Cons algebra_simps del: upt_Suc)
qed

lemma cloud_fields_eq: "cloud_fields channels flds = (float_fields channels, of_nat (4 * (3 + length channels)))"
proof -
  let ?m = "3 + length channels"
  define f1 where "f1 = (let f0 = vector_resize new_field ?m flds in
    f0[0 := (f0 ! 0)\<lparr>pf_name := ''x''\<rparr>, 1 := (f0 ! 1)\<lparr>pf_name := ''y''\<rparr>, 2 := (f0 ! 2)\<lparr>pf_name := ''z''\<rparr>])"
  have len: "length f1 = ?m" by (simp add: f1_def Let_def)
  have names: "pf_name (f1 ! 0) = ''x''" "pf_name (f1 ! 1) = ''y''" "pf_name (f1 ! 2) = ''z''"
    by (simp_all add: f1_def Let_def)
  let ?f2 = "map2 (\<lambda>f k. f\<lparr>pf_offset := 0 + of_nat (4 * k), pf_datatype := PF_FLOAT32, pf_count := 1\<rparr>) f1 [0..<?m]"
  have "take 3 ?f2 @ map2 (\<lambda>f c. f\<lparr>pf_name := ch_name c\<rparr>) (drop 3 ?f2) channels = float_fields channels"
  proof (rule nth_equalityI)
    fix i assume "i < length (take 3 ?f2 @ map2 (\<lambda>f c. f\<lparr>pf_name := ch_name c\<rparr>) (drop 3 ?f2) channels)"
    then have i: "i < ?m" using len by simp
    have "i = 0 \<or> i = 1 \<or> i = 2 \<or> 3 \<le> i" by arith
    then show "(take 3 ?f2 @ map2 (\<lambda>f c. f\<lparr>pf_name := ch_name c\<rparr>) (drop 3 ?f2) channels) ! i = float_fields channels ! i"
      using i len names
      by (elim disjE) (simp_all add: nth_append nth_float_fields float_field_def)
  qed (simp add: len)
  moreover have "cloud_fields channels flds = (let (f2, offset) = set_layout 0 f1
      in (take 3 f2 @ map2 (\<lambda>f c. f\<lparr>pf_name := ch_name c\<rparr>) (drop 3 f2) channels, offset))"
    unfolding cloud_fields_def f1_def Let_def ..
  ultimately show ?thesis by (simp add: set_layout_eq len)
qed

section \<open>The data\<close>

lemma store_bytes_append:
  "\<lbrakk> unat i = length pre; length bs \<le> length rest \<rbrakk>
     \<Longrightarrow> store_bytes bs (pre @ rest) i = Some (pre @ bs @ drop (length bs) rest)"
  by (simp add: store_bytes_def)

text \<open>Channels of the length of the cloud.\<close>

definition full_channels :: "nat \<Rightarrow> ChannelFloat32 list \<Rightarrow> bool" where
  "full_channels n channels \<longleftrightarrow> list_all (\<lambda>c. length (ch_values c) = n) channels"

text \<open>The floats of one point, in the order of the fields.\<close>

definition point_row :: "ChannelFloat32 list \<Rightarrow> nat \<Rightarrow> Point32 \<Rightarrow> u32 list" where
  "point_row channels cp p = [p_x p, p_y p, p_z p] @ map (\<lambda>c. ch_values c ! cp) channels"

definition row_bytes :: "u32 list \<Rightarrow> u8 list" where
  "row_bytes row = concat (map float_bytes row)"

lemma length_point_row [simp]: "length (point_row channels cp p) = 3 + length channels"
  by (simp add: point_row_def)

lemma length_row_bytes [simp]: "length (row_bytes row) = 4 * length row"
  using floats.length_all [of row] by (simp add: row_bytes_def list_all_iff)

lemma row_bytes_simps [simp]:
  "row_bytes [] = []" "row_bytes (w # ws) = float_bytes w @ row_bytes ws"
  by (simp_all add: row_bytes_def)

lemma row_bytes_append: "row_bytes (xs @ ys) = row_bytes xs @ row_bytes ys"
  by (simp add: row_bytes_def)

lemma unat_of_nat_u32: "n < 2 ^ 32 \<Longrightarrow> unat (of_nat n :: u32) = n"
  by (simp add: unat_of_nat)

lemma float_field_offset:
  assumes "B + 4 * k < 2 ^ 32"
  shows "unat (of_nat B + pf_offset (float_field nm k) :: u32) = B + 4 * k"
proof -
  have "of_nat B + pf_offset (float_field nm k) = (of_nat (B + 4 * k) :: u32)" by (simp add: float_field_def)
  then show ?thesis using assms by (simp only: unat_of_nat_u32)
qed

lemma store_channels_row:
  assumes "full_channels n channels" and "cp < n" and "length pre = B + 4 * d"
    and "4 * length channels \<le> length rest" and "length pre + length rest < 2 ^ 32" and "length names = length channels"
  shows "store_channels n cp (of_nat B) (zip (map2 float_field names [d..<d + length channels]) channels) (pre @ rest)
       = Some (pre @ row_bytes (map (\<lambda>c. ch_values c ! cp) channels) @ drop (4 * length channels) rest)"
  using assms
proof (induction channels arbitrary: pre d rest names)
  case Nil
  then show ?case by simp
next
  case (Cons c channels)
  obtain nm ns where names: "names = nm # ns" using Cons.prems(6) by (cases names) auto
  let ?v = "float_bytes (ch_values c ! cp)"
  have "unat (of_nat B + pf_offset (float_field nm d) :: u32) = length pre"
    using Cons.prems(3-5) by (subst float_field_offset) simp_all
  then have st: "store_bytes ?v (pre @ rest) (of_nat B + pf_offset (float_field nm d))
      = Some ((pre @ ?v) @ drop 4 rest)"
    using Cons.prems(4) by (subst store_bytes_append) simp_all
  have "store_channels n cp (of_nat B) (zip (map2 float_field ns [Suc d..<Suc d + length channels]) channels)
      ((pre @ ?v) @ drop 4 rest)
    = Some ((pre @ ?v) @ row_bytes (map (\<lambda>c. ch_values c ! cp) channels) @ drop (4 * length channels) (drop 4 rest))"
    by (rule Cons.IH) (use Cons.prems names in \<open>simp_all add: full_channels_def\<close>)
  then show ?case using Cons.prems(1) st
    by (simp add: names full_channels_def upt_conv_Cons del: upt_Suc) (simp add: add.commute)
qed

lemma drop3_float_fields:
  "drop 3 (float_fields channels) = map2 float_field (map ch_name channels) [3..<3 + length channels]"
  by (rule nth_equalityI) (simp_all add: nth_float_fields)

lemma store_point_row:
  assumes "full_channels n channels" and "cp < n" and "length pre = 4 * (3 + length channels) * cp"
    and "4 * (3 + length channels) \<le> length rest" and "length pre + length rest < 2 ^ 32"
  shows "store_point (float_fields channels) channels n (of_nat (4 * (3 + length channels))) cp p (pre @ rest)
       = Some (pre @ row_bytes (point_row channels cp p) @ drop (4 * (3 + length channels)) rest)"
proof -
  let ?m = "3 + length channels" and ?B = "4 * (3 + length channels) * cp"
  have base: "of_nat cp * of_nat (4 * ?m) = (of_nat ?B :: u32)" by (simp add: algebra_simps)
  have field: "float_fields channels ! 0 = float_field ''x'' 0" "float_fields channels ! Suc 0 = float_field ''y'' 1"
    "float_fields channels ! 2 = float_field ''z'' 2"
    by (simp_all add: nth_float_fields)
  have off: "unat (of_nat ?B + pf_offset (float_field nm k) :: u32) = ?B + 4 * k" if "k < 3" for nm k
    using that assms(3-5) by (intro float_field_offset) simp
  have step: "store_bytes (float_bytes v) ((pre @ row_bytes vs) @ drop (4 * k) rest) (of_nat ?B + pf_offset (float_field nm k))
      = Some ((pre @ row_bytes (vs @ [v])) @ drop (4 * Suc k) rest)" if "k < 3" and "length vs = k" for v vs k nm
    using that assms(3,4) off [OF that(1)] by (subst store_bytes_append) (simp_all add: row_bytes_append)
  have chans: "store_channels n cp (of_nat ?B) (zip (drop 3 (float_fields channels)) channels)
      ((pre @ row_bytes [p_x p, p_y p, p_z p]) @ drop 12 rest)
    = Some ((pre @ row_bytes [p_x p, p_y p, p_z p]) @ row_bytes (map (\<lambda>c. ch_values c ! cp) channels)
        @ drop (4 * length channels) (drop 12 rest))"
    unfolding drop3_float_fields by (rule store_channels_row) (use assms in simp_all)
  show ?thesis
    using step [of 0 "[]" "p_x p" "''x''"] step [of 1 "[p_x p]" "p_y p" "''y''"]
      step [of 2 "[p_x p, p_y p]" "p_z p" "''z''"] chans
    unfolding store_point_def Let_def base
    by (simp add: field point_row_def add.commute)
qed

lemma store_points_rows:
  assumes "full_channels n channels" and "cp + length ps = n" and "length pre = 4 * (3 + length channels) * cp"
    and "length rest = 4 * (3 + length channels) * length ps" and "length pre + length rest < 2 ^ 32"
  shows "store_points (float_fields channels) channels n (of_nat (4 * (3 + length channels))) cp ps (pre @ rest)
       = Some (pre @ concat (map2 (\<lambda>cp p. row_bytes (point_row channels cp p)) [cp..<n] ps))"
  using assms
proof (induction ps arbitrary: cp pre rest)
  case Nil
  then show ?case by simp
next
  case (Cons p ps)
  let ?m = "3 + length channels"
  let ?row = "row_bytes (point_row channels cp p)"
  have one: "store_point (float_fields channels) channels n (of_nat (4 * ?m)) cp p (pre @ rest)
      = Some ((pre @ ?row) @ drop (4 * ?m) rest)"
    using store_point_row [of n channels cp pre rest p] Cons.prems by simp
  have "store_points (float_fields channels) channels n (of_nat (4 * ?m)) (Suc cp) ps ((pre @ ?row) @ drop (4 * ?m) rest)
      = Some ((pre @ ?row) @ concat (map2 (\<lambda>cp p. row_bytes (point_row channels cp p)) [Suc cp..<n] ps))"
    by (rule Cons.IH) (use Cons.prems in \<open>simp_all add: algebra_simps\<close>)
  moreover have "[cp..<n] = cp # [Suc cp..<n]" using Cons.prems(2) by (simp add: upt_conv_Cons)
  ultimately show ?case using one by simp
qed

text \<open>What the conversion produces, written down directly.\<close>

definition cloud2_of :: "PointCloud \<Rightarrow> PointCloud2" where
  "cloud2_of pc =
     (let n = length (pc_points pc); m = 3 + length (pc_channels pc)
      in \<lparr>pc2_header = pc_header pc, pc2_height = 1, pc2_width = of_nat n,
          pc2_fields = float_fields (pc_channels pc), pc2_is_bigendian = False,
          pc2_point_step = of_nat (4 * m), pc2_row_step = of_nat (4 * m) * of_nat n,
          pc2_data = concat (map2 (\<lambda>cp p. row_bytes (point_row (pc_channels pc) cp p)) [0..<n] (pc_points pc)),
          pc2_is_dense = False\<rparr>)"

definition fits_size_t :: "PointCloud \<Rightarrow> bool" where
  "fits_size_t pc \<longleftrightarrow> 4 * (3 + length (pc_channels pc)) < 2 ^ 32
     \<and> 4 * (3 + length (pc_channels pc)) * length (pc_points pc) < 2 ^ 32"

lemma conversion_layout_lemma:
  assumes "full_channels (length (pc_points pc)) (pc_channels pc)" and "fits_size_t pc"
  shows "convertPointCloudToPointCloud2 pc out = Ok (True, cloud2_of pc)"
proof -
  let ?n = "length (pc_points pc)" and ?m = "3 + length (pc_channels pc)"
  have "unat (of_nat ?n * of_nat (4 * ?m) :: u32) = unat (of_nat (4 * ?m * ?n) :: u32)" by (simp add: algebra_simps)
  also have "\<dots> = 4 * ?m * ?n" using assms(2) by (intro unat_of_nat_u32) (simp add: fits_size_t_def)
  finally have size: "unat (of_nat ?n * of_nat (4 * ?m) :: u32) = 4 * ?m * ?n" .
  show ?thesis
    using store_points_rows [OF assms(1), of 0 "pc_points pc" "[]"
        "vector_resize 0 (unat (of_nat ?n * of_nat (4 * ?m) :: u32)) (pc2_data out)"] assms(2) size
    by (simp add: convertPointCloudToPointCloud2_def cloud_fields_eq cloud2_of_def Let_def fits_size_t_def)
qed

text \<open>
  The conversion to \<open>PointCloud2\<close> stays inside its buffer and produces the packed layout: one
  row per point, the coordinates and then the value of every channel, four bytes each and little-endian,
  the fields described with their offsets, whatever the output message held before.
\<close>

theorem conversion_layout:
  assumes "full_channels (length (pc_points pc)) (pc_channels pc)" and "fits_size_t pc"
  shows "convertPointCloudToPointCloud2 pc out = Ok (True, cloud2_of pc)"
  using assms by (rule conversion_layout_lemma)

end
