(* ===== verification/Point_Cloud_Reading.thy ===== *)
theory Point_Cloud_Reading
  imports Point_Cloud_Layout
begin

text \<open>
  What \<open>convertPointCloud2ToPointCloud\<close> returns, as one map over the points, and the round trip of the
  two conversions.
\<close>

section \<open>The loops\<close>

text \<open>A read of the field \<open>f\<close> of the point with the given base address.\<close>

definition read_ok :: "(u32 \<Rightarrow> u8 \<Rightarrow> u32 option) \<Rightarrow> u32 \<Rightarrow> PointField \<Rightarrow> bool" where
  "read_ok rd base f \<longleftrightarrow> rd (base + pf_offset f) (pf_datatype f) \<noteq> None"

definition read_of :: "(u32 \<Rightarrow> u8 \<Rightarrow> u32 option) \<Rightarrow> u32 \<Rightarrow> PointField \<Rightarrow> u32" where
  "read_of rd base f = the (rd (base + pf_offset f) (pf_datatype f))"

lemma read_ok_Some: "read_ok rd base f \<Longrightarrow> rd (base + pf_offset f) (pf_datatype f) = Some (read_of rd base f)"
  by (auto simp: read_ok_def read_of_def)

lemma read_not_ok_None: "\<not> read_ok rd base f \<Longrightarrow> rd (base + pf_offset f) (pf_datatype f) = None"
  by (simp add: read_ok_def)

abbreviation others :: "(PointField \<Rightarrow> bool) \<Rightarrow> PointField list \<Rightarrow> PointField list" where
  "others coord \<equiv> List.filter (\<lambda>f. \<not> coord f)"

lemma name_channels_eq:
  "length cs = length (others coord fs) \<Longrightarrow>
   name_channels coord n fs (length pre) (pre @ cs @ post)
     = Some (pre @ map2 (\<lambda>f c. \<lparr>ch_name = pf_name f, ch_values = vector_resize 0 n (ch_values c)\<rparr>) (others coord fs) cs
         @ post)"
proof (induction fs arbitrary: pre cs)
  case Nil
  then show ?case by simp
next
  case (Cons f fs)
  show ?case
  proof (cases "coord f")
    case True
    then show ?thesis using Cons.IH Cons.prems by simp
  next
    case False
    with Cons.prems obtain c cs' where cs: "cs = c # cs'" "length cs' = length (others coord fs)"
      by (cases cs) auto
    let ?c = "\<lparr>ch_name = pf_name f, ch_values = vector_resize 0 n (ch_values c)\<rparr>"
    show ?thesis using Cons.IH [of cs' "pre @ [?c]"] False cs by simp
  qed
qed

lemma copy_fields_eq:
  "\<lbrakk> length cs = length (others coord fs); list_all (\<lambda>c. cp < length (ch_values c)) cs \<rbrakk> \<Longrightarrow>
   copy_fields coord rd cp base fs (length pre) (pre @ cs @ post)
     = (if list_all (read_ok rd base) (others coord fs)
        then Some (pre @ map2 (\<lambda>f c. c\<lparr>ch_values := (ch_values c)[cp := read_of rd base f]\<rparr>) (others coord fs) cs @ post)
        else None)"
proof (induction fs arbitrary: pre cs)
  case Nil
  then show ?case by simp
next
  case (Cons f fs)
  show ?case
  proof (cases "coord f")
    case True
    then show ?thesis using Cons.IH Cons.prems by simp
  next
    case False
    with Cons.prems obtain c cs' where cs: "cs = c # cs'" "length cs' = length (others coord fs)"
      and c: "cp < length (ch_values c)" "list_all (\<lambda>c. cp < length (ch_values c)) cs'"
      by (cases cs) auto
    show ?thesis
    proof (cases "read_ok rd base f")
      case True
      let ?c = "c\<lparr>ch_values := (ch_values c)[cp := read_of rd base f]\<rparr>"
      show ?thesis using Cons.IH [of cs' "pre @ [?c]"] False cs c True read_ok_Some [OF True] by simp
    next
      case no: False
      then show ?thesis using False cs c read_not_ok_None [OF no] by simp
    qed
  qed
qed

section \<open>The field indices\<close>

lemma field_index_cases:
  "field_index d fs nm = - 1 \<or> (\<exists>i < length fs. field_index d fs nm = d + int i \<and> pf_name (fs ! i) = nm)"
proof (induction fs arbitrary: d)
  case Nil
  then show ?case by simp
next
  case (Cons f fs)
  show ?case
  proof (cases "pf_name f = nm")
    case True
    then show ?thesis by auto
  next
    case False
    then show ?thesis using Cons.IH [of "d + 1"] by force
  qed
qed

text \<open>The field that is found first, when there is one.\<close>

definition has_field :: "PointCloud2 \<Rightarrow> string \<Rightarrow> bool" where
  "has_field cloud nm \<longleftrightarrow> getPointCloud2FieldIndex cloud nm \<noteq> - 1"

definition field_of :: "PointCloud2 \<Rightarrow> string \<Rightarrow> PointField" where
  "field_of cloud nm = pc2_fields cloud ! nat (getPointCloud2FieldIndex cloud nm)"

lemma has_field_index:
  assumes "has_field cloud nm"
  shows "nat (getPointCloud2FieldIndex cloud nm) < length (pc2_fields cloud)" and "pf_name (field_of cloud nm) = nm"
  using field_index_cases [of 0 "pc2_fields cloud" nm] assms
  by (auto simp: has_field_def field_of_def getPointCloud2FieldIndex_def)

lemma index_distinct:
  assumes "has_field cloud a" and "has_field cloud b" and "a \<noteq> b"
  shows "nat (getPointCloud2FieldIndex cloud a) \<noteq> nat (getPointCloud2FieldIndex cloud b)"
  using has_field_index(2) [OF assms(1)] has_field_index(2) [OF assms(2)] assms(3) by (auto simp: field_of_def)

definition coordinate_of :: "PointCloud2 \<Rightarrow> PointField \<Rightarrow> bool" where
  "coordinate_of cloud = is_coordinate (pf_offset (field_of cloud ''x'')) (pf_offset (field_of cloud ''y''))
     (pf_offset (field_of cloud ''z''))"

definition has_xyz :: "PointCloud2 \<Rightarrow> bool" where
  "has_xyz cloud \<longleftrightarrow> has_field cloud ''x'' \<and> has_field cloud ''y'' \<and> has_field cloud ''z''"

text \<open>The three coordinates are skipped, so the channels that are written exist.\<close>

lemma others_fit:
  assumes "has_xyz cloud"
  shows "length (others (coordinate_of cloud) (pc2_fields cloud)) + 3 \<le> length (pc2_fields cloud)"
proof -
  let ?fs = "pc2_fields cloud" and ?c = "coordinate_of cloud"
  let ?i = "\<lambda>nm. nat (getPointCloud2FieldIndex cloud nm)"
  note h = assms [unfolded has_xyz_def]
  have "?i ''x'' \<noteq> ?i ''y''" "?i ''x'' \<noteq> ?i ''z''" "?i ''y'' \<noteq> ?i ''z''"
    using h by (intro index_distinct; simp)+
  then have "3 = card {?i ''x'', ?i ''y'', ?i ''z''}" by simp
  also have "\<dots> \<le> card {i. i < length ?fs \<and> ?c (?fs ! i)}"
    using h has_field_index(1)
    by (intro card_mono) (auto simp: coordinate_of_def is_coordinate_def field_of_def)
  also have "\<dots> = length (List.filter ?c ?fs)" by (simp add: length_filter_conv_card)
  finally show ?thesis using sum_length_filter_compl [of ?c ?fs] by simp
qed

section \<open>The whole conversion\<close>

definition base_of :: "PointCloud2 \<Rightarrow> nat \<Rightarrow> u32" where
  "base_of cloud cp = of_nat cp * pc2_point_step cloud"

text \<open>The reads of one point: its coordinates and the fields that become channels.\<close>

definition point_ok :: "(u32 \<Rightarrow> u8 \<Rightarrow> u32 option) \<Rightarrow> PointCloud2 \<Rightarrow> nat \<Rightarrow> bool" where
  "point_ok rd cloud cp \<longleftrightarrow>
     list_all (read_ok rd (base_of cloud cp))
       ([field_of cloud ''x'', field_of cloud ''y'', field_of cloud ''z'']
        @ others (coordinate_of cloud) (pc2_fields cloud))"

definition point_of :: "(u32 \<Rightarrow> u8 \<Rightarrow> u32 option) \<Rightarrow> PointCloud2 \<Rightarrow> nat \<Rightarrow> Point32" where
  "point_of rd cloud cp =
     \<lparr>p_x = read_of rd (base_of cloud cp) (field_of cloud ''x''),
      p_y = read_of rd (base_of cloud cp) (field_of cloud ''y''),
      p_z = read_of rd (base_of cloud cp) (field_of cloud ''z'')\<rparr>"

abbreviation point_body :: "(u32 \<Rightarrow> u8 \<Rightarrow> u32 option) \<Rightarrow> PointCloud2 \<Rightarrow> nat
    \<Rightarrow> Point32 list \<times> ChannelFloat32 list \<Rightarrow> (Point32 list \<times> ChannelFloat32 list) option" where
  "point_body rd cloud \<equiv> copy_point (field_of cloud ''x'') (field_of cloud ''y'') (field_of cloud ''z'') rd
     (pc2_point_step cloud) (pc2_fields cloud)"

lemma copy_point_eq:
  assumes "length cs = length (others (coordinate_of cloud) (pc2_fields cloud))"
    and "list_all (\<lambda>c. cp < length (ch_values c)) cs"
  shows "point_body rd cloud cp (ps, cs @ post) =
     (if point_ok rd cloud cp
      then Some (ps[cp := point_of rd cloud cp],
                 map2 (\<lambda>f c. c\<lparr>ch_values := (ch_values c)[cp := read_of rd (base_of cloud cp) f]\<rparr>)
                   (others (coordinate_of cloud) (pc2_fields cloud)) cs @ post)
      else None)"
proof -
  have cf: "copy_fields (coordinate_of cloud) rd cp (base_of cloud cp) (pc2_fields cloud) 0 (cs @ post)
     = (if list_all (read_ok rd (base_of cloud cp)) (others (coordinate_of cloud) (pc2_fields cloud))
        then Some (map2 (\<lambda>f c. c\<lparr>ch_values := (ch_values c)[cp := read_of rd (base_of cloud cp) f]\<rparr>)
               (others (coordinate_of cloud) (pc2_fields cloud)) cs @ post) else None)"
    using copy_fields_eq [OF assms, of rd "base_of cloud cp" "[]" post] by simp
  show ?thesis
  proof (cases "list_all (read_ok rd (base_of cloud cp)) [field_of cloud ''x'', field_of cloud ''y'', field_of cloud ''z'']")
    case True
    then show ?thesis
      using cf by (simp add: copy_point_def point_ok_def point_of_def Let_def base_of_def [symmetric]
          coordinate_of_def [symmetric] read_ok_Some)
  next
    case False
    then show ?thesis
      by (auto simp: copy_point_def point_ok_def Let_def base_of_def [symmetric] bind_eq_None_conv read_not_ok_None)
  qed
qed

lemma copy_points_append:
  "copy_points body (is @ js) out = Option.bind (copy_points body is out) (copy_points body js)"
  by (induction "is" arbitrary: out) (auto split: Option.bind_split)

text \<open>The state of the outputs after \<open>k\<close> points.\<close>

definition channel_after :: "(u32 \<Rightarrow> u8 \<Rightarrow> u32 option) \<Rightarrow> PointCloud2 \<Rightarrow> nat \<Rightarrow> PointField \<Rightarrow> ChannelFloat32 \<Rightarrow> ChannelFloat32" where
  "channel_after rd cloud k f c =
     c\<lparr>ch_values := map (\<lambda>cp. read_of rd (base_of cloud cp) f) [0..<k] @ drop k (ch_values c)\<rparr>"

lemma update_snoc: "k < length vs \<Longrightarrow> (map g [0..<k] @ drop k vs)[k := g k] = map g [0..<Suc k] @ drop (Suc k) vs"
  by (simp add: list_update_append Cons_nth_drop_Suc [symmetric])

lemma channel_after_Suc:
  "k < length (ch_values c) \<Longrightarrow>
   (channel_after rd cloud k f c)\<lparr>ch_values := (ch_values (channel_after rd cloud k f c))
       [k := read_of rd (base_of cloud k) f]\<rparr> = channel_after rd cloud (Suc k) f c"
  using update_snoc [of k "ch_values c" "\<lambda>cp. read_of rd (base_of cloud cp) f"]
  by (simp add: channel_after_def del: upt_Suc)

lemma copy_points_eq:
  assumes "length cs = length (others (coordinate_of cloud) (pc2_fields cloud))"
    and "list_all (\<lambda>c. length (ch_values c) = n) cs" and "length ps = n" and "k \<le> n"
  shows "copy_points (point_body rd cloud) [0..<k] (ps, cs @ post) =
     (if list_all (point_ok rd cloud) [0..<k]
      then Some (map (point_of rd cloud) [0..<k] @ drop k ps,
                 map2 (channel_after rd cloud k) (others (coordinate_of cloud) (pc2_fields cloud)) cs @ post)
      else None)"
  using assms(4)
proof (induction k)
  case 0
  have "map2 (channel_after rd cloud 0) fs cs = cs" if "length fs = length cs" for fs
    using that by (intro nth_equalityI) (simp_all add: channel_after_def)
  then show ?case using assms(1) by simp
next
  case (Suc k)
  let ?fs = "others (coordinate_of cloud) (pc2_fields cloud)"
  let ?cs = "map2 (channel_after rd cloud k) ?fs cs"
  have "list_all (\<lambda>c. k < length (ch_values c)) ?cs"
    using assms(1,2) Suc.prems by (auto simp: list_all_length channel_after_def)
  then have step: "point_body rd cloud k (map (point_of rd cloud) [0..<k] @ drop k ps, ?cs @ post) =
     (if point_ok rd cloud k
      then Some ((map (point_of rd cloud) [0..<k] @ drop k ps)[k := point_of rd cloud k],
                 map2 (\<lambda>f c. c\<lparr>ch_values := (ch_values c)[k := read_of rd (base_of cloud k) f]\<rparr>) ?fs ?cs @ post)
      else None)"
    using assms(1) by (intro copy_point_eq) simp_all
  have "map2 (\<lambda>f c. c\<lparr>ch_values := (ch_values c)[k := read_of rd (base_of cloud k) f]\<rparr>) ?fs ?cs
      = map2 (channel_after rd cloud (Suc k)) ?fs cs"
    using assms(1,2) Suc.prems
    by (intro nth_equalityI) (simp_all add: channel_after_Suc list_all_length)
  then show ?case
    using Suc step update_snoc [of k ps "point_of rd cloud"] assms(3)
    by (simp add: copy_points_append)
qed

text \<open>The message the conversion fills in: one value for every point and every field.\<close>

definition cloud_of :: "(u32 \<Rightarrow> u8 \<Rightarrow> u32 option) \<Rightarrow> PointCloud2 \<Rightarrow> PointCloud \<Rightarrow> PointCloud" where
  "cloud_of rd input output =
     (let n = unat (pc2_width input * pc2_height input);
          fs = others (coordinate_of input) (pc2_fields input)
      in \<lparr>pc_header = pc2_header input, pc_points = map (point_of rd input) [0..<n],
          pc_channels = map (\<lambda>f. \<lparr>ch_name = pf_name f, ch_values = map (\<lambda>cp. read_of rd (base_of input cp) f) [0..<n]\<rparr>) fs
            @ drop (length fs) (vector_resize new_channel (length (pc2_fields input) - 3) (pc_channels output))\<rparr>)"

lemma conversion_reads_lemma:
  assumes "has_xyz input"
  shows "convertPointCloud2ToPointCloud conv input out =
     (let rd = readPointCloud2BufferValue conv 0 (pc2_data input)
      in if list_all (point_ok rd input) [0..<unat (pc2_width input * pc2_height input)]
         then Ok (True, cloud_of rd input out) else Undefined)"
proof -
  let ?fs = "others (coordinate_of input) (pc2_fields input)"
  let ?n = "unat (pc2_width input * pc2_height input)"
  let ?rd = "readPointCloud2BufferValue conv 0 (pc2_data input)"
  define channels where "channels = vector_resize new_channel (length (pc2_fields input) - 3) (pc_channels out)"
  define ps where "ps = vector_resize new_point ?n (pc_points out)"
  define cs where "cs = take (length ?fs) channels"
  define post where "post = drop (length ?fs) channels"
  define cs1 where "cs1 = map2 (\<lambda>f c. \<lparr>ch_name = pf_name f, ch_values = vector_resize 0 ?n (ch_values c)\<rparr>) ?fs cs"
  have fit: "length ?fs + 3 \<le> length (pc2_fields input)" using others_fit [OF assms] .
  then have cs: "channels = cs @ post" "length cs = length ?fs" by (simp_all add: cs_def post_def channels_def)
  have named: "name_channels (coordinate_of input) ?n (pc2_fields input) 0 channels = Some (cs1 @ post)"
    using name_channels_eq [OF cs(2), of ?n "[]" post] by (simp add: cs(1) cs1_def)
  have cs1: "length cs1 = length ?fs" "list_all (\<lambda>c. length (ch_values c) = ?n) cs1" "length ps = ?n"
    using cs(2) by (auto simp: cs1_def list_all_length ps_def)
  have final: "map2 (channel_after ?rd input ?n) ?fs cs1
      = map (\<lambda>f. \<lparr>ch_name = pf_name f, ch_values = map (\<lambda>cp. read_of ?rd (base_of input cp) f) [0..<?n]\<rparr>) ?fs"
    using cs1(1) cs(2) by (intro nth_equalityI) (simp_all add: channel_after_def cs1_def)
  have loop: "copy_points (point_body ?rd input) [0..<?n] (ps, cs1 @ post)
     = (if list_all (point_ok ?rd input) [0..<?n]
        then Some (map (point_of ?rd input) [0..<?n], map2 (channel_after ?rd input ?n) ?fs cs1 @ post) else None)"
    using copy_points_eq [OF cs1, of ?n ?rd post] cs1(3) by simp
  note xyz = assms [unfolded has_xyz_def has_field_def]
  have "convertPointCloud2ToPointCloud conv input out =
     (case Option.bind (name_channels (coordinate_of input) ?n (pc2_fields input) 0 channels)
        (\<lambda>cs. copy_points (point_body ?rd input) [0..<?n] (ps, cs)) of
        None \<Rightarrow> Undefined
      | Some (ps, cs) \<Rightarrow> Ok (True, out\<lparr>pc_header := pc2_header input, pc_points := ps, pc_channels := cs\<rparr>))"
    using fit xyz by (simp add: convertPointCloud2ToPointCloud_def Let_def coordinate_of_def field_of_def
        channels_def ps_def split: option.split)
  then show ?thesis unfolding named
    by (simp add: loop final cloud_of_def post_def [unfolded channels_def, symmetric] Let_def)
qed

text \<open>
  With fields \<open>x\<close>, \<open>y\<close> and \<open>z\<close> the conversion to \<open>PointCloud\<close> never indexes a channel that is
  not there.  When every value lies inside the data it succeeds, and every point and channel value is
  the value read at its address; otherwise it reads outside the data.
\<close>

theorem conversion_reads:
  assumes "has_xyz input"
  shows "convertPointCloud2ToPointCloud conv input out =
     (let rd = readPointCloud2BufferValue conv 0 (pc2_data input)
      in if list_all (point_ok rd input) [0..<unat (pc2_width input * pc2_height input)]
         then Ok (True, cloud_of rd input out) else Undefined)"
  using assms by (rule conversion_reads_lemma)

section \<open>The round trip\<close>

lemma slot_bound:
  fixes m :: nat
  assumes "k < m" and "cp < n"
  shows "4 * m * cp + 4 * k + 4 \<le> 4 * m * n"
proof -
  have "m * cp + k + 1 \<le> m * Suc cp" using assms(1) by simp
  also have "\<dots> \<le> m * n" using assms(2) by (intro mult_le_mono2) simp
  finally show ?thesis by simp
qed

lemma read_packed:
  assumes "list_all (\<lambda>row. length row = m) rws" and "cp < length rws" and "k < m" and "4 * m * length rws < 2 ^ 32"
    and "unat ptr = 4 * m * cp + 4 * k"
  shows "readPointCloud2BufferValue conv zero (concat (map row_bytes rws)) ptr PF_FLOAT32
       = Some (conv (Float32 (rws ! cp ! k)))"
proof -
  let ?data = "concat (map row_bytes rws)"
  have rb: "row_bytes = (\<lambda>row. concat (map float_bytes row))" by (simp add: fun_eq_iff row_bytes_def)
  have len: "length ?data = 4 * m * length rws" using rows.length_all [OF assms(1)] by (simp add: rb)
  have row: "length (rws ! cp) = m" using assms(1,2) by (simp add: list_all_length)
  note bound = slot_bound [OF assms(3,2)]
  have "take 4 (drop (4 * k) (take (4 * m) (drop (4 * m * cp) ?data))) = float_bytes (rws ! cp ! k)"
    using rows.slot [OF assms(1,2)] floats.slot [of "rws ! cp" k] row assms(3) by (simp add: rb list_all_iff)
  moreover have "take 4 (drop (4 * k) (take (4 * m) (drop (4 * m * cp) ?data))) = take 4 (drop (4 * m * cp + 4 * k) ?data)"
    using assms(3) by (simp add: drop_take min_def add.commute)
  ultimately have "take 4 (drop (4 * m * cp + 4 * k) ?data) = float_bytes (rws ! cp ! k)" by simp
  then show ?thesis using bound assms(5) len
    by (simp add: readPointCloud2BufferValue_def readPointCloud2BufferValue_as_def pointFieldTypeAsType_def
        point_field_types load_bytes_def)
qed

lemma float_fields_split:
  "float_fields channels = [float_field ''x'' 0, float_field ''y'' 1, float_field ''z'' 2]
     @ map2 float_field (map ch_name channels) [3..<3 + length channels]"
proof -
  have "[0..<3 + length channels] = 0 # 1 # 2 # [3..<3 + length channels]"
    by (simp add: upt_conv_Cons numeral_2_eq_2 numeral_3_eq_3 del: upt_Suc)
  then show ?thesis by (simp add: float_fields_def field_names_def)
qed

lemma cloud2_of_simps [simp]:
  "pc2_header (cloud2_of pc) = pc_header pc" "pc2_height (cloud2_of pc) = 1"
  "pc2_width (cloud2_of pc) = of_nat (length (pc_points pc))"
  "pc2_fields (cloud2_of pc) = float_fields (pc_channels pc)"
  "pc2_point_step (cloud2_of pc) = of_nat (4 * (3 + length (pc_channels pc)))"
  by (simp_all add: cloud2_of_def Let_def)

lemma cloud2_of_fields:
  "has_xyz (cloud2_of pc)" "field_of (cloud2_of pc) ''x'' = float_field ''x'' 0"
  "field_of (cloud2_of pc) ''y'' = float_field ''y'' 1" "field_of (cloud2_of pc) ''z'' = float_field ''z'' 2"
  by (simp_all add: has_xyz_def has_field_def field_of_def getPointCloud2FieldIndex_def float_fields_split
      float_field_def)

lemma not_coordinate:
  assumes "3 \<le> k" and "4 * k < 2 ^ 32"
  shows "\<not> coordinate_of (cloud2_of pc) (float_field nm k)"
proof -
  have "unat (pf_offset (float_field nm k)) = 4 * k" using float_field_offset [of 0 k nm] assms(2) by simp
  moreover have "unat (pf_offset (float_field nm j)) = 4 * j" if "j < 3" for j and nm :: string
    using float_field_offset [of 0 j nm] that by simp
  ultimately have "pf_offset (float_field nm k) \<noteq> pf_offset (float_field nm' j)" if "j < 3" for j and nm' :: string
    using that assms(1) by (auto dest: arg_cong [where f = unat])
  then show ?thesis by (simp add: coordinate_of_def is_coordinate_def cloud2_of_fields)
qed

lemma others_cloud2_of:
  assumes "4 * (3 + length (pc_channels pc)) < 2 ^ 32"
  shows "others (coordinate_of (cloud2_of pc)) (float_fields (pc_channels pc)) = drop 3 (float_fields (pc_channels pc))"
proof -
  have "List.filter (\<lambda>f. \<not> coordinate_of (cloud2_of pc) f) (drop 3 (float_fields (pc_channels pc)))
      = drop 3 (float_fields (pc_channels pc))"
  proof (rule filter_True, rule ballI)
    fix f assume "f \<in> set (drop 3 (float_fields (pc_channels pc)))"
    then obtain i where "i < length (pc_channels pc)" "f = drop 3 (float_fields (pc_channels pc)) ! i"
      by (metis in_set_conv_nth length_drop length_float_fields diff_add_inverse)
    then show "\<not> coordinate_of (cloud2_of pc) f" using assms
      by (simp add: nth_float_fields not_coordinate)
  qed
  moreover have "List.filter (\<lambda>f. \<not> coordinate_of (cloud2_of pc) f)
      [float_field ''x'' 0, float_field ''y'' 1, float_field ''z'' 2] = []"
    by (simp add: coordinate_of_def is_coordinate_def cloud2_of_fields)
  ultimately show ?thesis unfolding drop3_float_fields float_fields_split filter_append by simp
qed

text \<open>Every field of the packed message is read back.\<close>

lemma read_cloud2_of:
  assumes "full_channels (length (pc_points pc)) (pc_channels pc)" and "fits_size_t pc"
    and "cp < length (pc_points pc)" and "k < 3 + length (pc_channels pc)"
  shows "readPointCloud2BufferValue conv 0 (pc2_data (cloud2_of pc))
           (base_of (cloud2_of pc) cp + pf_offset (float_field nm k)) (pf_datatype (float_field nm k))
       = Some (conv (Float32 (point_row (pc_channels pc) cp (pc_points pc ! cp) ! k)))"
proof -
  let ?n = "length (pc_points pc)" and ?m = "3 + length (pc_channels pc)"
  let ?rws = "map2 (point_row (pc_channels pc)) [0..<?n] (pc_points pc)"
  have fits: "4 * ?m * length ?rws < 2 ^ 32" using assms(2) by (simp add: fits_size_t_def)
  have data: "pc2_data (cloud2_of pc) = concat (map row_bytes ?rws)"
    by (simp add: cloud2_of_def Let_def split_def comp_def)
  have "4 * ?m * cp + 4 * k < 4 * ?m * ?n" using slot_bound [OF assms(4,3)] by linarith
  also have "\<dots> < 2 ^ 32" using assms(2) by (simp add: fits_size_t_def)
  finally have "4 * ?m * cp + 4 * k < 2 ^ 32" .
  then have "unat (of_nat (4 * ?m * cp) + pf_offset (float_field nm k) :: u32) = 4 * ?m * cp + 4 * k"
    by (rule float_field_offset)
  moreover have "base_of (cloud2_of pc) cp = of_nat (4 * ?m * cp)" by (simp add: base_of_def algebra_simps)
  ultimately have ptr: "unat (base_of (cloud2_of pc) cp + pf_offset (float_field nm k)) = 4 * ?m * cp + 4 * k" by simp
  have rws: "list_all (\<lambda>row. length row = ?m) ?rws" by (auto simp: list_all_length)
  show ?thesis using read_packed [OF rws _ assms(4) fits ptr, of conv 0] assms(3)
    by (simp add: data float_field_def)
qed

text \<open>
  C36: A cloud survives the way to \<open>PointCloud2\<close> and back, whatever the two output messages held before:
  header, points, channel names and values are the same, provided that every channel has one value per
  point and the packed data fits the address space.  The only thing asked of the cast to \<open>float\<close> is
  that it does not change a \<open>float\<close>.
\<close>

theorem point_cloud_round_trip:
  assumes "full_channels (length (pc_points pc)) (pc_channels pc)" and "fits_size_t pc"
    and "\<And>w. conv (Float32 w) = w"
  shows "\<exists>c2. convertPointCloudToPointCloud2 pc out2 = Ok (True, c2)
       \<and> convertPointCloud2ToPointCloud conv c2 out = Ok (True, pc)"
proof -
  let ?n = "length (pc_points pc)" and ?cs = "pc_channels pc" and ?c2 = "cloud2_of pc"
  let ?rd = "readPointCloud2BufferValue conv 0 (pc2_data ?c2)"
  have rd: "?rd (base_of ?c2 cp + pf_offset (float_field nm k)) (pf_datatype (float_field nm k))
      = Some (point_row ?cs cp (pc_points pc ! cp) ! k)" if "cp < ?n" "k < 3 + length ?cs" for cp k nm
    using read_cloud2_of [OF assms(1,2) that, of conv nm] assms(3) by simp
  have "?n \<le> 4 * (3 + length ?cs) * ?n" by simp
  also have "\<dots> < 2 ^ 32" using assms(2) by (simp add: fits_size_t_def)
  finally have n: "unat (pc2_width ?c2 * pc2_height ?c2) = ?n" by (simp add: unat_of_nat)
  have fs: "others (coordinate_of ?c2) (float_fields ?cs) = drop 3 (float_fields ?cs)"
    using others_cloud2_of assms(2) by (simp add: fits_size_t_def)
  have "list_all (read_ok ?rd (base_of ?c2 cp)) (drop 3 (float_fields ?cs))" if "cp < ?n" for cp
    using that by (simp add: list_all_length nth_float_fields read_ok_def rd)
  then have "point_ok ?rd ?c2 cp" if "cp < ?n" for cp
    using that by (simp add: point_ok_def fs cloud2_of_fields read_ok_def rd)
  then have ok: "list_all (point_ok ?rd ?c2) [0..<unat (pc2_width ?c2 * pc2_height ?c2)]"
    unfolding n by (simp add: list_all_length)
  have points: "map (point_of ?rd ?c2) [0..<?n] = pc_points pc"
    by (intro nth_equalityI) (simp_all add: point_of_def cloud2_of_fields read_of_def rd point_row_def)
  have channels: "map (\<lambda>f. \<lparr>ch_name = pf_name f, ch_values = map (\<lambda>cp. read_of ?rd (base_of ?c2 cp) f) [0..<?n]\<rparr>)
      (drop 3 (float_fields ?cs)) = ?cs"
  proof (rule nth_equalityI)
    fix i assume "i < length (map (\<lambda>f. \<lparr>ch_name = pf_name f,
        ch_values = map (\<lambda>cp. read_of ?rd (base_of ?c2 cp) f) [0..<?n]\<rparr>) (drop 3 (float_fields ?cs)))"
    then have i: "i < length ?cs" by simp
    have "map (\<lambda>cp. read_of ?rd (base_of ?c2 cp) (float_field (ch_name (?cs ! i)) (3 + i))) [0..<?n] = ch_values (?cs ! i)"
      using i assms(1)
      by (intro nth_equalityI) (simp_all add: read_of_def rd point_row_def full_channels_def list_all_length nth_append)
    then show "map (\<lambda>f. \<lparr>ch_name = pf_name f, ch_values = map (\<lambda>cp. read_of ?rd (base_of ?c2 cp) f) [0..<?n]\<rparr>)
        (drop 3 (float_fields ?cs)) ! i = ?cs ! i"
      using i by (simp add: nth_float_fields)
  qed simp
  have "convertPointCloud2ToPointCloud conv ?c2 out = Ok (True, cloud_of ?rd ?c2 out)"
    using conversion_reads_lemma [OF cloud2_of_fields(1) [of pc], of conv out] ok by (simp add: Let_def)
  also have "cloud_of ?rd ?c2 out = pc"
    using points channels n by (simp add: cloud_of_def Let_def fs)
  finally show ?thesis using conversion_layout_lemma [OF assms(1,2), of out2] by blast
qed

section \<open>Examples\<close>

definition demo_header :: Header where
  "demo_header = \<lparr>stamp = \<lparr>sec = 1, nanosec = 2\<rparr>, frame_id = ''map''\<rparr>"

definition demo_pc :: PointCloud where
  "demo_pc = \<lparr>pc_header = demo_header, pc_points = [\<lparr>p_x = 1, p_y = 2, p_z = 3\<rparr>, \<lparr>p_x = 4, p_y = 5, p_z = 6\<rparr>],
     pc_channels = [\<lparr>ch_name = ''intensity'', ch_values = [0x3F800000, 0x40000000]\<rparr>]\<rparr>"

text \<open>An output message with old contents.\<close>

definition demo_pc2 :: PointCloud2 where
  "demo_pc2 = \<lparr>pc2_header = demo_header, pc2_height = 1, pc2_width = 1,
     pc2_fields = [\<lparr>pf_name = ''z'', pf_offset = 1, pf_datatype = PF_UINT8, pf_count = 1\<rparr>,
                   \<lparr>pf_name = ''x'', pf_offset = 0, pf_datatype = PF_UINT8, pf_count = 1\<rparr>,
                   \<lparr>pf_name = ''y'', pf_offset = 2, pf_datatype = PF_UINT16, pf_count = 1\<rparr>],
     pc2_is_bigendian = False, pc2_point_step = 4, pc2_row_step = 4, pc2_data = [7, 8, 9, 1], pc2_is_dense = True\<rparr>"

definition to_float :: "scalar \<Rightarrow> u32" where
  "to_float v = (case v of Float32 w \<Rightarrow> w | Integer i \<Rightarrow> word_of_int i | Float64 d \<Rightarrow> ucast d)"

lemma point_cloud_round_trip_witness:
  "\<exists>c2. convertPointCloudToPointCloud2 demo_pc demo_pc2 = Ok (True, c2)
     \<and> convertPointCloud2ToPointCloud to_float c2 demo_pc = Ok (True, demo_pc)"
  by (rule point_cloud_round_trip) (simp_all add: demo_pc_def full_channels_def fits_size_t_def to_float_def)

lemma conversion_layout_witness:
  "convertPointCloudToPointCloud2 demo_pc demo_pc2 = Ok (True, cloud2_of demo_pc)"
  by (rule conversion_layout) (simp_all add: demo_pc_def full_channels_def fits_size_t_def)

lemma conversion_reads_witness:
  "convertPointCloud2ToPointCloud to_float demo_pc2 demo_pc =
     (let rd = readPointCloud2BufferValue to_float 0 (pc2_data demo_pc2)
      in if list_all (point_ok rd demo_pc2) [0..<unat (pc2_width demo_pc2 * pc2_height demo_pc2)]
         then Ok (True, cloud_of rd demo_pc2 demo_pc) else Undefined)"
  by (rule conversion_reads) (simp add: has_xyz_def has_field_def getPointCloud2FieldIndex_def demo_pc2_def)

text \<open>
  Without the three coordinate fields the conversion reports \<open>false\<close>, but a message with fewer than
  three fields makes it throw before it looks for them.
\<close>

lemma missing_coordinates:
  assumes "\<not> has_xyz input"
  shows "convertPointCloud2ToPointCloud conv input out =
     (let out1 = out\<lparr>pc_header := pc2_header input,
             pc_points := vector_resize new_point (unat (pc2_width input * pc2_height input)) (pc_points out)\<rparr>
      in if length (pc2_fields input) < 3 then Throw Length_error out1
         else Ok (False, out1\<lparr>pc_channels :=
           vector_resize new_channel (length (pc2_fields input) - 3) (pc_channels out)\<rparr>))"
  using assms by (auto simp: convertPointCloud2ToPointCloud_def Let_def has_xyz_def has_field_def)

text \<open>A channel of another length is not written, so the old bytes of the output show up as its values.\<close>

lemma stale_channel_bytes:
  "convertPointCloudToPointCloud2 (demo_pc\<lparr>pc_points := [\<lparr>p_x = 1, p_y = 2, p_z = 3\<rparr>]\<rparr>)
      (demo_pc2\<lparr>pc2_data := replicate 16 0xAA\<rparr>) = Ok (True, c2)
   \<Longrightarrow> drop 12 (pc2_data c2) = replicate 4 0xAA"
  by (auto simp: convertPointCloudToPointCloud2_def cloud_fields_eq demo_pc_def demo_pc2_def Let_def store_point_def
      store_bytes_def vector_resize_def float_fields_split float_field_def float_bytes_def upt_conv_Cons)

end
