(* ===== verification/Point_Cloud_Modifier.thy ===== *)
theory Point_Cloud_Modifier
  imports Point_Cloud
begin

text \<open>
  \<open>sensor_msgs/impl/point_cloud2_iterator.hpp\<close>: the modifier that gives a \<open>PointCloud2\<close> its fields and
  its size, and the iterator over one field.  \<open>size_t\<close> and \<open>int\<close> have 32 bits; an \<open>int\<close> is kept as a
  word, and the conversions between \<open>int\<close> and \<open>uint32_t\<close> are those of words.
\<close>

section \<open>Fields\<close>

definition sizeOfPointField :: "u32 \<Rightarrow> u32 option" where
  "sizeOfPointField datatype =
     (if datatype = ucast PF_INT8 \<or> datatype = ucast PF_UINT8 then Some 1
      else if datatype = ucast PF_INT16 \<or> datatype = ucast PF_UINT16 then Some 2
      else if datatype = ucast PF_INT32 \<or> datatype = ucast PF_UINT32 \<or> datatype = ucast PF_FLOAT32 then Some 4
      else if datatype = ucast PF_FLOAT64 then Some 8
      else None)"

definition signed_decimal :: "int \<Rightarrow> string" where
  "signed_decimal i = (if i < 0 then ''-'' @ decimal (nat (- i)) else decimal (nat i))"

definition no_such_type :: "u32 \<Rightarrow> cpp_exception" where
  "no_such_type datatype =
     Runtime_error (''PointField of type '' @ signed_decimal (sint datatype) @ '' does not exist'')"

text \<open>The field is appended before its size is looked up, so it stays when the lookup throws.\<close>

definition addPointField ::
  "PointCloud2 \<Rightarrow> string \<Rightarrow> u32 \<Rightarrow> u32 \<Rightarrow> u32 \<Rightarrow> (PointCloud2, u32 \<times> PointCloud2) cpp_outcome" where
  "addPointField cloud name count datatype offset =
     (let point_field = \<lparr>pf_name = name, pf_offset = offset, pf_datatype = ucast datatype, pf_count = count\<rparr>;
          cloud1 = cloud\<lparr>pc2_fields := pc2_fields cloud @ [point_field]\<rparr>
      in case sizeOfPointField datatype of
           None \<Rightarrow> Throw (no_such_type datatype) cloud1
         | Some n \<Rightarrow> Ok (offset + pf_count point_field * n, cloud1))"

section \<open>The modifier\<close>

text \<open>\<open>None\<close>: a division by zero.\<close>

definition modifier_size :: "PointCloud2 \<Rightarrow> nat option" where
  "modifier_size cloud =
     (if pc2_point_step cloud = 0 then None else Some (length (pc2_data cloud) div unat (pc2_point_step cloud)))"

definition modifier_resize :: "u32 \<Rightarrow> PointCloud2 \<Rightarrow> PointCloud2" where
  "modifier_resize n cloud =
     (let cloud1 = cloud\<lparr>pc2_data := vector_resize 0 (unat (n * pc2_point_step cloud)) (pc2_data cloud)\<rparr>
      in if pc2_height cloud1 = 1
         then cloud1\<lparr>pc2_width := n, pc2_row_step := n * pc2_point_step cloud1\<rparr>
         else if pc2_width cloud1 = 1 then cloud1\<lparr>pc2_height := n\<rparr>
         else cloud1\<lparr>pc2_height := 1, pc2_width := n, pc2_row_step := n * pc2_point_step cloud1\<rparr>)"

definition modifier_clear :: "PointCloud2 \<Rightarrow> PointCloud2" where
  "modifier_clear cloud =
     (let cloud1 = cloud\<lparr>pc2_data := []\<rparr>
      in if pc2_height cloud1 = 1 then cloud1\<lparr>pc2_width := 0, pc2_row_step := 0\<rparr>
         else if pc2_width cloud1 = 1 then cloud1\<lparr>pc2_height := 0\<rparr>
         else cloud1\<lparr>pc2_height := 0, pc2_width := 0, pc2_row_step := 0\<rparr>)"

text \<open>The last part of both functions that set the fields.\<close>

definition resize_for_fields :: "u32 \<Rightarrow> PointCloud2 \<Rightarrow> PointCloud2" where
  "resize_for_fields offset cloud =
     (let cloud1 = cloud\<lparr>pc2_point_step := offset\<rparr>;
          cloud2 = cloud1\<lparr>pc2_row_step := pc2_width cloud1 * pc2_point_step cloud1\<rparr>
      in cloud2\<lparr>pc2_data := vector_resize 0 (unat (pc2_height cloud2 * pc2_row_step cloud2)) (pc2_data cloud2)\<rparr>)"

text \<open>The loop over the triplets of name, count and datatype.\<close>

fun add_fields ::
  "(string \<times> u32 \<times> u32) list \<Rightarrow> u32 \<Rightarrow> PointCloud2 \<Rightarrow> (PointCloud2, u32 \<times> PointCloud2) cpp_outcome" where
  "add_fields [] offset cloud = Ok (offset, cloud)"
| "add_fields ((name, count, datatype) # args) offset cloud =
     and_then (addPointField cloud name count datatype offset) (\<lambda>(offset1, cloud1).
     add_fields args offset1 cloud1)"

definition setPointCloud2Fields ::
  "(string \<times> u32 \<times> u32) list \<Rightarrow> PointCloud2 \<Rightarrow> (PointCloud2, PointCloud2) cpp_outcome" where
  "setPointCloud2Fields args cloud =
     and_then (add_fields args 0 (cloud\<lparr>pc2_fields := []\<rparr>)) (\<lambda>(offset, cloud1).
     Ok (resize_for_fields offset cloud1))"

text \<open>The fields a name stands for and the padding after them; only \<open>FLOAT32\<close> fields occur.\<close>

definition float32 :: u32 where "float32 = ucast PF_FLOAT32"

definition pad_floats :: "nat \<Rightarrow> u32 \<times> PointCloud2 \<Rightarrow> (PointCloud2, u32 \<times> PointCloud2) cpp_outcome" where
  "pad_floats n oc =
     (case sizeOfPointField float32 of
        None \<Rightarrow> Throw (no_such_type float32) (snd oc)
      | Some k \<Rightarrow> Ok (fst oc + of_nat n * k, snd oc))"

definition add_named_field ::
  "string \<Rightarrow> u32 \<Rightarrow> PointCloud2 \<Rightarrow> (PointCloud2, u32 \<times> PointCloud2) cpp_outcome" where
  "add_named_field field_name offset cloud =
     (if field_name = ''xyz'' then
        and_then (addPointField cloud ''x'' 1 float32 offset) (\<lambda>(offset, cloud).
        and_then (addPointField cloud ''y'' 1 float32 offset) (\<lambda>(offset, cloud).
        and_then (addPointField cloud ''z'' 1 float32 offset) (pad_floats 1)))
      else if field_name = ''rgb'' \<or> field_name = ''rgba'' then
        and_then (addPointField cloud field_name 1 float32 offset) (pad_floats 3)
      else Throw (Runtime_error (''Field '' @ field_name @ '' does not exist'')) cloud)"

fun add_named_fields ::
  "string list \<Rightarrow> u32 \<Rightarrow> PointCloud2 \<Rightarrow> (PointCloud2, u32 \<times> PointCloud2) cpp_outcome" where
  "add_named_fields [] offset cloud = Ok (offset, cloud)"
| "add_named_fields (field_name # names) offset cloud =
     and_then (add_named_field field_name offset cloud) (\<lambda>(offset1, cloud1).
     add_named_fields names offset1 cloud1)"

definition setPointCloud2FieldsByString :: "string list \<Rightarrow> PointCloud2 \<Rightarrow> (PointCloud2, PointCloud2) cpp_outcome" where
  "setPointCloud2FieldsByString names cloud =
     and_then (add_named_fields names 0 (cloud\<lparr>pc2_fields := []\<rparr>)) (\<lambda>(offset, cloud1).
     Ok (resize_for_fields offset cloud1))"

section \<open>The iterator\<close>

text \<open>
  Addresses are relative to the first byte of the data.  \<open>it_data_char\<close> and \<open>it_data\<close> are the two
  pointers to the current element, \<open>it_data_end\<close> the one \<open>end()\<close> returns.
\<close>

record iter =
  it_point_step :: int
  it_data_char :: int
  it_data :: int
  it_data_end :: int
  it_is_bigendian :: bool

fun find_field :: "(string \<Rightarrow> bool) \<Rightarrow> PointField list \<Rightarrow> PointField option" where
  "find_field p [] = None"
| "find_field p (f # fs) = (if p (pf_name f) then Some f else find_field p fs)"

text \<open>The offset \<open>set_field\<close> returns; it also stores the step and the byte order, see \<open>iter_init\<close>.\<close>

definition set_field :: "PointCloud2 \<Rightarrow> string \<Rightarrow> (unit, u32) cpp_outcome" where
  "set_field cloud field_name =
     (let no_field = Throw (Runtime_error (''Field '' @ field_name @ '' does not exist'')) () in
      case find_field (\<lambda>nm. nm = field_name) (pc2_fields cloud) of
        Some f \<Rightarrow> Ok (pf_offset f)
      | None \<Rightarrow>
          if field_name = ''r'' \<or> field_name = ''g'' \<or> field_name = ''b'' \<or> field_name = ''a'' then
            (case find_field (\<lambda>nm. nm = ''rgb'' \<or> nm = ''rgba'') (pc2_fields cloud) of
               None \<Rightarrow> no_field
             | Some f \<Rightarrow>
                 if field_name = ''r'' then Ok (pf_offset f + (if pc2_is_bigendian cloud then 1 else 2))
                 else if field_name = ''g'' then Ok (pf_offset f + (if pc2_is_bigendian cloud then 2 else 1))
                 else if field_name = ''b'' then Ok (pf_offset f + (if pc2_is_bigendian cloud then 3 else 0))
                 else Ok (pf_offset f + (if pc2_is_bigendian cloud then 0 else 3)))
          else no_field)"

text \<open>The constructor; \<open>front()\<close> and \<open>back()\<close> of an empty vector are undefined.\<close>

definition iter_init :: "PointCloud2 \<Rightarrow> string \<Rightarrow> (unit, iter) cpp_outcome" where
  "iter_init cloud field_name =
     (case set_field cloud field_name of
        Throw e u \<Rightarrow> Throw e u
      | Undefined \<Rightarrow> Undefined
      | Ok off \<Rightarrow>
          if pc2_data cloud = [] then Undefined
          else (let offset = sint off in
            Ok \<lparr>it_point_step = sint (pc2_point_step cloud), it_data_char = offset, it_data = offset,
                it_data_end = int (length (pc2_data cloud)) + offset, it_is_bigendian = pc2_is_bigendian cloud\<rparr>))"

definition iter_assign :: "iter \<Rightarrow> iter \<Rightarrow> iter" where
  "iter_assign self it =
     self\<lparr>it_point_step := it_point_step it, it_data_char := it_data_char it, it_data := it_data it,
          it_data_end := it_data_end it, it_is_bigendian := it_is_bigendian it\<rparr>"

text \<open>The address of \<open>operator[] (i)\<close> for values of \<open>n\<close> bytes; \<open>operator*\<close> is index 0.\<close>

definition iter_at :: "nat \<Rightarrow> nat \<Rightarrow> iter \<Rightarrow> int" where
  "iter_at n i it = it_data it + int i * int n"

definition iter_deref :: "iter \<Rightarrow> int" where
  "iter_deref it = it_data it"

definition iter_next :: "iter \<Rightarrow> iter" where
  "iter_next it = (let p = it_data_char it + it_point_step it in it\<lparr>it_data_char := p, it_data := p\<rparr>)"

definition iter_plus :: "iter \<Rightarrow> int \<Rightarrow> iter" where
  "iter_plus it i = (let p = it_data_char it + i * it_point_step it in it\<lparr>it_data_char := p, it_data := p\<rparr>)"

definition iter_plus_assign :: "iter \<Rightarrow> int \<Rightarrow> iter" where
  "iter_plus_assign it i = (let p = it_data_char it + i * it_point_step it in it\<lparr>it_data_char := p, it_data := p\<rparr>)"

definition iter_neq :: "iter \<Rightarrow> iter \<Rightarrow> bool" where
  "iter_neq it other \<longleftrightarrow> it_data other \<noteq> it_data it"

definition iter_end :: "iter \<Rightarrow> iter" where
  "iter_end it = it\<lparr>it_data := it_data_end it\<rparr>"

end
