(* ===== verification/Point_Cloud_Modifier_Props.thy ===== *)
theory Point_Cloud_Modifier_Props
  imports Point_Cloud_Modifier Point_Cloud_Layout
begin

text \<open>
  The modifier keeps the geometry of a cloud consistent, the fields it lays out do not overlap, and
  the iterator over a field visits exactly one address per point.
\<close>

section \<open>Geometry\<close>

text \<open>What the message definition promises of a cloud: rows of \<open>row_step\<close> bytes, \<open>height\<close> of them.\<close>

definition cloud_ok :: "PointCloud2 \<Rightarrow> bool" where
  "cloud_ok c \<longleftrightarrow> pc2_row_step c = pc2_width c * pc2_point_step c
     \<and> length (pc2_data c) = unat (pc2_height c * pc2_row_step c)"

text \<open>A call of the modifier; one that throws leaves the message as the exception finds it.\<close>

datatype modifier_call = Resize u32 | Clear | Set_fields "(string \<times> u32 \<times> u32) list" | Set_by_string "string list"

definition left_by :: "PointCloud2 \<Rightarrow> (PointCloud2, PointCloud2) cpp_outcome \<Rightarrow> PointCloud2" where
  "left_by c r = (case r of Ok c1 \<Rightarrow> c1 | Throw e c1 \<Rightarrow> c1 | Undefined \<Rightarrow> c)"

fun modify_cloud :: "modifier_call \<Rightarrow> PointCloud2 \<Rightarrow> PointCloud2" where
  "modify_cloud (Resize n) c = modifier_resize n c"
| "modify_cloud Clear c = modifier_clear c"
| "modify_cloud (Set_fields args) c = left_by c (setPointCloud2Fields args c)"
| "modify_cloud (Set_by_string names) c = left_by c (setPointCloud2FieldsByString names c)"

lemma resize_keeps_ok: "cloud_ok c \<Longrightarrow> cloud_ok (modifier_resize n c)"
  by (simp add: cloud_ok_def modifier_resize_def Let_def)

lemma clear_keeps_ok: "cloud_ok c \<Longrightarrow> cloud_ok (modifier_clear c)"
  by (simp add: cloud_ok_def modifier_clear_def Let_def)

lemma resize_for_fields_ok: "cloud_ok (resize_for_fields offset c)"
  by (simp add: cloud_ok_def resize_for_fields_def Let_def)

text \<open>Adding fields changes nothing but the fields, whether it succeeds or throws.\<close>

definition same_geometry :: "PointCloud2 \<Rightarrow> PointCloud2 \<Rightarrow> bool" where
  "same_geometry c c' \<longleftrightarrow> (\<exists>fs. c' = c\<lparr>pc2_fields := fs\<rparr>)"

lemma same_geometry_refl [simp]: "same_geometry c c"
  by (auto simp: same_geometry_def intro: exI [of _ "pc2_fields c"])

lemma same_geometry_trans: "same_geometry c c1 \<Longrightarrow> same_geometry c1 c2 \<Longrightarrow> same_geometry c c2"
  by (auto simp: same_geometry_def)

lemma same_geometry_fields [simp]: "same_geometry c (c\<lparr>pc2_fields := fs\<rparr>)"
  by (auto simp: same_geometry_def)

lemma same_geometry_ok: "same_geometry c c' \<Longrightarrow> cloud_ok c' \<longleftrightarrow> cloud_ok c"
  by (auto simp: same_geometry_def cloud_ok_def)

definition outcome_keeps :: "PointCloud2 \<Rightarrow> (PointCloud2, u32 \<times> PointCloud2) cpp_outcome \<Rightarrow> bool" where
  "outcome_keeps c r = (case r of Ok (i, c1) \<Rightarrow> same_geometry c c1 | Throw e c1 \<Rightarrow> same_geometry c c1 | Undefined \<Rightarrow> False)"

lemma addPointField_keeps: "outcome_keeps c (addPointField c nm k dt off)"
  by (simp add: addPointField_def outcome_keeps_def Let_def split: option.split)

lemma keeps_and_then:
  assumes "outcome_keeps c r" and "\<And>i c1. outcome_keeps c1 (f (i, c1))"
  shows "outcome_keeps c (and_then r f)"
proof (cases r)
  case (Ok ic)
  then obtain i c1 where "r = Ok (i, c1)" by (cases ic) auto
  then show ?thesis using assms(1) assms(2) [of c1 i]
    by (auto simp: outcome_keeps_def intro: same_geometry_trans split: cpp_outcome.splits)
qed (use assms(1) in \<open>simp_all add: outcome_keeps_def\<close>)

lemma add_fields_keeps: "outcome_keeps c (add_fields args off c)"
proof (induction args arbitrary: off c)
  case Nil
  then show ?case by (simp add: outcome_keeps_def)
next
  case (Cons arg args)
  then show ?case by (cases arg) (simp add: keeps_and_then addPointField_keeps)
qed

lemma sizeOfPointField_float32 [simp]: "sizeOfPointField float32 = Some 4"
  by (simp add: sizeOfPointField_def float32_def point_field_types)

lemma pad_floats_keeps: "outcome_keeps c1 (pad_floats n (i, c1))"
  by (simp add: pad_floats_def outcome_keeps_def)

lemma add_named_field_keeps: "outcome_keeps c (add_named_field nm off c)"
  by (simp add: add_named_field_def keeps_and_then addPointField_keeps pad_floats_keeps)
    (simp add: outcome_keeps_def)

lemma add_named_fields_keeps: "outcome_keeps c (add_named_fields names off c)"
proof (induction names arbitrary: off c)
  case Nil
  then show ?case by (simp add: outcome_keeps_def)
next
  case (Cons nm names)
  then show ?case by (simp add: keeps_and_then add_named_field_keeps)
qed

lemma set_fields_ok:
  assumes "cloud_ok c"
  shows "cloud_ok (left_by c (setPointCloud2Fields args c))"
    and "cloud_ok (left_by c (setPointCloud2FieldsByString names c))"
proof -
  have ok: "cloud_ok (c\<lparr>pc2_fields := []\<rparr>)" using assms by (simp add: cloud_ok_def)
  have left: "cloud_ok (left_by c (and_then r (\<lambda>(offset, c1). Ok (resize_for_fields offset c1))))"
    if "outcome_keeps (c\<lparr>pc2_fields := []\<rparr>) r" for r
  proof (cases r)
    case (Throw e c1)
    then have "cloud_ok c1" using that ok same_geometry_ok [of "c\<lparr>pc2_fields := []\<rparr>" c1] by (simp add: outcome_keeps_def)
    then show ?thesis by (simp add: Throw left_by_def)
  qed (use assms in \<open>simp_all add: left_by_def split_def resize_for_fields_ok\<close>)
  show "cloud_ok (left_by c (setPointCloud2Fields args c))"
    and "cloud_ok (left_by c (setPointCloud2FieldsByString names c))"
    unfolding setPointCloud2Fields_def setPointCloud2FieldsByString_def
    by (rule left, rule add_fields_keeps, rule left, rule add_named_fields_keeps)
qed

lemma modify_cloud_ok: "cloud_ok c \<Longrightarrow> cloud_ok (modify_cloud m c)"
  by (cases m) (simp_all add: resize_keeps_ok clear_keeps_ok set_fields_ok)

text \<open>
  C38: Whatever sequence of calls of the modifier, throwing ones included, a consistent cloud stays
  consistent: a row is as wide as its points, and the data has exactly the rows the height says.
\<close>

theorem modifier_keeps_geometry:
  assumes "cloud_ok c"
  shows "cloud_ok (foldl (\<lambda>c m. modify_cloud m c) c calls)"
  using assms by (induction calls arbitrary: c) (simp_all add: modify_cloud_ok)

text \<open>
  After \<open>resize(n)\<close> a cloud has \<open>n\<close> points, in its geometry and by \<open>size()\<close>, and keeps the bytes
  it had: provided that a point has a size and the bytes can be counted in 32 bits.
\<close>

theorem resize_gives_size:
  assumes "pc2_point_step c \<noteq> 0" and "unat n * unat (pc2_point_step c) < 2 ^ 32"
  shows "modifier_size (modifier_resize n c) = Some (unat n)
    \<and> unat (pc2_height (modifier_resize n c)) * unat (pc2_width (modifier_resize n c)) = unat n
    \<and> take (length (pc2_data c)) (pc2_data (modifier_resize n c)) = take (unat n * unat (pc2_point_step c)) (pc2_data c)"
proof -
  have bytes: "unat (n * pc2_point_step c) = unat n * unat (pc2_point_step c)"
    using assms(2) by (simp add: unat_word_ariths)
  have "0 < unat (pc2_point_step c)" using assms(1) by (simp add: unat_gt_0)
  then show ?thesis
    using assms(1) by (simp add: modifier_resize_def modifier_size_def Let_def bytes)
qed

section \<open>Layout of the fields\<close>

text \<open>The size a field is given is the size of the objects that are read from it.\<close>

lemma sizes_agree: "sizeOfPointField (ucast datatype) = map_option (of_nat \<circ> type_bytes) (pointFieldTypeAsType datatype)"
proof -
  have "ucast datatype = (ucast w :: u32) \<longleftrightarrow> datatype = w" for w :: u8
  proof
    assume "ucast datatype = (ucast w :: u32)"
    then have "(ucast (ucast datatype :: u32) :: u8) = ucast (ucast w :: u32)" by simp
    then show "datatype = w" by (simp add: ucast_up_ucast_id is_up)
  qed simp
  then show ?thesis by (simp add: sizeOfPointField_def pointFieldTypeAsType_def)
qed

text \<open>The bytes an argument triplet asks for.\<close>

definition field_bytes :: "string \<times> u32 \<times> u32 \<Rightarrow> nat" where
  "field_bytes arg = (case arg of (nm, k, dt) \<Rightarrow> unat k * unat (the (sizeOfPointField dt)))"

definition known_type :: "string \<times> u32 \<times> u32 \<Rightarrow> bool" where
  "known_type arg = (case arg of (nm, k, dt) \<Rightarrow> sizeOfPointField dt \<noteq> None)"

definition arg_field :: "nat \<Rightarrow> string \<times> u32 \<times> u32 \<Rightarrow> PointField" where
  "arg_field off arg = (case arg of (nm, k, dt) \<Rightarrow>
     \<lparr>pf_name = nm, pf_offset = of_nat off, pf_datatype = ucast dt, pf_count = k\<rparr>)"

fun layout :: "nat \<Rightarrow> (string \<times> u32 \<times> u32) list \<Rightarrow> PointField list" where
  "layout off [] = []"
| "layout off (arg # args) = arg_field off arg # layout (off + field_bytes arg) args"

lemma add_one_known:
  "known_type arg \<Longrightarrow> addPointField c (fst arg) (fst (snd arg)) (snd (snd arg)) (of_nat off)
     = Ok (of_nat (off + field_bytes arg), c\<lparr>pc2_fields := pc2_fields c @ [arg_field off arg]\<rparr>)"
  by (cases arg) (auto simp: known_type_def addPointField_def arg_field_def field_bytes_def Let_def)

lemma add_known_fields:
  "list_all known_type args \<Longrightarrow>
   add_fields args (of_nat off) c
     = Ok (of_nat (off + sum_list (map field_bytes args)), c\<lparr>pc2_fields := pc2_fields c @ layout off args\<rparr>)"
proof (induction args arbitrary: off c)
  case Nil
  then show ?case by simp
next
  case (Cons arg args)
  obtain nm k dt where arg: "arg = (nm, k, dt)" by (cases arg) auto
  show ?case using add_one_known [of arg c off] Cons.prems
      Cons.IH [of "off + field_bytes arg" "c\<lparr>pc2_fields := pc2_fields c @ [arg_field off arg]\<rparr>"]
    by (simp add: arg add.assoc)
qed

lemma layout_offset:
  "i < length args \<Longrightarrow> layout off args ! i = arg_field (off + sum_list (map field_bytes (take i args))) (args ! i)"
proof (induction args arbitrary: off i)
  case Nil
  then show ?case by simp
next
  case (Cons arg args)
  then show ?case by (cases i) (simp_all add: add.assoc)
qed

lemma sum_take_mono:
  "i \<le> j \<Longrightarrow> sum_list (map (g :: 'a \<Rightarrow> nat) (take i xs)) \<le> sum_list (map g (take j xs))"
  by (metis le_add1 le_add_diff_inverse map_append sum_list_append take_add)

text \<open>
  Fields set with \<open>setPointCloud2Fields\<close> are laid out one after the other: as long as their bytes can
  be counted in 32 bits, no field overlaps a later one, and all of them lie inside the point step.
\<close>

theorem set_fields_do_not_overlap:
  assumes "list_all known_type args" and "sum_list (map field_bytes args) < 2 ^ 32"
    and "i \<le> j" and "j < length args"
  shows "\<exists>c'. setPointCloud2Fields args c = Ok c' \<and> length (pc2_fields c') = length args
    \<and> (i = j \<or> unat (pf_offset (pc2_fields c' ! i)) + field_bytes (args ! i) \<le> unat (pf_offset (pc2_fields c' ! j)))
    \<and> unat (pf_offset (pc2_fields c' ! j)) + field_bytes (args ! j) \<le> unat (pc2_point_step c')"
proof -
  let ?s = "\<lambda>k. sum_list (map field_bytes (take k args))"
  have len: "length (layout off as) = length as" for off as by (induction as arbitrary: off) simp_all
  have all: "?s k \<le> sum_list (map field_bytes args)" for k using sum_take_mono [of k "length args + k" field_bytes args] by simp
  have small: "unat (of_nat (?s k) :: u32) = ?s k" for k
    using all [of k] assms(2) by (intro unat_of_nat_u32) simp
  have next': "?s (Suc k) = ?s k + field_bytes (args ! k)" if "k < length args" for k
    using that by (simp add: take_Suc_conv_app_nth)
  have off: "unat (pf_offset (layout 0 args ! k)) = ?s k" if "k < length args" for k
    using layout_offset [OF that, of 0] small [of k] by (simp add: arg_field_def split: prod.split)
  have set: "setPointCloud2Fields args c = Ok (resize_for_fields (of_nat (sum_list (map field_bytes args)))
      (c\<lparr>pc2_fields := layout 0 args\<rparr>))"
    using add_known_fields [OF assms(1), of 0 "c\<lparr>pc2_fields := []\<rparr>"] by (simp add: setPointCloud2Fields_def)
  have "unat (of_nat (sum_list (map field_bytes args)) :: u32) = sum_list (map field_bytes args)"
    using assms(2) by (rule unat_of_nat_u32)
  moreover have "?s j + field_bytes (args ! j) \<le> sum_list (map field_bytes args)"
    using all [of "Suc j"] next' [OF assms(4)] by simp
  moreover have "i = j \<or> ?s i + field_bytes (args ! i) \<le> ?s j"
    using sum_take_mono [of "Suc i" j field_bytes args] next' [of i] assms(3,4) by (cases "i = j") simp_all
  ultimately show ?thesis
    using set assms(3,4) off by (auto simp: resize_for_fields_def Let_def len)
qed

lemma add_fields_append:
  "add_fields (as @ bs) off c = and_then (add_fields as off c) (\<lambda>(off1, c1). add_fields bs off1 c1)"
proof (induction as arbitrary: off c)
  case Nil
  then show ?case by simp
next
  case (Cons a as)
  then show ?case by (cases a; cases "addPointField c (fst a) (fst (snd a)) (snd (snd a)) off") (auto split: prod.split)
qed

text \<open>
  A datatype that does not exist makes \<open>setPointCloud2Fields\<close> throw, and leaves a broken message: the
  fields before it and the bad field itself are entered, the old fields are gone, and the point step,
  row step and data are still those of the old fields.
\<close>

theorem bad_field_stays:
  assumes "list_all known_type good" and "\<not> known_type bad"
  shows "setPointCloud2Fields (good @ bad # rest) c
     = Throw (no_such_type (snd (snd bad)))
         (c\<lparr>pc2_fields := layout 0 good @ [arg_field (sum_list (map field_bytes good)) bad]\<rparr>)"
proof -
  obtain nm k dt where bad: "bad = (nm, k, dt)" by (cases bad) auto
  show ?thesis
    using add_known_fields [OF assms(1), of 0 "c\<lparr>pc2_fields := []\<rparr>"] assms(2)
    by (simp add: setPointCloud2Fields_def add_fields_append bad known_type_def addPointField_def arg_field_def Let_def)
qed

end
