(* ===== verification/Point_Cloud_Iteration.thy ===== *)
theory Point_Cloud_Iteration
  imports Point_Cloud_Modifier_Props
begin

text \<open>
  The fields that are set by name, the iterator over one field, and the channels of a colour.
\<close>

section \<open>Fields set by name\<close>

definition known_name :: "string \<Rightarrow> bool" where
  "known_name nm \<longleftrightarrow> nm = ''xyz'' \<or> nm = ''rgb'' \<or> nm = ''rgba''"

definition float32_field :: "string \<Rightarrow> nat \<Rightarrow> PointField" where
  "float32_field nm off = \<lparr>pf_name = nm, pf_offset = of_nat off, pf_datatype = PF_FLOAT32, pf_count = 1\<rparr>"

definition named_fields :: "nat \<Rightarrow> string \<Rightarrow> PointField list" where
  "named_fields off nm =
     (if nm = ''xyz'' then [float32_field ''x'' off, float32_field ''y'' (off + 4), float32_field ''z'' (off + 8)]
      else [float32_field nm off])"

text \<open>Every name takes 16 bytes.\<close>

fun named_layout :: "nat \<Rightarrow> string list \<Rightarrow> PointField list" where
  "named_layout off [] = []"
| "named_layout off (nm # nms) = named_fields off nm @ named_layout (off + 16) nms"

lemma add_float32_field:
  "addPointField c nm 1 float32 (of_nat off)
     = Ok (of_nat (off + 4), c\<lparr>pc2_fields := pc2_fields c @ [float32_field nm off]\<rparr>)"
  by (simp add: addPointField_def Let_def float32_field_def) (simp add: float32_def PF_FLOAT32_def)

lemma add_known_name:
  assumes "known_name nm"
  shows "add_named_field nm (of_nat off) c
     = Ok (of_nat (off + 16), c\<lparr>pc2_fields := pc2_fields c @ named_fields off nm\<rparr>)"
proof -
  have pad: "pad_floats n (of_nat o1, c1) = Ok (of_nat (o1 + 4 * n), c1)" for n o1 c1
    by (simp add: pad_floats_def)
  show ?thesis
  proof (cases "nm = ''xyz''")
    case True
    then show ?thesis
      using add_float32_field [of c "''x''" off]
        add_float32_field [of "c\<lparr>pc2_fields := pc2_fields c @ [float32_field ''x'' off]\<rparr>" "''y''" "off + 4"]
        add_float32_field [of "c\<lparr>pc2_fields := pc2_fields c @ [float32_field ''x'' off, float32_field ''y'' (off + 4)]\<rparr>"
          "''z''" "off + 8"] pad [of 1 "off + 12"]
      by (simp add: add_named_field_def named_fields_def add.assoc)
  next
    case False
    then show ?thesis
      using assms add_float32_field [of c nm off] pad [of 3 "off + 4"]
      by (auto simp: add_named_field_def named_fields_def known_name_def add.assoc)
  qed
qed

lemma add_known_names:
  "list_all known_name names \<Longrightarrow>
   add_named_fields names (of_nat off) c
     = Ok (of_nat (off + 16 * length names), c\<lparr>pc2_fields := pc2_fields c @ named_layout off names\<rparr>)"
proof (induction names arbitrary: off c)
  case Nil
  then show ?case by simp
next
  case (Cons nm names)
  then show ?case using add_known_name [of nm off c]
      Cons.IH [of "off + 16" "c\<lparr>pc2_fields := pc2_fields c @ named_fields off nm\<rparr>"]
    by (simp add: add.assoc)
qed

lemma set_by_string:
  "list_all known_name names \<Longrightarrow>
   setPointCloud2FieldsByString names c
     = Ok (resize_for_fields (of_nat (16 * length names)) (c\<lparr>pc2_fields := named_layout 0 names\<rparr>))"
  using add_known_names [of names 0 "c\<lparr>pc2_fields := []\<rparr>"] by (simp add: setPointCloud2FieldsByString_def)

lemma named_layout_offset:
  "f \<in> set (named_layout off names) \<Longrightarrow> \<exists>k. pf_offset f = of_nat k \<and> off \<le> k \<and> k + 4 \<le> off + 16 * length names"
proof (induction names arbitrary: off)
  case Nil
  then show ?case by simp
next
  case (Cons nm names)
  show ?case
  proof (cases "f \<in> set (named_fields off nm)")
    case True
    then obtain k m where "f = float32_field m k" "off \<le> k \<and> k \<le> off + 8"
      by (auto simp: named_fields_def split: if_splits)
    then show ?thesis by (intro exI [of _ k]) (simp add: float32_field_def)
  next
    case False
    then show ?thesis using Cons.IH [of "off + 16"] Cons.prems by force
  qed
qed

section \<open>The iterator\<close>

text \<open>
  The loop \<open>for (; it != it.end(); ++it)\<close> the iterator is made for: the addresses it visits, \<open>None\<close> when
  the fuel does not suffice.
\<close>

fun iter_walk :: "nat \<Rightarrow> iter \<Rightarrow> int list option" where
  "iter_walk 0 it = None"
| "iter_walk (Suc fuel) it =
     (if iter_neq it (iter_end it) then map_option (Cons (iter_deref it)) (iter_walk fuel (iter_next it)) else Some [])"

text \<open>An iterator at the address \<open>a\<close>, with its end at \<open>e\<close>.\<close>

definition iter_at_addr :: "int \<Rightarrow> int \<Rightarrow> int \<Rightarrow> bool \<Rightarrow> iter" where
  "iter_at_addr st a e big = \<lparr>it_point_step = st, it_data_char = a, it_data = a, it_data_end = e, it_is_bigendian = big\<rparr>"

lemma iter_at_addr_simps [simp]:
  "iter_next (iter_at_addr st a e big) = iter_at_addr st (a + st) e big"
  "iter_neq (iter_at_addr st a e big) (iter_end (iter_at_addr st a e big)) \<longleftrightarrow> e \<noteq> a"
  "iter_deref (iter_at_addr st a e big) = a"
  by (simp_all add: iter_at_addr_def iter_next_def iter_neq_def iter_end_def iter_deref_def Let_def)

lemma walk_to_end:
  "st \<noteq> 0 \<Longrightarrow> n < fuel \<Longrightarrow>
   iter_walk fuel (iter_at_addr st a (a + int n * st) big) = Some (map (\<lambda>i. a + int i * st) [0..<n])"
proof (induction n arbitrary: fuel a)
  case 0
  then show ?case by (cases fuel) simp_all
next
  case (Suc n)
  then obtain k where fuel: "fuel = Suc k" "n < k" by (cases fuel) auto
  have "map (\<lambda>i. a + int i * st) [0..<Suc n] = a # map (\<lambda>i. (a + st) + int i * st) [0..<n]"
  proof -
    have "[0..<Suc n] = 0 # map Suc [0..<n]" by (simp add: upt_conv_Cons map_Suc_upt del: upt_Suc)
    then show ?thesis by (simp add: algebra_simps del: upt_Suc)
  qed
  moreover have "a + int (Suc n) * st \<noteq> a" using Suc.prems(1) by simp
  moreover have "a + int (Suc n) * st = (a + st) + int n * st" by (simp add: algebra_simps)
  ultimately show ?case
    using Suc.IH [OF Suc.prems(1) fuel(2), of "a + st"] by (simp add: fuel add.assoc del: upt_Suc of_nat_Suc)
qed

lemma walk_past_end:
  assumes "\<And>n :: nat. e \<noteq> a + int n * st"
  shows "iter_walk fuel (iter_at_addr st a e big) = None"
  using assms
proof (induction fuel arbitrary: a)
  case 0
  then show ?case by simp
next
  case (Suc fuel)
  have "e \<noteq> (a + st) + int n * st" for n using Suc.prems [of "Suc n"] by (simp add: algebra_simps)
  then show ?case using Suc.IH [of "a + st"] Suc.prems [of 0] by simp
qed

text \<open>Adding \<open>n\<close> is \<open>n\<close> increments; both forms of addition and the assignment agree.\<close>

lemma iterator_arithmetic:
  "iter_plus (iter_at_addr st a e big) (int n) = (iter_next ^^ n) (iter_at_addr st a e big)
   \<and> iter_plus_assign it i = iter_plus it i \<and> iter_assign it it' = it' \<and> iter_at k 0 it = iter_deref it"
proof -
  have "(iter_next ^^ n) (iter_at_addr st a e big) = iter_at_addr st (a + int n * st) e big"
    by (induction n) (simp_all add: algebra_simps)
  then show ?thesis
    by (simp add: iter_at_addr_def iter_plus_def iter_plus_assign_def iter_assign_def iter_at_def iter_deref_def Let_def)
qed

lemma iter_init_addr:
  "\<lbrakk> set_field c nm = Ok off; pc2_data c \<noteq> [] \<rbrakk> \<Longrightarrow>
   iter_init c nm = Ok (iter_at_addr (sint (pc2_point_step c)) (sint off) (int (length (pc2_data c)) + sint off)
     (pc2_is_bigendian c))"
  by (simp add: iter_init_def iter_at_addr_def Let_def)

lemma walk_cases:
  assumes "0 < st"
  shows "if st dvd int len
         then iter_walk (Suc (len div nat st)) (iter_at_addr st a (int len + a) big)
                = Some (map (\<lambda>i. a + int i * st) [0..<len div nat st])
         else iter_walk fuel (iter_at_addr st a (int len + a) big) = None"
proof (cases "st dvd int len")
  case True
  obtain s where s: "st = int s" using assms by (metis nonneg_int_cases less_imp_le)
  with True have "int len = int (len div s) * st" by (simp add: s flip: of_nat_mult)
  then show ?thesis using walk_to_end [of st "len div s" "Suc (len div s)" a big] assms True
    by (simp add: s add.commute)
next
  case False
  then have "int len + a \<noteq> a + int n * st" for n by auto
  then show ?thesis using walk_past_end [of "int len + a" a st] False by simp
qed

text \<open>
  A loop over an iterator visits exactly one address per point, from the offset of the field in steps of
  the point step, and ends after as many steps as there are points; but when the data is not a whole
  number of points it never meets its end.
\<close>

theorem iteration_visits_points:
  assumes "set_field c nm = Ok off" and "pc2_data c \<noteq> []" and "0 < sint (pc2_point_step c)"
  shows "\<exists>it. iter_init c nm = Ok it \<and>
     (if sint (pc2_point_step c) dvd int (length (pc2_data c))
      then iter_walk (Suc (length (pc2_data c) div nat (sint (pc2_point_step c)))) it
             = Some (map (\<lambda>i. sint off + int i * sint (pc2_point_step c))
                       [0..<length (pc2_data c) div nat (sint (pc2_point_step c))])
      else iter_walk fuel it = None)"
  using iter_init_addr [OF assms(1,2)] walk_cases [OF assms(3)] by blast

section \<open>A cloud set up by name and filled through its iterators\<close>

lemma find_field_Some: "find_field p fs = Some f \<Longrightarrow> f \<in> set fs \<and> p (pf_name f)"
  by (induction fs) (auto split: if_splits)

text \<open>
  C37: A one-row cloud whose fields are set by name and which is resized to \<open>n\<close> points has \<open>size()\<close> \<open>n\<close>, and
  the loop over the iterator of any of its fields visits \<open>n\<close> floats, all of them inside the data, \<open>16\<close>
  bytes per name apart.
\<close>

theorem named_cloud_iteration:
  assumes "list_all known_name names" and "names \<noteq> []" and "0 < n" and "16 * length names * n < 2 ^ 31"
    and "pc2_height c = 1" and "find_field (\<lambda>m. m = nm) (named_layout 0 names) = Some f"
  shows "\<exists>c1 it addrs. setPointCloud2FieldsByString names c = Ok c1
    \<and> modifier_size (modifier_resize (of_nat n) c1) = Some n
    \<and> iter_init (modifier_resize (of_nat n) c1) nm = Ok it
    \<and> iter_walk (Suc n) it = Some addrs
    \<and> addrs = map (\<lambda>i. uint (pf_offset f) + int i * int (16 * length names)) [0..<n]
    \<and> list_all (\<lambda>a. 0 \<le> a \<and> a + 4 \<le> int (length (pc2_data (modifier_resize (of_nat n) c1)))) addrs"
proof -
  define w where "w = 16 * length names"
  define c1 where "c1 = resize_for_fields (of_nat w) (c\<lparr>pc2_fields := named_layout 0 names\<rparr>)"
  define c2 where "c2 = modifier_resize (of_nat n) c1"
  have set: "setPointCloud2FieldsByString names c = Ok c1" using set_by_string [OF assms(1)] by (simp add: c1_def w_def)
  have s: "0 < w" using assms(2) by (simp add: w_def)
  then have "w * 1 \<le> w * n" "1 * n \<le> w * n" using assms(3) by (intro mult_le_mono; linarith)+
  moreover have wn: "w * n < 2 ^ 31" using assms(4) by (simp add: w_def)
  ultimately have small: "w < 2 ^ 31" "n < 2 ^ 31" by linarith+
  have un: "unat (of_nat n :: u32) = n" "unat (of_nat w :: u32) = w" using small by (simp_all add: unat_of_nat_u32)
  have step: "pc2_point_step c1 = of_nat w" "pc2_point_step c2 = of_nat w" "pc2_fields c2 = named_layout 0 names"
    by (simp_all add: c1_def c2_def resize_for_fields_def modifier_resize_def Let_def)
  have sint: "sint (of_nat k :: u32) = int k" if "k < 2 ^ 31" for k
    using that by (simp add: signed_of_nat signed_take_bit_int_eq_self)
  have len: "length (pc2_data c2) = w * n"
  proof -
    have "unat (of_nat n * of_nat w :: u32) = n * w"
      using wn un by (simp add: unat_word_ariths mult.commute)
    then show ?thesis using assms(5) by (simp add: c2_def modifier_resize_def step(1) Let_def c1_def resize_for_fields_def)
  qed
  have "pc2_point_step c1 \<noteq> 0" using un(2) s step(1) by auto
  then have size: "modifier_size c2 = Some n"
    using len un(2) s by (simp add: modifier_size_def step c2_def [symmetric])
  obtain k where k: "pf_offset f = of_nat k" "k + 4 \<le> w"
    using named_layout_offset [of f 0 names] find_field_Some [OF assms(6)] by (auto simp: w_def)
  have field: "set_field c2 nm = Ok (pf_offset f)" using assms(6) by (simp add: set_field_def step(3) Let_def)
  have off: "sint (pf_offset f) = int k" "uint (pf_offset f) = int k"
    using k small(1) sint [of k] by (simp_all add: uint_nat unat_of_nat_u32)
  have "pc2_data c2 \<noteq> []" using len s assms(3) by auto
  then have it: "iter_init c2 nm = Ok (iter_at_addr (int w) (int k) (int k + int n * int w) (pc2_is_bigendian c2))"
    using iter_init_addr [OF field] by (simp add: step sint [OF small(1)] off len add.commute mult.commute)
  have walk: "iter_walk (Suc n) (iter_at_addr (int w) (int k) (int k + int n * int w) (pc2_is_bigendian c2))
      = Some (map (\<lambda>i. int k + int i * int w) [0..<n])"
    using s by (intro walk_to_end) simp_all
  have inside: "0 \<le> int k + int i * int w \<and> int k + int i * int w + 4 \<le> int (length (pc2_data c2))" if "i < n" for i
  proof -
    have "w * i + w \<le> w * n" using that mult_le_mono2 [of "Suc i" n w] by simp
    then have "k + i * w + 4 \<le> w * n" using k(2) by (simp add: mult.commute)
    then show ?thesis unfolding len by (metis of_nat_0_le_iff of_nat_add of_nat_le_iff of_nat_mult of_nat_numeral)
  qed
  show ?thesis
    using set size it walk inside unfolding c2_def [symmetric] off(2) w_def [symmetric]
    by (intro exI [of _ c1] exI conjI) (auto simp: list_all_length c2_def)
qed

section \<open>Colour channels\<close>

text \<open>The four bytes written through the iterators of \<open>r\<close>, \<open>g\<close>, \<open>b\<close> and \<open>a\<close>, one after the other.\<close>

definition store_at :: "PointCloud2 \<Rightarrow> string \<Rightarrow> u8 \<Rightarrow> PointCloud2" where
  "store_at c nm v =
     (case iter_init c nm of
        Ok it \<Rightarrow> c\<lparr>pc2_data := (pc2_data c)[nat (iter_deref it) := v]\<rparr>
      | Throw e u \<Rightarrow> c
      | Undefined \<Rightarrow> c)"

definition is_channel :: "string \<Rightarrow> bool" where
  "is_channel nm \<longleftrightarrow> nm = ''r'' \<or> nm = ''g'' \<or> nm = ''b'' \<or> nm = ''a''"

lemma find_field_data [simp]: "set_field (c\<lparr>pc2_data := d\<rparr>) nm = set_field c nm"
  by (simp add: set_field_def Let_def cong: if_cong option.case_cong)

lemma store_at_offset:
  assumes "set_field c nm = Ok (of_nat k)" and "k < 2 ^ 31" and "pc2_data c \<noteq> []"
  shows "store_at c nm v = c\<lparr>pc2_data := (pc2_data c)[k := v]\<rparr>"
proof -
  have "sint (of_nat k :: u32) = int k" using assms(2) by (simp add: signed_of_nat signed_take_bit_int_eq_self)
  then show ?thesis using iter_init_addr [OF assms(1,3)] by (simp add: store_at_def)
qed

lemma channel_offset:
  assumes "\<And>nm. is_channel nm \<Longrightarrow> find_field (\<lambda>m. m = nm) (pc2_fields c) = None"
    and "find_field (\<lambda>m. m = ''rgb'' \<or> m = ''rgba'') (pc2_fields c) = Some f" and "pf_offset f = of_nat k"
  shows "set_field c ''r'' = Ok (of_nat (k + (if pc2_is_bigendian c then 1 else 2)))"
    and "set_field c ''g'' = Ok (of_nat (k + (if pc2_is_bigendian c then 2 else 1)))"
    and "set_field c ''b'' = Ok (of_nat (k + (if pc2_is_bigendian c then 3 else 0)))"
    and "set_field c ''a'' = Ok (of_nat (k + (if pc2_is_bigendian c then 0 else 3)))"
  using assms(1) [of "''r''"] assms(1) [of "''g''"] assms(1) [of "''b''"] assms(1) [of "''a''"]
  by (simp_all add: set_field_def is_channel_def assms(2,3) Let_def)

text \<open>
  The colour channels of an \<open>rgb\<close> field share its four bytes: what is stored through the iterators of
  \<open>r\<close>, \<open>g\<close>, \<open>b\<close> and \<open>a\<close> is the word with \<open>a\<close> in its highest byte, then \<open>r\<close>, \<open>g\<close> and \<open>b\<close>, in the byte order the
  message says, and no other byte of the data changes.
\<close>

theorem colour_channels_pack:
  assumes "\<And>nm. is_channel nm \<Longrightarrow> find_field (\<lambda>m. m = nm) (pc2_fields c) = None"
    and "find_field (\<lambda>m. m = ''rgb'' \<or> m = ''rgba'') (pc2_fields c) = Some f"
    and "pc2_data c = pre @ old @ post" and "length pre = unat (pf_offset f)" and "length old = 4"
    and "unat (pf_offset f) + 4 < 2 ^ 31"
  shows "pc2_data (store_at (store_at (store_at (store_at c ''r'' r) ''g'' g) ''b'' b) ''a'' a)
       = pre @ (if pc2_is_bigendian c then [a, r, g, b] else [b, g, r, a]) @ post"
proof -
  let ?k = "unat (pf_offset f)"
  have k: "pf_offset f = of_nat ?k" by simp
  note off = channel_offset [OF assms(1,2) k]
  obtain w x y z where old: "old = [w, x, y, z]" using assms(5) by (auto simp: numeral_eq_Suc length_Suc_conv)
  have step: "store_at (c\<lparr>pc2_data := d\<rparr>) nm v = c\<lparr>pc2_data := d[?k + j := v]\<rparr>"
    if "set_field c nm = Ok (of_nat (?k + j))" "j < 4" "d \<noteq> []" for d nm v j
    using store_at_offset [of "c\<lparr>pc2_data := d\<rparr>" nm "?k + j" v] that assms(6) by simp
  have ne: "pc2_data c \<noteq> []" by (simp add: assms(3) old)
  have first: "store_at c nm v = c\<lparr>pc2_data := (pc2_data c)[?k + j := v]\<rparr>"
    if "set_field c nm = Ok (of_nat (?k + j))" "j < 4" for nm v j
    using store_at_offset [of c nm "?k + j" v] that assms(6) ne by simp
  show ?thesis
  proof (cases "pc2_is_bigendian c")
    case True
    note o = off [unfolded if_P [OF True]]
    show ?thesis
      using first [OF o(1), of r] step [OF o(2), of "(pc2_data c)[?k + 1 := r]" g]
        step [OF o(3), of "(pc2_data c)[?k + 1 := r, ?k + 2 := g]" b]
        step [OF o(4), of "(pc2_data c)[?k + 1 := r, ?k + 2 := g, ?k + 3 := b]" a] ne True
      by (simp add: assms(3) old list_update_append assms(4) [symmetric])
  next
    case False
    note o = off [unfolded if_not_P [OF False]]
    show ?thesis
      using first [OF o(1), of r] step [OF o(2), of "(pc2_data c)[?k + 2 := r]" g]
        step [OF o(3), of "(pc2_data c)[?k + 2 := r, ?k + 1 := g]" b]
        step [OF o(4), of "(pc2_data c)[?k + 2 := r, ?k + 1 := g, ?k := b]" a] ne False
      by (simp add: assms(3) old list_update_append assms(4) [symmetric])
  qed
qed

section \<open>Examples\<close>

definition empty_cloud :: PointCloud2 where
  "empty_cloud = \<lparr>pc2_header = \<lparr>stamp = \<lparr>sec = 0, nanosec = 0\<rparr>, frame_id = []\<rparr>, pc2_height = 1, pc2_width = 0,
     pc2_fields = [], pc2_is_bigendian = False, pc2_point_step = 0, pc2_row_step = 0, pc2_data = [], pc2_is_dense = True\<rparr>"

definition one_colour :: PointCloud2 where
  "one_colour = empty_cloud\<lparr>pc2_width := 1, pc2_fields := [float32_field ''x'' 0, float32_field ''rgb'' 4],
     pc2_point_step := 8, pc2_row_step := 8, pc2_data := [1, 2, 3, 4, 0, 0, 0, 0]\<rparr>"

lemma modifier_keeps_geometry_witness:
  "cloud_ok (foldl (\<lambda>c m. modify_cloud m c) empty_cloud
     [Set_by_string [''xyz'', ''rgb''], Resize 5, Set_fields [(''x'', 1, 7), (''y'', 1, 9)], Clear, Resize 2])"
  by (rule modifier_keeps_geometry) (simp add: cloud_ok_def empty_cloud_def)

lemma resize_gives_size_witness:
  "modifier_size (modifier_resize 3 one_colour) = Some (unat (3 :: u32))
   \<and> unat (pc2_height (modifier_resize 3 one_colour)) * unat (pc2_width (modifier_resize 3 one_colour)) = unat (3 :: u32)
   \<and> take (length (pc2_data one_colour)) (pc2_data (modifier_resize 3 one_colour))
      = take (unat (3 :: u32) * unat (pc2_point_step one_colour)) (pc2_data one_colour)"
  by (rule resize_gives_size) (simp_all add: one_colour_def)

lemma set_fields_do_not_overlap_witness:
  "\<exists>c'. setPointCloud2Fields [(''x'', 1, 7), (''t'', 2, 8), (''ring'', 1, 4)] empty_cloud = Ok c'
    \<and> length (pc2_fields c') = length [(''x'', 1 :: u32, 7 :: u32), (''t'', 2, 8), (''ring'', 1, 4)]
    \<and> ((1 :: nat) = 2 \<or> unat (pf_offset (pc2_fields c' ! 1)) + field_bytes ([(''x'', 1, 7), (''t'', 2, 8), (''ring'', 1, 4)] ! 1)
          \<le> unat (pf_offset (pc2_fields c' ! 2)))
    \<and> unat (pf_offset (pc2_fields c' ! 2)) + field_bytes ([(''x'', 1, 7), (''t'', 2, 8), (''ring'', 1, 4)] ! 2)
       \<le> unat (pc2_point_step c')"
  by (rule set_fields_do_not_overlap)
    (simp_all add: known_type_def field_bytes_def sizeOfPointField_def point_field_types)

lemma bad_field_stays_witness:
  "setPointCloud2Fields ([(''x'', 1, 7)] @ (''y'', 1, 9) # [(''z'', 1, 7)]) empty_cloud
     = Throw (no_such_type (snd (snd (''y'', 1 :: u32, 9))))
         (empty_cloud\<lparr>pc2_fields := layout 0 [(''x'', 1, 7)]
            @ [arg_field (sum_list (map field_bytes [(''x'', 1, 7)])) (''y'', 1, 9)]\<rparr>)"
  by (rule bad_field_stays) (simp_all add: known_type_def sizeOfPointField_def point_field_types)

lemma iteration_visits_points_witness:
  "\<exists>it. iter_init one_colour ''rgb'' = Ok it \<and>
     (if sint (pc2_point_step one_colour) dvd int (length (pc2_data one_colour))
      then iter_walk (Suc (length (pc2_data one_colour) div nat (sint (pc2_point_step one_colour)))) it
             = Some (map (\<lambda>i. sint (4 :: u32) + int i * sint (pc2_point_step one_colour))
                       [0..<length (pc2_data one_colour) div nat (sint (pc2_point_step one_colour))])
      else iter_walk 7 it = None)"
  by (rule iteration_visits_points) (simp_all add: one_colour_def set_field_def float32_field_def Let_def)

lemma named_cloud_iteration_witness:
  "\<exists>c1 it addrs. setPointCloud2FieldsByString [''xyz'', ''rgb''] empty_cloud = Ok c1
    \<and> modifier_size (modifier_resize (of_nat 3) c1) = Some 3
    \<and> iter_init (modifier_resize (of_nat 3) c1) ''rgb'' = Ok it
    \<and> iter_walk (Suc 3) it = Some addrs
    \<and> addrs = map (\<lambda>i. uint (pf_offset (float32_field ''rgb'' 16)) + int i * int (16 * length [''xyz'', ''rgb''])) [0..<3]
    \<and> list_all (\<lambda>a. 0 \<le> a \<and> a + 4 \<le> int (length (pc2_data (modifier_resize (of_nat 3) c1)))) addrs"
  by (rule named_cloud_iteration)
    (simp_all add: known_name_def empty_cloud_def named_fields_def float32_field_def)

lemma colour_channels_pack_witness:
  "pc2_data (store_at (store_at (store_at (store_at one_colour ''r'' 10) ''g'' 20) ''b'' 30) ''a'' 40)
     = [1, 2, 3, 4] @ (if pc2_is_bigendian one_colour then [40, 10, 20, 30] else [30, 20, 10, 40]) @ []"
  by (rule colour_channels_pack [where f = "float32_field ''rgb'' 4" and old = "[0, 0, 0, 0]"])
    (auto simp: one_colour_def empty_cloud_def is_channel_def float32_field_def)

end
