(* ===== verification/Rcutils_Checks.thy ===== *)
theory Rcutils_Checks
  imports Rcutils_Error_Props
begin

text \<open>
  The checks the headers of rcutils, rmw and rosidl wrap around a function's work: arguments,
  allocators, containers, return codes, identifiers of implementations, and exceptions that must not
  cross into C.  As in \<open>Rcutils_Error\<close>, \<open>Some r\<close> means the surrounding function has returned \<open>r\<close>.
\<close>

section \<open>Return codes\<close>

definition RCUTILS_RET_OK :: int where "RCUTILS_RET_OK = 0"

definition RCUTILS_RET_ERROR :: int where "RCUTILS_RET_ERROR = 2"

definition RCUTILS_RET_INVALID_ARGUMENT :: int where "RCUTILS_RET_INVALID_ARGUMENT = 11"

definition RCUTILS_RET_NOT_INITIALIZED :: int where "RCUTILS_RET_NOT_INITIALIZED = 13"

definition RMW_RET_ERROR :: int where "RMW_RET_ERROR = 1"

definition RMW_RET_TIMEOUT :: int where "RMW_RET_TIMEOUT = 2"

section \<open>Aliases\<close>

definition RMW_CHECK_ARGUMENT_FOR_NULL ::
    "rc_config \<Rightarrow> rcutils_log_location_t \<Rightarrow> string \<Rightarrow> 'v option \<Rightarrow> 'r \<Rightarrow> 'r option rc" where
  "RMW_CHECK_ARGUMENT_FOR_NULL C loc argument_text argument error_return_type =
     RCUTILS_CHECK_ARGUMENT_FOR_NULL C loc argument_text argument error_return_type"

definition RMW_CHECK_FOR_NULL_WITH_MSG ::
    "rc_config \<Rightarrow> rcutils_log_location_t \<Rightarrow> 'v option \<Rightarrow> string \<Rightarrow> 'r option rc \<Rightarrow> 'r option rc" where
  "RMW_CHECK_FOR_NULL_WITH_MSG C loc v msg error_statement =
     RCUTILS_CHECK_FOR_NULL_WITH_MSG C loc v msg error_statement"

definition RMW_SET_ERROR_MSG :: "rc_config \<Rightarrow> rcutils_log_location_t \<Rightarrow> string \<Rightarrow> unit rc" where
  "RMW_SET_ERROR_MSG C loc msg = RCUTILS_SET_ERROR_MSG C loc msg"

definition RMW_SET_ERROR_MSG_WITH_FORMAT_STRING ::
    "rc_config \<Rightarrow> rc_env \<Rightarrow> rcutils_log_location_t \<Rightarrow> string \<Rightarrow> string list \<Rightarrow> unit rc" where
  "RMW_SET_ERROR_MSG_WITH_FORMAT_STRING C L loc format_string args =
     RCUTILS_SET_ERROR_MSG_WITH_FORMAT_STRING C L loc format_string args"

definition RMW_SET_ERROR_MSG_AND_APPEND_PREV_ERROR ::
    "rc_config \<Rightarrow> rc_env \<Rightarrow> rcutils_log_location_t \<Rightarrow> string \<Rightarrow> unit rc" where
  "RMW_SET_ERROR_MSG_AND_APPEND_PREV_ERROR C L loc msg =
     RCUTILS_SET_ERROR_MSG_AND_APPEND_PREV_ERROR C L loc msg"

definition RMW_SET_ERROR_MSG_WITH_FORMAT_STRING_AND_APPEND_PREV_ERROR ::
    "rc_config \<Rightarrow> rc_env \<Rightarrow> rcutils_log_location_t \<Rightarrow> string \<Rightarrow> string list \<Rightarrow> unit rc" where
  "RMW_SET_ERROR_MSG_WITH_FORMAT_STRING_AND_APPEND_PREV_ERROR C L loc format_string args =
     RCUTILS_SET_ERROR_MSG_WITH_FORMAT_STRING_AND_APPEND_PREV_ERROR C L loc format_string args"

definition RCL_CHECK_ARGUMENT_FOR_NULL ::
    "rc_config \<Rightarrow> rcutils_log_location_t \<Rightarrow> string \<Rightarrow> 'v option \<Rightarrow> 'r \<Rightarrow> 'r option rc" where
  "RCL_CHECK_ARGUMENT_FOR_NULL C loc argument_text argument error_return_type =
     RCUTILS_CHECK_ARGUMENT_FOR_NULL C loc argument_text argument error_return_type"

definition RCL_CHECK_FOR_NULL_WITH_MSG ::
    "rc_config \<Rightarrow> rcutils_log_location_t \<Rightarrow> 'v option \<Rightarrow> string \<Rightarrow> 'r option rc \<Rightarrow> 'r option rc" where
  "RCL_CHECK_FOR_NULL_WITH_MSG C loc v msg error_statement =
     RCUTILS_CHECK_FOR_NULL_WITH_MSG C loc v msg error_statement"

definition RCL_SET_ERROR_MSG :: "rc_config \<Rightarrow> rcutils_log_location_t \<Rightarrow> string \<Rightarrow> unit rc" where
  "RCL_SET_ERROR_MSG C loc msg = RCUTILS_SET_ERROR_MSG C loc msg"

definition RCL_SET_ERROR_MSG_WITH_FORMAT_STRING ::
    "rc_config \<Rightarrow> rc_env \<Rightarrow> rcutils_log_location_t \<Rightarrow> string \<Rightarrow> string list \<Rightarrow> unit rc" where
  "RCL_SET_ERROR_MSG_WITH_FORMAT_STRING C L loc format_string args =
     RCUTILS_SET_ERROR_MSG_WITH_FORMAT_STRING C L loc format_string args"

section \<open>Arguments, containers and return codes\<close>

text \<open>A container handle: \<open>None\<close> is a null pointer, \<open>impl\<close> the pointer to the implementation.\<close>

record 'i container =
  impl :: "'i option"

definition ARRAY_LIST_VALIDATE_ARRAY_LIST ::
    "rc_config \<Rightarrow> rcutils_log_location_t \<Rightarrow> string \<Rightarrow> 'i container option \<Rightarrow> int option rc" where
  "ARRAY_LIST_VALIDATE_ARRAY_LIST C loc argument_text array_list = do {
     r \<leftarrow> RCUTILS_CHECK_ARGUMENT_FOR_NULL C loc argument_text array_list RCUTILS_RET_INVALID_ARGUMENT;
     (case (r, array_list) of
        (None, Some l) \<Rightarrow>
          if impl l = None then do {
            RCUTILS_SET_ERROR_MSG C loc ''array_list is not initialized'';
            return (Some RCUTILS_RET_NOT_INITIALIZED)
          } else return None
      | _ \<Rightarrow> return r)
   }"

definition HASH_MAP_VALIDATE_HASH_MAP ::
    "rc_config \<Rightarrow> rcutils_log_location_t \<Rightarrow> string \<Rightarrow> 'i container option \<Rightarrow> int option rc" where
  "HASH_MAP_VALIDATE_HASH_MAP C loc argument_text m = do {
     r \<leftarrow> RCUTILS_CHECK_ARGUMENT_FOR_NULL C loc argument_text m RCUTILS_RET_INVALID_ARGUMENT;
     (case (r, m) of
        (None, Some l) \<Rightarrow>
          if impl l = None then do {
            RCUTILS_SET_ERROR_MSG C loc ''map is not initialized'';
            return (Some RCUTILS_RET_NOT_INITIALIZED)
          } else return None
      | _ \<Rightarrow> return r)
   }"

text \<open>\<open>rcutils_allocator_is_valid\<close> is a function of the library; its answer is the argument \<open>valid\<close>.\<close>

definition RCUTILS_CHECK_ALLOCATOR :: "bool \<Rightarrow> 'r option rc \<Rightarrow> 'r option rc" where
  "RCUTILS_CHECK_ALLOCATOR valid fail_statement = (if \<not> valid then fail_statement else return None)"

definition RCUTILS_CHECK_ALLOCATOR_WITH_MSG ::
    "rc_config \<Rightarrow> rcutils_log_location_t \<Rightarrow> bool \<Rightarrow> string \<Rightarrow> 'r option rc \<Rightarrow> 'r option rc" where
  "RCUTILS_CHECK_ALLOCATOR_WITH_MSG C loc valid msg fail_statement =
     (if \<not> valid then do { RCUTILS_SET_ERROR_MSG C loc msg; fail_statement } else return None)"

definition ROSIDL_DYNAMIC_TYPESUPPORT_CHECK_RET_FOR_NOT_OK :: "int rc \<Rightarrow> int option rc" where
  "ROSIDL_DYNAMIC_TYPESUPPORT_CHECK_RET_FOR_NOT_OK statement_with_return_code = do {
     macro_ret \<leftarrow> statement_with_return_code;
     return (if macro_ret \<noteq> RCUTILS_RET_OK then Some macro_ret else None)
   }"

definition ROSIDL_DYNAMIC_TYPESUPPORT_CHECK_RET_FOR_NOT_OK_WITH_CLEANUP :: "int rc \<Rightarrow> unit rc \<Rightarrow> int option rc" where
  "ROSIDL_DYNAMIC_TYPESUPPORT_CHECK_RET_FOR_NOT_OK_WITH_CLEANUP statement_with_return_code cleanup_statement = do {
     macro_ret \<leftarrow> statement_with_return_code;
     if macro_ret \<noteq> RCUTILS_RET_OK
     then do { cleanup_statement; return (Some macro_ret) }
     else return None
   }"

text \<open>A \<open>char\<close> may be signed: a byte from \<open>0x80\<close> on is below every bound or above it.\<close>

definition rcutils_isalnum_no_locale :: "int \<Rightarrow> bool" where
  "rcutils_isalnum_no_locale c =
     (if c \<ge> 0x30 \<and> c \<le> 0x39 then True
      else if c \<ge> 0x41 \<and> c \<le> 0x5a then True
      else if c \<ge> 0x61 \<and> c \<le> 0x7a then True
      else False)"

section \<open>Identifiers of implementations\<close>

text \<open>A string constant that identifies an implementation; two are compared by address.\<close>

record type_identifier =
  id_address :: nat
  id_text :: string

definition quoted_s :: string where
  "quoted_s = [CHR 0x27] @ ''%s'' @ [CHR 0x27]"

definition mismatch_format :: "string \<Rightarrow> string" where
  "mismatch_format ElementName =
     ElementName @ '' implementation '' @ quoted_s @ ''(%p) does not match rmw implementation '' @ quoted_s @ ''(%p)''"

text \<open>
  \<open>rmw/check_type_identifiers_match.h\<close>, with and without \<open>RMW_AVOID_MEMORY_ALLOCATION\<close>; \<open>allocate\<close> answers
  whether \<open>rmw_allocate\<close> has returned memory, \<open>print\<close> prints an address.
\<close>

definition RMW_CHECK_TYPE_IDENTIFIERS_MATCH ::
    "rc_config \<Rightarrow> bool \<Rightarrow> rc_env \<Rightarrow> (rc_call list \<Rightarrow> bool) \<Rightarrow> (nat \<Rightarrow> string) \<Rightarrow> rcutils_log_location_t \<Rightarrow>
      string \<Rightarrow> type_identifier \<Rightarrow> type_identifier \<Rightarrow> 'r option rc \<Rightarrow> 'r option rc" where
  "RMW_CHECK_TYPE_IDENTIFIERS_MATCH C avoid L allocate print loc ElementName ElementTypeID ExpectedTypeID OnFailure =
     (let args = [id_text ElementTypeID, print (id_address ElementTypeID),
                  id_text ExpectedTypeID, print (id_address ExpectedTypeID)]
      in if id_address ElementTypeID = id_address ExpectedTypeID then return None
         else if avoid then do {
           (ret, msg) \<leftarrow> rc_ask (Snprintf 1024 (mismatch_format ElementName) args) (snprintf_answer L);
           RMW_SET_ERROR_MSG C loc
             (if ret < 0 then ''RMW_CHECK_TYPE_IDENTIFIERS_MATCH(): rcutils_snprintf() failed'' else msg);
           OnFailure
         }
         else do {
           (bytes, _) \<leftarrow> rc_ask (Snprintf 0 (mismatch_format ElementName) args) (snprintf_answer L);
           if bytes < 0 then do {
             RMW_SET_ERROR_MSG C loc ''RMW_CHECK_TYPE_IDENTIFIERS_MATCH(): rcutils_snprintf(NULL, 0, ...) failed'';
             OnFailure
           }
           else do {
             got \<leftarrow> rc_ask (Rmw_allocate (nat (bytes + 1))) allocate;
             (if \<not> got then
                RMW_SET_ERROR_MSG C loc ''RMW_CHECK_TYPE_IDENTIFIERS_MATCH(): rmw_allocate() failed''
              else do {
                (ret, msg) \<leftarrow> rc_ask (Snprintf (nat (bytes + 1)) (mismatch_format ElementName) args) (snprintf_answer L);
                (if ret < 0 then
                   RMW_SET_ERROR_MSG C loc ''RMW_CHECK_TYPE_IDENTIFIERS_MATCH(): rcutils_snprintf() failed''
                 else RMW_SET_ERROR_MSG C loc msg)
              });
             rc_emit (Rmw_free (\<not> got));
             OnFailure
           }
         })"

text \<open>
  The macro of the same name in \<open>rmw_microxrcedds_c/rmw_c_macros.h\<close>, which compares the text and lets a
  null identifier pass; \<open>expected\<close> is the identifier string of the library.
\<close>

definition RMW_C_CHECK_TYPE_IDENTIFIERS_MATCH ::
    "rc_config \<Rightarrow> string \<Rightarrow> rcutils_log_location_t \<Rightarrow> string option \<Rightarrow> 'r \<Rightarrow> 'r option rc" where
  "RMW_C_CHECK_TYPE_IDENTIFIERS_MATCH C expected loc identifier ret_on_failure =
     (case identifier of
        Some i \<Rightarrow>
          if i \<noteq> expected then do {
            RMW_SET_ERROR_MSG C loc ''Implementation identifiers does not match'';
            return (Some ret_on_failure)
          } else return None
      | None \<Rightarrow> return None)"

section \<open>Exceptions\<close>

text \<open>How a statement of C++ ends: normally, with a \<open>std::exception\<close> (its demangled type and its text), or with another one.\<close>

datatype 'x attempt = Completes 'x | Throws_exception string string | Throws_unknown

definition RMW_TRY_PLACEMENT_NEW ::
    "rc_config \<Rightarrow> rcutils_log_location_t \<Rightarrow> 'x attempt rc \<Rightarrow> string \<Rightarrow> 'r option rc \<Rightarrow> ('x option \<times> 'r option) rc" where
  "RMW_TRY_PLACEMENT_NEW C loc construct type_text FailureAction = do {
     a \<leftarrow> construct;
     (case a of
        Completes destination \<Rightarrow> return (Some destination, None)
      | Throws_exception demangled what \<Rightarrow> do {
          RMW_SET_ERROR_MSG C loc
            (''caught C++ exception '' @ demangled @ '' constructing '' @ type_text @ '': '' @ what);
          r \<leftarrow> FailureAction;
          return (None, r)
        }
      | Throws_unknown \<Rightarrow> do {
          RMW_SET_ERROR_MSG C loc (''caught unknown C++ exception constructing '' @ type_text);
          r \<leftarrow> FailureAction;
          return (None, r)
        })
   }"

definition RMW_TRY_DESTRUCTOR ::
    "rc_config \<Rightarrow> rcutils_log_location_t \<Rightarrow> unit attempt rc \<Rightarrow> string \<Rightarrow> 'r option rc \<Rightarrow> 'r option rc" where
  "RMW_TRY_DESTRUCTOR C loc statement type_text FailureAction = do {
     a \<leftarrow> statement;
     (case a of
        Completes _ \<Rightarrow> return None
      | Throws_exception demangled what \<Rightarrow> do {
          RMW_SET_ERROR_MSG C loc
            (''caught C++ exception in destructor of '' @ type_text @ '': '' @ demangled @ '': '' @ what);
          FailureAction
        }
      | Throws_unknown \<Rightarrow> do {
          RMW_SET_ERROR_MSG C loc (''caught unknown C++ exception in destructor of '' @ type_text);
          FailureAction
        })
   }"

definition RMW_TRY_DESTRUCTOR_FROM_WITHIN_FAILURE ::
    "rcutils_log_location_t \<Rightarrow> unit attempt rc \<Rightarrow> string \<Rightarrow> unit rc" where
  "RMW_TRY_DESTRUCTOR_FROM_WITHIN_FAILURE loc statement type_text = do {
     a \<leftarrow> statement;
     (case a of
        Completes _ \<Rightarrow> skip
      | Throws_exception demangled what \<Rightarrow>
          rc_emit (Cerr (''caught C++ exception in destructor of '' @ type_text @ '' while handling a failure: ''
            @ demangled @ '': '' @ what @ '', at: '' @ file_name loc @ '':'' @ decimal (line_number loc) @ [CHR 0x0A]))
      | Throws_unknown \<Rightarrow>
          rc_emit (Cerr (''caught unknown C++ exception in destructor of '' @ type_text
            @ '' while handling a failure at: '' @ file_name loc @ '':'' @ decimal (line_number loc) @ [CHR 0x0A])))
   }"

section \<open>What the checks do\<close>

lemma rmw_error_codes_differ: "RCUTILS_RET_ERROR \<noteq> RMW_RET_ERROR" "RCUTILS_RET_ERROR = RMW_RET_TIMEOUT"
  by (simp_all add: RCUTILS_RET_ERROR_def RMW_RET_ERROR_def RMW_RET_TIMEOUT_def)

text \<open>Whatever the signedness of \<open>char\<close>, only the 62 ASCII letters and digits pass.\<close>

definition letters_and_digits :: string where
  "letters_and_digits = ''0123456789ABCDEFGHIJKLMNOPQRSTUVWXYZabcdefghijklmnopqrstuvwxyz''"

lemma letters_and_digits_codes: "map of_char letters_and_digits = [48..57] @ [65..90] @ [97..122 :: int]"
  by (simp add: letters_and_digits_def upto_rec_numeral)

lemma isalnum_ascii:
  "rcutils_isalnum_no_locale (of_char c) \<longleftrightarrow> c \<in> set letters_and_digits"
  "128 \<le> b \<and> b < 256 \<Longrightarrow> \<not> rcutils_isalnum_no_locale b \<and> \<not> rcutils_isalnum_no_locale (b - 256)"
proof -
  have "c \<in> set letters_and_digits \<longleftrightarrow> (of_char c :: int) \<in> of_char ` set letters_and_digits"
    by (rule inj_image_mem_iff [symmetric]) (simp add: inj_def)
  also have "\<dots> \<longleftrightarrow> (of_char c :: int) \<in> set ([48..57] @ [65..90] @ [97..122])"
    by (simp only: set_map [symmetric] letters_and_digits_codes)
  finally show "rcutils_isalnum_no_locale (of_char c) \<longleftrightarrow> c \<in> set letters_and_digits"
    unfolding rcutils_isalnum_no_locale_def set_append set_upto Un_iff atLeastAtMost_iff by argo
qed (simp add: rcutils_isalnum_no_locale_def)

text \<open>The two container checks return the code of the first thing that is wrong, with its message.\<close>

lemma container_checks:
  assumes "\<not> RCUTILS_AVOID_DYNAMIC_ALLOCATION C"
  shows "run_state (HASH_MAP_VALIDATE_HASH_MAP C loc arg m) s =
      (case m of
         None \<Rightarrow> (Some RCUTILS_RET_INVALID_ARGUMENT,
           s\<lparr>calls := calls s @ [Set_error_state (arg @ '' argument is null'') (file_name loc) (line_number loc)]\<rparr>)
       | Some l \<Rightarrow>
           if impl l = None then (Some RCUTILS_RET_NOT_INITIALIZED,
             s\<lparr>calls := calls s @ [Set_error_state ''map is not initialized'' (file_name loc) (line_number loc)]\<rparr>)
           else (None, s))"
    and "run_state (ARRAY_LIST_VALIDATE_ARRAY_LIST C loc arg m) s =
      (case m of
         None \<Rightarrow> (Some RCUTILS_RET_INVALID_ARGUMENT,
           s\<lparr>calls := calls s @ [Set_error_state (arg @ '' argument is null'') (file_name loc) (line_number loc)]\<rparr>)
       | Some l \<Rightarrow>
           if impl l = None then (Some RCUTILS_RET_NOT_INITIALIZED,
             s\<lparr>calls := calls s @ [Set_error_state ''array_list is not initialized'' (file_name loc) (line_number loc)]\<rparr>)
           else (None, s))"
  using assms
  by (auto simp: HASH_MAP_VALIDATE_HASH_MAP_def ARRAY_LIST_VALIDATE_ARRAY_LIST_def
      RCUTILS_CHECK_ARGUMENT_FOR_NULL_def RCUTILS_CHECK_FOR_NULL_WITH_MSG_def RCUTILS_SET_ERROR_MSG_def
      split: option.split)

text \<open>What a mismatch reports, and the arguments it is formatted from.\<close>

definition mismatch_args :: "(nat \<Rightarrow> string) \<Rightarrow> type_identifier \<Rightarrow> type_identifier \<Rightarrow> string list" where
  "mismatch_args print e x = [id_text e, print (id_address e), id_text x, print (id_address x)]"

definition mismatch_text :: "(nat \<Rightarrow> string) \<Rightarrow> string \<Rightarrow> type_identifier \<Rightarrow> type_identifier \<Rightarrow> string" where
  "mismatch_text print name e x =
     name @ '' implementation '' @ [CHR 0x27] @ id_text e @ [CHR 0x27] @ ''('' @ print (id_address e)
     @ '') does not match rmw implementation '' @ [CHR 0x27] @ id_text x @ [CHR 0x27] @ ''('' @ print (id_address x) @ '')''"

lemma format_mismatch:
  "literal name \<Longrightarrow> format (mismatch_format name) (mismatch_args print e x) = Some (mismatch_text print name e x)"
  by (simp add: mismatch_format_def mismatch_args_def mismatch_text_def quoted_s_def format_literal_append)

lemma in_field_in_field: "m \<le> n \<Longrightarrow> in_field m (in_field n t) = in_field m t"
  by (simp add: in_field_def min_def)

text \<open>
  the identifier check of rmw reports a mismatch in full and gives back what it takes.  For two
  identifiers at different addresses it runs the failure statement once, whatever happens.  With memory
  allocation it asks for exactly the bytes of the message and its terminator, reports the whole message
  and frees the buffer once; when there is no memory it reports that instead, and frees the null pointer
  it got.  Without allocation the message is cut to 1023 characters, and what the error store keeps of it is
  the same.  Identifiers at one address pass without a call.\<close>

theorem identifier_check_reports:
  assumes "snprintf_contract L" and "literal name" and "\<not> RCUTILS_AVOID_DYNAMIC_ALLOCATION C"
    and "fmt = mismatch_format name" and "args = mismatch_args print e x" and "t = mismatch_text print name e x"
    and "report = (\<lambda>msg. Set_error_state msg (file_name loc) (line_number loc))"
    and "got = allocate (calls s @ [Snprintf 0 fmt args, Rmw_allocate (length t + 1)])"
  shows "run_state (RMW_CHECK_TYPE_IDENTIFIERS_MATCH C avoid L allocate print loc name e x (return (Some r))) s =
      (if id_address e = id_address x then (None, s)
       else (Some r, s\<lparr>calls := calls s @
         (if avoid then [Snprintf 1024 fmt args, report (in_field 1024 t)]
          else if got then [Snprintf 0 fmt args, Rmw_allocate (length t + 1), Snprintf (length t + 1) fmt args,
                            report t, Rmw_free False]
          else [Snprintf 0 fmt args, Rmw_allocate (length t + 1),
                report ''RMW_CHECK_TYPE_IDENTIFIERS_MATCH(): rmw_allocate() failed'', Rmw_free True])\<rparr>))
    \<and> error_step st (report (in_field 1024 t)) = error_step st (report t)"
proof -
  note snp = snprintfD [OF assms(1) format_mismatch [OF assms(2)]]
  have "nat (int (length t) + 1) = length t + 1" and "in_field (length t + 1) t = t"
    by (simp_all add: in_field_def)
  then show ?thesis
    using assms(3) unfolding assms(4-8)
    by (simp add: RMW_CHECK_TYPE_IDENTIFIERS_MATCH_def RMW_SET_ERROR_MSG_def RCUTILS_SET_ERROR_MSG_def
        mismatch_args_def [symmetric] Let_def in_field_in_field snp snp [of "calls s @ [_, _]", simplified])
qed

theorem identifier_check_reports_witness:
  "calls (exec (RMW_CHECK_TYPE_IDENTIFIERS_MATCH full_configuration False demo_rc (\<lambda>h. True) decimal
       \<lparr>function_name = ''publish'', file_name = ''pub.c'', line_number = 7\<rparr> ''publisher''
       \<lparr>id_address = 1, id_text = ''a''\<rparr> \<lparr>id_address = 2, id_text = ''b''\<rparr> (return (Some (1 :: int)))) initial_rc) \<noteq> []"
proof -
  let ?e = "\<lparr>id_address = 1, id_text = ''a''\<rparr>" and ?x = "\<lparr>id_address = 2, id_text = ''b''\<rparr>"
  have "literal ''publisher''" by (simp add: literal_def)
  then show ?thesis
    using identifier_check_reports [OF demo_rc_contracts(2) _ _ refl refl refl refl refl,
        where name = "''publisher''" and C = full_configuration and s = initial_rc and print = decimal
          and e = ?e and x = ?x and allocate = "\<lambda>h. True" and avoid = False and r = "1 :: int" and st = None
          and loc = "\<lparr>function_name = ''publish'', file_name = ''pub.c'', line_number = 7\<rparr>"]
    by (simp add: exec_def)
qed

end
