(* ===== verification/Xrce_Locks.thy ===== *)
theory Xrce_Locks
  imports Prelude
begin

text \<open>
  The locks of the XRCE client, \<open>uxr/client/profile/multithread/multithread.h\<close>: what each macro
  locks and in which order.  \<open>uxr_lock\<close>, \<open>uxr_unlock\<close> and \<open>uxr_get_stream_mutex_from_id\<close> are functions
  of the library: the calls are recorded, and the mutex of a stream is a parameter.
\<close>

section \<open>The macros\<close>

text \<open>The mutexes of one session and its transport.  The board's configuration switches the profile off.\<close>

datatype uxrMutex =
    Session_mutex
  | Comm_mutex
  | Input_best_effort nat
  | Input_reliable nat
  | Output_best_effort nat
  | Output_reliable nat

datatype lock_op = Uxr_init_lock uxrMutex | Uxr_lock uxrMutex | Uxr_unlock uxrMutex

record uxrStreamStorage =
  output_best_effort_size :: u8
  output_reliable_size :: u8
  input_best_effort_size :: u8
  input_reliable_size :: u8

record uxr_config =
  UCLIENT_PROFILE_MULTITHREAD :: bool

definition uxr_client_config :: uxr_config where
  "uxr_client_config = \<lparr>UCLIENT_PROFILE_MULTITHREAD = False\<rparr>"

definition if_multithread :: "uxr_config \<Rightarrow> lock_op list \<Rightarrow> lock_op list" where
  "if_multithread C ops = (if UCLIENT_PROFILE_MULTITHREAD C then ops else [])"

definition UXR_INIT_LOCK :: "uxr_config \<Rightarrow> uxrMutex \<Rightarrow> lock_op list" where
  "UXR_INIT_LOCK C x = if_multithread C [Uxr_init_lock x]"

definition UXR_LOCK :: "uxr_config \<Rightarrow> uxrMutex \<Rightarrow> lock_op list" where
  "UXR_LOCK C x = if_multithread C [Uxr_lock x]"

definition UXR_UNLOCK :: "uxr_config \<Rightarrow> uxrMutex \<Rightarrow> lock_op list" where
  "UXR_UNLOCK C x = if_multithread C [Uxr_unlock x]"

definition UXR_INIT_LOCK_SESSION :: "uxr_config \<Rightarrow> lock_op list" where
  "UXR_INIT_LOCK_SESSION C = if_multithread C [Uxr_init_lock Session_mutex]"

definition UXR_LOCK_SESSION :: "uxr_config \<Rightarrow> lock_op list" where
  "UXR_LOCK_SESSION C = if_multithread C [Uxr_lock Session_mutex]"

definition UXR_UNLOCK_SESSION :: "uxr_config \<Rightarrow> lock_op list" where
  "UXR_UNLOCK_SESSION C = if_multithread C [Uxr_unlock Session_mutex]"

definition UXR_LOCK_TRANSPORT :: "uxr_config \<Rightarrow> lock_op list" where
  "UXR_LOCK_TRANSPORT C = if_multithread C [Uxr_lock Comm_mutex]"

definition UXR_UNLOCK_TRANSPORT :: "uxr_config \<Rightarrow> lock_op list" where
  "UXR_UNLOCK_TRANSPORT C = if_multithread C [Uxr_unlock Comm_mutex]"

definition UXR_LOCK_STREAM_ID :: "uxr_config \<Rightarrow> ('id \<Rightarrow> uxrMutex option) \<Rightarrow> 'id \<Rightarrow> lock_op list" where
  "UXR_LOCK_STREAM_ID C stream_mutex stream_id =
     if_multithread C (case stream_mutex stream_id of Some m \<Rightarrow> [Uxr_lock m] | None \<Rightarrow> [])"

definition UXR_UNLOCK_STREAM_ID :: "uxr_config \<Rightarrow> ('id \<Rightarrow> uxrMutex option) \<Rightarrow> 'id \<Rightarrow> lock_op list" where
  "UXR_UNLOCK_STREAM_ID C stream_mutex stream_id =
     if_multithread C (case stream_mutex stream_id of Some m \<Rightarrow> [Uxr_unlock m] | None \<Rightarrow> [])"

text \<open>\<open>for (uint8_t i = 0; i < size; ++i)\<close>, with the counter in eight bits.\<close>

lemma unat_inc: "i < n \<Longrightarrow> unat (i + 1) = Suc (unat i)" for i n :: u8
proof -
  have "unat n < 2 ^ LENGTH(8)" by (rule unsigned_less)
  moreover assume "i < n"
  ultimately show ?thesis by (simp add: unat_word_ariths word_less_nat_alt)
qed

function for_streams :: "(nat \<Rightarrow> lock_op) \<Rightarrow> u8 \<Rightarrow> u8 \<Rightarrow> lock_op list" where
  "for_streams op n i = (if i < n then op (unat i) # for_streams op n (i + 1) else [])"
  by pat_completeness auto
termination
  by (relation "measure (\<lambda>(op, n, i). unat n - unat i)") (auto simp: unat_inc word_less_nat_alt)

declare for_streams.simps [simp del]

definition UXR_LOCK_ALL_INPUT_STREAMS :: "uxr_config \<Rightarrow> uxrStreamStorage \<Rightarrow> lock_op list" where
  "UXR_LOCK_ALL_INPUT_STREAMS C streams =
     if_multithread C
       (for_streams (\<lambda>i. Uxr_lock (Input_best_effort i)) (input_best_effort_size streams) 0
        @ for_streams (\<lambda>i. Uxr_lock (Input_reliable i)) (input_reliable_size streams) 0)"

definition UXR_UNLOCK_ALL_INPUT_STREAMS :: "uxr_config \<Rightarrow> uxrStreamStorage \<Rightarrow> lock_op list" where
  "UXR_UNLOCK_ALL_INPUT_STREAMS C streams =
     if_multithread C
       (for_streams (\<lambda>i. Uxr_unlock (Input_best_effort i)) (input_best_effort_size streams) 0
        @ for_streams (\<lambda>i. Uxr_unlock (Input_reliable i)) (input_reliable_size streams) 0)"

text \<open>The counter cannot wrap: the loop visits each stream once, in order.\<close>

lemma for_streams_from: "for_streams op n i = map op [unat i..<unat n]"
proof (induction op n i rule: for_streams.induct)
  case (1 op n i)
  show ?case
  proof (cases "i < n")
    case True
    then show ?thesis
      using 1 by (subst for_streams.simps) (simp add: unat_inc word_less_nat_alt upt_conv_Cons)
  qed (subst for_streams.simps, simp add: word_less_nat_alt)
qed

section \<open>What the macros leave locked\<close>

definition input_mutexes :: "uxrStreamStorage \<Rightarrow> uxrMutex list" where
  "input_mutexes streams =
     map Input_best_effort [0..<unat (input_best_effort_size streams)]
     @ map Input_reliable [0..<unat (input_reliable_size streams)]"

lemma all_inputs:
  "UXR_LOCK_ALL_INPUT_STREAMS C streams = if_multithread C (map Uxr_lock (input_mutexes streams))"
  "UXR_UNLOCK_ALL_INPUT_STREAMS C streams = if_multithread C (map Uxr_unlock (input_mutexes streams))"
  by (simp_all add: UXR_LOCK_ALL_INPUT_STREAMS_def UXR_UNLOCK_ALL_INPUT_STREAMS_def for_streams_from
      input_mutexes_def comp_def)

lemma input_mutexes_distinct: "distinct (input_mutexes streams)"
  by (auto simp: input_mutexes_def distinct_map inj_on_def)

text \<open>
  The mutexes a thread holds after a list of operations it makes alone, \<open>None\<close> when it locks one it
  already holds or unlocks one it does not hold.
\<close>

fun held_after :: "lock_op list \<Rightarrow> uxrMutex set \<Rightarrow> uxrMutex set option" where
  "held_after [] H = Some H"
| "held_after (Uxr_init_lock m # p) H = held_after p H"
| "held_after (Uxr_lock m # p) H = (if m \<in> H then None else held_after p (insert m H))"
| "held_after (Uxr_unlock m # p) H = (if m \<in> H then held_after p (H - {m}) else None)"

lemma held_after_append: "held_after (p @ q) H = Option.bind (held_after p H) (held_after q)"
  by (induction p H rule: held_after.induct) simp_all

lemma held_after_locks:
  "distinct ms \<Longrightarrow> held_after (map Uxr_lock ms) H = (if set ms \<inter> H = {} then Some (H \<union> set ms) else None)"
  by (induction ms arbitrary: H) auto

lemma held_after_unlocks:
  "distinct ms \<Longrightarrow> set ms \<subseteq> H \<Longrightarrow> held_after (map Uxr_unlock ms) H = Some (H - set ms)"
proof (induction ms arbitrary: H)
  case (Cons m ms)
  then have "m \<in> H" "distinct ms" "set ms \<subseteq> H - {m}" by auto
  moreover have "H - {m} - set ms = H - set (m # ms)" by auto
  ultimately show ?case using Cons.IH [of "H - {m}"] by simp
qed simp

text \<open>
  C40: the macros for all input streams are balanced.  With the multithread profile, for every number of
  streams up to 255 (the 8-bit counters do not wrap), locking all input streams locks the mutex of
  each input stream exactly once, the best-effort ones before the reliable ones, each kind in the order of
  its index; it asks for a mutex twice exactly when the caller already holds one of them.  Unlocking all input
  streams then gives back exactly those, whatever else is held.  Without the profile both do nothing.
\<close>

theorem all_input_streams_balanced:
  "held_after (UXR_LOCK_ALL_INPUT_STREAMS C streams) H =
     (if \<not> UCLIENT_PROFILE_MULTITHREAD C then Some H
      else if set (input_mutexes streams) \<inter> H = {} then Some (H \<union> set (input_mutexes streams)) else None)
   \<and> held_after (UXR_LOCK_ALL_INPUT_STREAMS C streams @ UXR_UNLOCK_ALL_INPUT_STREAMS C streams) H =
     (if UCLIENT_PROFILE_MULTITHREAD C \<and> set (input_mutexes streams) \<inter> H \<noteq> {} then None else Some H)
   \<and> UXR_LOCK_ALL_INPUT_STREAMS C streams =
       (if UCLIENT_PROFILE_MULTITHREAD C then map Uxr_lock (input_mutexes streams) else [])"
proof -
  have "held_after (map Uxr_unlock (input_mutexes streams)) (H \<union> set (input_mutexes streams)) = Some H"
    if "set (input_mutexes streams) \<inter> H = {}"
    using held_after_unlocks [OF input_mutexes_distinct, of streams "H \<union> set (input_mutexes streams)"] that by auto
  then show ?thesis
    by (simp add: all_inputs if_multithread_def held_after_append held_after_locks input_mutexes_distinct)
qed

text \<open>The other macros: each locks or unlocks its own mutex only.\<close>

lemma single_macros_balanced:
  "held_after (UXR_LOCK_SESSION C @ UXR_UNLOCK_SESSION C) {} = Some {}"
  "held_after (UXR_LOCK_TRANSPORT C @ UXR_UNLOCK_TRANSPORT C) {} = Some {}"
  "held_after (UXR_LOCK_STREAM_ID C mx i @ UXR_UNLOCK_STREAM_ID C mx i) {} = Some {}"
  "held_after (UXR_LOCK C x @ UXR_UNLOCK C x) {} = Some {}"
  by (simp_all add: UXR_LOCK_SESSION_def UXR_UNLOCK_SESSION_def UXR_LOCK_TRANSPORT_def UXR_UNLOCK_TRANSPORT_def
      UXR_LOCK_STREAM_ID_def UXR_UNLOCK_STREAM_ID_def UXR_LOCK_def UXR_UNLOCK_def if_multithread_def
      split: option.split)

end
