(* ===== verification/Spec2Isabelle.thy ===== *)
theory Spec2Isabelle
  imports Gpio Dma Spi Mcp2515_Limits Bus_Discipline Can_Props Can_Races Can_Timestamps Can_Order Can_Start Bus_Sharing Bus_Mutex Task_Interface Udp_Transport Posix_Time
    Rcutils_Log_Props Rcutils_Atomic Tinydir_Listing Key_Value Image_Encodings
    Point_Cloud_Reading Point_Cloud_Iteration Rcutils_Checks Xrce_Locks
begin

text \<open>
  Formal model of the Pico C++ SDK extension: the drivers under \<open>src/source\<close> and \<open>src/include\<close> (interrupt
  callbacks, DMA, SPI, the MCP2515 CAN controller with its service task, a task wrapper, the UDP
  transport and the clock functions for micro-ROS), and the code that the headers of the bundled
  micro-ROS distribution (\<open>src/libmicroros/include\<close>) carry in their macros, inline functions and templates.

  \<^bold>\<open>The program and its parts.\<close>  A GPIO interrupt reaches \<open>irqDispatcher\<close>, which runs the callback
  registered for the pin; a DMA completion reaches \<open>dma_handler0\<close>, which runs the callback of the channel;
  both callbacks only give a FreeRTOS semaphore.  An \<open>SPI\<close> object owns a bus mutex, a chip-select line and
  two DMA channels.  \<open>Mcp2515\<close> derives from it and drives the controller register by register, with one
  selected transfer per instruction.  \<open>Mcp2515Task\<close> derives from \<open>Mcp2515\<close> and \<open>TaskInterface\<close>: its
  interrupt handler wakes a service task, which reads the controller's flags, maintains two masks of
  pending buffers and gives the semaphores the sending and receiving tasks wait on.
  Independently, micro-ROS opens, reads, writes and closes the UDP transport and asks for the time.

  \<^bold>\<open>Conventions.\<close>  An operation is a state-monad computation over a record; the records extend one another
  as the classes inherit.  Calls into code outside the repository (Pico SDK, FreeRTOS, lwIP, libc)
  are events appended to the component \<open>trace\<close> of the state, and what they answer is a field of the
  environment \<open>E\<close>, a function of the trace, so that an answer may depend on everything done so far.
  Machine integers are words of their width (\<open>int\<close> and \<open>size_t\<close> have 32 bits, as on the RP2040 and RP2350);
  a null pointer is \<open>None\<close>.  A memory access outside its object sets the monitor \<open>ub\<close> and the run goes on,
  so that absence of undefined behaviour is a theorem and not an assumption.  Exceptions are values of
  \<open>cpp_outcome\<close>.  Floats are their 32 bits; the conversion of a number to float is a parameter.  Alignment
  of typed reads is not modelled.

  \<^bold>\<open>Theories of the drivers.\<close>
  \<^item> \<open>Prelude\<close>: words, truncating division, buffers, the monad, the simp collections.  \<open>Platform\<close>: events and
    environment.
  \<^item> \<open>Callbacks\<close>: the locales \<open>callback_table\<close> and \<open>callback_dispatch\<close>, a table of interrupt callbacks in which
    the last registration wins.  \<open>Gpio\<close> (\<open>source/gpio.cpp\<close>) and \<open>Dma\<close> (\<open>source/dma.cpp\<close>, \<open>include/dma.h\<close>)
    interpret them on the two tables of the program.
  \<^item> \<open>Spi\<close> (\<open>source/spi.cpp\<close>): constructor, chip select, DMA and blocking transfer.  Its locale \<open>spi_master\<close> is
    what the controller driver relies on (an instruction is one selected transfer and leaves the bus
    ready), interpreted on \<open>csSelect\<close> and \<open>transfer\<close>.
  \<^item> \<open>Mcp2515reg\<close> (\<open>include/mcp2515reg.h\<close>), \<open>Mcp2515\<close> (\<open>source/mcp2515.cpp\<close>), \<open>CanId\<close> (identifier packing).
    \<open>Mcp2515_Props\<close> describes operations by the register writes they perform (locale \<open>register_port\<close>,
    interpreted on \<open>writeByte\<close>); \<open>Mcp2515_Config\<close> has bit timing, filters and reset; \<open>Mcp2515_Limits\<close> what
    happens beyond eight data bytes; \<open>Loopback\<close> the controller in loopback mode, a state machine over the
    instructions in which only a write of TXREQ moves a frame, and the round trip of frames through it;
    \<open>Bus_Discipline\<close> an automaton over the trace that every operation of the class keeps in its good states,
    and where the plain calls of the bus mutex (\<open>lock\<close>, \<open>unlock\<close>) stand.
  \<^item> \<open>Can_Task\<close> (\<open>source/mcp2515Task.cpp\<close>): all operations.  \<open>Can_Steps\<close> makes interrupt, service pass, send and
    receive the steps of one system, with token counts computed from the trace, an abstract view of
    masks and tokens, a simulation of the object by the view and invariants by rule induction.
    \<open>Can_Props\<close> states the properties of the service, \<open>Can_Timestamps\<close> where the time of a receive
    comes from, \<open>Can_Order\<close> which frame a receive returns when both buffers are full.
    \<open>Can_Draining\<close> runs the inner loop of the service task against a controller with a flag register and an
    interrupt line: fuel for three tests is enough when no more flags are raised, one pass for every two
    transfers before that.  \<open>Can_Wakeup\<close> adds the edge of the line, the dispatcher of the pin, the handler and
    the semaphore, proves that no wake-up is lost and bounds the steps until the flags are served;
    \<open>Can_Start\<close> proves that initialisation establishes the state the invariants start from.
    \<open>Can_Races\<close> refines the steps to single accesses of the
    masks and the semaphores, so that a context can be preempted inside an operation: no received frame is
    stranded as long as no switch falls between the load and the store of a compound assignment to the
    receive mask, and one is lost by such a switch.
    \<open>Bus_Sharing\<close> turns sends, receives, configuration changes and service passes into programs of register
    accesses, proves that they are the code's operations, and interleaves any number of them with the
    controller: what one send or one receive is isolated from, and how two senders, or a receive and the
    next frame, get mixed.  \<open>Bus_Mutex\<close> goes one level down: \<open>csSelect\<close>, \<open>csDeselect\<close> and the driver's four
    instructions as programs of single statements, which the tasks' schedules merge over one shared
    \<open>_csActive\<close>, chip-select line and recursive mutex.  An instruction is never interrupted by another one,
    which is why register accesses are the right steps for \<open>Bus_Sharing\<close>.
  \<^item> \<open>Task_Interface\<close> (\<open>source/taskinterface.cpp\<close>), \<open>Udp_Transport\<close> (\<open>source/udp_transport.cpp\<close>, with the
    locale \<open>datagram_transport\<close> for open, write and close: what is attempted and what is sent), \<open>Posix_Time\<close> (\<open>source/posix_time.c\<close>).

  \<^bold>\<open>Theories of the library headers.\<close>
  \<^item> \<open>Rcutils\<close>, \<open>Rcutils_Error\<close>, \<open>Rcutils_Error_Props\<close> (\<open>rcutils/error_handling.h\<close>, \<open>rcutils/macros.h\<close>,
    \<open>rcutils/testing/fault_injection.h\<close>): a macro is a computation in which a called function is one of the
    \<open>rc_call\<close> events; the store of error messages is a contract the properties state as a hypothesis.
  \<^item> \<open>Rcutils_Log\<close>, \<open>Rcutils_Log_Macros\<close>, \<open>Rcutils_Log_Props\<close> (\<open>rcutils/logging_macros.h\<close>): the conditions with
    their static variables, all seventy macros, what one use does to the whole state, and what each
    condition lets through.  64-bit arithmetic that overflows sets \<open>overflowed\<close>.
  \<^item> \<open>Rcutils_Atomic\<close> (\<open>rcutils/stdatomic_helper.h\<close> and its two versions of \<open>stdatomic.h\<close>), against the C11
    meaning of each operation.
  \<^item> \<open>Tinydir\<close>, \<open>Tinydir_Props\<close>, \<open>Tinydir_Listing\<close> (\<open>tinydir/tinydir.h\<close>): a directory stream over \<open>readdir\<close>; paths
    and buffers, sorted listings, open handles, the listing of a directory that does not change.
  \<^item> \<open>Key_Value\<close> (\<open>rmw/impl/cpp/key_value.hpp\<close>): the parser as a fold over characters, and its round trip.
  \<^item> \<open>Messages\<close>, \<open>Image_Encodings\<close> (\<open>sensor_msgs/image_encodings.hpp\<close>, \<open>fill_image.hpp\<close>), \<open>Point_Cloud\<close>
    (\<open>point_field_conversion.hpp\<close>, \<open>point_cloud_conversion.hpp\<close>), \<open>Point_Cloud_Layout\<close> (the locale \<open>fixed_width\<close> of
    codes of fixed length, interpreted on floats and on rows of floats), \<open>Point_Cloud_Reading\<close>,
    \<open>Point_Cloud_Modifier\<close> and its properties, \<open>Point_Cloud_Iteration\<close> (\<open>impl/point_cloud2_iterator.hpp\<close>).
  \<^item> \<open>Rcutils_Checks\<close> (\<open>rmw/check_type_identifiers_match.h\<close>, \<open>rmw/impl/cpp/macros.hpp\<close>, the checks of
    arguments, allocators, containers and return codes in rcutils, rmw, rcl and rosidl): what each check
    reports and when it makes its function return.  \<open>Xrce_Locks\<close>
    (\<open>uxr/client/profile/multithread/multithread.h\<close>): which mutexes the macros lock, in which order, and
    that unlocking gives them back.
  \<^item> \<open>Spec2Isabelle\<close>: the properties that span components, from the DMA interrupt to the waiting transfer, and
    from a sent frame through a looped-back controller and the service task to the receiving task.

  \<^bold>\<open>Bounds and fuel.\<close>  The service loop polls the interrupt pin, which the environment answers, so
  \<open>serve_line\<close> and \<open>service_loop\<close> take fuel; \<open>service_drains_line\<close> shows that one more than the number of passes
  for which the line stays low is enough.  \<open>copy_name\<close> copies until the terminator and is a
  \<open>partial_function (option)\<close>, with its value given for every terminated name.  The loop of a fault-injection
  test takes fuel; \<open>fault_injection_test_ends\<close> gives the bound.  The loops of the directory reader
  take fuel, and more than the number of entries is enough for a listing and for a search.
  The array of a listing has the size \<open>malloc\<close> was asked for, a product that wraps in \<open>size_t\<close>.
  \<open>iter_walk\<close> takes one more than the number of points.  \<open>alone\<close> takes 12, more than the instructions of any
  operation it runs.

  \<^bold>\<open>Not modelled.\<close>  The Windows and \<open>readdir_r\<close> branches of tinydir and the branches of the GCC \<open>stdatomic.h\<close>
  that only rename compiler builtins; the generated message headers and the headers of the client
  libraries (\<open>rcl\<close>, \<open>rclc\<close>, \<open>rmw\<close>, the XRCE client, yaml), which declare structs and functions of a binary
  library and hold no code; \<open>reserve\<close> of a vector, which changes only its capacity; test fixtures and
  examples; the copy of a 64-bit time member in two halves on the 32-bit core, whose order is the compiler's.
  What is left of the headers holds declarations only.
\<close>

section \<open>From the DMA interrupt back to the waiting transfer\<close>

text \<open>The events with which a semaphore is given from an interrupt.\<close>

fun isr_give :: "event \<Rightarrow> nat list" where
  "isr_give (Rtos (XSemaphoreGiveFromISR h)) = [h]"
| "isr_give _ = []"

definition isr_gives :: "event list \<Rightarrow> nat list" where
  "isr_gives t = concat (map isr_give t)"

lemma isr_gives_simps [simp]:
  "isr_gives [] = []" "isr_gives (e # t) = isr_give e @ isr_gives t"
  "isr_gives (t @ u) = isr_gives t @ isr_gives u"
  by (simp_all add: isr_gives_def)

lemma exec_damCallback:
  "\<exists>w. exec (damCallback E p) s =
     s\<lparr>trace := trace s @ [Rtos (XSemaphoreGiveFromISR p), Rtos (PortYIELD_FROM_ISR w)]\<rparr>"
  by (auto simp: damCallback_def)

text \<open>What serving one channel gives when the pending bits are held still.\<close>

definition gives_of :: "(u8 \<Rightarrow> bool) \<Rightarrow> interrupt_callback Callback_t list \<Rightarrow> nat \<Rightarrow> nat list" where
  "gives_of pend cl c =
     (if pend (of_nat c) \<and> callback (cl ! c) \<noteq> None then [param (cl ! c)] else [])"

lemma serve_channel_gives:
  assumes "\<And>t c. irq0_status_answer E t c = pend c"
  shows "\<exists>es. exec (serve_channel E (invoke_dma E) c) s = s\<lparr>trace := trace s @ es\<rparr>
       \<and> isr_gives es = gives_of pend (callbackList s) c"
proof (cases "pend (of_nat c) \<and> callback (callbackList s ! c) \<noteq> None")
  case True
  let ?p = "param (callbackList s ! c)"
  have "callback (callbackList s ! c) = Some SPI_damCallback"
    using True by (metis interrupt_callback.exhaust option.collapse)
  moreover obtain w where "exec (damCallback E ?p) (s\<lparr>trace := trace s @ [poll c]\<rparr>) =
      s\<lparr>trace := trace s @ [poll c, Rtos (XSemaphoreGiveFromISR ?p), Rtos (PortYIELD_FROM_ISR w)]\<rparr>"
    using exec_damCallback [of E ?p "s\<lparr>trace := trace s @ [poll c]\<rparr>"] by auto
  ultimately show ?thesis
    using True assms
    by (intro exI [of _ "[poll c, Rtos (XSemaphoreGiveFromISR ?p), Rtos (PortYIELD_FROM_ISR w),
          Dma (Dma_acknowledge_irq0 (of_nat c))]"])
       (simp add: exec_serve_channel invoke_dma_def Let_def gives_of_def)
next
  case False
  then show ?thesis
    using assms by (intro exI [of _ "[poll c]"]) (auto simp: exec_serve_channel Let_def gives_of_def split: option.splits)
qed

lemma serve_list_gives:
  assumes "\<And>t c. irq0_status_answer E t c = pend c"
  shows "\<exists>es. exec (for_each cs (serve_channel E (invoke_dma E))) s = s\<lparr>trace := trace s @ es\<rparr>
       \<and> isr_gives es = concat (map (gives_of pend (callbackList s)) cs)"
proof (induction cs arbitrary: s)
  case Nil
  then show ?case by (auto intro!: exI [of _ "[]"])
next
  case (Cons c cs)
  obtain es where es: "exec (serve_channel E (invoke_dma E) c) s = s\<lparr>trace := trace s @ es\<rparr>"
      "isr_gives es = gives_of pend (callbackList s) c"
    using serve_channel_gives [where E = E and pend = pend, OF assms, of c s] by blast
  obtain fs where "exec (for_each cs (serve_channel E (invoke_dma E))) (s\<lparr>trace := trace s @ es\<rparr>) =
        s\<lparr>trace := trace s @ es @ fs\<rparr>"
      "isr_gives fs = concat (map (gives_of pend (callbackList s)) cs)"
    using Cons.IH [of "s\<lparr>trace := trace s @ es\<rparr>"] by auto
  with es show ?case by (intro exI [of _ "es @ fs"]) simp
qed

lemma concat_single:
  assumes "i < n" shows "concat (map (\<lambda>c. if c = i then [f c] else []) [0..<n]) = [f i]"
proof -
  have "concat (map (\<lambda>c. if c = i then [f c] else []) [0..<n]) = map f (filter (\<lambda>c. c = i) [0..<n])"
    by (induction n) simp_all
  also have "filter (\<lambda>c. c = i) [0..<n] = [i]"
    using assms by (induction n) (auto simp: less_Suc_eq)
  finally show ?thesis by simp
qed

text \<open>
  C14: After the constructor of a DMA bus, an interrupt of line 0 with one channel of the bus pending
  gives exactly one semaphore, the one that direction of a transfer waits on, provided the channel is
  in the lower half that line 0 serves.
\<close>

theorem dma_interrupt_wakes_transfer:
  assumes "dma_wf E s" and "claims_fresh E" and "n_claims (trace s) = 0"
    and "2 \<le> NUM_DMA_CHANNELS E" and "NUM_DMA_CHANNELS E \<le> 32"
    and "t = exec (SPI_init E spi baudrate cs sck mosi_pin miso_pin data16 cpol cpha order True) s"
    and "ch = SPI_dmaRx t \<and> h = SPI_dmaRxSemaphore t \<or> ch = SPI_dmaTx t \<and> h = SPI_dmaTxSemaphore t"
    and "\<And>t c. irq0_status_answer E t c \<longleftrightarrow> unat c = unat ch"
    and "unat ch < unat (dmaIrq1channelStart E)"
  shows "isr_gives (appends (dma_handler0 E (invoke_dma E)) t) = [h]"
proof -
  have slot: "callbackList t ! unat ch = \<lparr>callback = Some SPI_damCallback, param = h\<rparr>"
    using SPI_init_wires [OF assms(1-6)] assms(7) by auto
  let ?n = "unat (dmaIrq1channelStart E)"
  have small: "unat (of_nat c :: u8) = c" if "c < ?n" for c
    using that unsigned_less [of "dmaIrq1channelStart E", where 'a = nat] by (simp add: unat_of_nat)
  obtain es where es: "exec (dma_handler0 E (invoke_dma E)) t = t\<lparr>trace := trace t @ es\<rparr>"
      "isr_gives es = concat (map (gives_of (\<lambda>c. unat c = unat ch) (callbackList t)) [0..<?n])"
    using serve_list_gives [where E = E and pend = "\<lambda>c. unat c = unat ch" and cs = "[0..<?n]" and s = t, OF assms(8)]
    unfolding dma_handler0_def by blast
  have "map (gives_of (\<lambda>c. unat c = unat ch) (callbackList t)) [0..<?n]
      = map (\<lambda>c. if c = unat ch then [param (callbackList t ! c)] else []) [0..<?n]"
    using slot small by (intro map_cong) (auto simp: gives_of_def)
  then have "isr_gives es = [param (callbackList t ! unat ch)]"
    using concat_single [OF assms(9), of "\<lambda>c. param (callbackList t ! c)"] by (simp only: es(2))
  then show ?thesis by (simp add: appends_def es(1) slot)
qed

section \<open>From one user task to another\<close>

text \<open>A service pass clears flags and leaves the receive buffer of the controller alone.\<close>

lemma pass_keeps_rx:
  assumes "f AND 0xE0 = 0"
  shows "lc_rx (fold lc_step (pass_transfers f e) c) = lc_rx c"
proof -
  have clear: "lc_rx (fold lc_step (if b then [[CAN_BIT_MODIFY, CANINTF, k, 0]] else []) c) = lc_rx c" for b k and c
    by simp
  from assms show ?thesis by (simp add: pass_transfers_def clear del: lc_step.simps) (simp add: clear)
qed

text \<open>
  C1: End to end through a controller in loopback mode: from a freshly initialised object a frame given to
  \<open>txBuffer0SendInTask\<close>, after one pass of the service task, is what \<open>rxReadInTask\<close> returns, with its 29-bit
  identifier, length and data, and the time of the last interrupt.  The receive takes the token the service
  task gave, and no buffer is flagged any more; the transmit buffer is free again and the next send that
  has to wait finds its token.
\<close>

theorem frame_end_to_end:
  assumes "loopback_env E" and "can_start s" and "loopback_ready (controller (trace s))"
    and "lc_flags (controller (trace s)) = 0"
    and "canId < 2 ^ 29" and "unat len \<le> 8" and "unat len \<le> length buf" and "unat len \<le> length out"
    and "t = exec (do { txBuffer0SendInTask E canId buf len; service_pass E }) s"
  shows "fst (result (rxReadInTask E out) t) = (canId, patch out (take (unat len) buf), len)
       \<and> snd (result (rxReadInTask E out) t) = clock_answer E (trace t @ take_and_stamp E (lastIntTime s) t)
       \<and> 0 < rx_tokens t \<and> pendingRxBuf (exec (rxReadInTask E out) t) = 0
       \<and> pendingTxBuf t = 0 \<and> 0 < tx_tokens t"
proof -
  let ?w = "exec (txBuffer0SendInTask E canId buf len) s"
  let ?R = "written (lc_regs (controller (trace s))) (tx_body canId buf len)"
  have wf: "can_wf s" and start: "pendingTxBuf s = 0"
    and v: "view s = \<lparr>rx_pending = 0, tx_pending = 0, rx_sem = 0, tx_sem = 0\<rparr>"
    using assms(2) by (simp_all add: can_start_def view_def)
  have ready: "spi_ready (s\<lparr>pendingTxBuf := 1\<rparr>)" using can_wfD(1) [OF wf] by simp
  have w: "?w = exec (txBuffer0Send E canId buf len) (s\<lparr>pendingTxBuf := 1\<rparr>)"
    using start by (simp add: txBuffer0SendInTask_def)
  have ctl: "controller (trace ?w) = \<lparr>lc_regs = ?R, lc_flags = 0x05, lc_rx = (\<lambda>a. ?R (a - 0x30))\<rparr>"
    using controller_send [OF ready assms(6,7) _ refl, of E canId] assms(3,4) by (simp add: w) (simp add: regs)
  have wfw: "can_wf ?w" and vw: "view ?w = view_send (view s)" using send_view [OF wf] by simp_all
  have t: "t = exec (service_pass E) ?w" by (simp add: assms(9))
  have f: "result (readByte E CANINTF) ?w = 0x05"
    using result_flags_loopback [OF assms(1) can_wfD(1) [OF wfw]] by (simp add: ctl)
  have wft: "can_wf t" and vt: "view t = \<lparr>rx_pending = 1, tx_pending = 0, rx_sem = 1, tx_sem = 1\<rparr>"
    using service_pass_view [OF wfw, of E] vw v f by (simp_all add: t view_serve_def view_send_def)
  have "times_of t = (lastIntTime s, lastIntTime s)"
    using times_of_pass [OF can_wfD(1) [OF wfw], of E] times_of_send [OF can_wfD(1) [OF wf], of E canId buf len] f
    by (simp add: t records_time_def times_of_def)
  then have time: "lastRxTime t = lastIntTime s" by (simp add: times_of_def)
  obtain e where e: "mosi (trace t) = mosi (trace ?w) @ pass_transfers 0x05 e"
    using mosi_service_pass [OF can_wfD(1) [OF wfw], of E] f by (auto simp: t)
  have rx: "lc_rx (controller (trace t)) = (\<lambda>a. ?R (a - 0x30))"
    using ctl by (simp add: controller_def e pass_keeps_rx)
  let ?u = "t\<lparr>trace := trace t @ take_and_stamp E (lastIntTime s) t, pendingRxBuf := 0\<rparr>"
  have u: "spi_ready ?u" "lc_rx (controller (trace ?u)) = (\<lambda>a. ?R (a - 0x30))"
    using can_wfD(1) [OF wft] rx by (simp_all add: take_and_stamp_def mosi_Cons)
  have pend: "pendingRxBuf t = 1" using vt by (simp add: view_def)
  have "result (rxReadInTask E out) t =
      (result (rxBuffer0Read E out) ?u, clock_answer E (trace t @ take_and_stamp E (lastIntTime s) t))"
    using pend by (simp add: result_receive time Let_def)
  moreover have "result (rxBuffer0Read E out) ?u = (canId, patch out (take (unat len) buf), len)"
    by (rule read_back(1) [OF assms(1) u assms(5-8)])
  moreover have "pendingRxBuf (exec (rxReadInTask E out) t) = 0"
    using receive_view(1) [OF wft, of E out] vt by (simp add: view_def view_receive_def)
  ultimately show ?thesis using vt by (simp add: view_def)
qed

section \<open>Closed instances\<close>

definition pending_env :: env where
  "pending_env = fresh_env\<lparr>irq0_status_answer := \<lambda>t c. c = 0\<rparr>"

theorem dma_interrupt_wakes_transfer_witness:
  "let t = exec (SPI_init pending_env 0 1000000 17 18 19 16 False 0 0 1 True) demo_spi
   in isr_gives (appends (dma_handler0 pending_env (invoke_dma pending_env)) t) = [SPI_dmaRxSemaphore t]"
proof -
  define t where "t = exec (SPI_init pending_env 0 1000000 17 18 19 16 False 0 0 1 True) demo_spi"
  have pre: "dma_wf pending_env demo_spi" "claims_fresh pending_env" "n_claims (trace demo_spi) = 0"
    "2 \<le> NUM_DMA_CHANNELS pending_env" "NUM_DMA_CHANNELS pending_env \<le> 32"
    by (auto simp: dma_wf_def claims_fresh_def pending_env_def fresh_env_def demo_env_def demo_spi_def)
  have claim: "dma_claim_answer pending_env (trace s @ [claim_event]) = int (n_claims (trace s))"
    for s :: "(nat, interrupt_callback, 'x) dma_st_scheme"
    by (simp add: pending_env_def fresh_env_def)
  have rx: "SPI_dmaRx t = 0"
    unfolding t_def
    by (simp add: SPI_init_def exec_def run_setFormat run_dmaConfigure run_enableDma_claimed [OF claim] pre(3))
  have "isr_gives (appends (dma_handler0 pending_env (invoke_dma pending_env)) t) = [SPI_dmaRxSemaphore t]"
    by (rule dma_interrupt_wakes_transfer [OF pre t_def, of "SPI_dmaRx t"])
       (simp_all add: rx pending_env_def fresh_env_def demo_env_def dmaIrq1channelStart_def word_unat_eq_iff)
  then show ?thesis by (simp add: t_def Let_def)
qed

theorem frame_end_to_end_witness:
  "fst (result (rxReadInTask loop_env [0, 0, 0, 9])
     (exec (do { txBuffer0SendInTask loop_env 0x1ABCDEF0 [1, 2, 3, 4] 3; service_pass loop_env })
        (port.write_all loop_env loop_writes demo_can))) = (0x1ABCDEF0, [1, 2, 3, 9], 3)"
proof -
  let ?s = "port.write_all loop_env loop_writes demo_can"
  have s: "?s = exec (do { writeByte loop_env RXB0CTRL RXM_RCV_ALL; writeByte loop_env CANCTRL REQOP_LOOPBACK }) demo_can"
    by (simp add: loop_writes_def)
  have "transacts (do { writeByte loop_env RXB0CTRL RXM_RCV_ALL; writeByte loop_env CANCTRL REQOP_LOOPBACK })"
    by (intro transacts_intros)
  note keeps = transacts_view [OF this can_wf_demo] transacts_keeps(2) [OF this can_wf_demo]
  have "can_start ?s" using keeps can_start_demo unfolding s by (simp add: can_start_def view_def)
  moreover have "trace demo_can = []" by (simp add: demo_can_def)
  note loop_writes_ready [OF spi_ready_demo_can this, of loop_env]
  ultimately show ?thesis
    using frame_end_to_end [OF loopback_loop_env _ _ _ _ _ _ _ refl, of ?s "0x1ABCDEF0" 3 "[1, 2, 3, 4]" "[0, 0, 0, 9]"]
    by (simp add: patch_def)
qed

end
